(* ===== verification/Prelude.thy ===== *)
theory Prelude
  imports Complex_Main "HOL-Library.Word" "HOL-Library.Monad_Syntax" "HOL-Library.Code_Target_Nat"
begin

text \<open>
  What every component shares: the machine types of the C program, checked memory
  accesses, and generic facts on options, lists and words.

  Conventions.  A C function that may run into undefined behaviour, or into a loop that
  does not end, has a result of type \<^theory_text>\<open>'a option\<close>, where \<^theory_text>\<open>None\<close> is exactly that; an error
  the code itself reports is a value inside \<^theory_text>\<open>Some\<close>.  A pointer that the code compares
  with NULL is an \<^theory_text>\<open>option\<close>, with \<^theory_text>\<open>None\<close> for NULL.
\<close>

section \<open>Machine types\<close>

type_synonym u8 = "8 word"
type_synonym u16 = "16 word"
type_synonym u32 = "32 word"
type_synonym u64 = "64 word"

type_synonym 'a ptr = "'a option"

abbreviation NULL :: "'a ptr" where "NULL \<equiv> None"

named_theorems mem_simps "checked loads and stores"
named_theorems word_conv "moving word arithmetic to natural numbers"

section \<open>Checked memory\<close>

text \<open>\<^theory_text>\<open>load\<close> and \<^theory_text>\<open>store\<close> are the accesses \<^theory_text>\<open>a[i]\<close> and \<^theory_text>\<open>a[i] = v\<close>; out of
  range they are undefined behaviour.\<close>

definition load :: "'a list \<Rightarrow> nat \<Rightarrow> 'a option" where
  "load xs i = (if i < length xs then Some (xs ! i) else None)"

definition store :: "'a list \<Rightarrow> nat \<Rightarrow> 'a \<Rightarrow> 'a list option" where
  "store xs i v = (if i < length xs then Some (xs[i := v]) else None)"

lemma load_in [mem_simps]: "i < length xs \<Longrightarrow> load xs i = Some (xs ! i)"
  by (simp add: load_def)

lemma store_in [mem_simps]: "i < length xs \<Longrightarrow> store xs i v = Some (xs[i := v])"
  by (simp add: store_def)

lemma load_SomeD: "load xs i = Some v \<Longrightarrow> i < length xs \<and> v = xs ! i"
  by (auto simp: load_def split: if_splits)

text \<open>A loop that runs a step for every element of a list and stops at undefined behaviour.\<close>

fun foldM :: "('s \<Rightarrow> 'a \<Rightarrow> 's option) \<Rightarrow> 's \<Rightarrow> 'a list \<Rightarrow> 's option" where
  "foldM f s [] = Some s"
| "foldM f s (x # xs) = f s x \<bind> (\<lambda>s'. foldM f s' xs)"

lemma foldM_append: "foldM f s (xs @ ys) = foldM f s xs \<bind> (\<lambda>s'. foldM f s' ys)"
  by (induction xs arbitrary: s) (auto simp: Option.bind_assoc)

lemma foldM_total:
  assumes "\<And>s x. P s \<Longrightarrow> x \<in> set xs \<Longrightarrow> f s x = Some (g s x) \<and> P (g s x)" and "P s"
  shows "foldM f s xs = Some (foldl g s xs) \<and> P (foldl g s xs)"
  using assms by (induction xs arbitrary: s) auto

lemma foldM_invariant:
  assumes "\<And>s x s'. P s \<Longrightarrow> x \<in> set xs \<Longrightarrow> f s x = Some s' \<Longrightarrow> P s'"
    and "P s" and "foldM f s xs = Some s'"
  shows "P s'"
  using assms
proof (induction xs arbitrary: s)
  case Nil
  then show ?case by simp
next
  case (Cons x xs)
  from Cons.prems(3) obtain t where t: "f s x = Some t" "foldM f t xs = Some s'"
    by (cases "f s x") auto
  with Cons.prems(1,2) have "P t" by auto
  with t show ?case by (rule_tac Cons.IH [of t]) (use Cons.prems(1) in auto)
qed

section \<open>Words\<close>

lemma unat_add_small [word_conv]:
  fixes a b :: "'a::len word"
  assumes "unat a + unat b < 2 ^ LENGTH('a)"
  shows "unat (a + b) = unat a + unat b"
  using assms by (simp add: unat_word_ariths)

lemma unat_sub_small [word_conv]:
  fixes a b :: "'a::len word"
  assumes "b \<le> a"
  shows "unat (a - b) = unat a - unat b"
  using assms by (rule unat_sub)

lemma unat_of_nat_small [word_conv]:
  assumes "n < 2 ^ LENGTH('a)"
  shows "unat (of_nat n :: 'a::len word) = n"
  using assms by (simp add: unat_of_nat take_bit_nat_eq_self)

lemma unat_of_nat_u64: "n < 2 ^ 64 \<Longrightarrow> unat (of_nat n :: u64) = n"
  by (rule unat_of_nat_small) simp

lemma unat_of_nat_u32: "n < 2 ^ 32 \<Longrightarrow> unat (of_nat n :: u32) = n"
  by (rule unat_of_nat_small) simp

lemma unat_u32_less: "unat (x :: u32) < 2 ^ 32"
  by (rule less_le_trans [OF unsigned_less]) simp

lemma unat_u64_less: "unat (x :: u64) < 2 ^ 64"
  by (rule less_le_trans [OF unsigned_less]) simp

lemma unat_ucast_u32_u64: "unat (ucast (x :: u32) :: u64) = unat x"
  using unat_u32_less [of x] by (simp add: unsigned_ucast_eq take_bit_nat_eq_self)

lemma unat_mod_word [word_conv]: "unat (a mod b) = unat a mod unat (b :: 'a::len word)"
  by (rule unat_mod_distrib)

lemma unat_div_word [word_conv]: "unat (a div b) = unat a div unat (b :: 'a::len word)"
  by (rule unat_div_distrib)

section \<open>Lists\<close>

lemma takeWhile_stop: "c \<notin> set u \<Longrightarrow> takeWhile (\<lambda>x. x \<noteq> c) (u @ c # v) = u"
  by (induction u) auto

lemma dropWhile_stop: "c \<notin> set u \<Longrightarrow> dropWhile (\<lambda>x. x \<noteq> c) (u @ c # v) = c # v"
  by (induction u) auto

text \<open>What follows the last separator.\<close>

lemma suffix_after:
  assumes "a @ c # s = b @ c # t" "c \<notin> set s" "c \<notin> set t" shows "s = t"
proof -
  have "rev s @ c # rev a = rev t @ c # rev b"
    using assms(1) by (metis append.assoc append_Cons append_Nil rev.simps(2) rev_append)
  then have "rev s = rev t"
    using takeWhile_stop [of c "rev s" "rev a"] takeWhile_stop [of c "rev t" "rev b"] assms(2,3) by simp
  then show ?thesis by simp
qed

end
