(* ===== verification/Floats.thy ===== *)
theory Floats
  imports Prelude "HOL-Library.Log_Nat"
begin

text \<open>
  The arithmetic of C's \<^verbatim>\<open>float\<close> and \<^verbatim>\<open>double\<close>: IEEE 754 binary32 and binary64
  with round-to-nearest-even, as the listener is compiled (\<^verbatim>\<open>-std=c11 -O2\<close>, so no
  excess precision and no contraction).  A value is a NaN, an infinity, a signed zero or
  a non-zero rational; NaN payloads are not represented, as nothing in the program reads
  them.  Every operation computes the exact rational result and rounds it once.
\<close>

section \<open>Values and formats\<close>

datatype fp = FNan | FInf bool | FZero bool | FNum rat
  \<comment> \<open>the booleans are sign bits: \<^theory_text>\<open>True\<close> is negative\<close>

record fpformat =
  prec :: nat   \<comment> \<open>significand bits, the hidden one included\<close>
  qmin :: int   \<comment> \<open>exponent of the smallest positive value\<close>
  emax :: int   \<comment> \<open>finite values are below \<open>2 powi emax\<close>\<close>

definition binary32 :: fpformat where
  "binary32 = \<lparr>prec = 24, qmin = - 149, emax = 128\<rparr>"

definition binary64 :: fpformat where
  "binary64 = \<lparr>prec = 53, qmin = - 1074, emax = 1024\<rparr>"

section \<open>Rounding\<close>

text \<open>Nearest integer, ties to even.\<close>

definition rne :: "rat \<Rightarrow> int" where
  "rne x = (let f = \<lfloor>x\<rfloor>; r = x - of_int f in
     if r < 1 / 2 then f else if 1 / 2 < r then f + 1
     else if even f then f else f + 1)"

text \<open>\<open>\<lfloor>log\<^sub>2 x\<rfloor>\<close> of a positive rational, from the bit lengths of its numerator and
  denominator.\<close>

definition ilog2 :: "rat \<Rightarrow> int" where
  "ilog2 x = (let (n, d) = quotient_of x; k = bitlen n - bitlen d in
     if 2 powi k \<le> x then k else k - 1)"

definition quantum :: "fpformat \<Rightarrow> rat \<Rightarrow> rat" where
  "quantum F x = 2 powi max (ilog2 \<bar>x\<bar> - (int (prec F) - 1)) (qmin F)"

definition fround :: "fpformat \<Rightarrow> bool \<Rightarrow> rat \<Rightarrow> fp" where
  "fround F s x =
     (if x = 0 then FZero s
      else let q = quantum F x; m = rne (\<bar>x\<bar> / q); y = of_int m * q in
        if m = 0 then FZero (x < 0)
        else if 2 powi emax F \<le> y then FInf (x < 0)
        else FNum (if x < 0 then - y else y))"

section \<open>Facts on rounding\<close>

lemma powi2_pos [simp]: "(0::rat) < 2 powi k"
  by (simp add: zero_less_power_int)

lemma powi2_nonzero [simp]: "(2::rat) powi k \<noteq> 0"
  by (simp add: power_int_eq_0_iff)

lemma powi2_mono: "a \<le> b \<Longrightarrow> (2::rat) powi a \<le> 2 powi b"
  by (rule power_int_increasing) auto

lemma powi2_strict_mono: "a < b \<Longrightarrow> (2::rat) powi a < 2 powi b"
  by (rule power_int_strict_increasing) auto

lemma powi2_less_iff: "(2::rat) powi a < 2 powi b \<longleftrightarrow> a < b"
  by (metis linorder_not_less powi2_mono powi2_strict_mono)

lemma powi2_add: "(2::rat) powi (a + b) = 2 powi a * 2 powi b"
  by (rule power_int_add) auto

lemma powi2_of_nat: "0 \<le> k \<Longrightarrow> (2::rat) powi k = of_int (2 ^ nat k)"
  by (simp add: power_int_def)

lemma rne_of_int [simp]: "rne (of_int n) = n"
  by (simp add: rne_def Let_def)

lemma rne_bounds: "of_int (rne x) \<le> x + 1 / 2 \<and> x - 1 / 2 \<le> of_int (rne x)"
proof -
  have "of_int \<lfloor>x\<rfloor> \<le> x" and "x < of_int \<lfloor>x\<rfloor> + 1" by linarith+
  then show ?thesis by (auto simp: rne_def Let_def; linarith)
qed

lemma rne_le_int:
  assumes "x \<le> of_int n"
  shows "rne x \<le> n"
proof (cases "x = of_int n")
  case True
  then show ?thesis by simp
next
  case False
  with assms have "x < of_int n" by simp
  then have "\<lfloor>x\<rfloor> < n" by (simp add: floor_less_iff)
  then show ?thesis by (auto simp: rne_def Let_def)
qed

lemma rne_ge_int:
  assumes "of_int n \<le> x"
  shows "n \<le> rne x"
proof -
  from assms have "n \<le> \<lfloor>x\<rfloor>" by (simp add: le_floor_iff)
  then show ?thesis by (auto simp: rne_def Let_def)
qed

lemma rne_mono: "x \<le> y \<Longrightarrow> rne x \<le> rne y"
proof -
  assume le: "x \<le> y"
  show ?thesis
  proof (cases "\<lfloor>x\<rfloor> = \<lfloor>y\<rfloor>")
    case True
    with le show ?thesis by (auto simp: rne_def Let_def)
  next
    case False
    with le have "\<lfloor>x\<rfloor> + 1 \<le> \<lfloor>y\<rfloor>" by (meson floor_mono not_less order_le_imp_less_or_eq zless_imp_add1_zle)
    moreover have "rne x \<le> \<lfloor>x\<rfloor> + 1" by (auto simp: rne_def Let_def)
    moreover have "\<lfloor>y\<rfloor> \<le> rne y" by (auto simp: rne_def Let_def)
    ultimately show ?thesis by linarith
  qed
qed

lemma ilog2_bounds:
  assumes "0 < x"
  shows "2 powi ilog2 x \<le> x \<and> x < 2 powi (ilog2 x + 1)"
proof -
  obtain n d where q: "quotient_of x = (n, d)" by (cases "quotient_of x")
  then have d: "0 < d" and x: "x = of_int n / of_int d"
    by (simp_all add: quotient_of_denom_pos quotient_of_div)
  with assms have n: "0 < n" by (simp add: zero_less_divide_iff)
  have bn: "1 \<le> bitlen n" and bd: "1 \<le> bitlen d"
    using n d bitlen_eq_zero_iff bitlen_nonneg by (smt (verit))+
  have n1: "2 ^ nat (bitlen n - 1) \<le> n" "n < 2 ^ nat (bitlen n)" using bitlen_bounds [OF n] by auto
  have d1: "2 ^ nat (bitlen d - 1) \<le> d" "d < 2 ^ nat (bitlen d)" using bitlen_bounds [OF d] by auto
  have up: "(2::rat) powi (bitlen n - 1) \<le> of_int n" "(of_int n :: rat) < 2 powi bitlen n"
    "(2::rat) powi (bitlen d - 1) \<le> of_int d" "(of_int d :: rat) < 2 powi bitlen d"
    using n1 d1 bn bd by (simp_all only: powi2_of_nat of_int_le_iff of_int_less_iff)
  have A: "2 powi (bitlen n - bitlen d - 1) < x"
  proof -
    have "(2::rat) powi (bitlen n - bitlen d - 1) * of_int d < 2 powi (bitlen n - bitlen d - 1) * 2 powi bitlen d"
      using up(4) by simp
    also have "\<dots> = 2 powi (bitlen n - 1)" by (simp flip: powi2_add)
    also have "\<dots> \<le> of_int n" by (rule up(1))
    finally show ?thesis using d by (simp add: x pos_less_divide_eq)
  qed
  have B: "x < 2 powi (bitlen n - bitlen d + 1)"
  proof -
    have "(of_int n :: rat) < 2 powi bitlen n" by (rule up(2))
    also have "\<dots> = 2 powi (bitlen n - bitlen d + 1) * 2 powi (bitlen d - 1)" by (simp flip: powi2_add)
    also have "\<dots> \<le> 2 powi (bitlen n - bitlen d + 1) * of_int d" using up(3) by simp
    finally show ?thesis using d by (simp add: x pos_divide_less_eq)
  qed
  show ?thesis using A B by (auto simp: ilog2_def q Let_def)
qed

lemma ilog2_mono:
  assumes "0 < x" and "x \<le> y"
  shows "ilog2 x \<le> ilog2 y"
proof -
  have "(2::rat) powi ilog2 x \<le> x" using assms ilog2_bounds by simp
  also have "x \<le> y" by fact
  also have "y < 2 powi (ilog2 y + 1)" using assms ilog2_bounds by simp
  finally show ?thesis by (simp add: powi2_less_iff)
qed

lemma ilog2_less: "0 < x \<Longrightarrow> x < 2 powi k \<Longrightarrow> ilog2 x < k"
  using ilog2_bounds [of x] by (metis order.strict_trans1 powi2_less_iff)

lemma ilog2_eqI:
  assumes "2 powi e \<le> x" "x < 2 powi (e + 1)"
  shows "ilog2 x = e"
proof -
  have "0 < x" using assms(1) powi2_pos [of e] by linarith
  then have "(2 :: rat) powi ilog2 x < 2 powi (e + 1)" "(2 :: rat) powi e < 2 powi (ilog2 x + 1)"
    using ilog2_bounds [of x] assms by linarith+
  then show ?thesis by (simp add: powi2_less_iff)
qed

lemma quantum_pos [simp]: "0 < quantum F x"
  by (simp add: quantum_def)

lemma quantum_nonneg [simp]: "0 \<le> quantum F x"
  by (rule less_imp_le) simp

lemma quantum_nonzero [simp]: "quantum F x \<noteq> 0"
  by (simp add: quantum_def)

text \<open>A value on the grid of the format: an integer of at most \<open>prec\<close> bits times a power
  of two in range.\<close>

definition on_grid :: "fpformat \<Rightarrow> rat \<Rightarrow> bool" where
  "on_grid F x \<longleftrightarrow> (\<exists>m e. x = of_int m * 2 powi e \<and> \<bar>m\<bar> < 2 ^ prec F \<and> qmin F \<le> e)"

lemma on_gridI: "x = of_int m * 2 powi e \<Longrightarrow> \<bar>m\<bar> < 2 ^ prec F \<Longrightarrow> qmin F \<le> e \<Longrightarrow> on_grid F x"
  by (auto simp: on_grid_def)

text \<open>A grid value is a whole multiple of the quantum of every smaller value.\<close>

lemma on_grid_multiple:
  assumes B: "on_grid F B" and x: "0 < x" "x \<le> B"
  shows "\<exists>k. B / quantum F x = of_int k"
proof -
  from B obtain m e where m: "B = of_int m * 2 powi e" "\<bar>m\<bar> < 2 ^ prec F" "qmin F \<le> e"
    by (auto simp: on_grid_def)
  let ?k = "max (ilog2 \<bar>x\<bar> - (int (prec F) - 1)) (qmin F)"
  have "of_int m < (2::rat) ^ prec F"
    using m(2) by (metis abs_less_iff of_int_less_iff of_int_numeral of_int_power)
  then have "B < 2 powi (int (prec F)) * 2 powi e"
    using m(1) by simp
  then have "B < 2 powi (int (prec F) + e)" by (simp add: powi2_add)
  with x have "ilog2 x < int (prec F) + e" by (intro ilog2_less) auto
  with m(3) x have "?k \<le> e" by auto
  then have "(2::rat) powi e = 2 powi (e - ?k) * 2 powi ?k" and "0 \<le> e - ?k"
    by (simp_all flip: powi2_add)
  then have "B / quantum F x = of_int (m * 2 ^ nat (e - ?k))"
    by (simp add: m(1) quantum_def powi2_of_nat)
  then show ?thesis by blast
qed

lemma rounded_le_grid:
  assumes "on_grid F B" "0 < x" "x \<le> B"
  shows "of_int (rne (x / quantum F x)) * quantum F x \<le> B"
proof -
  obtain k where k: "B / quantum F x = of_int k" using on_grid_multiple [OF assms] by blast
  from assms(3) have "x / quantum F x \<le> of_int k"
    by (simp add: divide_right_mono flip: k)
  then have "of_int (rne (x / quantum F x)) \<le> (of_int k :: rat)"
    using rne_le_int by (simp only: of_int_le_iff)
  also have "\<dots> = B / quantum F x" by (simp only: k)
  finally show ?thesis by (simp add: pos_le_divide_eq)
qed

lemma rounded_exact:
  assumes "on_grid F x" "0 < x"
  shows "of_int (rne (x / quantum F x)) * quantum F x = x"
proof -
  obtain k where k: "x / quantum F x = of_int k" using on_grid_multiple [OF assms(1,2)] by auto
  then have "of_int (rne (x / quantum F x)) = x / quantum F x" by simp
  then show ?thesis by simp
qed

lemma on_grid_uminusI: "on_grid F x \<Longrightarrow> on_grid F (- x)"
  unfolding on_grid_def by (metis abs_minus_cancel mult_minus_left of_int_minus)

lemma on_grid_uminus [simp]: "on_grid F (- x) = on_grid F x"
  using on_grid_uminusI [of F x] on_grid_uminusI [of F "- x"] by auto

lemma on_grid_abs [simp]: "on_grid F \<bar>x\<bar> = on_grid F x"
  by (simp add: abs_if)

lemma quantum_abs [simp]: "quantum F \<bar>x\<bar> = quantum F x" "quantum F (- x) = quantum F x"
  by (simp_all add: quantum_def)

theorem fround_exact:
  assumes "on_grid F x" "x \<noteq> 0" "\<bar>x\<bar> < 2 powi emax F"
  shows "fround F s x = FNum x"
proof -
  let ?m = "rne (\<bar>x\<bar> / quantum F x)"
  have y: "of_int ?m * quantum F x = \<bar>x\<bar>"
    using rounded_exact [of F "\<bar>x\<bar>"] assms(1,2) by simp
  moreover have "?m \<noteq> 0" using y assms(2) by (metis abs_0_eq mult_zero_left of_int_0)
  ultimately show ?thesis using assms(2,3)
    by (auto simp: fround_def Let_def not_le)
qed

text \<open>The rounded value, as a rational; infinities and NaN have none.\<close>

fun fval :: "fp \<Rightarrow> rat" where
  "fval (FNum r) = r"
| "fval _ = 0"

fun isfinite :: "fp \<Rightarrow> bool" where
  "isfinite FNan = False"
| "isfinite (FInf _) = False"
| "isfinite _ = True"

fun isnan :: "fp \<Rightarrow> bool" where
  "isnan FNan = True"
| "isnan _ = False"

lemma fround_not_nan [simp]: "\<not> isnan (fround F s x)"
  by (simp add: fround_def Let_def)

text \<open>Rounding never crosses a representable bound.\<close>

theorem fround_bounded:
  assumes B: "on_grid F B" "B < 2 powi emax F" and x: "\<bar>x\<bar> \<le> B"
  shows "isfinite (fround F s x) \<and> \<bar>fval (fround F s x)\<bar> \<le> B
    \<and> (0 \<le> x \<longrightarrow> 0 \<le> fval (fround F s x)) \<and> (x \<le> 0 \<longrightarrow> fval (fround F s x) \<le> 0)"
proof (cases "x = 0")
  case True
  with x show ?thesis by (simp add: fround_def)
next
  case False
  let ?m = "rne (\<bar>x\<bar> / quantum F x)"
  have le: "of_int ?m * quantum F x \<le> B"
    using rounded_le_grid [OF B(1), of "\<bar>x\<bar>"] x False by simp
  have m: "0 \<le> ?m" by (rule rne_ge_int) simp
  then have ge: "0 \<le> of_int ?m * quantum F x" by (simp add: less_imp_le)
  have fin: "\<not> 2 powi emax F \<le> of_int ?m * quantum F x" using le B(2) by linarith
  show ?thesis using False le ge fin x by (auto simp: fround_def Let_def)
qed

text \<open>Nor does it fall below one.\<close>

lemma fround_lower:
  assumes B: "on_grid F B" "0 < B" "B \<le> x" and fin: "isfinite (fround F s x)" and p: "0 < prec F"
  shows "B \<le> fval (fround F s x)"
proof -
  have x: "0 < x" using B by linarith
  let ?q = "quantum F x" and ?e = "ilog2 x"
  have "B \<le> of_int (rne (x / ?q)) * ?q"
  proof (cases "?q = quantum F B")
    case True
    obtain k where k: "B / ?q = of_int k" using on_grid_multiple [OF B(1,2)] True by auto
    with B(3) have "of_int k \<le> x / ?q" by (simp add: divide_right_mono flip: k)
    then have "(of_int k :: rat) \<le> of_int (rne (x / ?q))" using rne_ge_int by simp
    then show ?thesis by (simp add: pos_divide_le_eq flip: k)
  next
    case False
    have le: "ilog2 B \<le> ?e" by (rule ilog2_mono [OF B(2,3)])
    have "ilog2 B \<noteq> ?e"
    proof
      assume "ilog2 B = ?e"
      then show False using False x B(2) by (simp add: quantum_def)
    qed
    with le have lt: "ilog2 B < ?e" by simp
    have q: "?q = 2 powi (?e - (int (prec F) - 1))"
      using lt False x B(2) by (auto simp: quantum_def max_def split: if_splits)
    have "(2 :: rat) powi ?e = of_int (2 ^ (prec F - 1)) * ?q"
    proof -
      have "(2 :: rat) powi ?e = 2 powi (int (prec F) - 1) * 2 powi (?e - (int (prec F) - 1))"
        by (simp flip: powi2_add)
      then show ?thesis using p by (simp add: q powi2_of_nat nat_diff_distrib)
    qed
    moreover have "of_int (2 ^ (prec F - 1)) \<le> x / ?q"
      using ilog2_bounds [OF x] calculation by (simp add: pos_le_divide_eq)
    then have "(of_int (2 ^ (prec F - 1)) :: rat) \<le> of_int (rne (x / ?q))"
      using rne_ge_int by (simp only: of_int_le_iff)
    ultimately have "(2 :: rat) powi ?e \<le> of_int (rne (x / ?q)) * ?q" by simp
    moreover have "B < 2 powi ?e"
      using ilog2_bounds [OF B(2)] lt powi2_mono [of "ilog2 B + 1" ?e] by linarith
    ultimately show ?thesis by linarith
  qed
  then show ?thesis using x fin B(2) by (auto simp: fround_def Let_def split: if_splits)
qed

text \<open>The values of a format, and that rounding gives one of them.\<close>

definition is_fp :: "fpformat \<Rightarrow> fp \<Rightarrow> bool" where
  "is_fp F x \<longleftrightarrow> (case x of FNum r \<Rightarrow> r \<noteq> 0 \<and> on_grid F r \<and> \<bar>r\<bar> < 2 powi emax F | _ \<Rightarrow> True)"

lemma is_fp_simps [simp]:
  "is_fp F FNan" "is_fp F (FInf b)" "is_fp F (FZero b)"
  "is_fp F (FNum r) \<longleftrightarrow> r \<noteq> 0 \<and> on_grid F r \<and> \<bar>r\<bar> < 2 powi emax F"
  by (simp_all add: is_fp_def)

lemma rounded_on_grid:
  assumes "0 < x" and p: "1 < prec F"
  shows "on_grid F (of_int (rne (x / quantum F x)) * quantum F x)"
proof -
  let ?k = "max (ilog2 x - (int (prec F) - 1)) (qmin F)"
  let ?m = "rne (x / quantum F x)"
  have q: "quantum F x = 2 powi ?k" using assms(1) by (simp add: quantum_def)
  have "x < 2 powi (ilog2 x + 1)" using ilog2_bounds [OF assms(1)] by simp
  also have "\<dots> \<le> 2 powi (int (prec F) + ?k)" by (rule powi2_mono) linarith
  finally have "x / quantum F x < 2 powi int (prec F)"
    by (simp add: q powi2_add pos_divide_less_eq)
  then have "x / quantum F x \<le> of_int (2 ^ prec F)" by simp
  then have hi: "?m \<le> 2 ^ prec F" by (rule rne_le_int)
  have lo: "0 \<le> ?m" using assms(1) by (intro rne_ge_int) simp
  show ?thesis
  proof (cases "?m = 2 ^ prec F")
    case False
    with hi lo show ?thesis by (intro on_gridI [of _ ?m ?k]) (auto simp: q)
  next
    case True
    then have "of_int ?m * quantum F x = of_int 1 * 2 powi (int (prec F) + ?k)"
      by (simp add: q powi2_add)
    then show ?thesis using p by (intro on_gridI [of _ 1 "int (prec F) + ?k"]) auto
  qed
qed

theorem fround_is_fp: "1 < prec F \<Longrightarrow> is_fp F (fround F s x)"
proof (cases "x = 0")
  case True
  then show ?thesis by (simp add: fround_def)
next
  case False
  assume "1 < prec F"
  with False have g: "on_grid F (of_int (rne (\<bar>x\<bar> / quantum F x)) * quantum F x)"
    using rounded_on_grid [of "\<bar>x\<bar>" F] by simp
  have "0 \<le> rne (\<bar>x\<bar> / quantum F x)" by (rule rne_ge_int) simp
  then have "0 \<le> of_int (rne (\<bar>x\<bar> / quantum F x)) * quantum F x" by simp
  with g False show ?thesis by (auto simp: fround_def Let_def not_le)
qed

lemma fround_fp: "is_fp F (FNum r) \<Longrightarrow> fround F s r = FNum r"
  by (simp add: fround_exact)

lemma prec_formats [simp]: "prec binary32 = 24" "prec binary64 = 53"
  "qmin binary32 = - 149" "qmin binary64 = - 1074" "emax binary32 = 128" "emax binary64 = 1024"
  by (simp_all add: binary32_def binary64_def)

text \<open>Every binary32 value is a binary64 value: widening is exact.\<close>

lemma is_fp_widen: "is_fp binary32 x \<Longrightarrow> is_fp binary64 x"
proof (cases x)
  case (FNum r)
  assume "is_fp binary32 x"
  with FNum have r: "r \<noteq> 0" "on_grid binary32 r" "\<bar>r\<bar> < 2 powi 128" by auto
  from r(2) obtain m e where m: "r = of_int m * 2 powi e" "\<bar>m\<bar> < 2 ^ 24" "- 149 \<le> e"
    by (auto simp: on_grid_def)
  have "on_grid binary64 r" using m by (intro on_gridI [of r m e]) auto
  moreover have "\<bar>r\<bar> < 2 powi 1024" using r(3) powi2_mono [of 128 1024] by linarith
  ultimately show ?thesis using FNum r(1) by simp
qed auto

section \<open>Comparison\<close>

fun fclass :: "fp \<Rightarrow> int" where
  "fclass (FInf s) = (if s then - 1 else 1)"
| "fclass _ = 0"

definition flt :: "fp \<Rightarrow> fp \<Rightarrow> bool" where
  "flt a b \<longleftrightarrow> \<not> isnan a \<and> \<not> isnan b \<and>
     (fclass a < fclass b \<or> fclass a = fclass b \<and> fval a < fval b)"

definition fle :: "fp \<Rightarrow> fp \<Rightarrow> bool" where
  "fle a b \<longleftrightarrow> \<not> isnan a \<and> \<not> isnan b \<and>
     (fclass a < fclass b \<or> fclass a = fclass b \<and> fval a \<le> fval b)"

definition feq :: "fp \<Rightarrow> fp \<Rightarrow> bool" where
  "feq a b \<longleftrightarrow> fle a b \<and> fle b a"

lemma flt_fin [simp]: "isfinite a \<Longrightarrow> isfinite b \<Longrightarrow> flt a b \<longleftrightarrow> fval a < fval b"
  by (cases a; cases b) (auto simp: flt_def)

lemma fle_fin [simp]: "isfinite a \<Longrightarrow> isfinite b \<Longrightarrow> fle a b \<longleftrightarrow> fval a \<le> fval b"
  by (cases a; cases b) (auto simp: fle_def)

lemma not_flt_fle: "\<not> isnan a \<Longrightarrow> \<not> isnan b \<Longrightarrow> \<not> flt a b \<longleftrightarrow> fle b a"
  by (auto simp: flt_def fle_def)

lemma fle_trans: "fle a b \<Longrightarrow> fle b c \<Longrightarrow> fle a c"
  by (auto simp: fle_def)

lemma fle_refl: "\<not> isnan a \<Longrightarrow> fle a a"
  by (auto simp: fle_def)

lemma flt_imp_fle: "flt a b \<Longrightarrow> fle a b"
  by (auto simp: flt_def fle_def)

lemma nan_compare [simp]: "\<not> flt FNan b" "\<not> flt a FNan" "\<not> fle FNan b" "\<not> fle a FNan"
  by (auto simp: flt_def fle_def)

text \<open>A value between two finite ones is finite.\<close>

lemma fle_between_finite: "fle a x \<Longrightarrow> fle x b \<Longrightarrow> isfinite a \<Longrightarrow> isfinite b \<Longrightarrow> isfinite x"
  by (cases x; cases a; cases b) (auto simp: fle_def split: if_splits)

section \<open>Operations\<close>

fun fsign :: "fp \<Rightarrow> bool" where
  "fsign FNan = False"
| "fsign (FInf s) = s"
| "fsign (FZero s) = s"
| "fsign (FNum r) = (r < 0)"

fun fneg :: "fp \<Rightarrow> fp" where
  "fneg FNan = FNan"
| "fneg (FInf s) = FInf (\<not> s)"
| "fneg (FZero s) = FZero (\<not> s)"
| "fneg (FNum r) = FNum (- r)"

definition fabs :: "fp \<Rightarrow> fp" where
  "fabs x = (if fsign x then fneg x else x)"

fun fadd :: "fpformat \<Rightarrow> fp \<Rightarrow> fp \<Rightarrow> fp" where
  "fadd F FNan b = FNan"
| "fadd F a FNan = FNan"
| "fadd F (FInf s) (FInf t) = (if s = t then FInf s else FNan)"
| "fadd F (FInf s) b = FInf s"
| "fadd F a (FInf t) = FInf t"
| "fadd F (FZero s) (FZero t) = FZero (s \<and> t)"
| "fadd F a b = fround F False (fval a + fval b)"

definition fsub :: "fpformat \<Rightarrow> fp \<Rightarrow> fp \<Rightarrow> fp" where
  "fsub F a b = fadd F a (fneg b)"

fun fmul :: "fpformat \<Rightarrow> fp \<Rightarrow> fp \<Rightarrow> fp" where
  "fmul F FNan b = FNan"
| "fmul F a FNan = FNan"
| "fmul F (FInf s) (FZero t) = FNan"
| "fmul F (FZero s) (FInf t) = FNan"
| "fmul F (FInf s) b = FInf (s \<noteq> fsign b)"
| "fmul F a (FInf t) = FInf (fsign a \<noteq> t)"
| "fmul F a b = fround F (fsign a \<noteq> fsign b) (fval a * fval b)"

fun fdiv :: "fpformat \<Rightarrow> fp \<Rightarrow> fp \<Rightarrow> fp" where
  "fdiv F FNan b = FNan"
| "fdiv F a FNan = FNan"
| "fdiv F (FInf s) (FInf t) = FNan"
| "fdiv F (FInf s) b = FInf (s \<noteq> fsign b)"
| "fdiv F a (FInf t) = FZero (fsign a \<noteq> t)"
| "fdiv F (FZero s) (FZero t) = FNan"
| "fdiv F a (FZero t) = FInf (fsign a \<noteq> t)"
| "fdiv F a b = fround F (fsign a \<noteq> fsign b) (fval a / fval b)"

text \<open>\<^verbatim>\<open>fmin\<close> and \<^verbatim>\<open>fmax\<close> return the other argument when one is a NaN.\<close>

definition fmin :: "fp \<Rightarrow> fp \<Rightarrow> fp" where
  "fmin a b = (if isnan a then b else if isnan b then a else if flt b a then b else a)"

definition fmax :: "fp \<Rightarrow> fp \<Rightarrow> fp" where
  "fmax a b = (if isnan a then b else if isnan b then a else if flt a b then b else a)"

text \<open>Conversions: from an integer, to another format, to an integer by truncation (a C
  cast) and to the nearest integer (\<^verbatim>\<open>lrint\<close> on an LP64 machine).  An integer result out
  of range, or of a non-finite value, is undefined.\<close>

definition fp_of_int :: "fpformat \<Rightarrow> int \<Rightarrow> fp" where
  "fp_of_int F n = fround F False (of_int n)"

definition fp_lit :: "fpformat \<Rightarrow> rat \<Rightarrow> fp" where
  "fp_lit F r = fround F False r"

definition fp_conv :: "fpformat \<Rightarrow> fp \<Rightarrow> fp" where
  "fp_conv F x = (case x of FNum r \<Rightarrow> fround F False r | _ \<Rightarrow> x)"

definition in_long :: "int \<Rightarrow> bool" where
  "in_long n \<longleftrightarrow> - (2 ^ 63) \<le> n \<and> n < 2 ^ 63"

definition trunc_rat :: "rat \<Rightarrow> int" where
  "trunc_rat r = (if r < 0 then - \<lfloor>- r\<rfloor> else \<lfloor>r\<rfloor>)"

definition fp_to_long :: "fp \<Rightarrow> int option" where
  "fp_to_long x =
     (if isfinite x \<and> in_long (trunc_rat (fval x)) then Some (trunc_rat (fval x)) else None)"

definition lrint :: "fp \<Rightarrow> int option" where
  "lrint x = (if isfinite x \<and> in_long (rne (fval x)) then Some (rne (fval x)) else None)"

lemma fp_conv_widen: "is_fp binary32 x \<Longrightarrow> fp_conv binary64 x = x"
  using is_fp_widen [of x] fround_fp [of binary64] by (cases x) (auto simp: fp_conv_def)

lemma fadd_is_fp:
  "1 < prec F \<Longrightarrow> is_fp F a \<Longrightarrow> is_fp F b \<Longrightarrow> is_fp F (fadd F a b)"
  by (cases a; cases b) (auto simp: fround_is_fp simp del: is_fp_simps(4))

lemma fadd_is_fp': "1 < prec F \<Longrightarrow> is_fp F (fadd F a b)"
  by (cases a; cases b) (auto simp: fround_is_fp)

lemma fdiv_is_fp: "1 < prec F \<Longrightarrow> is_fp F (fdiv F a b)"
  by (cases a; cases b) (auto simp: fround_is_fp)

lemma fmul_is_fp: "1 < prec F \<Longrightarrow> is_fp F (fmul F a b)"
  by (cases a; cases b) (auto simp: fround_is_fp)

lemma fp_of_int_is_fp: "1 < prec F \<Longrightarrow> is_fp F (fp_of_int F n)"
  by (simp add: fp_of_int_def fround_is_fp)

lemma fsign_fval: "isfinite x \<Longrightarrow> fval x < 0 \<Longrightarrow> fsign x"
  by (cases x) auto

lemma fval_pos_not_fsign: "0 < fval x \<Longrightarrow> \<not> fsign x"
  by (cases x) auto

lemma fmul_fin: "isfinite a \<Longrightarrow> isfinite b \<Longrightarrow>
    fmul F a b = fround F (fsign a \<noteq> fsign b) (fval a * fval b)"
  by (cases a; cases b) auto

lemma is_fp_abs_less: "is_fp F x \<Longrightarrow> \<bar>fval x\<bar> < 2 powi emax F"
  by (cases x) auto

text \<open>A clamp to \<open>[lo, hi]\<close> is in \<open>[lo, hi]\<close> whatever its argument, a NaN included.\<close>

lemma clamp_bounds:
  assumes "isfinite lo" "isfinite hi" "fle lo hi"
  shows "fle lo (fmax lo (fmin hi x)) \<and> fle (fmax lo (fmin hi x)) hi"
proof -
  have lo: "\<not> isnan lo" and hi: "\<not> isnan hi" using assms by (cases lo; cases hi; simp)+
  let ?y = "fmin hi x"
  have y: "\<not> isnan ?y" "fle ?y hi"
    using hi by (auto simp: fmin_def fle_refl not_flt_fle flt_imp_fle)
  then show ?thesis
    using lo assms(3) by (auto simp: fmax_def fle_refl not_flt_fle flt_imp_fle)
qed

lemma clamp_finite:
  "isfinite lo \<Longrightarrow> isfinite hi \<Longrightarrow> fle lo hi \<Longrightarrow> isfinite (fmax lo (fmin hi x))"
  using clamp_bounds fle_between_finite by blast

lemma on_grid_of_int: "\<bar>n\<bar> < 2 ^ prec F \<Longrightarrow> qmin F \<le> 0 \<Longrightarrow> on_grid F (of_int n)"
  by (rule on_gridI [of _ n 0]) auto

lemma fp_of_int_exact:
  assumes "\<bar>n\<bar> < 2 ^ 24" "n \<noteq> 0"
  shows "fp_of_int binary32 n = FNum (of_int n)"
proof -
  have "on_grid binary32 (of_int n)" using assms by (intro on_grid_of_int) auto
  moreover have "\<bar>of_int n :: rat\<bar> < 2 powi 128"
  proof -
    have "\<bar>of_int n :: rat\<bar> = of_int \<bar>n\<bar>" by simp
    also have "\<dots> < of_int (2 ^ 24)" using assms(1) by (simp only: of_int_less_iff)
    also have "\<dots> \<le> 2 powi 128" by (simp add: powi2_of_nat)
    finally show ?thesis .
  qed
  ultimately show ?thesis using assms(2) by (simp add: fp_of_int_def fround_exact)
qed

text \<open>Adding two finite numbers whose exact sum is bounded by a representable number.\<close>

lemma fadd_bounded:
  assumes "isfinite a" "isfinite b" "on_grid F B" "B < 2 powi emax F" "\<bar>fval a + fval b\<bar> \<le> B"
  shows "isfinite (fadd F a b) \<and> \<bar>fval (fadd F a b)\<bar> \<le> B"
proof (cases "\<exists>s t. a = FZero s \<and> b = FZero t")
  case True
  with assms(5) show ?thesis by auto
next
  case False
  with assms(1,2) have "fadd F a b = fround F False (fval a + fval b)"
    by (cases a; cases b) auto
  with fround_bounded [OF assms(3-5)] show ?thesis by simp
qed

end
