(* ===== verification/Ring.thy ===== *)
theory Ring
  imports Prelude Floats
begin

text \<open>
  The sample ring of the listener (\<^verbatim>\<open>struct sample_ring\<close>, \<^verbatim>\<open>ring_init\<close>,
  \<^verbatim>\<open>ring_destroy\<close>, \<^verbatim>\<open>ring_write\<close>, \<^verbatim>\<open>ring_snapshot_latest\<close>) and its refinement to the
  list of all samples ever written.  Sizes are 64-bit words, so \<open>+\<close> wraps as \<^verbatim>\<open>size_t\<close>
  does; every array access is checked and out of range is \<^theory_text>\<open>None\<close>.
\<close>

section \<open>The code\<close>

record sample_ring =
  samples :: "fp list ptr"
  capacity :: u64
  write_index :: u64
  total_written :: u64

text \<open>\<^verbatim>\<open>calloc(n, size)\<close>: NULL when the request is not representable; whether a
  representable one succeeds is the environment's choice \<open>mem\<close>.\<close>

definition calloc_ok :: "bool \<Rightarrow> u64 \<Rightarrow> nat \<Rightarrow> bool" where
  "calloc_ok mem n sz \<longleftrightarrow> mem \<and> unat n * sz < 2 ^ 63"

definition ring_init :: "bool \<Rightarrow> sample_ring ptr \<Rightarrow> u64 \<Rightarrow> int \<times> sample_ring ptr" where
  "ring_init mem ring cap =
     (case ring of NULL \<Rightarrow> (- 1, NULL)
      | Some r \<Rightarrow>
        if cap = 0 then (- 1, Some r)
        else if \<not> calloc_ok mem cap 4 then (- 1, Some (r\<lparr>samples := NULL\<rparr>))
        else (0, Some (r\<lparr>samples := Some (replicate (unat cap) (FZero False)),
                         capacity := cap, write_index := 0, total_written := 0\<rparr>)))"

definition ring_destroy :: "sample_ring ptr \<Rightarrow> sample_ring ptr" where
  "ring_destroy ring =
     (case ring of NULL \<Rightarrow> NULL | Some r \<Rightarrow> Some (r\<lparr>samples := NULL, capacity := 0\<rparr>))"

definition ring_put :: "u64 \<Rightarrow> fp list \<Rightarrow> fp list \<times> u64 \<Rightarrow> nat \<Rightarrow> (fp list \<times> u64) option" where
  "ring_put cap src = (\<lambda>(buf, wi) i. do {
     x \<leftarrow> load src i;
     buf' \<leftarrow> store buf (unat wi) x;
     Some (buf', (wi + 1) mod cap) })"

definition ring_write :: "sample_ring ptr \<Rightarrow> fp list ptr \<Rightarrow> u64 \<Rightarrow> sample_ring ptr option" where
  "ring_write ring src count =
     (case ring of NULL \<Rightarrow> Some NULL
      | Some r \<Rightarrow> (case (samples r, src) of
          (Some buf, Some xs) \<Rightarrow>
            if count = 0 then Some (Some r)
            else if capacity r = 0 then Some (Some r)
            else do {
              (buf', wi) \<leftarrow> foldM (ring_put (capacity r) xs) (buf, write_index r) [0..<unat count];
              Some (Some (r\<lparr>samples := Some buf', write_index := wi,
                            total_written := total_written r + count\<rparr>)) }
        | _ \<Rightarrow> Some (Some r)))"

definition ring_copy :: "u64 \<Rightarrow> fp list \<Rightarrow> u64 \<Rightarrow> fp list \<Rightarrow> nat \<Rightarrow> fp list option" where
  "ring_copy cap buf ri out i = do {
     x \<leftarrow> load buf (unat ((ri + of_nat i) mod cap));
     store out i x }"

definition ring_snapshot_latest ::
    "sample_ring ptr \<Rightarrow> fp list ptr \<Rightarrow> u64 \<Rightarrow> (u64 \<times> fp list ptr) option" where
  "ring_snapshot_latest ring out out_capacity =
     (case ring of NULL \<Rightarrow> Some (0, out)
      | Some r \<Rightarrow> (case (samples r, out) of
          (Some buf, Some ys) \<Rightarrow>
            if out_capacity = 0 then Some (0, out)
            else let available = total_written r in
              if available < out_capacity then Some (0, out)
              else if capacity r = 0 then None  \<comment> \<open>\<^verbatim>\<open>%\<close> by zero\<close>
              else let available = out_capacity;
                       ri = (write_index r + capacity r - available) mod capacity r in do {
                ys' \<leftarrow> foldM (ring_copy (capacity r) buf ri) ys [0..<unat available];
                Some (available, Some ys') }
        | _ \<Rightarrow> Some (0, out)))"

section \<open>Refinement to the stream of samples\<close>

definition ring_wf :: "sample_ring \<Rightarrow> bool" where
  "ring_wf r \<longleftrightarrow> (\<exists>buf. samples r = Some buf \<and> length buf = unat (capacity r)) \<and>
     0 < unat (capacity r) \<and> unat (capacity r) * 4 < 2 ^ 63 \<and>
     unat (write_index r) < unat (capacity r)"

text \<open>\<open>ring_holds r h\<close>: the ring stands for the stream \<open>h\<close> of all samples written so far, of
  which its buffer keeps the last \<open>capacity\<close> ones, each at its position modulo the
  capacity.\<close>

definition ring_holds :: "sample_ring \<Rightarrow> fp list \<Rightarrow> bool" where
  "ring_holds r h \<longleftrightarrow> ring_wf r \<and>
     total_written r = of_nat (length h) \<and>
     unat (write_index r) = length h mod unat (capacity r) \<and>
     (\<forall>j < length h. length h \<le> j + unat (capacity r) \<longrightarrow>
        the (samples r) ! (j mod unat (capacity r)) = h ! j)"

lemma ring_holdsD:
  assumes "ring_holds r h"
  obtains buf where "samples r = Some buf" "length buf = unat (capacity r)"
    "0 < unat (capacity r)" "unat (capacity r) * 4 < 2 ^ 63"
    "unat (write_index r) = length h mod unat (capacity r)"
    "total_written r = of_nat (length h)"
    "\<forall>j < length h. length h \<le> j + unat (capacity r) \<longrightarrow>
       buf ! (j mod unat (capacity r)) = h ! j"
  using assms by (auto simp: ring_holds_def ring_wf_def)

lemma ring_init_holds:
  assumes "cap \<noteq> 0" "calloc_ok mem cap 4"
  shows "\<exists>r'. ring_init mem (Some r) cap = (0, Some r') \<and> ring_holds r' [] \<and> capacity r' = cap"
  using assms by (auto simp: ring_init_def ring_holds_def ring_wf_def calloc_ok_def unat_gt_0)

text \<open>Incrementing an index modulo the capacity, without overflow.\<close>

lemma unat_succ_mod:
  fixes wi cap :: u64
  assumes "unat wi < unat cap" "unat cap * 4 < 2 ^ 63"
  shows "unat ((wi + 1) mod cap) = Suc (unat wi) mod unat cap"
proof -
  have "unat wi + unat (1::u64) < 2 ^ LENGTH(64)" using assms by simp
  then have "unat (wi + 1) = Suc (unat wi)" by (subst unat_add_small) auto
  then show ?thesis by (simp add: unat_mod_word)
qed

text \<open>Appending to a stream moves exactly one slot of the window.\<close>

lemma window_snoc:
  assumes win: "\<And>j. j < length h \<Longrightarrow> length h \<le> j + c \<Longrightarrow> buf ! (j mod c) = h ! j"
    and len: "length buf = c" "0 < c"
    and j: "j < Suc (length h)" "Suc (length h) \<le> j + c"
  shows "buf[length h mod c := x] ! (j mod c) = (h @ [x]) ! j"
proof (cases "j = length h")
  case True
  then show ?thesis using len by simp
next
  case False
  with j have lt: "j < length h" by simp
  have "j mod c \<noteq> length h mod c"
  proof
    assume "j mod c = length h mod c"
    then have "c dvd (length h - j)"
      using lt by (metis less_imp_le mod_eq_dvd_iff_nat)
    with lt have "c \<le> length h - j" by (simp add: dvd_imp_le)
    with j(2) lt show False by simp
  qed
  then show ?thesis using win [OF lt] j(2) lt by (simp add: nth_append)
qed

lemma ring_put_fold:
  fixes wi cap :: u64
  assumes "n \<le> length xs" "length buf = unat cap" "0 < unat cap" "unat cap * 4 < 2 ^ 63"
    and "unat wi = length h mod unat cap"
    and "\<forall>j < length h. length h \<le> j + unat cap \<longrightarrow> buf ! (j mod unat cap) = h ! j"
  shows "\<exists>buf' wi'. foldM (ring_put cap xs) (buf, wi) [0..<n] = Some (buf', wi') \<and>
     length buf' = unat cap \<and> unat wi' = (length h + n) mod unat cap \<and>
     (\<forall>j < length h + n. length h + n \<le> j + unat cap \<longrightarrow>
        buf' ! (j mod unat cap) = (h @ take n xs) ! j)"
  using assms
proof (induction n)
  case 0
  then show ?case by simp
next
  case (Suc n)
  then obtain buf' wi' where IH: "foldM (ring_put cap xs) (buf, wi) [0..<n] = Some (buf', wi')"
      "length buf' = unat cap" "unat wi' = (length h + n) mod unat cap"
      "\<And>j. j < length h + n \<Longrightarrow> length h + n \<le> j + unat cap \<Longrightarrow>
         buf' ! (j mod unat cap) = (h @ take n xs) ! j"
    by auto
  let ?h = "h @ take n xs"
  have len: "length ?h = length h + n" and n: "n < length xs" using Suc.prems(1) by auto
  have wi: "unat wi' < unat cap" using IH(3) Suc.prems(3) by simp
  have step: "ring_put cap xs (buf', wi') n =
      Some (buf'[unat wi' := xs ! n], (wi' + 1) mod cap)"
    using n wi IH(2) by (simp add: ring_put_def mem_simps)
  have "unat ((wi' + 1) mod cap) = (length h + Suc n) mod unat cap"
    using unat_succ_mod [OF wi Suc.prems(4)] IH(3) by (simp add: mod_Suc_eq)
  moreover have "buf'[unat wi' := xs ! n] ! (j mod unat cap) = (h @ take (Suc n) xs) ! j"
    if "j < length h + Suc n" "length h + Suc n \<le> j + unat cap" for j
    using window_snoc [of ?h "unat cap" buf' j "xs ! n"] IH(2-4) Suc.prems(3) that n
    by (simp add: len take_Suc_conv_app_nth min_def)
  ultimately show ?case using IH(1,2) step by (simp add: foldM_append)
qed

lemma ring_write_holds:
  assumes h: "ring_holds r h" and n: "unat count \<le> length xs"
  shows "\<exists>r'. ring_write (Some r) (Some xs) count = Some (Some r') \<and>
     ring_holds r' (h @ take (unat count) xs) \<and> capacity r' = capacity r"
proof -
  from h obtain buf where b: "samples r = Some buf" "length buf = unat (capacity r)"
    "0 < unat (capacity r)" "unat (capacity r) * 4 < 2 ^ 63"
    "unat (write_index r) = length h mod unat (capacity r)"
    "total_written r = of_nat (length h)"
    "\<forall>j < length h. length h \<le> j + unat (capacity r) \<longrightarrow>
       buf ! (j mod unat (capacity r)) = h ! j" by (rule ring_holdsD)
  show ?thesis
  proof (cases "count = 0")
    case True
    then show ?thesis using h b(1) by (simp add: ring_write_def)
  next
    case False
    have cap: "capacity r \<noteq> 0" using b(3) by auto
    obtain buf' wi' where f: "foldM (ring_put (capacity r) xs) (buf, write_index r) [0..<unat count]
         = Some (buf', wi')" "length buf' = unat (capacity r)"
      "unat wi' = (length h + unat count) mod unat (capacity r)"
      "\<forall>j < length h + unat count. length h + unat count \<le> j + unat (capacity r) \<longrightarrow>
        buf' ! (j mod unat (capacity r)) = (h @ take (unat count) xs) ! j"
      using ring_put_fold [OF n b(2-5,7)] by blast
    have "unat wi' < unat (capacity r)" using f(3) b(3) by simp
    then have "ring_holds (r\<lparr>samples := Some buf', write_index := wi',
        total_written := total_written r + count\<rparr>) (h @ take (unat count) xs)"
      using f b n by (simp add: ring_holds_def ring_wf_def min_absorb2)
    then show ?thesis using False cap b(1) f(1) by (simp add: ring_write_def)
  qed
qed

text \<open>The snapshot loop: it copies the addressed elements to the front of the output.\<close>

lemma copy_fold:
  assumes "\<And>i. i < n \<Longrightarrow> load buf (unat ((ri + of_nat i) mod cap)) = Some (v i)" and "n \<le> length ys"
  shows "foldM (ring_copy cap buf ri) ys [0..<n] = Some (map v [0..<n] @ drop n ys)"
  using assms
proof (induction n)
  case 0
  then show ?case by simp
next
  case (Suc n)
  have "drop n ys = ys ! n # drop (Suc n) ys" using Suc.prems(2) by (simp add: Cons_nth_drop_Suc)
  with Suc show ?case by (simp add: foldM_append ring_copy_def store_def list_update_append)
qed

lemma unat_read_index:
  fixes wi cap n :: u64
  assumes "unat wi < unat cap" "unat cap * 4 < 2 ^ 63" "unat n \<le> unat cap"
  shows "unat ((wi + cap - n) mod cap) = (unat wi + unat cap - unat n) mod unat cap"
proof -
  have s: "unat (wi + cap) = unat wi + unat cap" using assms by (subst unat_add_small) auto
  have "n \<le> wi + cap" using assms(3) by (simp add: word_le_nat_alt s)
  then show ?thesis by (simp add: unat_mod_word unat_sub_small s)
qed

lemma unat_copy_index:
  fixes ri cap :: u64
  assumes "unat ri < unat cap" "unat cap * 4 < 2 ^ 63" "i < unat cap"
  shows "unat ((ri + of_nat i) mod cap) = (unat ri + i) mod unat cap"
proof -
  have i: "unat (of_nat i :: u64) = i" using assms by (intro unat_of_nat_small) simp
  have "unat (ri + of_nat i) = unat ri + i" using assms by (subst unat_add_small) (simp_all add: i)
  then show ?thesis by (simp add: unat_mod_word)
qed

lemma mod_window:
  fixes c n i l :: nat
  assumes "0 < c" "n \<le> c" "n \<le> l"
  shows "((l mod c + c - n) mod c + i) mod c = (l - n + i) mod c"
proof -
  have "(l mod c + c - n) mod c = (l - n) mod c"
  proof -
    have "l mod c + c - n = l mod c + (c - n)" using assms(2) by simp
    then have "(l mod c + c - n) mod c = (l + (c - n)) mod c" by (simp add: mod_add_left_eq)
    also have "l + (c - n) = (l - n) + c" using assms by simp
    finally show ?thesis by simp
  qed
  then show ?thesis by (simp add: mod_add_left_eq)
qed

lemma ring_snapshot_holds:
  assumes h: "ring_holds r h" and len: "length h < 2 ^ 64"
    and n: "n \<noteq> 0" "unat n \<le> unat (capacity r)" "unat n \<le> length ys"
  shows "ring_snapshot_latest (Some r) (Some ys) n =
     (if length h < unat n then Some (0, Some ys)
      else Some (n, Some (drop (length h - unat n) h @ drop (unat n) ys)))"
proof -
  from h obtain buf where b: "samples r = Some buf" "length buf = unat (capacity r)"
    "0 < unat (capacity r)" "unat (capacity r) * 4 < 2 ^ 63"
    "unat (write_index r) = length h mod unat (capacity r)"
    "total_written r = of_nat (length h)"
    "\<forall>j < length h. length h \<le> j + unat (capacity r) \<longrightarrow>
       buf ! (j mod unat (capacity r)) = h ! j" by (rule ring_holdsD)
  have tot: "unat (total_written r) = length h"
    using len by (simp add: b(6) unat_of_nat_small)
  have cap: "capacity r \<noteq> 0" using b(3) by auto
  let ?c = "unat (capacity r)" and ?l = "length h" and ?n = "unat n"
  let ?ri = "(write_index r + capacity r - n) mod capacity r"
  show ?thesis
  proof (cases "?l < ?n")
    case True
    then show ?thesis using b(1) n(1) tot
      by (simp add: ring_snapshot_latest_def Let_def word_less_nat_alt)
  next
    case False
    have wi: "unat (write_index r) < ?c" using b(3,5) by simp
    have ri: "unat ?ri = (?l mod ?c + ?c - ?n) mod ?c"
      using unat_read_index [OF wi b(4) n(2)] b(5) by simp
    then have ri_less: "unat ?ri < ?c" using b(3) by simp
    have ld: "load buf (unat ((?ri + of_nat i) mod capacity r)) = Some (h ! (?l - ?n + i))"
      if i: "i < ?n" for i
    proof -
      have "unat ((?ri + of_nat i) mod capacity r) = (?l - ?n + i) mod ?c"
        using unat_copy_index [OF ri_less b(4), of i] i n(2) False b(3)
        by (simp add: ri mod_window)
      moreover have "buf ! ((?l - ?n + i) mod ?c) = h ! (?l - ?n + i)"
        using b(7) i n(2) False by auto
      ultimately show ?thesis using b(2,3) by (simp add: load_def)
    qed
    have seg: "map (\<lambda>i. h ! (?l - ?n + i)) [0..<?n] = drop (?l - ?n) h"
      using False by (intro nth_equalityI) auto
    note cp = copy_fold [OF ld n(3), unfolded seg]
    show ?thesis using False b(1) n(1) cap tot cp
      by (simp add: ring_snapshot_latest_def Let_def word_less_nat_alt)
  qed
qed

section \<open>The interface the capture path and the worker rely on\<close>

text \<open>\<open>sample_sink\<close> is what the audio callback needs (append one sample), \<open>sample_store\<close>
  what the inference worker needs in addition (the last \<open>n\<close> samples).\<close>

locale sample_sink =
  fixes push :: "'r \<Rightarrow> fp \<Rightarrow> 'r option"
    and content :: "'r \<Rightarrow> fp list \<Rightarrow> bool"
    and room :: "'r \<Rightarrow> nat"
  assumes push_ok: "content r h \<Longrightarrow> \<exists>r'. push r x = Some r' \<and> content r' (h @ [x]) \<and> room r' = room r"
begin

lemma push_all:
  "content r h \<Longrightarrow> \<exists>r'. foldM push r xs = Some r' \<and> content r' (h @ xs) \<and> room r' = room r"
proof (induction xs arbitrary: r h)
  case Nil
  then show ?case by simp
next
  case (Cons x xs)
  from push_ok [OF Cons.prems] obtain t where t: "push r x = Some t" "content t (h @ [x])" "room t = room r"
    by blast
  from Cons.IH [OF t(2)] t show ?case by auto
qed

end

locale sample_store = sample_sink +
  fixes latest :: "'a \<Rightarrow> nat \<Rightarrow> fp list option"
  assumes latest_ok: "content r h \<Longrightarrow> length h < 2 ^ 64 \<Longrightarrow> 0 < n \<Longrightarrow> n \<le> room r \<Longrightarrow>
    latest r n = Some (if length h < n then [] else drop (length h - n) h)"
begin

lemma push_all_latest:
  assumes "content r h" "length h + length xs < 2 ^ 64" "0 < n" "n \<le> room r"
    and "n \<le> length h + length xs"
  shows "\<exists>r'. foldM push r xs = Some r' \<and>
    latest r' n = Some (drop (length h + length xs - n) (h @ xs))"
proof -
  obtain r' where r': "foldM push r xs = Some r'" "content r' (h @ xs)" "room r' = room r"
    using push_all [OF assms(1)] by blast
  with latest_ok [OF r'(2), of n] assms show ?thesis by auto
qed

end

text \<open>The ring provides it: \<^verbatim>\<open>ring_write(ring, &x, 1)\<close> and a snapshot into a fresh
  window.\<close>

definition ring_push :: "sample_ring \<Rightarrow> fp \<Rightarrow> sample_ring option" where
  "ring_push r x = ring_write (Some r) (Some [x]) 1 \<bind> (\<lambda>p. p)"

definition ring_latest :: "sample_ring \<Rightarrow> nat \<Rightarrow> fp list option" where
  "ring_latest r n = do {
     (k, out) \<leftarrow> ring_snapshot_latest (Some r) (Some (replicate n (FZero False))) (of_nat n);
     ys \<leftarrow> out;
     Some (take (unat k) ys) }"

abbreviation ring_room :: "sample_ring \<Rightarrow> nat" where
  "ring_room r \<equiv> unat (capacity r)"

interpretation ring_store: sample_store ring_push ring_holds ring_room ring_latest
proof
  show "\<exists>r'. ring_push r x = Some r' \<and> ring_holds r' (h @ [x]) \<and> ring_room r' = ring_room r"
    if "ring_holds r h" for r h x
    using ring_write_holds [OF that, of 1 "[x]"] by (auto simp: ring_push_def)
next
  fix r h n
  assume h: "ring_holds r h" and len: "length h < 2 ^ 64" and n: "0 < n" "n \<le> ring_room r"
  then have cap: "ring_room r * 4 < 2 ^ 63" by (auto simp: ring_holds_def ring_wf_def)
  have u: "unat (of_nat n :: u64) = n" using n cap by (intro unat_of_nat_small) simp
  have "(of_nat n :: u64) \<noteq> 0" using n(1) u by (metis unat_0 less_irrefl)
  with ring_snapshot_holds [OF h len, of "of_nat n" "replicate n (FZero False)"] n
  show "ring_latest r n = Some (if length h < n then [] else drop (length h - n) h)"
    by (simp add: ring_latest_def u)
qed

text \<open>A ring of eight slots, as \<^verbatim>\<open>ring_init\<close> leaves it.\<close>

definition ring8 :: sample_ring where
  "ring8 = \<lparr>samples = Some (replicate 8 (FZero False)), capacity = 8, write_index = 0, total_written = 0\<rparr>"

lemma ring8_holds: "ring_holds ring8 []"
  by (simp add: ring_holds_def ring_wf_def ring8_def)

section \<open>The stream property\<close>

definition ring_writes :: "sample_ring \<Rightarrow> fp list list \<Rightarrow> sample_ring option" where
  "ring_writes = foldM (\<lambda>r xs. ring_write (Some r) (Some xs) (of_nat (length xs)) \<bind> (\<lambda>p. p))"

lemma ring_writes_holds:
  assumes "ring_holds r h" "length (concat chunks) < 2 ^ 64"
  shows "\<exists>r'. ring_writes r chunks = Some r' \<and> ring_holds r' (h @ concat chunks) \<and> capacity r' = capacity r"
  using assms unfolding ring_writes_def
proof (induction chunks arbitrary: r h)
  case Nil
  then show ?case by simp
next
  case (Cons xs chunks)
  have l: "unat (of_nat (length xs) :: u64) = length xs" using Cons.prems(2) by (intro unat_of_nat_u64) simp
  obtain t where "ring_write (Some r) (Some xs) (of_nat (length xs)) = Some (Some t)"
      "ring_holds t (h @ xs)" "capacity t = capacity r"
    using ring_write_holds [OF Cons.prems(1), of "of_nat (length xs)" xs] by (auto simp: l)
  then show ?case using Cons.IH [of t "h @ xs"] Cons.prems(2) by auto
qed

text \<open>Property C1.  From \<^verbatim>\<open>ring_init\<close> on, whatever chunks are written (longer than the ring or
  empty ones included), \<^verbatim>\<open>ring_snapshot_latest\<close> returns exactly the last \<open>n\<close> samples of
  everything written, oldest first, or 0 and an untouched buffer when there are fewer; no
  access is out of range.\<close>

theorem ring_stream_refinement:
  assumes "cap \<noteq> 0" "calloc_ok mem cap 4" "length (concat chunks) < 2 ^ 64"
    and "n \<noteq> 0" "unat n \<le> unat cap" "unat n \<le> length ys"
  shows "\<exists>r r'. ring_init mem (Some r0) cap = (0, Some r) \<and> ring_writes r chunks = Some r' \<and>
    ring_snapshot_latest (Some r') (Some ys) n =
      (if length (concat chunks) < unat n then Some (0, Some ys)
       else Some (n, Some (drop (length (concat chunks) - unat n) (concat chunks) @ drop (unat n) ys)))"
proof -
  obtain r where r: "ring_init mem (Some r0) cap = (0, Some r)" "ring_holds r []" "capacity r = cap"
    using ring_init_holds [OF assms(1,2)] by blast
  obtain r' where r': "ring_writes r chunks = Some r'" "ring_holds r' (concat chunks)" "capacity r' = cap"
    using ring_writes_holds [OF r(2) assms(3)] r(3) by auto
  show ?thesis
    using ring_snapshot_holds [OF r'(2) assms(3,4), of ys] assms(5,6) r(1) r'(1,3) by blast
qed

theorem ring_stream_refinement_witness:
  "\<exists>r r'. ring_init True (Some \<lparr>samples = NULL, capacity = 0, write_index = 0, total_written = 0\<rparr>) 4 = (0, Some r) \<and>
    ring_writes r [[FNum 1, FNum 2, FNum 3], [FNum 4, FNum 5, FNum 6]] = Some r' \<and>
    ring_snapshot_latest (Some r') (Some [FNan, FNan, FNan]) 3 = Some (3, Some [FNum 4, FNum 5, FNum 6])"
  using ring_stream_refinement [of 4 True "[[FNum 1, FNum 2, FNum 3], [FNum 4, FNum 5, FNum 6]]" 3
     "[FNan, FNan, FNan]" "\<lparr>samples = NULL, capacity = 0, write_index = 0, total_written = 0\<rparr>"]
  by (simp add: calloc_ok_def)

end
