(* ===== verification/Ring_Concurrent.thy ===== *)
theory Ring_Concurrent
  imports Ring
begin

text \<open>
  The ring between two threads: the real-time callback runs \<^verbatim>\<open>ring_write(ring, &x, 1)\<close>
  while the worker runs \<^verbatim>\<open>ring_snapshot_latest\<close>.  Each thread is split into its accesses
  to shared memory, and a schedule says which thread makes the next one.  There is no lock:
  what protects a snapshot is only the slack between the capacity (4 s) and the window
  (3 s).
\<close>

section \<open>The two threads, access by access\<close>

datatype wpc = WLoad | WStore | WIndex | WTotal
datatype rpc = RTotal | RIndex | RCopy nat | RDone bool

text \<open>\<open>wi\<close> and \<open>ri\<close> are the local index variables, \<open>out\<close> the reader's window.  The last
  three fields are ghost: how many samples have been stored, how many have been made visible
  through \<^verbatim>\<open>write_index\<close>, and that number when the reader loaded the index.\<close>

record conf =
  mem :: sample_ring
  wpc :: wpc
  wi :: u64
  rpc :: rpc
  ri :: u64
  win :: "fp list"
  stored :: nat
  visible :: nat
  seen :: nat

definition conf_init :: "sample_ring \<Rightarrow> fp list \<Rightarrow> conf" where
  "conf_init r ys = \<lparr>mem = r, wpc = WLoad, wi = 0, rpc = RTotal, ri = 0, win = ys,
     stored = 0, visible = 0, seen = 0\<rparr>"

definition writer_step :: "(nat \<Rightarrow> fp) \<Rightarrow> conf \<Rightarrow> conf option" where
  "writer_step s c = (let r = mem c in case wpc c of
     WLoad \<Rightarrow> Some (c\<lparr>wi := write_index r, wpc := WStore\<rparr>)
   | WStore \<Rightarrow> do {
       buf \<leftarrow> samples r;
       buf' \<leftarrow> store buf (unat (wi c)) (s (stored c));
       if capacity r = 0 then None
       else Some (c\<lparr>mem := r\<lparr>samples := Some buf'\<rparr>, wi := (wi c + 1) mod capacity r,
                    stored := Suc (stored c), wpc := WIndex\<rparr>) }
   | WIndex \<Rightarrow> Some (c\<lparr>mem := r\<lparr>write_index := wi c\<rparr>, visible := Suc (visible c), wpc := WTotal\<rparr>)
   | WTotal \<Rightarrow> Some (c\<lparr>mem := r\<lparr>total_written := total_written r + 1\<rparr>, wpc := WLoad\<rparr>))"

definition reader_step :: "u64 \<Rightarrow> conf \<Rightarrow> conf option" where
  "reader_step n c = (let r = mem c in case rpc c of
     RTotal \<Rightarrow> Some (c\<lparr>rpc := (if total_written r < n then RDone False else RIndex)\<rparr>)
   | RIndex \<Rightarrow> if capacity r = 0 then None
       else Some (c\<lparr>ri := (write_index r + capacity r - n) mod capacity r, seen := visible c,
                    rpc := (if n = 0 then RDone True else RCopy 0)\<rparr>)
   | RCopy i \<Rightarrow> do {
       buf \<leftarrow> samples r;
       ys \<leftarrow> ring_copy (capacity r) buf (ri c) (win c) i;
       Some (c\<lparr>win := ys, rpc := (if Suc i < unat n then RCopy (Suc i) else RDone True)\<rparr>) }
   | RDone b \<Rightarrow> Some (c\<lparr>rpc := RTotal\<rparr>))"

text \<open>A schedule: \<^theory_text>\<open>True\<close> lets the writer move, \<^theory_text>\<open>False\<close> the reader.\<close>

definition conc_step :: "(nat \<Rightarrow> fp) \<Rightarrow> u64 \<Rightarrow> conf \<Rightarrow> bool \<Rightarrow> conf option" where
  "conc_step s n c w = (if w then writer_step s c else reader_step n c)"

definition conc_run :: "(nat \<Rightarrow> fp) \<Rightarrow> u64 \<Rightarrow> conf \<Rightarrow> bool list \<Rightarrow> conf option" where
  "conc_run s n = foldM (conc_step s n)"

section \<open>The invariant\<close>

definition mem_inv :: "(nat \<Rightarrow> fp) \<Rightarrow> u64 \<Rightarrow> conf \<Rightarrow> bool" where
  "mem_inv s cap c \<longleftrightarrow>
     capacity (mem c) = cap \<and> 0 < unat cap \<and> unat cap * 4 < 2 ^ 63 \<and>
     (\<exists>buf. samples (mem c) = Some buf \<and> length buf = unat cap \<and>
        (\<forall>j < stored c. stored c \<le> j + unat cap \<longrightarrow> buf ! (j mod unat cap) = s j)) \<and>
     unat (write_index (mem c)) = visible c mod unat cap"

definition writer_inv :: "u64 \<Rightarrow> conf \<Rightarrow> bool" where
  "writer_inv cap c \<longleftrightarrow> (case wpc c of
     WLoad \<Rightarrow> stored c = visible c \<and> total_written (mem c) = of_nat (visible c)
   | WStore \<Rightarrow> stored c = visible c \<and> total_written (mem c) = of_nat (visible c) \<and>
       unat (wi c) = stored c mod unat cap
   | WIndex \<Rightarrow> stored c = Suc (visible c) \<and> total_written (mem c) = of_nat (visible c) \<and>
       unat (wi c) = stored c mod unat cap
   | WTotal \<Rightarrow> stored c = visible c \<and> 0 < visible c \<and> total_written (mem c) = of_nat (visible c - 1))"

text \<open>The part of the window already copied is right as long as the writer has not gone more
  than the slack beyond what the reader saw.\<close>

definition copied :: "(nat \<Rightarrow> fp) \<Rightarrow> u64 \<Rightarrow> u64 \<Rightarrow> conf \<Rightarrow> nat \<Rightarrow> bool" where
  "copied s cap n c i \<longleftrightarrow>
     unat n \<le> seen c \<and> seen c \<le> visible c \<and>
     (stored c \<le> seen c + (unat cap - unat n) \<longrightarrow>
        (\<forall>j < i. win c ! j = s (seen c - unat n + j)))"

definition reader_inv :: "(nat \<Rightarrow> fp) \<Rightarrow> u64 \<Rightarrow> u64 \<Rightarrow> conf \<Rightarrow> bool" where
  "reader_inv s cap n c \<longleftrightarrow> unat n \<le> length (win c) \<and> (case rpc c of
     RTotal \<Rightarrow> True
   | RIndex \<Rightarrow> unat n \<le> visible c
   | RCopy i \<Rightarrow> i < unat n \<and> unat (ri c) = (seen c - unat n) mod unat cap \<and> copied s cap n c i
   | RDone b \<Rightarrow> (b \<longrightarrow> copied s cap n c (unat n)))"

definition conc_inv :: "(nat \<Rightarrow> fp) \<Rightarrow> u64 \<Rightarrow> u64 \<Rightarrow> conf \<Rightarrow> bool" where
  "conc_inv s cap n c \<longleftrightarrow> unat n \<le> unat cap \<and> mem_inv s cap c \<and> writer_inv cap c \<and> reader_inv s cap n c"

lemma writer_frame:
  "writer_step s c = Some c' \<Longrightarrow> rpc c' = rpc c \<and> ri c' = ri c \<and> win c' = win c \<and> seen c' = seen c \<and>
     stored c \<le> stored c' \<and> visible c \<le> visible c'"
  by (auto simp: writer_step_def Let_def split: wpc.splits bind_splits if_splits)

lemma reader_inv_writer:
  assumes "writer_step s c = Some c'" "reader_inv s cap n c"
  shows "reader_inv s cap n c'"
  using writer_frame [OF assms(1)] assms(2)
  by (auto simp: reader_inv_def copied_def split: rpc.splits)

lemma writer_step_inv:
  assumes "mem_inv s cap c" "writer_inv cap c"
  shows "\<exists>c'. writer_step s c = Some c' \<and> mem_inv s cap c' \<and> writer_inv cap c'"
proof (cases "wpc c")
  case WLoad
  then show ?thesis using assms by (auto simp: writer_step_def mem_inv_def writer_inv_def Let_def)
next
  case WStore
  from assms(1) obtain buf where b: "samples (mem c) = Some buf" "length buf = unat cap"
      "\<forall>j < stored c. stored c \<le> j + unat cap \<longrightarrow> buf ! (j mod unat cap) = s j"
      "capacity (mem c) = cap" "0 < unat cap" "unat cap * 4 < 2 ^ 63"
    by (auto simp: mem_inv_def)
  have w: "unat (wi c) = stored c mod unat cap" "stored c = visible c"
    using WStore assms(2) by (auto simp: writer_inv_def)
  have lt: "unat (wi c) < unat cap" using w(1) b(5) by simp
  have nth: "buf[unat (wi c) := s (stored c)] ! (j mod unat cap) = s j"
    if "j < Suc (stored c)" "Suc (stored c) \<le> j + unat cap" for j
  proof -
    have "buf[length (map s [0..<stored c]) mod unat cap := s (stored c)] ! (j mod unat cap)
        = (map s [0..<stored c] @ [s (stored c)]) ! j"
      by (rule window_snoc [of "map s [0..<stored c]" "unat cap" buf]) (use b that in auto)
    then show ?thesis using that(1) w(1) by (auto simp: nth_append less_Suc_eq)
  qed
  have "cap \<noteq> 0" using b(5) by auto
  then show ?thesis using WStore b w nth lt assms unat_succ_mod [OF lt b(6)]
    by (auto simp: writer_step_def store_def mem_inv_def writer_inv_def Let_def mod_Suc_eq)
next
  case WIndex
  then show ?thesis using assms by (auto simp: writer_step_def mem_inv_def writer_inv_def Let_def)
next
  case WTotal
  then show ?thesis using assms
    by (auto simp: writer_step_def mem_inv_def writer_inv_def Let_def of_nat_diff gr0_conv_Suc)
qed

lemma visible_stored: "writer_inv cap c \<Longrightarrow> visible c \<le> stored c"
  by (auto simp: writer_inv_def split: wpc.splits)

lemma unat_of_nat_le: "unat (of_nat k :: u64) \<le> k"
  by (simp add: unat_of_nat take_bit_nat_less_eq_self)

lemma total_visible: "writer_inv cap c \<Longrightarrow> unat (total_written (mem c)) \<le> visible c"
proof -
  assume "writer_inv cap c"
  then have "\<exists>k \<le> visible c. total_written (mem c) = of_nat k"
    by (cases "wpc c") (auto simp: writer_inv_def simp del: of_nat_diff intro: diff_le_self)
  then show ?thesis using unat_of_nat_le order_trans by metis
qed

lemma reader_slot:
  assumes "mem_inv s cap c" "unat n \<le> unat cap" "unat (ri c) = (seen c - unat n) mod unat cap" "i < unat n"
  shows "unat ((ri c + of_nat i) mod capacity (mem c)) = (seen c - unat n + i) mod unat cap"
proof -
  have m: "capacity (mem c) = cap" "0 < unat cap" "unat cap * 4 < 2 ^ 63" using assms(1) by (auto simp: mem_inv_def)
  have "unat (ri c) < unat cap" using assms(3) m(2) by simp
  from unat_copy_index [OF this m(3), of i] assms(2-4) show ?thesis
    by (simp add: m(1) mod_add_left_eq)
qed

lemma reader_step_inv:
  assumes "conc_inv s cap n c"
  shows "\<exists>c'. reader_step n c = Some c' \<and> conc_inv s cap n c'"
proof -
  have inv: "unat n \<le> unat cap" "mem_inv s cap c" "writer_inv cap c" "reader_inv s cap n c"
    using assms by (auto simp: conc_inv_def)
  then obtain buf where b: "samples (mem c) = Some buf" "length buf = unat cap"
      "\<forall>j < stored c. stored c \<le> j + unat cap \<longrightarrow> buf ! (j mod unat cap) = s j"
      "capacity (mem c) = cap" "0 < unat cap" "unat cap * 4 < 2 ^ 63"
      "unat (write_index (mem c)) = visible c mod unat cap"
    by (auto simp: mem_inv_def)
  have keep: "mem_inv s cap c'" "writer_inv cap c'"
    if "mem c' = mem c" "stored c' = stored c" "visible c' = visible c" "wpc c' = wpc c" "wi c' = wi c" for c'
    using that inv(2,3) by (simp_all add: mem_inv_def writer_inv_def split: wpc.splits)
  show ?thesis
  proof (cases "rpc c")
    case RTotal
    have "\<not> total_written (mem c) < n \<Longrightarrow> unat n \<le> visible c"
      using total_visible [OF inv(3)] by (simp add: word_less_nat_alt)
    then show ?thesis using RTotal inv keep
      by (auto simp: reader_step_def Let_def conc_inv_def reader_inv_def)
  next
    case RIndex
    then have n: "unat n \<le> visible c" "unat n \<le> length (win c)" using inv(4) by (auto simp: reader_inv_def)
    have "unat (write_index (mem c)) < unat cap" using b(5,7) by simp
    from unat_read_index [OF this b(6) inv(1)]
    have ri: "unat ((write_index (mem c) + cap - n) mod cap) = (visible c - unat n) mod unat cap"
      using mod_window [OF b(5) inv(1) n(1), of 0] by (simp add: b(7))
    have "cap \<noteq> 0" using b(5) by auto
    then show ?thesis using RIndex inv keep n ri
      by (auto simp: reader_step_def Let_def conc_inv_def reader_inv_def copied_def b(4) unat_gt_0)
  next
    case (RCopy i)
    then have i: "i < unat n" "unat (ri c) = (seen c - unat n) mod unat cap" "copied s cap n c i"
        "unat n \<le> length (win c)" using inv(4) by (auto simp: reader_inv_def)
    let ?slot = "(seen c - unat n + i) mod unat cap"
    have cp: "ring_copy (capacity (mem c)) buf (ri c) (win c) i = Some ((win c)[i := buf ! ?slot])"
      using reader_slot [OF inv(2) inv(1) i(2) i(1)] b(2,5) i(1,4) by (simp add: ring_copy_def mem_simps)
    let ?c = "c\<lparr>win := (win c)[i := buf ! ?slot],
      rpc := (if Suc i < unat n then RCopy (Suc i) else RDone True)\<rparr>"
    have val: "buf ! ?slot = s (seen c - unat n + i)" if "stored c \<le> seen c + (unat cap - unat n)"
      using b(3) that i(1,3) inv(1) visible_stored [OF inv(3)] by (auto simp: copied_def)
    have "copied s cap n ?c (Suc i)"
      using i val by (auto simp: copied_def nth_list_update less_Suc_eq)
    then have "reader_inv s cap n ?c"
      using i by (auto simp: reader_inv_def less_antisym copied_def)
    then show ?thesis using RCopy inv keep [of ?c] cp b(1)
      by (auto simp: reader_step_def Let_def conc_inv_def)
  next
    case (RDone b)
    then show ?thesis using inv keep by (auto simp: reader_step_def Let_def conc_inv_def reader_inv_def)
  qed
qed

lemma conc_step_inv: "conc_inv s cap n c \<Longrightarrow> \<exists>c'. conc_step s n c w = Some c' \<and> conc_inv s cap n c'"
  using writer_step_inv [of s cap c] reader_step_inv [of s cap n c] reader_inv_writer [of s c]
  by (cases w) (fastforce simp: conc_step_def conc_inv_def)+

lemma conc_run_inv: "conc_inv s cap n c \<Longrightarrow> \<exists>c'. conc_run s n c sched = Some c' \<and> conc_inv s cap n c'"
proof (induction sched arbitrary: c)
  case Nil
  then show ?case by (simp add: conc_run_def)
next
  case (Cons w sched)
  from conc_step_inv [OF Cons.prems, of w] obtain t where "conc_step s n c w = Some t" "conc_inv s cap n t" by blast
  with Cons.IH [of t] show ?case by (auto simp: conc_run_def)
qed

lemma conc_init_inv:
  assumes "ring_holds r []" "unat n \<le> unat (capacity r)" "unat n \<le> length ys"
  shows "conc_inv s (capacity r) n (conf_init r ys)"
  using assms by (auto simp: conc_inv_def conf_init_def mem_inv_def writer_inv_def reader_inv_def
      ring_holds_def ring_wf_def)

section \<open>Properties\<close>

text \<open>Property C2.  Whatever the interleaving of the audio thread and the worker, no access is
  out of range; and a snapshot that reports \<open>n\<close> samples during which the writer started at
  most \<open>capacity - n\<close> new ones (a second of audio, for the listener) is exactly the \<open>n\<close>
  consecutive samples that were visible when it read the index.\<close>

theorem concurrent_snapshot_consistent:
  assumes "ring_holds r []" "unat n \<le> unat (capacity r)" "unat n \<le> length ys"
  shows "\<exists>c. conc_run s n (conf_init r ys) sched = Some c \<and>
    (rpc c = RDone True \<and> stored c \<le> seen c + (unat (capacity r) - unat n) \<longrightarrow>
       unat n \<le> seen c \<and> take (unat n) (win c) = map s [seen c - unat n..<seen c])"
proof -
  obtain c where c: "conc_run s n (conf_init r ys) sched = Some c" "conc_inv s (capacity r) n c"
    using conc_run_inv [OF conc_init_inv [OF assms]] by blast
  have "unat n \<le> seen c \<and> take (unat n) (win c) = map s [seen c - unat n..<seen c]"
    if "rpc c = RDone True" "stored c \<le> seen c + (unat (capacity r) - unat n)"
    using c(2) that by (auto simp: conc_inv_def reader_inv_def copied_def intro!: nth_equalityI)
  with c(1) show ?thesis by blast
qed

text \<open>Property C19.  The unsynchronised \<^verbatim>\<open>float\<close> accesses do not race: while the writer is fewer
  than \<open>capacity - n\<close> samples past what the reader saw, the slot the writer is about to store
  is not the slot the reader is about to load.\<close>

theorem concurrent_no_slot_race:
  assumes "ring_holds r []" "unat n \<le> unat (capacity r)" "unat n \<le> length ys"
    and "conc_run s n (conf_init r ys) sched = Some c"
    and "wpc c = WStore" "rpc c = RCopy i" "stored c < seen c + (unat (capacity r) - unat n)"
  shows "unat (wi c) \<noteq> unat ((ri c + of_nat i) mod capacity (mem c))"
proof -
  have inv: "conc_inv s (capacity r) n c"
    using conc_run_inv [OF conc_init_inv [OF assms(1-3)], of s sched] assms(4) by auto
  let ?c = "unat (capacity r)"
  have i: "i < unat n" "unat (ri c) = (seen c - unat n) mod ?c" "copied s (capacity r) n c i"
      "mem_inv s (capacity r) c" "writer_inv (capacity r) c"
    using inv assms(6) by (auto simp: conc_inv_def reader_inv_def)
  have w: "unat (wi c) = stored c mod ?c" using i(5) assms(5) by (auto simp: writer_inv_def)
  let ?j = "seen c - unat n + i"
  have j: "?j < stored c" "stored c < ?j + ?c"
    using i(1,3) assms(2,7) visible_stored [OF i(5)] by (auto simp: copied_def)
  have "stored c mod ?c \<noteq> ?j mod ?c"
  proof
    assume "stored c mod ?c = ?j mod ?c"
    then have "?c dvd stored c - ?j" using j(1) by (metis less_imp_le mod_eq_dvd_iff_nat)
    with j show False by (auto dest!: dvd_imp_le)
  qed
  then show ?thesis using reader_slot [OF i(4) assms(2) i(2) i(1)] w by simp
qed

text \<open>A run: three samples are written, then the worker takes the last two; and one where the
  two threads interleave.\<close>

definition ramp :: "nat \<Rightarrow> fp" where
  "ramp k = FNum (of_nat k + 1)"

definition sched_seq :: "bool list" where
  "sched_seq = replicate 12 True @ replicate 4 False"

definition sched_race :: "bool list" where
  "sched_race = replicate 12 True @ [False, False, False, True]"

lemma sched_seq_run:
  "map_option (\<lambda>c. (rpc c, stored c, seen c, win c)) (conc_run ramp 2 (conf_init ring8 [FNan, FNan]) sched_seq)
     = Some (RDone True, 3, 3, [FNum 2, FNum 3])"
  by code_simp

lemma sched_race_run:
  "map_option (\<lambda>c. (wpc c, rpc c, stored c, seen c)) (conc_run ramp 2 (conf_init ring8 [FNan, FNan]) sched_race)
     = Some (WStore, RCopy 1, 3, 3)"
  by code_simp

theorem concurrent_snapshot_consistent_witness:
  "\<exists>c. conc_run ramp 2 (conf_init ring8 [FNan, FNan]) sched_seq = Some c \<and>
     rpc c = RDone True \<and> take 2 (win c) = map ramp [1..<3]"
proof -
  obtain c where c: "conc_run ramp 2 (conf_init ring8 [FNan, FNan]) sched_seq = Some c"
      "rpc c = RDone True" "stored c = 3" "seen c = 3"
    using sched_seq_run by auto
  moreover have "take 2 (win c) = map ramp [1..<3]"
    using concurrent_snapshot_consistent [OF ring8_holds, of 2 "[FNan, FNan]" ramp sched_seq] c
    by (simp add: ring8_def)
  ultimately show ?thesis by blast
qed

theorem concurrent_no_slot_race_witness:
  "\<exists>c. conc_run ramp 2 (conf_init ring8 [FNan, FNan]) sched_race = Some c \<and>
     wpc c = WStore \<and> rpc c = RCopy 1 \<and>
     unat (wi c) \<noteq> unat ((ri c + of_nat 1) mod capacity (mem c))"
proof -
  obtain c where c: "conc_run ramp 2 (conf_init ring8 [FNan, FNan]) sched_race = Some c"
      "wpc c = WStore" "rpc c = RCopy 1" "stored c = 3" "seen c = 3"
    using sched_race_run by auto
  have "unat (wi c) \<noteq> unat ((ri c + of_nat 1) mod capacity (mem c))"
    by (rule concurrent_no_slot_race [OF ring8_holds _ _ c(1-3)]) (simp_all add: c ring8_def)
  with c show ?thesis by blast
qed

end
