(* ===== verification/CText.thy ===== *)
theory CText
  imports Floats
begin

text \<open>
  The parts of the C library that turn numbers into text and back, as the listener uses
  them: \<^verbatim>\<open>snprintf\<close> with its truncation and return value, the conversions \<^verbatim>\<open>%u\<close>,
  \<^verbatim>\<open>%ld\<close>, \<^verbatim>\<open>%03ld\<close>, \<^verbatim>\<open>%.9f\<close>, \<^verbatim>\<open>%.1f\<close>, \<^verbatim>\<open>%.9g\<close>, and \<^verbatim>\<open>strtoul\<close> and \<^verbatim>\<open>strtof\<close> in the C
  locale.  A C string is a list of characters without its terminating NUL.
\<close>

section \<open>Formatting\<close>

definition digit :: "nat \<Rightarrow> char" where
  "digit d = char_of (48 + d)"

fun dec :: "nat \<Rightarrow> string" where
  "dec n = (if n < 10 then [digit n] else dec (n div 10) @ [digit (n mod 10)])"

declare dec.simps [simp del]

definition pad_left :: "char \<Rightarrow> nat \<Rightarrow> string \<Rightarrow> string" where
  "pad_left c w s = replicate (w - length s) c @ s"

definition dec_int :: "int \<Rightarrow> string" where
  "dec_int n = (if n < 0 then ''-'' @ dec (nat (- n)) else dec (nat n))"

text \<open>\<^verbatim>\<open>%.kf\<close>: the exact value, rounded to \<open>k\<close> decimals with ties to even, as glibc prints it.\<close>

definition fmt_rat :: "nat \<Rightarrow> rat \<Rightarrow> string" where
  "fmt_rat k x = (let m = nat (rne (x * 10 ^ k)) in
     dec (m div 10 ^ k) @ (if k = 0 then [] else ''.'' @ pad_left CHR ''0'' k (dec (m mod 10 ^ k))))"

definition fmt_special :: "fp \<Rightarrow> string" where
  "fmt_special x = (case x of FNan \<Rightarrow> ''nan'' | FInf s \<Rightarrow> if s then ''-inf'' else ''inf'' | _ \<Rightarrow> [])"

definition fmt_f :: "nat \<Rightarrow> fp \<Rightarrow> string" where
  "fmt_f k x = (if isfinite x
     then (if fsign x then ''-'' else []) @ fmt_rat k \<bar>fval x\<bar> else fmt_special x)"

definition ilog10 :: "rat \<Rightarrow> int" where
  "ilog10 x = (let (n, d) = quotient_of x;
       k = int (length (dec (nat n))) - int (length (dec (nat d))) in
     if 10 powi k \<le> x then k else k - 1)"

definition strip_zeros :: "string \<Rightarrow> string" where
  "strip_zeros s = (let t = rev (dropWhile (\<lambda>c. c = CHR ''0'') (rev s)) in
     if t \<noteq> [] \<and> last t = CHR ''.'' then butlast t else t)"

text \<open>\<^verbatim>\<open>%.9g\<close>: nine significant digits, trailing zeros removed, exponent form outside
  \<open>[10\<^sup>-\<^sup>4, 10\<^sup>9)\<close>.\<close>

definition fmt_g9 :: "fp \<Rightarrow> string" where
  "fmt_g9 x = (if \<not> isfinite x then fmt_special x
     else (if fsign x then ''-'' else []) @
       (if fval x = 0 then ''0''
        else let a = \<bar>fval x\<bar>; e0 = ilog10 a; m0 = rne (a / 10 powi (e0 - 8));
                 e = (if m0 = 10 ^ 9 then e0 + 1 else e0);
                 m = (if m0 = 10 ^ 9 then 10 ^ 8 else m0) in
          if - 4 \<le> e \<and> e < 9
          then (if e = 8 then dec (nat m)
                else strip_zeros (fmt_rat (nat (8 - e)) (of_int m * 10 powi (e - 8))))
          else strip_zeros (dec (nat (m div 10 ^ 8)) @ ''.'' @ pad_left CHR ''0'' 8 (dec (nat (m mod 10 ^ 8))))
            @ ''e'' @ (if e < 0 then ''-'' else ''+'') @ pad_left CHR ''0'' 2 (dec (nat \<bar>e\<bar>))))"

text \<open>\<^verbatim>\<open>snprintf(buf, size, ...)\<close> of the text \<open>s\<close>: what is in the buffer, and the return value,
  which is the length of the whole text (negative if it does not fit an \<^verbatim>\<open>int\<close>).\<close>

definition INT_MAX :: nat where "INT_MAX = 2147483647"

definition snprintf :: "nat \<Rightarrow> string \<Rightarrow> string \<times> int" where
  "snprintf sz s = (take (sz - 1) s, if length s \<le> INT_MAX then int (length s) else - 1)"

section \<open>Facts on formatting\<close>

definition is_digit :: "char \<Rightarrow> bool" where
  "is_digit c \<longleftrightarrow> 48 \<le> (of_char c :: nat) \<and> (of_char c :: nat) \<le> 57"

definition digit_val :: "char \<Rightarrow> nat" where
  "digit_val c = of_char c - 48"

lemma of_char_digit: "d < 10 \<Longrightarrow> (of_char (digit d) :: nat) = 48 + d"
  by (simp add: digit_def)

lemma is_digit_digit [simp]: "d < 10 \<Longrightarrow> is_digit (digit d)"
  by (simp add: is_digit_def of_char_digit)

lemma digit_val_digit [simp]: "d < 10 \<Longrightarrow> digit_val (digit d) = d"
  by (simp add: digit_val_def of_char_digit)

definition undec :: "nat \<Rightarrow> string \<Rightarrow> nat" where
  "undec = foldl (\<lambda>a c. 10 * a + digit_val c)"

lemma undec_append: "undec a (s @ t) = undec (undec a s) t"
  by (simp add: undec_def)

lemma undec_dec [simp]: "undec 0 (dec n) = n"
proof (induction n rule: dec.induct)
  case (1 n)
  then show ?case by (subst dec.simps) (simp add: undec_def)
qed

lemma dec_digits: "c \<in> set (dec n) \<Longrightarrow> is_digit c"
proof (induction n rule: dec.induct)
  case (1 n)
  then show ?case by (subst (asm) (2) dec.simps) (auto split: if_splits)
qed

lemma dec_nonempty [simp]: "dec n \<noteq> []"
  by (subst dec.simps) simp

lemma dec_inj: "dec m = dec n \<Longrightarrow> m = n"
  by (metis undec_dec)

lemma length_dec: "n < 10 ^ k \<Longrightarrow> 0 < k \<Longrightarrow> length (dec n) \<le> k"
proof (induction k arbitrary: n)
  case 0
  then show ?case by simp
next
  case (Suc k)
  show ?case
  proof (cases "n < 10")
    case True
    then show ?thesis by (subst dec.simps) simp
  next
    case False
    with Suc.prems have "n div 10 < 10 ^ k" and "0 < k" by (auto intro: gr0I)
    from Suc.IH [OF this] False show ?thesis by (subst dec.simps) simp
  qed
qed

lemma length_pad_left: "length (pad_left c w s) = max w (length s)"
  by (simp add: pad_left_def)

lemma length_fmt_rat:
  assumes "0 \<le> x" "x < 10 ^ j" "0 < k" "0 < j"
  shows "length (fmt_rat k x) \<le> Suc j + 1 + k"
proof -
  let ?m = "nat (rne (x * 10 ^ k))"
  have "rne (x * 10 ^ k) \<le> 10 ^ (j + k)"
    by (rule rne_le_int) (use assms in \<open>simp add: power_add mult_right_mono\<close>)
  then have "?m \<le> 10 ^ (j + k)" by (simp add: nat_le_iff)
  also have "\<dots> < 10 ^ Suc j * 10 ^ k" by (simp add: power_add)
  finally have "?m div 10 ^ k < 10 ^ Suc j" by (simp add: less_mult_imp_div_less)
  then have "length (dec (?m div 10 ^ k)) \<le> Suc j" by (rule length_dec) simp
  moreover have "length (dec (?m mod 10 ^ k)) \<le> k" using assms(3) by (intro length_dec) auto
  ultimately show ?thesis using assms(3) by (simp add: fmt_rat_def Let_def length_pad_left)
qed

section \<open>Parsing integers\<close>

definition is_space :: "char \<Rightarrow> bool" where
  "is_space c \<longleftrightarrow> (let n = (of_char c :: nat) in n = 32 \<or> 9 \<le> n \<and> n \<le> 13)"

fun opt_sign :: "string \<Rightarrow> bool \<times> string" where
  "opt_sign [] = (False, [])"
| "opt_sign (c # s) = (if c = CHR ''-'' then (True, s) else if c = CHR ''+'' then (False, s) else (False, c # s))"

text \<open>\<^verbatim>\<open>strtoul(s, &end, 10)\<close>: the value, the rest of the text at \<^verbatim>\<open>end\<close> (the whole text when
  no digit was found), and whether \<^verbatim>\<open>errno\<close> was set to \<^verbatim>\<open>ERANGE\<close>.  A minus sign negates the
  value modulo \<open>2\<^sup>6\<^sup>4\<close>, without an error.\<close>

definition strtoul :: "string \<Rightarrow> u64 \<times> string \<times> bool" where
  "strtoul s = (let (neg, t) = opt_sign (dropWhile is_space s);
       ds = takeWhile is_digit t; rest = dropWhile is_digit t; n = undec 0 ds in
     if ds = [] then (0, s, False)
     else if 2 ^ 64 \<le> n then (- 1, rest, True)
     else (if neg then - of_nat n else of_nat n, rest, False))"

section \<open>Parsing floats\<close>

definition hex_val :: "char \<Rightarrow> nat" where
  "hex_val c = (let n = (of_char c :: nat) in
     if 48 \<le> n \<and> n \<le> 57 then n - 48 else if 97 \<le> n \<and> n \<le> 102 then n - 87 else n - 55)"

definition is_hex :: "char \<Rightarrow> bool" where
  "is_hex c \<longleftrightarrow> (let n = (of_char c :: nat) in
     48 \<le> n \<and> n \<le> 57 \<or> 97 \<le> n \<and> n \<le> 102 \<or> 65 \<le> n \<and> n \<le> 70)"

definition to_lower :: "char \<Rightarrow> char" where
  "to_lower c = (let n = (of_char c :: nat) in if 65 \<le> n \<and> n \<le> 90 then char_of (n + 32) else c)"

definition is_word_char :: "char \<Rightarrow> bool" where
  "is_word_char c \<longleftrightarrow> (let n = (of_char (to_lower c) :: nat) in
     48 \<le> n \<and> n \<le> 57 \<or> 97 \<le> n \<and> n \<le> 122 \<or> n = 95)"

text \<open>Digits with an optional point: mantissa, number of fraction digits, whether there was a
  digit, and the rest.\<close>

definition significand :: "(char \<Rightarrow> bool) \<Rightarrow> (char \<Rightarrow> nat) \<Rightarrow> nat \<Rightarrow> string \<Rightarrow> nat \<times> nat \<times> bool \<times> string" where
  "significand p v b s = (let i = takeWhile p s; r = dropWhile p s;
       (f, r') = (case r of [] \<Rightarrow> ([], r)
          | c # t \<Rightarrow> if c = CHR ''.'' then (takeWhile p t, dropWhile p t) else ([], r)) in
     (foldl (\<lambda>a c. b * a + v c) 0 (i @ f), length f, i @ f \<noteq> [], if i @ f = [] then s else r'))"

definition exponent_part :: "char \<Rightarrow> string \<Rightarrow> int \<times> string" where
  "exponent_part e s = (case s of [] \<Rightarrow> (0, s)
     | c # t \<Rightarrow> if to_lower c \<noteq> e then (0, s)
         else let (neg, u) = opt_sign t; ds = takeWhile is_digit u in
           if ds = [] then (0, s)
           else ((if neg then - int (undec 0 ds) else int (undec 0 ds)), dropWhile is_digit u))"

definition rounded_unbounded :: "fpformat \<Rightarrow> rat \<Rightarrow> rat" where
  "rounded_unbounded F v = (if v = 0 then 0
     else let q = 2 powi (ilog2 v - (int (prec F) - 1)) in of_int (rne (v / q)) * q)"

text \<open>A non-negative exact value as a float, and whether that sets \<^verbatim>\<open>ERANGE\<close>: on overflow, and
  on an inexact result below the smallest normal number.\<close>

definition fp_of_text :: "fpformat \<Rightarrow> rat \<Rightarrow> fp \<times> bool" where
  "fp_of_text F v = (let y = fround F False v in
     (y, v \<noteq> 0 \<and> (\<not> isfinite y \<or>
          rounded_unbounded F v < 2 powi (qmin F + int (prec F) - 1) \<and> fval y \<noteq> v)))"

definition has_prefix_ci :: "string \<Rightarrow> string \<Rightarrow> bool" where
  "has_prefix_ci w s \<longleftrightarrow> map to_lower (take (length w) s) = w"

text \<open>\<^verbatim>\<open>strtof\<close>, for the format \<open>F\<close>: value, rest (the whole text if nothing was converted),
  \<^verbatim>\<open>ERANGE\<close>.\<close>

definition strtofp :: "fpformat \<Rightarrow> string \<Rightarrow> fp \<times> string \<times> bool" where
  "strtofp F s = (let (neg, t) = opt_sign (dropWhile is_space s);
       signed = (\<lambda>y. if neg then fneg y else y) in
     if has_prefix_ci ''infinity'' t then (signed (FInf False), drop 8 t, False)
     else if has_prefix_ci ''inf'' t then (signed (FInf False), drop 3 t, False)
     else if has_prefix_ci ''nan'' t then
       (let u = drop 3 t; body = (case u of [] \<Rightarrow> [] | c # v \<Rightarrow> dropWhile is_word_char v) in
        (FNan, if u \<noteq> [] \<and> hd u = CHR ''('' \<and> body \<noteq> [] \<and> hd body = CHR '')'' then tl body else u, False))
     else
       (let (hm, hf, hany, hr) = significand is_hex hex_val 16 (drop 2 t) in
        if has_prefix_ci ''0x'' t \<and> hany then
          (let (e, rest) = exponent_part CHR ''p'' hr;
               (y, err) = fp_of_text F (of_nat hm * 2 powi (e - 4 * int hf)) in
           (signed y, rest, err))
        else
          (let (m, f, any, r) = significand is_digit digit_val 10 t in
           if \<not> any then (FZero False, s, False)
           else let (e, rest) = exponent_part CHR ''e'' r;
                    (y, err) = fp_of_text F (of_nat m * 10 powi (e - int f)) in
             (signed y, rest, err))))"

end
