(* ===== verification/Posix.thy ===== *)
theory Posix
  imports CText
begin

text \<open>
  The operating system as the listener sees it: a world of files, directories, open
  descriptors and standard output, with one function per system call.  Every call asks the
  environment for a verdict (\<open>verdicts\<close>, indexed by the number of calls made so far), so
  every error path of the program is reachable in the model, and a theorem about all
  worlds holds for every behaviour of the system.  \<open>hist\<close> is a ghost: the contents of the
  file system at every call made so far, newest first, which is what other processes (or
  the machine after a crash of the listener) can observe.  Symbolic links and \<^verbatim>\<open>..\<close> are
  not modelled.
\<close>

section \<open>Paths\<close>

text \<open>A path names a node: absolute or relative, and its components, empty ones dropped, as the
  kernel resolves repeated and trailing slashes.\<close>

type_synonym node = "bool \<times> string list"

fun split_slash :: "string \<Rightarrow> string list" where
  "split_slash [] = [[]]"
| "split_slash (c # s) = (if c = CHR ''/'' then [] # split_slash s
     else (case split_slash s of [] \<Rightarrow> [[c]] | x # xs \<Rightarrow> (c # x) # xs))"

definition node_of :: "string \<Rightarrow> node" where
  "node_of p = (p \<noteq> [] \<and> hd p = CHR ''/'', filter (\<lambda>x. x \<noteq> [] \<and> x \<noteq> ''.'') (split_slash p))"

definition parent_node :: "node \<Rightarrow> node" where
  "parent_node n = (fst n, butlast (snd n))"

section \<open>The world\<close>

datatype verdict = Ok | Intr | Fail | Short nat

datatype errno = E_NONE | EINTR | EEXIST | E_OTHER

datatype fd_target = To_File node | To_Stdout | To_Pipe

record world =
  files :: "node \<rightharpoonup> u8 list"
  durable :: "node \<rightharpoonup> u8 list"
  dirs :: "node set"
  fds :: "(nat \<times> fd_target) list"
  stdout_bytes :: "u8 list"
  pipe_bytes :: "u8 list"
  hist :: "(node \<rightharpoonup> u8 list) list"
  tick :: nat
  verdicts :: "nat \<Rightarrow> verdict"

definition ask :: "world \<Rightarrow> verdict \<times> world" where
  "ask w = (verdicts w (tick w), w\<lparr>tick := Suc (tick w), hist := files w # hist w\<rparr>)"

definition dir_exists :: "world \<Rightarrow> node \<Rightarrow> bool" where
  "dir_exists w n \<longleftrightarrow> snd n = [] \<or> n \<in> dirs w"

definition bytes_of :: "string \<Rightarrow> u8 list" where
  "bytes_of s = map of_char s"

section \<open>System calls\<close>

definition sys_mkdir :: "string \<Rightarrow> world \<Rightarrow> errno \<times> world" where
  "sys_mkdir p w = (let (v, w) = ask w; n = node_of p in
     case v of Intr \<Rightarrow> (EINTR, w) | Fail \<Rightarrow> (E_OTHER, w)
     | _ \<Rightarrow> if dir_exists w n \<or> files w n \<noteq> None then (EEXIST, w)
            else if \<not> dir_exists w (parent_node n) then (E_OTHER, w)
            else (E_NONE, w\<lparr>dirs := insert n (dirs w)\<rparr>))"

text \<open>\<^verbatim>\<open>open(p, O_CREAT | O_TRUNC | O_WRONLY, 0600)\<close>: a new descriptor, or \<^theory_text>\<open>None\<close>.\<close>

definition sys_open :: "string \<Rightarrow> world \<Rightarrow> nat option \<times> world" where
  "sys_open p w = (let fd = 3 + tick w; n = node_of p; (v, w) = ask w in
     if v = Intr \<or> v = Fail \<or> dir_exists w n \<or> \<not> dir_exists w (parent_node n) then (None, w)
     else (Some fd, w\<lparr>files := (files w)(n \<mapsto> []), fds := (fd, To_File n) # fds w\<rparr>))"

definition append_to :: "fd_target \<Rightarrow> u8 list \<Rightarrow> world \<Rightarrow> world" where
  "append_to t bs w = (case t of
       To_File n \<Rightarrow> (case files w n of None \<Rightarrow> w | Some old \<Rightarrow> w\<lparr>files := (files w)(n \<mapsto> old @ bs)\<rparr>)
     | To_Stdout \<Rightarrow> w\<lparr>stdout_bytes := stdout_bytes w @ bs\<rparr>
     | To_Pipe \<Rightarrow> w\<lparr>pipe_bytes := pipe_bytes w @ bs\<rparr>)"

definition sys_write :: "nat \<Rightarrow> u8 list \<Rightarrow> world \<Rightarrow> int \<times> errno \<times> world" where
  "sys_write fd bs w = (let (v, w) = ask w in
     case map_of (fds w) fd of None \<Rightarrow> (- 1, E_OTHER, w)
     | Some t \<Rightarrow> (case v of
         Intr \<Rightarrow> (- 1, EINTR, w)
       | Fail \<Rightarrow> (- 1, E_OTHER, w)
       | Ok \<Rightarrow> (int (length bs), E_NONE, append_to t bs w)
       | Short n \<Rightarrow> (int (min n (length bs)), E_NONE, append_to t (take n bs) w)))"

definition sys_fsync :: "nat \<Rightarrow> world \<Rightarrow> bool \<times> world" where
  "sys_fsync fd w = (let (v, w) = ask w in
     case map_of (fds w) fd of
       Some (To_File n) \<Rightarrow> if v = Intr \<or> v = Fail then (False, w)
         else (True, w\<lparr>durable := (durable w)(n := files w n)\<rparr>)
     | _ \<Rightarrow> (False, w))"

text \<open>\<^verbatim>\<open>close\<close> releases the descriptor even when it reports an error, as Linux does.\<close>

definition sys_close :: "nat \<Rightarrow> world \<Rightarrow> bool \<times> world" where
  "sys_close fd w = (let (v, w) = ask w in
     if map_of (fds w) fd = None then (False, w)
     else (v \<noteq> Intr \<and> v \<noteq> Fail, w\<lparr>fds := filter (\<lambda>(k, _). k \<noteq> fd) (fds w)\<rparr>))"

definition sys_rename :: "string \<Rightarrow> string \<Rightarrow> world \<Rightarrow> bool \<times> world" where
  "sys_rename a b w = (let (v, w) = ask w; m = node_of a; n = node_of b in
     if v = Intr \<or> v = Fail \<or> files w m = None \<or> dir_exists w n \<or> \<not> dir_exists w (parent_node n)
     then (False, w)
     else if m = n then (True, w)
     else (True, w\<lparr>files := (files w)(n := files w m, m := None),
                   durable := (durable w)(n := durable w m, m := None)\<rparr>))"

definition sys_unlink :: "string \<Rightarrow> world \<Rightarrow> bool \<times> world" where
  "sys_unlink p w = (let (v, w) = ask w; n = node_of p in
     if v = Intr \<or> v = Fail \<or> files w n = None then (False, w)
     else (True, w\<lparr>files := (files w)(n := None), durable := (durable w)(n := None)\<rparr>))"

subsection \<open>Buffered streams\<close>

text \<open>A \<^verbatim>\<open>FILE *\<close> on a descriptor.  \<^verbatim>\<open>fprintf\<close> only fills the buffer (all the texts written
  here are far smaller than it); \<^verbatim>\<open>fflush\<close> and \<^verbatim>\<open>fclose\<close> write it out, in full or, when they
  fail, in part.\<close>

record cfile =
  cf_fd :: nat
  cf_buf :: "u8 list"

definition c_fprintf :: "cfile \<Rightarrow> string \<Rightarrow> world \<Rightarrow> bool \<times> cfile \<times> world" where
  "c_fprintf f s w = (let (v, w) = ask w in
     if v = Fail then (False, f, w) else (True, f\<lparr>cf_buf := cf_buf f @ bytes_of s\<rparr>, w))"

definition flush_buf :: "cfile \<Rightarrow> world \<Rightarrow> bool \<times> cfile \<times> world" where
  "flush_buf f w = (let (v, w) = ask w in
     case map_of (fds w) (cf_fd f) of None \<Rightarrow> (False, f, w)
     | Some t \<Rightarrow> (case v of
         Ok \<Rightarrow> (True, f\<lparr>cf_buf := []\<rparr>, append_to t (cf_buf f) w)
       | Short n \<Rightarrow> (False, f\<lparr>cf_buf := drop n (cf_buf f)\<rparr>, append_to t (take n (cf_buf f)) w)
       | _ \<Rightarrow> (False, f, w)))"

definition c_fflush :: "cfile \<Rightarrow> world \<Rightarrow> bool \<times> cfile \<times> world" where
  "c_fflush f w = (if cf_buf f = [] then (True, f, w) else flush_buf f w)"

definition c_fclose :: "cfile \<Rightarrow> world \<Rightarrow> bool \<times> world" where
  "c_fclose f w = (let (ok1, f, w) = c_fflush f w; (ok2, w) = sys_close (cf_fd f) w in (ok1 \<and> ok2, w))"

text \<open>\<^verbatim>\<open>fopen(p, "w")\<close> and \<^verbatim>\<open>fdopen\<close>, which can fail to allocate the stream.\<close>

definition c_fdopen :: "nat \<Rightarrow> world \<Rightarrow> cfile option \<times> world" where
  "c_fdopen fd w = (let (v, w) = ask w in
     (if v = Fail then None else Some \<lparr>cf_fd = fd, cf_buf = []\<rparr>, w))"

definition c_fopen :: "string \<Rightarrow> world \<Rightarrow> cfile option \<times> world" where
  "c_fopen p w = (case sys_open p w of (None, w) \<Rightarrow> (None, w)
     | (Some fd, w) \<Rightarrow> (Some \<lparr>cf_fd = fd, cf_buf = []\<rparr>, w))"

definition c_malloc :: "world \<Rightarrow> bool \<times> world" where
  "c_malloc w = (let (v, w) = ask w in (v \<noteq> Fail, w))"

section \<open>What the calls leave alone\<close>

text \<open>\<open>untouched n w w'\<close>: from \<open>w\<close> to \<open>w'\<close>, node \<open>n\<close> was never seen with another content.\<close>

definition untouched :: "node \<Rightarrow> world \<Rightarrow> world \<Rightarrow> bool" where
  "untouched n w w' \<longleftrightarrow> files w' n = files w n \<and> durable w' n = durable w n \<and>
     (\<exists>new. hist w' = new @ hist w \<and> (\<forall>f \<in> set new. f n = files w n))"

lemma untouched_refl [simp]: "untouched n w w"
  by (simp add: untouched_def)

lemma untouched_trans: "untouched n u v \<Longrightarrow> untouched n v w \<Longrightarrow> untouched n u w"
  unfolding untouched_def by (metis (no_types, lifting) Un_iff append_assoc set_append)

text \<open>Descriptors are numbered by the call that opened them, so a new one is fresh.\<close>

definition world_ok :: "world \<Rightarrow> bool" where
  "world_ok w \<longleftrightarrow> (\<forall>(k, t) \<in> set (fds w). k < 3 + tick w)"

lemma world_ok_fresh: "world_ok w \<Longrightarrow> (3 + tick w, t) \<notin> set (fds w)"
  by (auto simp: world_ok_def)

text \<open>\<open>same_fds w w'\<close>: the calls in between neither opened nor closed a descriptor.\<close>

definition same_fds :: "world \<Rightarrow> world \<Rightarrow> bool" where
  "same_fds w w' \<longleftrightarrow> fds w' = fds w \<and> tick w \<le> tick w' \<and> verdicts w' = verdicts w"

lemma same_fds_refl [simp]: "same_fds w w"
  by (simp add: same_fds_def)

lemma same_fds_trans: "same_fds u v \<Longrightarrow> same_fds v w \<Longrightarrow> same_fds u w"
  by (auto simp: same_fds_def)

lemma same_fds_ok: "same_fds w w' \<Longrightarrow> world_ok w \<Longrightarrow> world_ok w'"
  by (auto simp: same_fds_def world_ok_def)

lemma ask_frame:
  "ask w = (v, w') \<Longrightarrow> untouched n w w' \<and> same_fds w w' \<and> files w' = files w \<and> dirs w' = dirs w \<and>
     durable w' = durable w \<and> fds w' = fds w \<and> tick w' = Suc (tick w) \<and> v = verdicts w (tick w) \<and>
     stdout_bytes w' = stdout_bytes w \<and> pipe_bytes w' = pipe_bytes w \<and> hist w' = files w # hist w \<and>
     verdicts w' = verdicts w"
  by (auto simp: ask_def untouched_def same_fds_def)

lemma c_malloc_frame:
  "c_malloc w = (b, w') \<Longrightarrow> untouched n w w' \<and> same_fds w w' \<and> dirs w' = dirs w \<and>
     files w' = files w \<and> stdout_bytes w' = stdout_bytes w"
  using ask_frame [of w _ w' n] by (auto simp: c_malloc_def Let_def split: prod.splits)

lemma sys_mkdir_frame:
  "sys_mkdir p w = (e, w') \<Longrightarrow> untouched n w w' \<and> same_fds w w' \<and> files w' = files w \<and>
     dirs w \<subseteq> dirs w' \<and> stdout_bytes w' = stdout_bytes w"
  by (auto simp: sys_mkdir_def ask_def untouched_def same_fds_def Let_def split: verdict.splits if_splits)

lemma sys_mkdir_result:
  "sys_mkdir p w = (e, w') \<Longrightarrow> e = E_NONE \<or> e = EEXIST \<Longrightarrow>
     dir_exists w' (node_of p) \<or> files w' (node_of p) \<noteq> None"
  by (auto simp: sys_mkdir_def ask_def dir_exists_def Let_def split: verdict.splits if_splits)

lemma sys_open_Some:
  assumes "sys_open p w = (Some fd, w')" "world_ok w"
  shows "fds w' = (fd, To_File (node_of p)) # fds w" "map_of (fds w') fd = Some (To_File (node_of p))"
    "files w' = (files w)(node_of p \<mapsto> [])" "world_ok w'" "fd \<notin> fst ` set (fds w)"
    "dirs w' = dirs w" "stdout_bytes w' = stdout_bytes w" "n \<noteq> node_of p \<Longrightarrow> untouched n w w'"
    "verdicts w' = verdicts w"
  using assms
  by (force simp: sys_open_def ask_def Let_def world_ok_def untouched_def split: if_splits)+

lemma sys_open_None:
  "sys_open p w = (None, w') \<Longrightarrow> untouched n w w' \<and> same_fds w w' \<and> dirs w' = dirs w \<and>
     files w' = files w \<and> stdout_bytes w' = stdout_bytes w"
  by (auto simp: sys_open_def ask_def Let_def untouched_def same_fds_def split: if_splits)

lemma append_to_File:
  "files w m = Some old \<Longrightarrow> append_to (To_File m) bs w = w\<lparr>files := (files w)(m \<mapsto> old @ bs)\<rparr>"
  by (simp add: append_to_def)

lemma sys_fsync_frame:
  "sys_fsync fd w = (b, w') \<Longrightarrow> map_of (fds w) fd = Some (To_File m) \<Longrightarrow>
     same_fds w w' \<and> files w' = files w \<and> dirs w' = dirs w \<and> stdout_bytes w' = stdout_bytes w \<and>
     (b \<longrightarrow> durable w' m = files w m) \<and> (n \<noteq> m \<longrightarrow> untouched n w w')"
  by (auto simp: sys_fsync_def ask_def Let_def untouched_def same_fds_def split: if_splits)

lemma filter_absent: "map_of xs k = None \<Longrightarrow> filter (\<lambda>(j, _). j \<noteq> k) xs = xs"
  by (rule filter_True) (force simp: map_of_eq_None_iff)

lemma sys_close_frame:
  "sys_close fd w = (b, w') \<Longrightarrow> untouched n w w' \<and> files w' = files w \<and> durable w' = durable w \<and>
     dirs w' = dirs w \<and> stdout_bytes w' = stdout_bytes w \<and>
     fds w' = filter (\<lambda>(k, _). k \<noteq> fd) (fds w) \<and> (world_ok w \<longrightarrow> world_ok w') \<and> verdicts w' = verdicts w"
  using filter_absent [of "fds w" fd]
  by (fastforce simp: sys_close_def ask_def Let_def untouched_def world_ok_def split: if_splits)

lemma sys_rename_frame:
  "sys_rename a b w = (r, w') \<Longrightarrow> same_fds w w' \<and> dirs w' = dirs w \<and> stdout_bytes w' = stdout_bytes w \<and>
     (n \<noteq> node_of a \<longrightarrow> n \<noteq> node_of b \<longrightarrow> untouched n w w') \<and>
     (\<not> r \<longrightarrow> untouched n w w') \<and>
     (r \<longrightarrow> node_of a \<noteq> node_of b \<longrightarrow> files w' (node_of b) = files w (node_of a) \<and>
        durable w' (node_of b) = durable w (node_of a) \<and> files w' (node_of a) = None \<and>
        hist w' = files w # hist w)"
  by (auto simp: sys_rename_def ask_def Let_def untouched_def same_fds_def split: if_splits)

lemma sys_unlink_frame:
  "sys_unlink p w = (r, w') \<Longrightarrow> same_fds w w' \<and> dirs w' = dirs w \<and> stdout_bytes w' = stdout_bytes w \<and>
     (n \<noteq> node_of p \<longrightarrow> untouched n w w') \<and>
     (\<not> r \<longrightarrow> untouched n w w') \<and> (r \<longrightarrow> files w' (node_of p) = None) \<and> hist w' = files w # hist w"
  by (auto simp: sys_unlink_def ask_def Let_def untouched_def same_fds_def split: if_splits)

end
