(* ===== verification/Files.thy ===== *)
theory Files
  imports Posix
begin

text \<open>
  The two file helpers every writer of the listener rests on: \<^verbatim>\<open>write_all\<close>, which loops over
  short and interrupted writes, and \<^verbatim>\<open>ensure_parent_dir\<close>, which creates the directories on
  the way to a path.  The relation \<open>wrote\<close> says what a piece of output did to the world and
  composes along concatenation; the relation \<open>replaces\<close> is the contract of an atomic
  replacement of a file, which the WAV writer and the capture status writer both promise.
\<close>

declare split_paired_All [simp del] split_paired_Ex [simp del]

section \<open>Output to a target\<close>

fun target_bytes :: "fd_target \<Rightarrow> world \<Rightarrow> u8 list option" where
  "target_bytes (To_File n) w = files w n"
| "target_bytes To_Stdout w = Some (stdout_bytes w)"
| "target_bytes To_Pipe w = Some (pipe_bytes w)"

text \<open>\<open>wrote t bs w w'\<close>: from \<open>w\<close> to \<open>w'\<close> exactly the bytes \<open>bs\<close> were added to \<open>t\<close>, and nothing
  else changed.\<close>

definition wrote :: "fd_target \<Rightarrow> u8 list \<Rightarrow> world \<Rightarrow> world \<Rightarrow> bool" where
  "wrote t bs w w' \<longleftrightarrow> same_fds w w' \<and> dirs w' = dirs w \<and>
     target_bytes t w' = map_option (\<lambda>old. old @ bs) (target_bytes t w) \<and>
     (\<forall>t'. t' \<noteq> t \<longrightarrow> target_bytes t' w' = target_bytes t' w) \<and>
     (\<forall>n. t \<noteq> To_File n \<longrightarrow> untouched n w w')"

lemma wrote_nil [simp]: "wrote t [] w w"
  by (simp add: wrote_def option.map_ident)

lemma wrote_trans:
  assumes "wrote t a u v" "wrote t b v w"
  shows "wrote t (a @ b) u w"
proof -
  have "target_bytes t w = map_option (\<lambda>old. old @ a @ b) (target_bytes t u)"
    using assms by (simp add: wrote_def option.map_comp comp_def)
  moreover have "same_fds u w" "\<forall>n. t \<noteq> To_File n \<longrightarrow> untouched n u w"
    using assms unfolding wrote_def by (blast intro: same_fds_trans untouched_trans)+
  ultimately show ?thesis using assms unfolding wrote_def by simp
qed

lemma target_ask: "ask w = (v, w') \<Longrightarrow> target_bytes t w' = target_bytes t w"
  by (cases t) (auto dest: ask_frame)

lemma wrote_ask: "ask w = (v, w') \<Longrightarrow> wrote t [] w w'"
  using target_ask [of w v w'] ask_frame [of w v w']
  by (auto simp: wrote_def option.map_ident)

lemma target_eqI: "\<forall>t'. t' \<noteq> To_File n \<longrightarrow> target_bytes t' w' = target_bytes t' w \<Longrightarrow>
    stdout_bytes w' = stdout_bytes w \<and> pipe_bytes w' = pipe_bytes w"
  by (metis fd_target.distinct(1) fd_target.distinct(3) option.inject target_bytes.simps(2,3))

lemma wrote_append:
  assumes "target_bytes t w \<noteq> None" shows "wrote t bs w (append_to t bs w)"
proof (cases t)
  case (To_File n)
  then obtain old where old: "files w n = Some old" using assms by auto
  have "target_bytes t' (append_to t bs w) = target_bytes t' w" if "t' \<noteq> t" for t'
    using that To_File old by (cases t') (auto simp: append_to_def)
  then show ?thesis
    using To_File old by (auto simp: wrote_def append_to_def same_fds_def untouched_def)
next
  case To_Stdout
  have "target_bytes t' (append_to t bs w) = target_bytes t' w" if "t' \<noteq> t" for t'
    using that To_Stdout by (cases t') (auto simp: append_to_def)
  then show ?thesis using To_Stdout by (auto simp: wrote_def append_to_def same_fds_def untouched_def)
next
  case To_Pipe
  have "target_bytes t' (append_to t bs w) = target_bytes t' w" if "t' \<noteq> t" for t'
    using that To_Pipe by (cases t') (auto simp: append_to_def)
  then show ?thesis using To_Pipe by (auto simp: wrote_def append_to_def same_fds_def untouched_def)
qed

lemma wrote_live: "wrote t bs w w' \<Longrightarrow> target_bytes t w \<noteq> None \<Longrightarrow> target_bytes t w' \<noteq> None"
  by (auto simp: wrote_def)

lemma wrote_fds: "wrote t bs w w' \<Longrightarrow> fds w' = fds w"
  by (simp add: wrote_def same_fds_def)

lemma wrote_verdicts: "wrote t bs w w' \<Longrightarrow> verdicts w' = verdicts w"
  by (simp add: wrote_def same_fds_def)

text \<open>A descriptor is open on a target that exists.\<close>

definition open_on :: "nat \<Rightarrow> fd_target \<Rightarrow> world \<Rightarrow> bool" where
  "open_on fd t w \<longleftrightarrow> map_of (fds w) fd = Some t \<and> target_bytes t w \<noteq> None"

lemma open_on_wrote: "open_on fd t w \<Longrightarrow> wrote t bs w w' \<Longrightarrow> open_on fd t w'"
  by (auto simp: open_on_def wrote_fds dest: wrote_live)

lemma open_on_ask: "open_on fd t w \<Longrightarrow> ask w = (v, w') \<Longrightarrow> open_on fd t w'"
  by (rule open_on_wrote) (auto intro: wrote_ask)

section \<open>write_all\<close>

partial_function (option) write_loop :: "nat \<Rightarrow> u8 list \<Rightarrow> nat \<Rightarrow> world \<Rightarrow> (int \<times> world) option" where
  "write_loop fd buffer written w =
     (if written < length buffer then
        (case sys_write fd (drop written buffer) w of (result, errno, w) \<Rightarrow>
           if result < 0 then (if errno = EINTR then write_loop fd buffer written w else Some (- 1, w))
           else write_loop fd buffer (written + nat result) w)
      else Some (int written, w))"

declare write_loop.simps [code]

definition write_all :: "nat \<Rightarrow> u8 list \<Rightarrow> world \<Rightarrow> (int \<times> world) option" where
  "write_all fd buffer w = write_loop fd buffer 0 w"

lemma sys_write_cases:
  assumes "sys_write fd bs w = (r, e, w')" "open_on fd t w"
  obtains (error) "r = - 1" "wrote t [] w w'" "e = EINTR \<longleftrightarrow> verdicts w (tick w) = Intr"
      "verdicts w (tick w) = Intr \<or> verdicts w (tick w) = Fail"
  | (progress) n where "r = int n" "n \<le> length bs" "wrote t (take n bs) w w'"
      "verdicts w (tick w) = Short n \<or> verdicts w (tick w) = Ok \<and> n = length bs \<or>
       (\<exists>k > length bs. verdicts w (tick w) = Short k \<and> n = length bs)"
proof -
  obtain v u where ask: "ask w = (v, u)" by force
  have u: "open_on fd t u" "wrote t [] w u" "v = verdicts w (tick w)"
    using ask assms(2) by (auto intro: open_on_ask wrote_ask dest: ask_frame)
  have app: "wrote t x w (append_to t x u)" for x
    using wrote_trans [OF u(2) wrote_append, of x] u(1) by (simp add: open_on_def)
  have map: "map_of (fds u) fd = Some t" using u(1) by (simp add: open_on_def)
  show ?thesis
  proof (cases v)
    case Ok
    then show ?thesis using assms(1) ask u app [of bs] map
      by (intro progress [of "length bs"]) (auto simp: sys_write_def)
  next
    case (Short k)
    then show ?thesis using assms(1) ask u app [of "take k bs"] map
      by (intro progress [of "min k (length bs)"]) (auto simp: sys_write_def min_def)
  qed (use assms(1) ask u map in \<open>auto simp: sys_write_def intro!: error\<close>)
qed

text \<open>What \<^verbatim>\<open>write_all\<close> does: everything, or a proper prefix and an error.\<close>

lemma write_loop_outcome:
  assumes "write_loop fd buffer written w = Some y"
  shows "open_on fd t w \<longrightarrow> written \<le> length buffer \<longrightarrow>
     (fst y = int (length buffer) \<and> wrote t (drop written buffer) w (snd y) \<or>
      fst y = - 1 \<and> (\<exists>n. written + n < length buffer \<and> wrote t (take n (drop written buffer)) w (snd y)))"
proof (rule write_loop.raw_induct [OF _ assms], intro impI)
  fix loop fd buffer written w y
  assume IH: "\<And>fd buffer written w y. loop fd buffer written w = Some y \<Longrightarrow>
      open_on fd t w \<longrightarrow> written \<le> length buffer \<longrightarrow>
      (fst y = int (length buffer) \<and> wrote t (drop written buffer) w (snd y) \<or>
       fst y = - 1 \<and> (\<exists>n. written + n < length buffer \<and> wrote t (take n (drop written buffer)) w (snd y)))"
    and step: "(if written < length buffer then
        (case sys_write fd (drop written buffer) w of (result, errno, w) \<Rightarrow>
           if result < 0 then (if errno = EINTR then loop fd buffer written w else Some (- 1, w))
           else loop fd buffer (written + nat result) w)
      else Some (int written, w)) = Some y"
    and live: "open_on fd t w" and le: "written \<le> length buffer"
  let ?rest = "drop written buffer"
  let ?goal = "\<lambda>w. fst y = int (length buffer) \<and> wrote t ?rest w (snd y) \<or>
      fst y = - 1 \<and> (\<exists>n. written + n < length buffer \<and> wrote t (take n ?rest) w (snd y))"
  show "?goal w"
  proof (cases "written < length buffer")
    case False
    then show ?thesis using step le by auto
  next
    case True
    obtain r e v where wr: "sys_write fd ?rest w = (r, e, v)" by (metis prod_cases3)
    from wr live show ?thesis
    proof (cases rule: sys_write_cases)
      case error
      have pre: "wrote t x v z \<Longrightarrow> wrote t x w z" for x z using wrote_trans [OF error(2)] by simp
      show ?thesis
      proof (cases "e = EINTR")
        case True
        then have "loop fd buffer written v = Some y" using step wr error \<open>written < length buffer\<close> by simp
        from IH [OF this] have "?goal v" using le open_on_wrote [OF live error(2)] by blast
        then show ?thesis using pre by blast
      next
        case False
        then have "y = (- 1, v)" using step wr error \<open>written < length buffer\<close> by simp
        then show ?thesis using error(2) \<open>written < length buffer\<close>
          by (auto intro!: exI [of _ 0])
      qed
    next
      case (progress n)
      have pre: "wrote t x v z \<Longrightarrow> wrote t (take n ?rest @ x) w z" for x z
        using wrote_trans [OF progress(3)] .
      have "loop fd buffer (written + n) v = Some y" using step wr progress True by simp
      from IH [OF this] have
        "fst y = int (length buffer) \<and> wrote t (drop (written + n) buffer) v (snd y) \<or>
         fst y = - 1 \<and> (\<exists>m. written + n + m < length buffer \<and>
            wrote t (take m (drop (written + n) buffer)) v (snd y))"
        using le progress(2) open_on_wrote [OF live progress(3)] by auto
      moreover have "take n ?rest @ drop (written + n) buffer = ?rest"
        by (metis add.commute append_take_drop_id drop_drop)
      moreover have "take n ?rest @ take m (drop (written + n) buffer) = take (n + m) ?rest" for m
        by (simp add: take_add drop_drop add.commute [of written])
      ultimately show ?thesis using pre by (metis add.assoc)
    qed
  qed
qed

lemma write_all_spec:
  assumes "write_all fd buffer w = Some (r, w')" "open_on fd t w"
  shows "r = int (length buffer) \<and> wrote t buffer w w' \<or>
     r = - 1 \<and> (\<exists>n < length buffer. wrote t (take n buffer) w w')"
  using write_loop_outcome [of fd buffer 0 w "(r, w')" t] assms by (auto simp: write_all_def)

text \<open>It returns whenever the system eventually answers with something other than \<^verbatim>\<open>EINTR\<close> or a
  write of nothing.\<close>

definition makes_progress :: "verdict \<Rightarrow> bool" where
  "makes_progress v \<longleftrightarrow> v \<noteq> Intr \<and> v \<noteq> Short 0"

definition fair :: "world \<Rightarrow> bool" where
  "fair w \<longleftrightarrow> (\<forall>i. \<exists>j \<ge> i. makes_progress (verdicts w j))"

lemma wrote_fair: "wrote t bs w w' \<Longrightarrow> fair w \<Longrightarrow> fair w'"
  by (simp add: wrote_def same_fds_def fair_def)

lemma sys_write_tick: "sys_write fd bs w = (r, e, w') \<Longrightarrow> tick w' = Suc (tick w)"
  by (auto simp: sys_write_def ask_def append_to_def split: option.splits verdict.splits fd_target.splits)

lemma write_loop_step:
  assumes "open_on fd t w" "written < length buffer"
  obtains (error) w' where "write_loop fd buffer written w = Some (- 1, w')"
  | (retry) v where "write_loop fd buffer written w = write_loop fd buffer written v"
      "wrote t [] w v" "tick v = Suc (tick w)" "\<not> makes_progress (verdicts w (tick w))"
  | (more) n v where "write_loop fd buffer written w = write_loop fd buffer (written + n) v"
      "0 < n" "written + n \<le> length buffer" "wrote t (take n (drop written buffer)) w v"
proof -
  let ?rest = "drop written buffer"
  obtain r e v where wr: "sys_write fd ?rest w = (r, e, v)" by (metis prod_cases3)
  have tick: "tick v = Suc (tick w)" by (rule sys_write_tick [OF wr])
  note unfold = write_loop.simps [of fd buffer written w]
  from wr assms(1) show ?thesis
  proof (cases rule: sys_write_cases)
    case error
    then show ?thesis
      using wr assms(2) tick unfold that(1) that(2) by (cases "e = EINTR") (auto simp: makes_progress_def)
  next
    case (progress n)
    then have eq: "write_loop fd buffer written w = write_loop fd buffer (written + n) v"
      using wr assms(2) unfold by simp
    show ?thesis
    proof (cases "n = 0")
      case True
      then show ?thesis using progress assms(2) tick that(2) eq by (auto simp: makes_progress_def)
    next
      case False
      then show ?thesis using progress assms(2) that(3) eq by auto
    qed
  qed
qed

lemma write_loop_returns:
  assumes "open_on fd t w" "fair w" "written \<le> length buffer"
  shows "write_loop fd buffer written w \<noteq> None"
  using assms
proof (induction "length buffer - written" arbitrary: written w rule: less_induct)
  case less
  have "write_loop fd buffer written u \<noteq> None"
    if "open_on fd t u" "fair u" "tick u \<le> j" "makes_progress (verdicts u j)" "d = j - tick u" for u j d
    using that
  proof (induction d arbitrary: u)
    case (0 u)
    show ?case
    proof (cases "written < length buffer")
      case True
      from \<open>open_on fd t u\<close> True show ?thesis
      proof (cases rule: write_loop_step)
        case (more n v)
        then show ?thesis using less.hyps [of "written + n" v] True 0 open_on_wrote wrote_fair
          by (metis add_gr_0 diff_less_mono2 less_add_same_cancel1)
      qed (use 0 in auto)
    qed (simp add: write_loop.simps)
  next
    case (Suc d u)
    show ?case
    proof (cases "written < length buffer")
      case True
      from \<open>open_on fd t u\<close> True show ?thesis
      proof (cases rule: write_loop_step)
        case (more n v)
        then show ?thesis using less.hyps [of "written + n" v] True Suc.prems open_on_wrote wrote_fair
          by (metis add_gr_0 diff_less_mono2 less_add_same_cancel1)
      next
        case (retry v)
        have "open_on fd t v" "fair v" "verdicts v = verdicts u"
          using open_on_wrote [OF Suc.prems(1) retry(2)] wrote_fair [OF retry(2) Suc.prems(2)]
            wrote_verdicts [OF retry(2)] by simp_all
        then show ?thesis using Suc.IH [of v] Suc.prems retry by simp
      qed auto
    qed (simp add: write_loop.simps)
  qed
  moreover obtain j where "tick w \<le> j" "makes_progress (verdicts w j)"
    using less.prems(2) by (auto simp: fair_def)
  ultimately show ?case using less.prems by blast
qed

text \<open>
Property C12. When the system eventually answers with a real result, write_all returns; it
returns the length and has appended exactly the buffer to the descriptor's target, or it
returns -1 and has appended a proper prefix; nothing else of the world changes.\<close>

theorem write_all_correct:
  assumes "open_on fd t w" "fair w"
  shows "\<exists>r w'. write_all fd buffer w = Some (r, w') \<and>
     (r = int (length buffer) \<and> wrote t buffer w w' \<or>
      r = - 1 \<and> (\<exists>n < length buffer. wrote t (take n buffer) w w'))"
proof -
  obtain r w' where "write_all fd buffer w = Some (r, w')"
    using write_loop_returns [OF assms, of 0 buffer] by (force simp: write_all_def)
  with write_all_spec [OF this assms(1)] show ?thesis by blast
qed

lemma write_all_total:
  assumes "open_on fd t w" "fair w"
  obtains r w' where "write_all fd buffer w = Some (r, w')"
  using write_loop_returns [OF assms, of 0 buffer] by (force simp: write_all_def)

definition tty_world :: "(nat \<Rightarrow> verdict) \<Rightarrow> world" where
  "tty_world vs = \<lparr>files = \<lambda>_. None, durable = \<lambda>_. None, dirs = {}, fds = [(1, To_Stdout)],
     stdout_bytes = [], pipe_bytes = [], hist = [], tick = 0, verdicts = vs\<rparr>"

theorem write_all_correct_witness:
  "\<exists>r w'. write_all 1 [104, 105, 10] (tty_world (\<lambda>i. [Intr, Short 1, Short 0] ! (i mod 3))) = Some (r, w') \<and>
     (r = int (length [104, 105, 10 :: u8]) \<and>
        wrote To_Stdout [104, 105, 10] (tty_world (\<lambda>i. [Intr, Short 1, Short 0] ! (i mod 3))) w' \<or>
      r = - 1 \<and> (\<exists>n < length [104, 105, 10 :: u8].
        wrote To_Stdout (take n [104, 105, 10]) (tty_world (\<lambda>i. [Intr, Short 1, Short 0] ! (i mod 3))) w'))"
proof (rule write_all_correct)
  show "open_on 1 To_Stdout (tty_world (\<lambda>i. [Intr, Short 1, Short 0] ! (i mod 3)))"
    by (simp add: open_on_def tty_world_def)
  have "makes_progress ([Intr, Short 1, Short 0] ! ((3 * i + 1) mod 3))" for i
    by (simp add: makes_progress_def)
  moreover have "i \<le> 3 * i + 1" for i :: nat by simp
  ultimately show "fair (tty_world (\<lambda>i. [Intr, Short 1, Short 0] ! (i mod 3)))"
    unfolding fair_def tty_world_def by (metis (lifting) world.select_convs(9))
qed

section \<open>ensure_parent_dir\<close>

text \<open>\<^verbatim>\<open>strrchr(s, c)\<close> as an index.\<close>

fun strrchr :: "string \<Rightarrow> char \<Rightarrow> nat option" where
  "strrchr [] c = None"
| "strrchr (x # s) c = (case strrchr s c of Some i \<Rightarrow> Some (Suc i) | None \<Rightarrow> if x = c then Some 0 else None)"

text \<open>The loop over the separators of \<^verbatim>\<open>directory\<close>: the terminator written at \<^verbatim>\<open>i\<close> makes
  \<^verbatim>\<open>mkdir\<close> see the first \<^verbatim>\<open>i\<close> characters, and the separator is put back.\<close>

fun mkdir_prefixes :: "string \<Rightarrow> nat list \<Rightarrow> world \<Rightarrow> int \<times> world" where
  "mkdir_prefixes directory [] w = (0, w)"
| "mkdir_prefixes directory (i # is) w =
     (if directory ! i \<noteq> CHR ''/'' then mkdir_prefixes directory is w
      else (case sys_mkdir (take i directory) w of (e, w) \<Rightarrow>
        if e \<noteq> E_NONE \<and> e \<noteq> EEXIST then (- 1, w) else mkdir_prefixes directory is w))"

definition ensure_parent_dir :: "string ptr \<Rightarrow> world \<Rightarrow> int \<times> world" where
  "ensure_parent_dir path w = (case path of None \<Rightarrow> (- 1, w) | Some path \<Rightarrow>
     if path = [] then (- 1, w)
     else (let (directory, n) = snprintf 4096 path in
       if n < 0 then (- 1, w)
       else (case strrchr directory CHR ''/'' of
           None \<Rightarrow> (0, w)
         | Some slash \<Rightarrow> (let directory = take slash directory in
             if directory = [] then (0, w)
             else (case mkdir_prefixes directory [1..<length directory] w of (r, w) \<Rightarrow>
               if r < 0 then (- 1, w)
               else (case sys_mkdir directory w of (e, w) \<Rightarrow>
                 if e \<noteq> E_NONE \<and> e \<noteq> EEXIST then (- 1, w) else (0, w)))))))"

text \<open>It never touches a file.\<close>

definition only_dirs :: "world \<Rightarrow> world \<Rightarrow> bool" where
  "only_dirs w w' \<longleftrightarrow> same_fds w w' \<and> files w' = files w \<and> dirs w \<subseteq> dirs w' \<and>
     stdout_bytes w' = stdout_bytes w \<and> pipe_bytes w' = pipe_bytes w \<and> (\<forall>n. untouched n w w')"

lemma only_dirs_refl [simp]: "only_dirs w w"
  by (simp add: only_dirs_def)

lemma only_dirs_trans: "only_dirs u v \<Longrightarrow> only_dirs v w \<Longrightarrow> only_dirs u w"
  unfolding only_dirs_def by (auto intro: untouched_trans same_fds_trans)

lemma sys_mkdir_only_dirs: "sys_mkdir p w = (e, w') \<Longrightarrow> only_dirs w w'"
  by (auto simp: sys_mkdir_def ask_def untouched_def same_fds_def only_dirs_def Let_def
      split: verdict.splits if_splits)

lemma mkdir_prefixes_only_dirs: "mkdir_prefixes d is w = (r, w') \<Longrightarrow> only_dirs w w'"
  by (induction "is" arbitrary: w)
    (auto split: if_splits prod.splits intro: only_dirs_trans dest: sys_mkdir_only_dirs)

lemma ensure_parent_dir_only_dirs: "ensure_parent_dir p w = (r, w') \<Longrightarrow> only_dirs w w'"
  unfolding ensure_parent_dir_def
  by (auto simp: Let_def split: option.splits if_splits prod.splits
      dest!: sys_mkdir_only_dirs mkdir_prefixes_only_dirs intro: only_dirs_trans)

lemma ensure_parent_dir_result: "ensure_parent_dir p w = (r, w') \<Longrightarrow> r = 0 \<or> r = - 1"
  unfolding ensure_parent_dir_def by (auto simp: Let_def split: option.splits if_splits prod.splits)

subsection \<open>Paths and their nodes\<close>

lemma split_slash_ne [simp]: "split_slash s \<noteq> []"
  by (cases s) (auto split: list.splits)

lemma split_slash_append: "split_slash (a @ CHR ''/'' # b) = split_slash a @ split_slash b"
  by (induction a) (auto split: list.splits)

lemma split_slash_none: "CHR ''/'' \<notin> set s \<Longrightarrow> split_slash s = [s]"
  by (induction s) auto

lemma strrchr_None: "strrchr s c = None \<longleftrightarrow> c \<notin> set s"
  by (induction s) (auto split: option.splits)

lemma strrchr_Some: "strrchr s c = Some i \<Longrightarrow> \<exists>a b. s = a @ c # b \<and> c \<notin> set b \<and> length a = i"
proof (induction s arbitrary: i)
  case (Cons x s)
  show ?case
  proof (cases "strrchr s c")
    case None
    then have "x = c" "i = 0" using Cons.prems by (auto split: if_splits)
    moreover have "c \<notin> set s" using None by (simp add: strrchr_None)
    ultimately show ?thesis by (auto intro!: exI [of _ "[]"])
  next
    case (Some j)
    then obtain a b where "s = a @ c # b" "c \<notin> set b" "length a = j" using Cons.IH by blast
    then have "x # s = (x # a) @ c # b \<and> c \<notin> set b \<and> length (x # a) = i" using Cons.prems Some by simp
    then show ?thesis by blast
  qed
qed simp

text \<open>Appending a suffix without a separator gives another node, in the same directory.\<close>

lemma split_slash_suffix:
  "CHR ''/'' \<notin> set s \<Longrightarrow> split_slash (p @ s) = butlast (split_slash p) @ [last (split_slash p) @ s]"
proof (induction p)
  case (Cons c p)
  have "split_slash p \<noteq> []" by simp
  with Cons show ?case by (auto split: list.splits)
qed (simp add: split_slash_none)

lemma node_of_suffix:
  assumes "CHR ''/'' \<notin> set s" "1 < length s"
  shows "node_of (p @ s) \<noteq> node_of p"
proof -
  let ?real = "\<lambda>x. x \<noteq> [] \<and> x \<noteq> ''.''"
  obtain b l where split: "split_slash p = b @ [l]" by (metis append_butlast_last_id split_slash_ne)
  have real: "?real (l @ s)" using assms(2) by (cases l) (auto simp: Suc_lessI)
  have "snd (node_of p) = filter ?real b @ (if ?real l then [l] else [])"
    by (simp add: node_of_def split)
  moreover have "snd (node_of (p @ s)) = filter ?real b @ [l @ s]"
    using real by (auto simp: node_of_def split_slash_suffix [OF assms(1)] split)
  ultimately have "snd (node_of p) \<noteq> snd (node_of (p @ s))" using assms(2) by auto
  then show ?thesis by metis
qed

lemma strrchr_last: "c \<notin> set b \<Longrightarrow> strrchr (a @ c # b) c = Some (length a)"
proof (induction a)
  case Nil
  then have "strrchr b c = None" by (simp add: strrchr_None)
  then show ?case by simp
qed simp

subsection \<open>The directories it creates\<close>

definition components :: "string \<Rightarrow> string list" where
  "components s = filter (\<lambda>x. x \<noteq> [] \<and> x \<noteq> ''.'') (split_slash s)"

lemma node_of_components: "node_of s = (s \<noteq> [] \<and> hd s = CHR ''/'', components s)"
  by (simp add: node_of_def components_def)

lemma components_join: "components (a @ CHR ''/'' # b) = components a @ components b"
  by (simp add: components_def split_slash_append)

lemma components_plain: "CHR ''/'' \<notin> set b \<Longrightarrow> components b = (if b = [] \<or> b = ''.'' then [] else [b])"
  by (simp add: components_def split_slash_none)

lemma parent_node_join:
  assumes "a \<noteq> []" "CHR ''/'' \<notin> set b"
  shows "node_of (a @ CHR ''/'' # b) = node_of a \<or> parent_node (node_of (a @ CHR ''/'' # b)) = node_of a"
    "b \<noteq> [] \<Longrightarrow> b \<noteq> ''.'' \<Longrightarrow> parent_node (node_of (a @ CHR ''/'' # b)) = node_of a"
  using assms by (auto simp: node_of_components components_join components_plain parent_node_def)

lemma dir_exists_mono: "only_dirs w w' \<Longrightarrow> dir_exists w n \<Longrightarrow> dir_exists w' n"
  by (auto simp: only_dirs_def dir_exists_def)

text \<open>\<open>prefixes_exist d w\<close>: the directories named by the separators of \<open>d\<close> exist.\<close>

definition prefixes_exist :: "string \<Rightarrow> world \<Rightarrow> bool" where
  "prefixes_exist d w \<longleftrightarrow> (\<forall>i < length d. 0 < i \<longrightarrow> d ! i = CHR ''/'' \<longrightarrow> dir_exists w (node_of (take i d)))"

lemma parent_exists:
  assumes "prefixes_exist d w"
  shows "dir_exists w (parent_node (node_of d)) \<or> dir_exists w (node_of d)"
proof (cases "strrchr d CHR ''/''")
  case None
  then show ?thesis
    by (auto simp: strrchr_None node_of_components components_plain parent_node_def dir_exists_def)
next
  case (Some i)
  then obtain a b where d: "d = a @ CHR ''/'' # b" "CHR ''/'' \<notin> set b" "length a = i"
    using strrchr_Some by blast
  show ?thesis
  proof (cases "a = []")
    case True
    then show ?thesis using d components_join [of "[]" b]
      by (auto simp: node_of_components components_plain parent_node_def dir_exists_def)
  next
    case False
    then have "dir_exists w (node_of (take (length a) d))"
      using assms d by (intro prefixes_exist_def [THEN iffD1, rule_format]) auto
    then have "dir_exists w (node_of a)" using d(1) by simp
    then show ?thesis using parent_node_join(1) [OF False d(2)] d(1) by auto
  qed
qed

lemma sys_mkdir_creates:
  assumes "verdicts w = (\<lambda>_. Ok)" "files w (node_of p) = None" "prefixes_exist p w"
  obtains e w' where "sys_mkdir p w = (e, w')" "e = E_NONE \<or> e = EEXIST" "dir_exists w' (node_of p)"
proof -
  obtain e w' where mk: "sys_mkdir p w = (e, w')" by force
  have "e = E_NONE \<or> e = EEXIST" using mk assms parent_exists [OF assms(3)]
    by (auto simp: sys_mkdir_def ask_def Let_def dir_exists_def split: if_splits)
  moreover have "files w' = files w" using sys_mkdir_only_dirs [OF mk] by (simp add: only_dirs_def)
  ultimately show ?thesis using that sys_mkdir_result [OF mk] mk assms(2) by auto
qed

lemma prefixes_exist_mono: "only_dirs w w' \<Longrightarrow> prefixes_exist d w \<Longrightarrow> prefixes_exist d w'"
  by (auto simp: prefixes_exist_def intro: dir_exists_mono)

lemma mkdir_prefixes_creates:
  assumes "verdicts w = (\<lambda>_. Ok)" "\<forall>i \<le> length d. files w (node_of (take i d)) = None"
    "prefixes_exist (take k d) w" "0 < k" "k \<le> length d"
  shows "\<exists>w'. mkdir_prefixes d [k..<length d] w = (0, w') \<and> prefixes_exist d w'"
  using assms
proof (induction "length d - k" arbitrary: k w)
  case 0
  then show ?case by (simp add: upt_conv_Nil)
next
  case (Suc m)
  then have k: "k < length d" by simp
  have range: "[k..<length d] = k # [Suc k..<length d]" using k by (simp add: upt_conv_Cons)
  have next': "prefixes_exist (take (Suc k) d) w'"
    if "prefixes_exist (take k d) w'" "d ! k = CHR ''/'' \<longrightarrow> dir_exists w' (node_of (take k d))" for w'
    unfolding prefixes_exist_def
  proof (intro allI impI)
    fix i assume i: "i < length (take (Suc k) d)" "0 < i" "take (Suc k) d ! i = CHR ''/''"
    have le: "i \<le> k" "d ! i = CHR ''/''" "take i (take (Suc k) d) = take i d" using i k by auto
    show "dir_exists w' (node_of (take i (take (Suc k) d)))"
    proof (cases "i = k")
      case True
      then show ?thesis using that(2) le by simp
    next
      case False
      then have "i < k" using le by simp
      then show ?thesis using that(1) i le k
        by (auto simp: prefixes_exist_def dest!: spec [of _ i])
    qed
  qed
  show ?case
  proof (cases "d ! k = CHR ''/''")
    case False
    then show ?thesis using Suc.hyps(1) [of "Suc k" w] Suc.hyps(2) Suc.prems k next' range by simp
  next
    case True
    have "files w (node_of (take k d)) = None" using Suc.prems by simp
    from sys_mkdir_creates [OF Suc.prems(1) this Suc.prems(3)] obtain e w'
      where mk: "sys_mkdir (take k d) w = (e, w')" "e = E_NONE \<or> e = EEXIST" "dir_exists w' (node_of (take k d))" .
    have only: "only_dirs w w'" by (rule sys_mkdir_only_dirs [OF mk(1)])
    then have "files w' = files w" "verdicts w' = verdicts w" by (auto simp: only_dirs_def same_fds_def)
    then show ?thesis
      using Suc.hyps(1) [of "Suc k" w'] Suc.hyps(2) Suc.prems k mk True range
        next' [OF prefixes_exist_mono [OF only Suc.prems(3)]] by auto
  qed
qed

lemma components_suffix:
  assumes "CHR ''/'' \<notin> set s"
  shows "length (components p) \<le> length (components (p @ s))"
proof -
  let ?real = "\<lambda>x. x \<noteq> [] \<and> x \<noteq> ''.''"
  obtain b l where split: "split_slash p = b @ [l]" by (metis append_butlast_last_id split_slash_ne)
  have "?real l \<Longrightarrow> ?real (l @ s)" by (cases l) auto
  then show ?thesis by (auto simp: components_def split_slash_suffix [OF assms] split)
qed

lemma components_append: "length (components p) \<le> length (components (p @ s))"
proof (cases "CHR ''/'' \<in> set s")
  case True
  then obtain a b where "s = a @ CHR ''/'' # b" "CHR ''/'' \<notin> set a" by (meson split_list_first)
  then show ?thesis using components_suffix [of a p] components_join [of "p @ a" b] by simp
qed (rule components_suffix)

lemma sys_mkdir_dirs: "sys_mkdir p w = (e, w') \<Longrightarrow> dirs w' \<subseteq> insert (node_of p) (dirs w)"
  by (auto simp: sys_mkdir_def ask_def Let_def split: verdict.splits if_splits)

lemma mkdir_prefixes_dirs:
  "mkdir_prefixes d is w = (r, w') \<Longrightarrow> dirs w' \<subseteq> dirs w \<union> (\<lambda>i. node_of (take i d)) ` set is"
  by (induction "is" arbitrary: w) (fastforce split: if_splits prod.splits dest: sys_mkdir_dirs)+

text \<open>The directories it makes are all on the way to the file.\<close>

lemma ensure_parent_dir_dirs:
  assumes "ensure_parent_dir (Some (dir @ CHR ''/'' # base)) w = (r, w')" "CHR ''/'' \<notin> set base"
    "length (dir @ CHR ''/'' # base) < 4096"
  shows "dirs w' \<subseteq> dirs w \<union> {n. length (snd n) \<le> length (components dir)}"
proof -
  let ?p = "dir @ CHR ''/'' # base"
  have snp: "snprintf 4096 ?p = (?p, int (length ?p))"
    using assms(3) by (simp add: snprintf_def INT_MAX_def)
  have strr: "strrchr ?p CHR ''/'' = Some (length dir)" using assms(2) by (rule strrchr_last)
  have le: "length (snd (node_of (take i dir))) \<le> length (components dir)" for i
    using components_append [of "take i dir" "drop i dir"] by (simp add: node_of_components)
  show ?thesis
  proof (cases "dir = []")
    case False
    obtain r1 w1 where w1: "mkdir_prefixes dir [1..<length dir] w = (r1, w1)" by force
    have d1: "dirs w1 \<subseteq> dirs w \<union> {n. length (snd n) \<le> length (components dir)}"
      using mkdir_prefixes_dirs [OF w1] le by auto
    obtain e w2 where w2: "sys_mkdir dir w1 = (e, w2)" by force
    have "dirs w2 \<subseteq> dirs w \<union> {n. length (snd n) \<le> length (components dir)}"
      using sys_mkdir_dirs [OF w2] d1 le [of "length dir"] by auto
    then show ?thesis using assms(1) False snp strr w1 w2 d1
      by (auto simp: ensure_parent_dir_def split: if_splits)
  qed (use assms(1) snp strr in \<open>simp add: ensure_parent_dir_def\<close>)
qed

text \<open>When no system call fails and no file is in the way, ensure_parent_dir returns 0
and the directory of the path exists, with every directory above it; no file changes.\<close>

lemma ensure_parent_dir_creates:
  assumes "verdicts w = (\<lambda>_. Ok)" "CHR ''/'' \<notin> set base" "length (dir @ CHR ''/'' # base) < 4096"
    "\<forall>i \<le> length dir. files w (node_of (take i dir)) = None"
  shows "\<exists>w'. ensure_parent_dir (Some (dir @ CHR ''/'' # base)) w = (0, w') \<and> only_dirs w w' \<and>
     dir_exists w' (node_of dir) \<and> prefixes_exist dir w'"
proof -
  let ?p = "dir @ CHR ''/'' # base"
  have snp: "snprintf 4096 ?p = (?p, int (length ?p))"
    using assms(3) by (simp add: snprintf_def INT_MAX_def)
  have strr: "strrchr ?p CHR ''/'' = Some (length dir)" using assms(2) by (rule strrchr_last)
  show ?thesis
  proof (cases "dir = []")
    case True
    then show ?thesis using snp strr
      by (auto simp: ensure_parent_dir_def dir_exists_def node_of_def prefixes_exist_def)
  next
    case False
    have "prefixes_exist (take 1 dir) w" by (cases dir) (auto simp: prefixes_exist_def)
    from mkdir_prefixes_creates [OF assms(1,4) this] False obtain w1
      where w1: "mkdir_prefixes dir [1..<length dir] w = (0, w1)" "prefixes_exist dir w1"
      by (auto simp: Suc_le_eq)
    have only: "only_dirs w w1" by (rule mkdir_prefixes_only_dirs [OF w1(1)])
    then have "verdicts w1 = (\<lambda>_. Ok)" "files w1 (node_of dir) = None"
      using assms(1) assms(4) [rule_format, of "length dir"] by (auto simp: only_dirs_def same_fds_def)
    from sys_mkdir_creates [OF this w1(2)] obtain e w2
      where w2: "sys_mkdir dir w1 = (e, w2)" "e = E_NONE \<or> e = EEXIST" "dir_exists w2 (node_of dir)" .
    have only2: "only_dirs w1 w2" by (rule sys_mkdir_only_dirs [OF w2(1)])
    have "ensure_parent_dir (Some ?p) w = (0, w2)"
      using snp strr False w1(1) w2(1,2) by (auto simp: ensure_parent_dir_def)
    then show ?thesis using only only2 w1(2) w2(3)
      by (auto intro: only_dirs_trans prefixes_exist_mono)
  qed
qed

section \<open>Replacing a file atomically\<close>

text \<open>\<open>replaces p new w w'\<close>: at every moment from \<open>w\<close> to \<open>w'\<close> the node \<open>p\<close> held its old content
  or the complete new one; the second exactly at the end, and then it is on disk, or never.  No
  descriptor is left open.\<close>

definition replaces :: "node \<Rightarrow> u8 list \<Rightarrow> bool \<Rightarrow> world \<Rightarrow> world \<Rightarrow> bool" where
  "replaces n new ok w w' \<longleftrightarrow> same_fds w w' \<and> stdout_bytes w' = stdout_bytes w \<and>
     pipe_bytes w' = pipe_bytes w \<and> dirs w \<subseteq> dirs w' \<and>
     (\<exists>seen. hist w' = seen @ hist w \<and> (\<forall>f \<in> set seen. f n = files w n \<or> ok \<and> f n = Some new)) \<and>
     (if ok then files w' n = Some new \<and> durable w' n = Some new
      else files w' n = files w n \<and> durable w' n = durable w n)"

lemma replaces_not: "\<lbrakk>same_fds w w'; stdout_bytes w' = stdout_bytes w; pipe_bytes w' = pipe_bytes w;
    dirs w \<subseteq> dirs w'; untouched n w w'\<rbrakk> \<Longrightarrow> replaces n new False w w'"
  by (auto simp: replaces_def untouched_def)

text \<open>An operation with this contract may run any number of times beside a reader: what the
  reader sees is the initial content or one complete content that was published.\<close>

locale file_publisher =
  fixes publish :: "'a \<Rightarrow> world \<Rightarrow> world option"
    and target :: node
    and content :: "'a \<Rightarrow> u8 list"
    and usable :: "world \<Rightarrow> bool"
  assumes publishes: "usable w \<Longrightarrow> publish x w = Some w' \<Longrightarrow> \<exists>ok. replaces target (content x) ok w w'"
    and stays_usable: "usable w \<Longrightarrow> publish x w = Some w' \<Longrightarrow> usable w'"
begin

definition runs :: "'a list \<Rightarrow> world \<Rightarrow> world option" where
  "runs xs w = foldM (\<lambda>w x. publish x w) w xs"

lemma runs_simps [simp]:
  "runs [] w = Some w" "runs (x # xs) w = publish x w \<bind> runs xs"
  by (simp_all add: runs_def [abs_def])

lemma runs_usable: "usable w \<Longrightarrow> runs xs w = Some w' \<Longrightarrow> usable w'"
  by (induction xs arbitrary: w) (auto simp: bind_eq_Some_conv intro: stays_usable)

lemma runs_content:
  assumes "usable w" "runs xs w = Some w'"
  shows "files w' target \<in> insert (files w target) (Some ` content ` set xs)"
  using assms
proof (induction xs arbitrary: w)
  case (Cons x xs)
  then obtain v where v: "publish x w = Some v" "runs xs v = Some w'" by (auto simp: bind_eq_Some_conv)
  then obtain ok where "replaces target (content x) ok w v" using publishes Cons.prems by blast
  then have "files v target = files w target \<or> files v target = Some (content x)"
    by (auto simp: replaces_def split: if_splits)
  then show ?case using Cons.IH [OF stays_usable [OF Cons.prems(1) v(1)] v(2)] by auto
qed simp

lemma reader_sees_complete:
  assumes "usable w" "runs xs w = Some w'"
  shows "\<exists>seen. hist w' = seen @ hist w \<and>
     (\<forall>f \<in> set seen. f target \<in> insert (files w target) (Some ` content ` set xs))"
  using assms
proof (induction xs arbitrary: w)
  case (Cons x xs)
  then obtain v where v: "publish x w = Some v" "runs xs v = Some w'" by (auto simp: bind_eq_Some_conv)
  then obtain ok where r: "replaces target (content x) ok w v" using publishes Cons.prems by blast
  then obtain s1 where s1: "hist v = s1 @ hist w"
      "\<forall>f \<in> set s1. f target = files w target \<or> f target = Some (content x)"
    unfolding replaces_def by blast
  have fv: "files v target = files w target \<or> files v target = Some (content x)"
    using r by (auto simp: replaces_def split: if_splits)
  obtain s2 where s2: "hist w' = s2 @ hist v"
      "\<forall>f \<in> set s2. f target \<in> insert (files v target) (Some ` content ` set xs)"
    using Cons.IH [OF stays_usable [OF Cons.prems(1) v(1)] v(2)] by blast
  show ?case
  proof (intro exI [of _ "s2 @ s1"] conjI ballI)
    show "hist w' = (s2 @ s1) @ hist w" using s1(1) s2(1) by simp
    fix f assume "f \<in> set (s2 @ s1)"
    then show "f target \<in> insert (files w target) (Some ` content ` set (x # xs))"
      using s1(2) s2(2) fv by auto
  qed
qed simp

end

section \<open>Buffered streams\<close>

lemma open_on_fds: "open_on fd t w \<Longrightarrow> fds w' = fds w \<Longrightarrow> target_bytes t w' \<noteq> None \<Longrightarrow> open_on fd t w'"
  by (simp add: open_on_def)

lemma c_fprintf_spec:
  "c_fprintf f s w = (ok, f', w') \<Longrightarrow> wrote t [] w w' \<and> cf_fd f' = cf_fd f \<and>
     (if ok then cf_buf f' = cf_buf f @ bytes_of s else f' = f)"
  by (auto simp: c_fprintf_def split: prod.splits if_splits dest: wrote_ask)

lemma c_fflush_spec:
  assumes "c_fflush f w = (ok, f', w')" "open_on (cf_fd f) t w"
  shows "cf_fd f' = cf_fd f \<and> (if ok then cf_buf f' = [] \<and> wrote t (cf_buf f) w w'
     else (\<exists>n. wrote t (take n (cf_buf f)) w w' \<and> cf_buf f' = drop n (cf_buf f)))"
proof (cases "cf_buf f = []")
  case False
  obtain v u where ask: "ask w = (v, u)" by force
  have u: "open_on (cf_fd f) t u" "wrote t [] w u"
    using ask assms(2) by (auto intro: open_on_ask wrote_ask)
  have app: "wrote t x w (append_to t x u)" for x
    using wrote_trans [OF u(2) wrote_append, of x] u(1) by (simp add: open_on_def)
  have map: "map_of (fds u) (cf_fd f) = Some t" using u(1) by (simp add: open_on_def)
  show ?thesis using assms(1) False ask map app u(2)
    by (cases v) (force simp: c_fflush_def flush_buf_def intro: exI [of _ 0])+
qed (use assms in \<open>auto simp: c_fflush_def\<close>)

section \<open>The common shape of a replacement\<close>

text \<open>\<open>quiet n w w'\<close>: what a writer does before its rename: node \<open>n\<close> is left alone, and so is
  everything a reader of another stream could see.\<close>

definition quiet :: "node \<Rightarrow> world \<Rightarrow> world \<Rightarrow> bool" where
  "quiet n w w' \<longleftrightarrow> untouched n w w' \<and> dirs w \<subseteq> dirs w' \<and> stdout_bytes w' = stdout_bytes w \<and>
     pipe_bytes w' = pipe_bytes w \<and> verdicts w' = verdicts w \<and> tick w \<le> tick w'"

named_theorems quietI "steps that are quiet"

lemma quiet_refl [simp]: "quiet n w w"
  by (simp add: quiet_def)

lemma quiet_trans [trans]: "quiet n u v \<Longrightarrow> quiet n v w \<Longrightarrow> quiet n u w"
  by (auto simp: quiet_def intro: untouched_trans)

lemma quiet_only_dirs [quietI]: "only_dirs w w' \<Longrightarrow> quiet n w w'"
  by (simp add: quiet_def only_dirs_def same_fds_def)

lemma quiet_wrote [quietI]: "wrote (To_File m) bs w w' \<Longrightarrow> m \<noteq> n \<Longrightarrow> quiet n w w'"
  using target_eqI [of m w' w] by (auto simp: quiet_def wrote_def same_fds_def)

lemma quiet_open [quietI]: "sys_open p w = (r, w') \<Longrightarrow> node_of p \<noteq> n \<Longrightarrow> quiet n w w'"
  by (auto simp: quiet_def sys_open_def ask_def Let_def untouched_def split: if_splits)

lemma quiet_fsync [quietI]:
  "sys_fsync fd w = (b, w') \<Longrightarrow> map_of (fds w) fd = Some (To_File m) \<Longrightarrow> m \<noteq> n \<Longrightarrow> quiet n w w'"
  by (auto simp: quiet_def sys_fsync_def ask_def Let_def untouched_def split: if_splits)

lemma quiet_close [quietI]: "sys_close fd w = (b, w') \<Longrightarrow> quiet n w w'"
  by (auto simp: quiet_def sys_close_def ask_def Let_def untouched_def split: if_splits)

lemma quiet_unlink [quietI]: "sys_unlink p w = (b, w') \<Longrightarrow> node_of p \<noteq> n \<Longrightarrow> quiet n w w'"
  by (auto simp: quiet_def sys_unlink_def ask_def Let_def untouched_def split: if_splits)

lemma quiet_malloc [quietI]: "c_malloc w = (b, w') \<Longrightarrow> quiet n w w'"
  by (auto simp: quiet_def c_malloc_def ask_def Let_def untouched_def split: if_splits)

lemma quiet_fdopen [quietI]: "c_fdopen fd w = (b, w') \<Longrightarrow> quiet n w w'"
  by (auto simp: quiet_def c_fdopen_def ask_def Let_def untouched_def split: if_splits)

lemma quiet_rename [quietI]:
  "sys_rename a b w = (r, w') \<Longrightarrow> \<not> r \<or> node_of a \<noteq> n \<and> node_of b \<noteq> n \<Longrightarrow> quiet n w w'"
  by (auto simp: quiet_def sys_rename_def ask_def Let_def untouched_def split: if_splits)

lemma replaces_quiet: "quiet n w w' \<Longrightarrow> fds w' = fds w \<Longrightarrow> replaces n new False w w'"
  by (auto simp: replaces_def quiet_def same_fds_def untouched_def)

lemma replaces_rename:
  assumes "quiet (node_of p) w u" "fds u = fds w" "sys_rename a p u = (True, w')"
    "node_of a \<noteq> node_of p" "files u (node_of a) = Some new" "durable u (node_of a) = Some new"
  shows "replaces (node_of p) new True w w'"
  using assms
  by (auto simp: replaces_def quiet_def same_fds_def untouched_def sys_rename_def ask_def Let_def
      split: if_splits)

lemma replaces_after:
  assumes "quiet n w u" "fds u = fds w" "replaces n new ok u w'"
  shows "replaces n new ok w w'"
proof -
  obtain s1 where s1: "hist u = s1 @ hist w" "\<forall>f \<in> set s1. f n = files w n" "files u n = files w n"
      "durable u n = durable w n"
    using assms(1) by (auto simp: quiet_def untouched_def)
  obtain s2 where "hist w' = s2 @ hist u" "\<forall>f \<in> set s2. f n = files u n \<or> ok \<and> f n = Some new"
    using assms(3) by (auto simp: replaces_def)
  then have "hist w' = (s2 @ s1) @ hist w \<and> (\<forall>f \<in> set (s2 @ s1). f n = files w n \<or> ok \<and> f n = Some new)"
    using s1 by auto
  then have "\<exists>seen. hist w' = seen @ hist w \<and> (\<forall>f \<in> set seen. f n = files w n \<or> ok \<and> f n = Some new)"
    by blast
  then show ?thesis using assms s1(3,4) by (auto simp: replaces_def quiet_def same_fds_def)
qed

lemma replaces_world_ok: "replaces n new ok w w' \<Longrightarrow> world_ok w \<Longrightarrow> world_ok w'"
  by (auto simp: replaces_def intro: same_fds_ok)

lemma replaces_fair: "replaces n new ok w w' \<Longrightarrow> fair w \<Longrightarrow> fair w'"
  by (auto simp: replaces_def same_fds_def fair_def)

lemma quiet_fair: "quiet n w w' \<Longrightarrow> fair w \<Longrightarrow> fair w'"
  by (simp add: quiet_def fair_def)

lemma quiet_world_ok: "quiet n w w' \<Longrightarrow> fds w' = fds w \<Longrightarrow> world_ok w \<Longrightarrow> world_ok w'"
  by (auto simp: quiet_def world_ok_def)

text \<open>A descriptor opened for the replacement and closed again.\<close>

lemma sys_open_target:
  assumes "sys_open p w = (Some fd, w')" "world_ok w"
  shows "open_on fd (To_File (node_of p)) w'" "files w' (node_of p) = Some []" "world_ok w'"
    "fds w' = (fd, To_File (node_of p)) # fds w" "fd \<notin> fst ` set (fds w)"
  using sys_open_Some [OF assms] by (simp_all add: open_on_def)

lemma sys_close_restores:
  assumes "sys_close fd u = (b, u')" "fds u = (fd, t) # old" "fd \<notin> fst ` set old"
  shows "fds u' = old" "files u' = files u" "durable u' = durable u"
proof -
  have "filter (\<lambda>(k, _). k \<noteq> fd) old = old"
    using assms(3) by (intro filter_True) force
  then show "fds u' = old" using sys_close_frame [OF assms(1)] assms(2) by simp
qed (use sys_close_frame [OF assms(1)] in auto)

lemma sys_close_absent:
  assumes "sys_close fd u = (b, u')" "fd \<notin> fst ` set (fds u)"
  shows "fds u' = fds u" "files u' = files u" "durable u' = durable u" "\<not> b"
proof -
  have none: "map_of (fds u) fd = None" using assms(2) by (simp add: map_of_eq_None_iff)
  show "fds u' = fds u" "files u' = files u" "durable u' = durable u"
    using sys_close_frame [OF assms(1)] filter_absent [OF none] by auto
  show "\<not> b" using assms(1) none by (auto simp: sys_close_def ask_def)
qed

lemma sys_fsync_target:
  assumes "sys_fsync fd w = (True, w')" "open_on fd (To_File m) w"
  shows "durable w' m = files w m" "files w' = files w" "fds w' = fds w"
  using assms by (auto simp: sys_fsync_def open_on_def ask_def Let_def split: if_splits)

lemma sys_fsync_files: "sys_fsync fd w = (b, w') \<Longrightarrow> files w' = files w"
  by (auto simp: sys_fsync_def ask_def Let_def split: option.splits fd_target.splits if_splits)

lemma sys_fsync_fds: "sys_fsync fd w = (b, w') \<Longrightarrow> fds w' = fds w"
  by (auto simp: sys_fsync_def ask_def Let_def split: option.splits fd_target.splits if_splits)

section \<open>Writing a stream and closing it\<close>

text \<open>The sequence both stream writers of the listener share: \<^verbatim>\<open>fprintf\<close>, \<^verbatim>\<open>fflush\<close>,
  \<^verbatim>\<open>fsync\<close>, with an \<^verbatim>\<open>fclose\<close> after a failure as after success.\<close>

definition stream_save :: "cfile \<Rightarrow> string \<Rightarrow> world \<Rightarrow> bool \<times> world" where
  "stream_save fp contents w = (case c_fprintf fp contents w of (ok, fp, w) \<Rightarrow>
     if \<not> ok then (False, snd (c_fclose fp w))
     else (case c_fflush fp w of (ok, fp, w) \<Rightarrow>
       if \<not> ok then (False, snd (c_fclose fp w))
       else (case sys_fsync (cf_fd fp) w of (ok, w) \<Rightarrow>
         if \<not> ok then (False, snd (c_fclose fp w)) else c_fclose fp w)))"

lemma c_fclose_spec:
  assumes "c_fclose f w = (ok, w')" "open_on (cf_fd f) (To_File m) w"
    "fds w = (cf_fd f, To_File m) # old" "cf_fd f \<notin> fst ` set old" "m \<noteq> n"
  shows "quiet n w w' \<and> fds w' = old \<and>
     (cf_buf f = [] \<longrightarrow> files w' = files w \<and> durable w' = durable w)"
proof -
  obtain ok1 f1 w1 where w1: "c_fflush f w = (ok1, f1, w1)" by (metis prod_cases3)
  have f1: "cf_fd f1 = cf_fd f" and wr: "\<exists>bs. wrote (To_File m) bs w w1"
    using c_fflush_spec [OF w1 assms(2)] by (auto split: if_splits)
  obtain ok2 where w2: "sys_close (cf_fd f) w1 = (ok2, w')"
    using assms(1) w1 f1 by (auto simp: c_fclose_def split: prod.splits)
  have fds1: "fds w1 = (cf_fd f, To_File m) # old" using wr wrote_fds assms(3) by metis
  note restored = sys_close_restores [OF w2 fds1 assms(4)]
  have q1: "quiet n w w1" using wr quiet_wrote assms(5) by metis
  have same: "w1 = w" if "cf_buf f = []" using w1 that by (simp add: c_fflush_def)
  show ?thesis using quiet_trans [OF q1 quiet_close [OF w2]] restored same by auto
qed

lemma stream_save_spec:
  assumes run: "stream_save f s w = (ok, w')" and live: "open_on (cf_fd f) (To_File m) w"
    and fds: "fds w = (cf_fd f, To_File m) # old" "cf_fd f \<notin> fst ` set old"
    and empty: "cf_buf f = []" "files w m = Some []" and distinct: "m \<noteq> n"
  shows "quiet n w w' \<and> fds w' = old \<and>
     (ok \<longrightarrow> files w' m = Some (bytes_of s) \<and> durable w' m = Some (bytes_of s))"
proof -
  let ?t = "To_File m"
  have finish: "quiet n w w' \<and> fds w' = old"
    if "wrote ?t bs w u" "w' = snd (c_fclose g u)" "cf_fd g = cf_fd f" for bs u g
    using c_fclose_spec [OF surjective_pairing [of "c_fclose g u"], where m = m and n = n and old = old] that(2) open_on_wrote [OF live that(1)] wrote_fds [OF that(1)] fds distinct
      quiet_trans [OF quiet_wrote [OF that(1) distinct]] that(3) by auto
  obtain o1 f1 w1 where w1: "c_fprintf f s w = (o1, f1, w1)" by (metis prod_cases3)
  note s1 = c_fprintf_spec [OF w1, of ?t]
  show ?thesis
  proof (cases o1)
    case False
    have "w' = snd (c_fclose f1 w1) \<and> \<not> ok" using run w1 False by (simp add: stream_save_def)
    then show ?thesis using finish [of "[]" w1 f1] s1 by auto
  next
    case True
    have live1: "open_on (cf_fd f1) ?t w1" using open_on_wrote [OF live] s1 by auto
    obtain o2 f2 w2 where w2: "c_fflush f1 w1 = (o2, f2, w2)" by (metis prod_cases3)
    note s2 = c_fflush_spec [OF w2 live1]
    obtain bs where wr2: "wrote ?t bs w w2" using s1 s2 wrote_trans by (metis (full_types))
    have fd2: "cf_fd f2 = cf_fd f" using s1 s2 by auto
    show ?thesis
    proof (cases o2)
      case False
      have "w' = snd (c_fclose f2 w2) \<and> \<not> ok"
        using run w1 True w2 False by (simp add: stream_save_def)
      then show ?thesis using finish [OF wr2] fd2 by auto
    next
      case o2: True
      have all: "wrote ?t (bytes_of s) w w2" "cf_buf f2 = []"
        using s1 s2 True o2 empty(1) wrote_trans [of ?t "[]" w w1 "bytes_of s" w2] by auto
      then have content: "files w2 m = Some (bytes_of s)" using empty(2) by (simp add: wrote_def)
      note live2 = open_on_wrote [OF live all(1)]
      obtain o3 w3 where w3: "sys_fsync (cf_fd f2) w2 = (o3, w3)" by force
      have q3: "quiet n w w3"
        using quiet_trans [OF quiet_wrote [OF all(1) distinct] quiet_fsync [OF w3 _ distinct]] live2 fd2
        by (simp add: open_on_def)
      have f3: "fds w3 = (cf_fd f2, To_File m) # old"
        using sys_fsync_fds [OF w3] wrote_fds [OF all(1)] fds(1) fd2 by simp
      have cl: "c_fclose f2 w3 = (fst (c_fclose f2 w3), w')" and ok: "ok \<longrightarrow> o3"
        using run w1 True w2 o2 w3 by (auto simp: stream_save_def prod_eq_iff split: if_splits)
      have live3: "open_on (cf_fd f2) ?t w3"
        using open_on_fds [OF live2 sys_fsync_fds [OF w3]] sys_fsync_files [OF w3] content fd2 by simp
      have close: "quiet n w3 w' \<and> fds w' = old \<and> files w' = files w3 \<and> durable w' = durable w3"
        using c_fclose_spec [OF cl live3 f3 _ distinct] fds(2) fd2 all(2) by simp
      have "files w3 m = Some (bytes_of s) \<and> durable w3 m = Some (bytes_of s)" if o3
        using sys_fsync_target [of "cf_fd f2" w2 w3 m] w3 that live2 content fd2 by simp
      then show ?thesis using close ok quiet_trans [OF q3] by auto
    qed
  qed
qed

end
