(* ===== verification/Resample.thy ===== *)
theory Resample
  imports Ring
begin

text \<open>
  The capture path: downmix and resampling (\<^verbatim>\<open>mix_and_resample_downmix\<close>), the real-time
  callback \<^verbatim>\<open>on_process\<close>, which has its own copy of the same loops, and
  \<^verbatim>\<open>on_stream_param_changed\<close>, which sets the negotiated rate and channel count.  The
  PipeWire and SPA types are the few fields the code reads; what the parsers of SPA
  return is an argument.
\<close>

section \<open>The code\<close>

definition MODEL_RATE :: u32 where "MODEL_RATE = 16000"
definition MODEL_SECONDS :: u32 where "MODEL_SECONDS = 3"
definition MODEL_SAMPLES :: u32 where "MODEL_SAMPLES = MODEL_RATE * MODEL_SECONDS"
definition RING_SECONDS :: u32 where "RING_SECONDS = 4"

text \<open>\<^verbatim>\<open>while (acc >= rate) { ring_write(ring, &mono, 1); acc -= rate; }\<close>: for rate 0 this
  loop does not end.\<close>

partial_function (option) drain ::
    "('r \<Rightarrow> fp \<Rightarrow> 'r option) \<Rightarrow> u32 \<Rightarrow> fp \<Rightarrow> u32 \<Rightarrow> 'r \<Rightarrow> (u32 \<times> 'r) option" where
  "drain push rate x acc r =
     (if rate \<le> acc then push r x \<bind> (\<lambda>r'. drain push rate x (acc - rate) r')
      else Some (acc, r))"

text \<open>The mono sample of one interleaved frame: the sum of its channels from \<^verbatim>\<open>0.0f\<close>, divided
  by their number, in \<^verbatim>\<open>float\<close>.\<close>

definition mix_frame :: "fp list \<Rightarrow> u64 \<Rightarrow> u32 \<Rightarrow> fp option" where
  "mix_frame src frame channels = do {
     m \<leftarrow> foldM (\<lambda>m ch. do {
            x \<leftarrow> load src (unat (frame * ucast channels + of_nat ch));
            Some (fadd binary32 m x) }) (FZero False) [0..<unat channels];
     Some (fdiv binary32 m (fp_of_int binary32 (uint channels))) }"

definition resample_frame ::
    "('r \<Rightarrow> fp \<Rightarrow> 'r option) \<Rightarrow> fp list \<Rightarrow> u32 \<Rightarrow> u32 \<Rightarrow> u32 \<times> 'r \<Rightarrow> nat \<Rightarrow> (u32 \<times> 'r) option" where
  "resample_frame push src channels rate = (\<lambda>(acc, r) frame. do {
     x \<leftarrow> mix_frame src (of_nat frame) channels;
     drain push rate x (acc + MODEL_RATE) r })"

definition mix_and_resample_downmix ::
    "fp list ptr \<Rightarrow> u64 \<Rightarrow> u32 \<Rightarrow> u32 \<Rightarrow> sample_ring ptr \<Rightarrow> u32 ptr \<Rightarrow> (sample_ring ptr \<times> u32 ptr) option"
where
  "mix_and_resample_downmix src frames channels rate ring accumulator =
     (case (src, ring, accumulator) of
        (Some xs, Some r, Some acc) \<Rightarrow>
          let channels = (if channels = 0 then 1 else channels);
              rate = (if rate = 0 then MODEL_RATE else rate) in do {
            (acc', r') \<leftarrow> foldM (resample_frame ring_push xs channels rate) (acc, r) [0..<unat frames];
            Some (Some r', Some acc') }
      | _ \<Rightarrow> Some (ring, accumulator))"

subsection \<open>The PipeWire callbacks\<close>

datatype audio_format = SPA_AUDIO_FORMAT_F32 | Other_Format nat
datatype media_type = SPA_MEDIA_TYPE_audio | Other_Media nat
datatype media_subtype = SPA_MEDIA_SUBTYPE_raw | Other_Subtype nat
datatype param_id = SPA_PARAM_Format | Other_Param nat

record spa_audio_info =
  info_type :: media_type
  info_subtype :: media_subtype
  raw_format :: audio_format
  raw_rate :: u32
  raw_channels :: u32

record spa_chunk =
  chunk_offset :: u32
  chunk_size :: u32

text \<open>The mapped data area as floats; \<^verbatim>\<open>data + offset\<close> is read as a float array, so an
  offset that is not a multiple of four is undefined.\<close>

record spa_data =
  sd_data :: "fp list ptr"
  sd_chunk :: "spa_chunk ptr"

record pw_buffer =
  pb_buffer :: "spa_data ptr"  \<comment> \<open>\<^verbatim>\<open>buffer->buffer->datas[0]\<close>\<close>

text \<open>The fields of \<^verbatim>\<open>struct listener_data\<close> that the capture path uses, and the number of
  buffers handed back to the stream.\<close>

record capture =
  cap_ring :: sample_ring
  cap_format :: spa_audio_info
  negotiated_rate :: u32
  negotiated_channels :: u32
  resample_accumulator :: u32
  queued :: nat

definition pw_stream_queue_buffer :: "capture \<Rightarrow> capture" where
  "pw_stream_queue_buffer d = d\<lparr>queued := Suc (queued d)\<rparr>"

definition float_view :: "fp list \<Rightarrow> u32 \<Rightarrow> fp list option" where
  "float_view xs off =
     (if unat off mod 4 = 0 \<and> unat off div 4 \<le> length xs then Some (drop (unat off div 4) xs) else None)"

definition on_process :: "capture ptr \<Rightarrow> pw_buffer ptr \<Rightarrow> capture ptr option" where
  "on_process userdata dequeued =
     (case userdata of NULL \<Rightarrow> Some NULL
      | Some d \<Rightarrow> (case dequeued of NULL \<Rightarrow> Some (Some d)
      | Some b \<Rightarrow> (case pb_buffer b of NULL \<Rightarrow> Some (Some (pw_stream_queue_buffer d))
      | Some sd \<Rightarrow> (case (sd_data sd, sd_chunk sd) of
          (Some area, Some chunk) \<Rightarrow>
            if chunk_size chunk = 0 then Some (Some (pw_stream_queue_buffer d))
            else if raw_format (cap_format d) \<noteq> SPA_AUDIO_FORMAT_F32
              then Some (Some (pw_stream_queue_buffer d))
            else do {
              xs \<leftarrow> float_view area (chunk_offset chunk);
              let channels = negotiated_channels d;
              let rate = negotiated_rate d;
              let unit = (4 :: u64) * ucast channels;
              frames \<leftarrow> (if unit = 0 then None else Some ((ucast (chunk_size chunk) :: u64) div unit));
              let channels = (if channels = 0 then 1 else channels);
              let rate = (if rate = 0 then MODEL_RATE else rate);
              (acc, r) \<leftarrow> foldM (resample_frame ring_push xs channels rate)
                            (resample_accumulator d, cap_ring d) [0..<unat frames];
              Some (Some (pw_stream_queue_buffer (d\<lparr>cap_ring := r, resample_accumulator := acc\<rparr>))) }
        | _ \<Rightarrow> Some (Some (pw_stream_queue_buffer d))))))"

text \<open>\<open>fparse\<close> and \<open>rawparse\<close> are \<^verbatim>\<open>spa_format_parse\<close> and \<^verbatim>\<open>spa_format_audio_raw_parse\<close>:
  a return code and the fields they leave in the structure.\<close>

definition on_stream_param_changed ::
    "('pod \<Rightarrow> spa_audio_info \<Rightarrow> int \<times> media_type \<times> media_subtype) \<Rightarrow>
     ('pod \<Rightarrow> spa_audio_info \<Rightarrow> int \<times> audio_format \<times> u32 \<times> u32) \<Rightarrow>
     capture ptr \<Rightarrow> param_id \<Rightarrow> 'pod ptr \<Rightarrow> capture ptr" where
  "on_stream_param_changed fparse rawparse userdata ident param =
     (case (userdata, param) of
        (Some d, Some pod) \<Rightarrow>
          if ident \<noteq> SPA_PARAM_Format then Some d
          else let (rc, mt, st) = fparse pod (cap_format d);
                   d = d\<lparr>cap_format := (cap_format d)\<lparr>info_type := mt, info_subtype := st\<rparr>\<rparr> in
            if rc < 0 then Some d
            else if mt \<noteq> SPA_MEDIA_TYPE_audio \<or> st \<noteq> SPA_MEDIA_SUBTYPE_raw then Some d
            else let (rc, f, rt, ch) = rawparse pod (cap_format d);
                     d = d\<lparr>cap_format := (cap_format d)\<lparr>raw_format := f, raw_rate := rt, raw_channels := ch\<rparr>\<rparr> in
              if rc < 0 then Some d
              else Some (d\<lparr>resample_accumulator := 0, negotiated_rate := raw_rate (cap_format d),
                           negotiated_channels := raw_channels (cap_format d)\<rparr>)
      | _ \<Rightarrow> userdata)"

section \<open>What the resampler computes\<close>

text \<open>Per frame the accumulator gains 16000 and one output sample is written for every whole
  \<open>rate\<close> in it.\<close>

fun resampled :: "nat \<Rightarrow> nat \<Rightarrow> 'a list \<Rightarrow> 'a list" where
  "resampled rate a [] = []"
| "resampled rate a (x # xs) =
     replicate ((a + 16000) div rate) x @ resampled rate ((a + 16000) mod rate) xs"

fun acc_after :: "nat \<Rightarrow> nat \<Rightarrow> nat \<Rightarrow> nat" where
  "acc_after rate a 0 = a"
| "acc_after rate a (Suc n) = acc_after rate ((a + 16000) mod rate) n"

text \<open>The closed form: output sample \<open>j\<close> is the input frame at time \<open>(j + 1) / 16000\<close>, held.\<close>

definition frame_of :: "nat \<Rightarrow> nat \<Rightarrow> nat \<Rightarrow> nat" where
  "frame_of rate a j = ((j + 1) * rate - a - 1) div 16000"

lemma acc_after_closed: "0 < rate \<Longrightarrow> a < rate \<Longrightarrow> acc_after rate a n = (a + n * 16000) mod rate"
proof (induction n arbitrary: a)
  case (Suc n)
  then have "acc_after rate a (Suc n) = ((a + 16000) mod rate + n * 16000) mod rate" by simp
  also have "\<dots> = ((a + 16000) + n * 16000) mod rate" by (rule mod_add_left_eq)
  finally show ?case by (simp add: add.assoc)
qed simp

lemma div_split: "0 < r \<Longrightarrow> (x + y) div r = x div r + (x mod r + y) div (r :: nat)"
proof -
  assume r: "0 < r"
  have "(x + y) div r = ((x mod r + y) + x div r * r) div r"
    by (metis add.assoc add.commute div_mult_mod_eq)
  also have "\<dots> = x div r + (x mod r + y) div r" using r by (subst div_mult_self1) auto
  finally show ?thesis .
qed

lemma length_resampled:
  "0 < rate \<Longrightarrow> a < rate \<Longrightarrow> length (resampled rate a xs) = (a + length xs * 16000) div rate"
proof (induction xs arbitrary: a)
  case Nil
  then show ?case by simp
next
  case (Cons x xs)
  let ?a = "(a + 16000) mod rate"
  have "length (resampled rate a (x # xs)) = (a + 16000) div rate + (?a + length xs * 16000) div rate"
    using Cons by simp
  also have "\<dots> = (a + 16000 + length xs * 16000) div rate"
    by (rule div_split [symmetric]) (rule Cons.prems(1))
  finally show ?case by (simp add: add.assoc)
qed

lemma frame_of_first:
  assumes "0 < rate" "a < rate" "j < (a + 16000) div rate"
  shows "frame_of rate a j = 0"
proof -
  have "(j + 1) * rate \<le> (a + 16000) div rate * rate" using assms(3) by (intro mult_le_mono1) simp
  also have "\<dots> \<le> a + 16000" by (rule div_times_less_eq_dividend)
  finally show ?thesis by (simp add: frame_of_def)
qed

lemma frame_of_later:
  assumes "0 < rate" "a < rate"
  shows "frame_of rate a ((a + 16000) div rate + j) = Suc (frame_of rate ((a + 16000) mod rate) j)"
proof -
  let ?c = "(a + 16000) div rate" and ?m = "(a + 16000) mod rate"
  have split: "?c * rate + ?m = a + 16000" by simp
  have lt: "?m < rate" using assms(1) by simp
  have ge: "a + 16001 \<le> (?c + j + 1) * rate"
  proof -
    have "a + 16000 < ?c * rate + rate" using split lt by linarith
    also have "\<dots> \<le> (?c + j + 1) * rate" by (simp add: algebra_simps)
    finally show ?thesis by simp
  qed
  have "(?c + j + 1) * rate - a - 1 - 16000 = (j + 1) * rate - ?m - 1"
  proof -
    have "(?c + j + 1) * rate = ?c * rate + (j + 1) * rate" by (simp add: algebra_simps)
    with split show ?thesis by linarith
  qed
  moreover have "((?c + j + 1) * rate - a - 1) div 16000 = Suc (((?c + j + 1) * rate - a - 1 - 16000) div 16000)"
    using ge by (subst le_div_geq) auto
  ultimately show ?thesis by (simp add: frame_of_def)
qed

lemma resampled_nth:
  "0 < rate \<Longrightarrow> a < rate \<Longrightarrow> j < length (resampled rate a xs) \<Longrightarrow>
     frame_of rate a j < length xs \<and> resampled rate a xs ! j = xs ! frame_of rate a j"
proof (induction xs arbitrary: a j)
  case Nil
  then show ?case by simp
next
  case (Cons x xs)
  let ?c = "(a + 16000) div rate" and ?m = "(a + 16000) mod rate"
  show ?case
  proof (cases "j < ?c")
    case True
    then show ?thesis using frame_of_first [OF Cons.prems(1,2) True] by (simp add: nth_append)
  next
    case False
    then obtain k where k: "j = ?c + k" using le_Suc_ex not_less by blast
    with Cons.prems(3) have "k < length (resampled rate ?m xs)" by simp
    with Cons.IH [of ?m k] Cons.prems(1)
    have "frame_of rate ?m k < length xs \<and> resampled rate ?m xs ! k = xs ! frame_of rate ?m k" by simp
    then show ?thesis using frame_of_later [OF Cons.prems(1,2), of k] by (simp add: k nth_append)
  qed
qed

lemma resampled_snoc:
  "resampled rate a (xs @ [x]) = resampled rate a xs @
     replicate ((acc_after rate a (length xs) + 16000) div rate) x"
  by (induction xs arbitrary: a) simp_all

lemma acc_after_Suc: "acc_after rate a (Suc n) = (acc_after rate a n + 16000) mod rate"
  by (induction n arbitrary: a) (auto simp del: acc_after.simps(2) simp: acc_after.simps(2) [of rate])

section \<open>The mono sample\<close>

definition mix_spec :: "fp list \<Rightarrow> fp" where
  "mix_spec xs = fdiv binary32 (foldl (fadd binary32) (FZero False) xs)
     (fp_of_int binary32 (int (length xs)))"

definition frame_slice :: "fp list \<Rightarrow> nat \<Rightarrow> nat \<Rightarrow> fp list" where
  "frame_slice src ch i = take ch (drop (i * ch) src)"

definition mixed :: "fp list \<Rightarrow> nat \<Rightarrow> nat \<Rightarrow> fp list" where
  "mixed src ch n = map (\<lambda>i. mix_spec (frame_slice src ch i)) [0..<n]"

lemma sum_loop:
  assumes "\<And>c. c < n \<Longrightarrow> load src (f c) = Some (xs ! c)" "n \<le> length xs"
  shows "foldM (\<lambda>m ch. do { x \<leftarrow> load src (f ch); Some (fadd F m x) }) s [0..<n]
     = Some (foldl (fadd F) s (take n xs))"
  using assms by (induction n) (auto simp: foldM_append take_Suc_conv_app_nth)

lemma mix_frame_total:
  assumes "Suc i * unat channels \<le> length src" "length src < 2 ^ 64" "0 < unat channels"
  shows "mix_frame src (of_nat i) channels = Some (mix_spec (frame_slice src (unat channels) i))"
proof -
  let ?c = "unat channels" and ?xs = "frame_slice src (unat channels) i"
  have "i \<le> i * ?c" using assms(3) by simp
  moreover have "i * ?c + ?c \<le> length src" using assms(1) by simp
  ultimately have "i < 2 ^ 64" using assms(2) by linarith
  then have i: "unat (of_nat i :: u64) = i" by (rule unat_of_nat_u64)
  have uc: "unat (ucast channels :: u64) = ?c"
    by (rule unat_ucast_u32_u64)
  have len: "length ?xs = ?c" using assms(1) by (simp add: frame_slice_def)
  have idx: "unat (of_nat i * ucast channels + of_nat ch :: u64) = i * ?c + ch" if "ch < ?c" for ch
  proof -
    have b: "i * ?c + ch < length src" using assms(1) that by simp
    have m: "unat (of_nat i * ucast channels :: u64) = i * ?c"
      using b assms(2) by (simp add: unat_word_ariths i uc)
    have c: "unat (of_nat ch :: u64) = ch" using b assms(2) by (intro unat_of_nat_u64) linarith
    show ?thesis using b assms(2) by (subst unat_add_small) (simp_all add: m c)
  qed
  have "load src (unat (of_nat i * ucast channels + of_nat ch :: u64)) = Some (?xs ! ch)" if "ch < ?c" for ch
    using idx [OF that] assms(1) that by (simp add: load_def frame_slice_def)
  from sum_loop [OF this, of ?c] show ?thesis
    using len by (simp add: mix_frame_def mix_spec_def)
qed

section \<open>The loops compute it, into any sink\<close>

context sample_sink
begin

lemma drain_ok:
  assumes "content r h" "0 < rate"
  shows "\<exists>r'. drain push rate x acc r = Some (acc mod rate, r') \<and>
     content r' (h @ replicate (unat acc div unat rate) x) \<and> room r' = room r"
  using assms(1)
proof (induction "unat acc" arbitrary: acc r h rule: less_induct)
  case less
  have rate: "0 < unat rate" using assms(2) by (simp add: word_less_nat_alt)
  show ?case
  proof (cases "rate \<le> acc")
    case True
    obtain t where t: "push r x = Some t" "content t (h @ [x])" "room t = room r"
      using push_ok [OF less.prems] by blast
    have sub: "unat (acc - rate) = unat acc - unat rate" using True by (rule unat_sub)
    have le: "unat rate \<le> unat acc" using True by (simp add: word_le_nat_alt)
    then have "unat (acc - rate) < unat acc" using rate sub by simp
    from less.hyps [OF this t(2)] obtain r' where r':
      "drain push rate x (acc - rate) t = Some ((acc - rate) mod rate, r')"
      "content r' ((h @ [x]) @ replicate (unat (acc - rate) div unat rate) x)" "room r' = room t" by blast
    have "unat ((acc - rate) mod rate) = unat (acc mod rate)"
      using le by (simp add: unat_mod_word sub le_mod_geq)
    then have "(acc - rate) mod rate = acc mod rate" by (simp only: word_unat_eq_iff)
    moreover have "unat acc div unat rate = Suc (unat (acc - rate) div unat rate)"
      using le rate by (simp add: sub le_div_geq)
    ultimately show ?thesis using True t r' by (subst drain.simps) auto
  next
    case False
    then have "unat acc < unat rate" by (simp add: word_less_nat_alt not_le)
    then have "acc mod rate = acc" by (metis mod_less word_unat_eq_iff unat_mod_word)
    with False less.prems \<open>unat acc < unat rate\<close> show ?thesis
      by (subst drain.simps) simp
  qed
qed

lemma frames_ok:
  assumes h: "content r h" and acc: "acc < rate" and rate: "unat rate + 16000 \<le> 2 ^ 32"
    and src: "n * unat channels \<le> length src" "length src < 2 ^ 64" "0 < unat channels"
  shows "\<exists>acc' r'. foldM (resample_frame push src channels rate) (acc, r) [0..<n] = Some (acc', r') \<and>
     unat acc' = acc_after (unat rate) (unat acc) n \<and>
     content r' (h @ resampled (unat rate) (unat acc) (mixed src (unat channels) n)) \<and> room r' = room r"
  using src
proof (induction n)
  case 0
  then show ?case using h by (simp add: mixed_def)
next
  case (Suc n)
  let ?c = "unat channels" and ?r = "unat rate" and ?a = "unat acc"
  from Suc obtain acc' r' where IH: "foldM (resample_frame push src channels rate) (acc, r) [0..<n] = Some (acc', r')"
      "unat acc' = acc_after ?r ?a n"
      "content r' (h @ resampled ?r ?a (mixed src ?c n))" "room r' = room r" by auto
  have pos: "0 < rate" "0 < ?r" using acc by (auto simp: word_less_nat_alt)
  have lt: "?a < ?r" using acc by (simp add: word_less_nat_alt)
  then have "unat acc' < ?r" using IH(2) pos by (simp add: acc_after_closed)
  then have add: "unat (acc' + MODEL_RATE) = unat acc' + 16000"
    using rate by (subst unat_add_small) (simp_all add: MODEL_RATE_def)
  let ?x = "mix_spec (frame_slice src ?c n)"
  have m: "mix_frame src (of_nat n) channels = Some ?x"
    using Suc.prems by (intro mix_frame_total) auto
  obtain t where t: "drain push rate ?x (acc' + MODEL_RATE) r' = Some ((acc' + MODEL_RATE) mod rate, t)"
      "content t ((h @ resampled ?r ?a (mixed src ?c n)) @ replicate ((unat acc' + 16000) div ?r) ?x)"
      "room t = room r'"
    using drain_ok [OF IH(3) pos(1), of ?x "acc' + MODEL_RATE"] by (auto simp: add)
  have "unat ((acc' + MODEL_RATE) mod rate) = acc_after ?r ?a (Suc n)"
    by (simp only: unat_mod_word add IH(2) acc_after_Suc)
  moreover have "mixed src ?c (Suc n) = mixed src ?c n @ [?x]" by (simp add: mixed_def)
  ultimately show ?case using IH m t
    by (simp add: foldM_append resample_frame_def resampled_snoc mixed_def)
qed

end

section \<open>Properties of the capture path\<close>

lemma frames_ring:
  assumes "ring_holds r h" "acc < rate" "unat rate + 16000 \<le> 2 ^ 32"
    "n * unat channels \<le> length src" "length src < 2 ^ 64" "0 < unat channels"
  shows "\<exists>acc' r' out. foldM (resample_frame ring_push src channels rate) (acc, r) [0..<n] = Some (acc', r') \<and>
     unat acc' = (unat acc + n * 16000) mod unat rate \<and>
     ring_holds r' (h @ out) \<and> capacity r' = capacity r \<and>
     length out = (unat acc + n * 16000) div unat rate \<and>
     (\<forall>j < length out. frame_of (unat rate) (unat acc) j < n \<and>
        out ! j = mix_spec (frame_slice src (unat channels) (frame_of (unat rate) (unat acc) j)))"
proof -
  let ?out = "resampled (unat rate) (unat acc) (mixed src (unat channels) n)"
  have pos: "0 < unat rate" "unat acc < unat rate" using assms(2) by (auto simp: word_less_nat_alt)
  have l: "length (mixed src (unat channels) n) = n" by (simp add: mixed_def)
  obtain acc' r' where f: "foldM (resample_frame ring_push src channels rate) (acc, r) [0..<n] = Some (acc', r')"
     "unat acc' = acc_after (unat rate) (unat acc) n" "ring_holds r' (h @ ?out)" "ring_room r' = ring_room r"
    using ring_store.frames_ok [OF assms] by blast
  have "capacity r' = capacity r" using f(4) by (simp add: word_unat_eq_iff)
  moreover have "unat acc' = (unat acc + n * 16000) mod unat rate"
    using f(2) pos by (simp add: acc_after_closed)
  moreover have len: "length ?out = (unat acc + n * 16000) div unat rate"
    using length_resampled [OF pos, of "mixed src (unat channels) n"] by (simp add: l)
  moreover have "frame_of (unat rate) (unat acc) j < n \<and>
      ?out ! j = mix_spec (frame_slice src (unat channels) (frame_of (unat rate) (unat acc) j))"
    if "j < length ?out" for j
    using resampled_nth [OF pos that] by (simp add: l mixed_def)
  ultimately show ?thesis using f(1,3) by blast
qed

text \<open>Property C3.  \<^verbatim>\<open>mix_and_resample_downmix\<close> appends to the stream exactly
  \<open>(acc + 16000 * frames) / rate\<close> samples, the \<open>j\<close>-th of which is the channel average of the
  frame at that output time, and leaves the remainder in the accumulator.  It reads and
  writes in range, and its inner loop ends.\<close>

theorem mix_and_resample_correct:
  assumes "ring_holds r h" "acc < rate" "unat rate + 16000 \<le> 2 ^ 32"
    "unat frames * unat channels \<le> length src" "length src < 2 ^ 64" "0 < unat channels"
  shows "\<exists>r' acc' out.
     mix_and_resample_downmix (Some src) frames channels rate (Some r) (Some acc) = Some (Some r', Some acc') \<and>
     unat acc' = (unat acc + unat frames * 16000) mod unat rate \<and>
     ring_holds r' (h @ out) \<and>
     length out = (unat acc + unat frames * 16000) div unat rate \<and>
     (\<forall>j < length out. frame_of (unat rate) (unat acc) j < unat frames \<and>
        out ! j = mix_spec (frame_slice src (unat channels) (frame_of (unat rate) (unat acc) j)))"
proof -
  have "rate \<noteq> 0" "channels \<noteq> 0" using assms(2,6) by (auto simp: word_less_nat_alt)
  then have "mix_and_resample_downmix (Some src) frames channels rate (Some r) (Some acc) = Some (Some r', Some acc')"
    if "foldM (resample_frame ring_push src channels rate) (acc, r) [0..<unat frames] = Some (acc', r')" for acc' r'
    using that by (simp add: mix_and_resample_downmix_def)
  then show ?thesis using frames_ring [OF assms] by blast
qed


text \<open>With a channel count of 0, which \<^verbatim>\<open>on_stream_param_changed\<close> stores
  when the format has none, the callback divides by zero: the test
  \<^verbatim>\<open>if (channels == 0) channels = 1\<close> comes after the division it is meant to guard.\<close>

lemma on_process_zero_channels_traps:
  assumes "pb_buffer b = Some sd" "sd_data sd = Some area" "sd_chunk sd = Some chunk"
    "chunk_size chunk \<noteq> 0" "raw_format (cap_format d) = SPA_AUDIO_FORMAT_F32"
    "negotiated_channels d = 0"
  shows "on_process (Some d) (Some b) = None"
  using assms by (auto simp: on_process_def Let_def split: bind_splits)

lemma sum_bounded:
  assumes "\<And>x. x \<in> set xs \<Longrightarrow> isfinite x \<and> \<bar>fval x\<bar> \<le> 1"
    and "isfinite m" "\<bar>fval m\<bar> \<le> of_nat k" "k + length xs < 2 ^ 24"
  shows "isfinite (foldl (fadd binary32) m xs) \<and>
     \<bar>fval (foldl (fadd binary32) m xs)\<bar> \<le> of_nat (k + length xs)"
  using assms
proof (induction xs arbitrary: m k)
  case Nil
  then show ?case by simp
next
  case (Cons x xs)
  have x: "isfinite x" "\<bar>fval x\<bar> \<le> 1" using Cons.prems(1) [of x] by auto
  let ?B = "of_int (int (Suc k)) :: rat"
  have "on_grid binary32 ?B" using Cons.prems(4) by (intro on_grid_of_int) auto
  moreover have "?B < 2 powi emax binary32"
  proof -
    have "?B < of_int (2 ^ 24)" using Cons.prems(4) by (simp only: of_int_less_iff) simp
    also have "\<dots> \<le> 2 powi 128" by (simp add: powi2_of_nat)
    finally show ?thesis by simp
  qed
  moreover have "\<bar>fval m + fval x\<bar> \<le> ?B" using x(2) Cons.prems(3) by simp
  ultimately have "isfinite (fadd binary32 m x) \<and> \<bar>fval (fadd binary32 m x)\<bar> \<le> ?B"
    using Cons.prems(2) x(1) by (intro fadd_bounded)
  then show ?case
    using Cons.IH [of "fadd binary32 m x" "Suc k"] Cons.prems(1,4) by simp
qed

lemma mix_spec_bounded:
  assumes "\<And>x. x \<in> set xs \<Longrightarrow> isfinite x \<and> \<bar>fval x\<bar> \<le> 1" "xs \<noteq> []" "length xs < 2 ^ 24"
  shows "isfinite (mix_spec xs) \<and> \<bar>fval (mix_spec xs)\<bar> \<le> 1"
proof -
  let ?m = "foldl (fadd binary32) (FZero False) xs" and ?n = "int (length xs)"
  have m: "isfinite ?m" "\<bar>fval ?m\<bar> \<le> of_int ?n"
    using sum_bounded [of xs "FZero False" 0] assms(1,3) by auto
  have n: "fp_of_int binary32 ?n = FNum (of_int ?n)" "(0::rat) < of_int ?n"
    using assms(2,3) fp_of_int_exact [of ?n] by auto
  then have d: "mix_spec xs = fround binary32 (fsign ?m \<noteq> fsign (FNum (of_int ?n))) (fval ?m / of_int ?n)"
    using m(1) by (cases ?m) (auto simp: mix_spec_def)
  have le: "\<bar>fval ?m / of_int ?n\<bar> \<le> 1"
    using m(2) n(2) by (simp add: abs_divide pos_divide_le_eq)
  have one: "on_grid binary32 1" by (rule on_gridI [of _ 1 0]) auto
  have "(1::rat) < 2 powi emax binary32" using powi2_strict_mono [of 0 128] by simp
  from fround_bounded [OF one this le] show ?thesis by (simp add: d)
qed

text \<open>Property C17.  Downmixing never amplifies: when every channel sample is within
  \<open>[-1, 1]\<close>, the mono sample of each frame is finite and within \<open>[-1, 1]\<close>, rounding
  included.\<close>

theorem downmix_bounded:
  assumes "Suc i * unat channels \<le> length src" "length src < 2 ^ 64"
    and "0 < unat channels" "unat channels < 2 ^ 24"
    and "\<forall>x \<in> set src. isfinite x \<and> \<bar>fval x\<bar> \<le> 1"
  shows "\<exists>y. mix_frame src (of_nat i) channels = Some y \<and> isfinite y \<and> \<bar>fval y\<bar> \<le> 1"
proof -
  let ?xs = "frame_slice src (unat channels) i"
  have l: "length ?xs = unat channels" using assms(1) by (simp add: frame_slice_def)
  have "set ?xs \<subseteq> set src" unfolding frame_slice_def by (meson set_drop_subset set_take_subset subset_trans)
  then have "isfinite x \<and> \<bar>fval x\<bar> \<le> 1" if "x \<in> set ?xs" for x using that assms(5) by blast
  moreover have "?xs \<noteq> []" using l assms(3) by auto
  ultimately show ?thesis
    using mix_frame_total [OF assms(1-3)] mix_spec_bounded [of ?xs] l assms(4) by auto
qed

theorem downmix_bounded_witness:
  "\<exists>y. mix_frame [FNum 1, FNum (- 1 / 4)] (of_nat 0) 2 = Some y \<and> isfinite y \<and> \<bar>fval y\<bar> \<le> 1"
  by (rule downmix_bounded) auto

section \<open>Runs of the two callbacks\<close>

definition eff_rate :: "capture \<Rightarrow> u32" where
  "eff_rate d = (if negotiated_rate d = 0 then MODEL_RATE else negotiated_rate d)"

definition capture_ok :: "capture \<Rightarrow> fp list \<Rightarrow> bool" where
  "capture_ok d h \<longleftrightarrow> ring_holds (cap_ring d) h \<and> resample_accumulator d < eff_rate d \<and>
     unat (eff_rate d) + 16000 \<le> 2 ^ 32 \<and> negotiated_channels d \<noteq> 0"

text \<open>What PipeWire promises of a mapped buffer: the chunk lies inside the data area, at a
  float boundary.\<close>

definition buffer_ok :: "pw_buffer \<Rightarrow> bool" where
  "buffer_ok b \<longleftrightarrow> (case pb_buffer b of NULL \<Rightarrow> True | Some sd \<Rightarrow>
     (case (sd_data sd, sd_chunk sd) of
        (Some area, Some chunk) \<Rightarrow> unat (chunk_offset chunk) mod 4 = 0 \<and> length area < 2 ^ 64 \<and>
          unat (chunk_offset chunk) div 4 + unat (chunk_size chunk) div 4 \<le> length area
      | _ \<Rightarrow> True))"

lemma capture_ok_queue [simp]: "capture_ok (pw_stream_queue_buffer d) h = capture_ok d h"
  by (simp add: capture_ok_def eff_rate_def pw_stream_queue_buffer_def)

lemma eff_rate_frame [simp]:
  "eff_rate (d\<lparr>cap_ring := r, resample_accumulator := a\<rparr>) = eff_rate d"
  by (simp add: eff_rate_def)

lemma capture_ok_format [simp]: "capture_ok (d\<lparr>cap_format := f\<rparr>) h = capture_ok d h"
  by (simp add: capture_ok_def eff_rate_def)

lemma frames_fit:
  fixes sz ch :: u32
  assumes "unat sz div 4 \<le> l" "ch \<noteq> 0"
  shows "unat (ucast sz div (4 * ucast ch) :: u64) * unat ch \<le> l \<and> (4 * ucast ch :: u64) \<noteq> 0"
proof -
  have "unat ch < 2 ^ 32" by (rule unat_u32_less)
  then have u: "unat (4 * ucast ch :: u64) = 4 * unat ch"
    by (simp add: unat_word_ariths unat_ucast_u32_u64)
  have "unat ch \<noteq> 0" using assms(2) by (simp add: unat_eq_zero)
  then have nz: "(4 * ucast ch :: u64) \<noteq> 0" using u by (metis mult_eq_0_iff unat_0 zero_neq_numeral)
  have "unat (ucast sz div (4 * ucast ch) :: u64) * unat ch = unat sz div 4 div unat ch * unat ch"
    by (simp add: unat_div_word u unat_ucast_u32_u64 div_mult2_eq)
  also have "\<dots> \<le> unat sz div 4" by (rule div_times_less_eq_dividend)
  finally show ?thesis using assms(1) nz by simp
qed

lemma on_process_ok:
  assumes d: "capture_ok d h" and b: "buffer_ok b"
  shows "\<exists>d' out. on_process (Some d) (Some b) = Some (Some d') \<and> capture_ok d' (h @ out) \<and>
    queued d' = Suc (queued d)"
proof -
  have skip: ?thesis if "on_process (Some d) (Some b) = Some (Some (pw_stream_queue_buffer d))"
    using d that by (intro exI [of _ "pw_stream_queue_buffer d"] exI [of _ "[]"])
      (simp, simp add: pw_stream_queue_buffer_def)
  show ?thesis
  proof (cases "\<exists>sd area chunk. pb_buffer b = Some sd \<and> sd_data sd = Some area \<and> sd_chunk sd = Some chunk \<and>
      chunk_size chunk \<noteq> 0 \<and> raw_format (cap_format d) = SPA_AUDIO_FORMAT_F32")
    case False
    then have "on_process (Some d) (Some b) = Some (Some (pw_stream_queue_buffer d))"
      by (auto simp: on_process_def split: option.split)
    then show ?thesis by (rule skip)
  next
    case True
    then obtain sd area chunk where *: "pb_buffer b = Some sd" "sd_data sd = Some area" "sd_chunk sd = Some chunk"
        "chunk_size chunk \<noteq> 0" "raw_format (cap_format d) = SPA_AUDIO_FORMAT_F32" by blast
    let ?o = "unat (chunk_offset chunk) div 4" and ?sz = "chunk_size chunk"
    let ?ch = "negotiated_channels d"
    let ?n = "unat (ucast ?sz div (4 * ucast ?ch) :: u64)"
    have ok: "unat (chunk_offset chunk) mod 4 = 0" "length area < 2 ^ 64"
      "?o + unat ?sz div 4 \<le> length area" using b * by (auto simp: buffer_ok_def)
    have ch: "?ch \<noteq> 0" "0 < unat ?ch" using d by (auto simp: capture_ok_def unat_gt_0)
    have view: "float_view area (chunk_offset chunk) = Some (drop ?o area)"
      using ok by (simp add: float_view_def)
    have fit: "?n * unat ?ch \<le> length (drop ?o area)" "(4 * ucast ?ch :: u64) \<noteq> 0"
      using frames_fit [of ?sz "length (drop ?o area)" ?ch] ok(3) ch(1) by auto
    have len: "length (drop ?o area) < 2 ^ 64" using ok(2) by simp
    obtain acc' r' out where f:
      "foldM (resample_frame ring_push (drop ?o area) ?ch (eff_rate d)) (resample_accumulator d, cap_ring d) [0..<?n]
         = Some (acc', r')"
      "unat acc' = (unat (resample_accumulator d) + ?n * 16000) mod unat (eff_rate d)"
      "ring_holds r' (h @ out)"
      using frames_ring [of "cap_ring d" h "resample_accumulator d" "eff_rate d", OF _ _ _ fit(1) len ch(2)] d
      unfolding capture_ok_def by blast
    have "acc' < eff_rate d"
      using f(2) d by (auto simp: word_less_nat_alt capture_ok_def intro!: mod_less_divisor)
    then have "capture_ok (pw_stream_queue_buffer (d\<lparr>cap_ring := r', resample_accumulator := acc'\<rparr>)) (h @ out)"
      using d f(3) unfolding capture_ok_queue by (simp add: capture_ok_def)
    moreover have "on_process (Some d) (Some b) =
        Some (Some (pw_stream_queue_buffer (d\<lparr>cap_ring := r', resample_accumulator := acc'\<rparr>)))"
      using * view fit(2) ch(1) f(1) by (simp add: on_process_def eff_rate_def Let_def)
    ultimately show ?thesis by (auto simp: pw_stream_queue_buffer_def)
  qed
qed

text \<open>One callback of the stream: a process call with the dequeued buffer, or a parameter
  change.  A run is the sequence in which PipeWire makes the calls.\<close>

datatype 'pod capture_event = Process "pw_buffer ptr" | Param param_id "'pod ptr"

definition capture_step ::
    "('pod \<Rightarrow> spa_audio_info \<Rightarrow> int \<times> media_type \<times> media_subtype) \<Rightarrow>
     ('pod \<Rightarrow> spa_audio_info \<Rightarrow> int \<times> audio_format \<times> u32 \<times> u32) \<Rightarrow>
     capture \<Rightarrow> 'pod capture_event \<Rightarrow> capture option" where
  "capture_step fparse rawparse d e = (case e of
       Process b \<Rightarrow> on_process (Some d) b \<bind> (\<lambda>p. p)
     | Param ident pod \<Rightarrow> on_stream_param_changed fparse rawparse (Some d) ident pod)"

definition event_ok ::
    "('pod \<Rightarrow> spa_audio_info \<Rightarrow> int \<times> audio_format \<times> u32 \<times> u32) \<Rightarrow> 'pod capture_event \<Rightarrow> bool" where
  "event_ok rawparse e = (case e of
       Process b \<Rightarrow> (case b of NULL \<Rightarrow> True | Some b \<Rightarrow> buffer_ok b)
     | Param ident pod \<Rightarrow> (case pod of NULL \<Rightarrow> True
         | Some p \<Rightarrow> \<forall>i. case rawparse p i of (rc, f, rt, ch) \<Rightarrow>
             0 \<le> rc \<longrightarrow> ch \<noteq> 0 \<and> unat rt + 16000 \<le> 2 ^ 32))"

definition dequeued_count :: "'pod capture_event list \<Rightarrow> nat" where
  "dequeued_count es = length [b. Process (Some b) \<leftarrow> es]"

lemma param_changed_ok:
  assumes d: "capture_ok d h" and e: "event_ok rawparse (Param ident param)"
  shows "\<exists>d'. on_stream_param_changed fparse rawparse (Some d) ident param = Some d' \<and>
     capture_ok d' h \<and> queued d' = queued d"
proof (cases param)
  case None
  then show ?thesis using d by (simp add: on_stream_param_changed_def)
next
  case (Some pod)
  obtain rc mt st where f: "fparse pod (cap_format d) = (rc, mt, st)" by (cases "fparse pod (cap_format d)")
  let ?d = "d\<lparr>cap_format := (cap_format d)\<lparr>info_type := mt, info_subtype := st\<rparr>\<rparr>"
  obtain rc2 fm rt ch where r: "rawparse pod (cap_format ?d) = (rc2, fm, rt, ch)"
    by (cases "rawparse pod (cap_format ?d)")
  have new: "0 \<le> rc2 \<Longrightarrow> ch \<noteq> 0 \<and> unat rt + 16000 \<le> 2 ^ 32"
    using e Some r by (auto simp: event_ok_def dest!: spec [of _ "cap_format ?d"])
  let ?d2 = "?d\<lparr>cap_format := (cap_format ?d)\<lparr>raw_format := fm, raw_rate := rt, raw_channels := ch\<rparr>\<rparr>"
  let ?d3 = "?d2\<lparr>resample_accumulator := 0, negotiated_rate := rt, negotiated_channels := ch\<rparr>"
  show ?thesis
  proof (cases "ident = SPA_PARAM_Format \<and> 0 \<le> rc \<and> mt = SPA_MEDIA_TYPE_audio \<and> st = SPA_MEDIA_SUBTYPE_raw \<and> 0 \<le> rc2")
    case True
    then have "on_stream_param_changed fparse rawparse (Some d) ident param = Some ?d3"
      using Some f r by (simp add: on_stream_param_changed_def Let_def)
    moreover have "capture_ok ?d3 h"
    proof -
      have "0 < rt \<or> rt = 0" using word_neq_0_conv by blast
      then show ?thesis using d new True by (auto simp: capture_ok_def eff_rate_def MODEL_RATE_def)
    qed
    ultimately show ?thesis by simp
  next
    case False
    let ?R = "on_stream_param_changed fparse rawparse (Some d) ident param"
    have "?R = Some d \<or> ?R = Some ?d \<or> ?R = Some ?d2"
      using Some f r False by (auto simp: on_stream_param_changed_def Let_def not_le)
    then show ?thesis using d by auto
  qed
qed


section \<open>Witnesses\<close>

definition capture8 :: capture where
  "capture8 = \<lparr>cap_ring = ring8,
     cap_format = \<lparr>info_type = SPA_MEDIA_TYPE_audio, info_subtype = SPA_MEDIA_SUBTYPE_raw,
                   raw_format = SPA_AUDIO_FORMAT_F32, raw_rate = 48000, raw_channels = 1\<rparr>,
     negotiated_rate = 8000, negotiated_channels = 1, resample_accumulator = 0, queued = 0\<rparr>"

definition buffer2 :: pw_buffer where
  "buffer2 = \<lparr>pb_buffer = Some \<lparr>sd_data = Some [FNum 1, FNum (1 / 2)],
      sd_chunk = Some \<lparr>chunk_offset = 0, chunk_size = 8\<rparr>\<rparr>\<rparr>"

lemma capture8_ok: "capture_ok capture8 []"
  by (simp add: capture_ok_def capture8_def ring8_holds eff_rate_def)

theorem mix_and_resample_correct_witness:
  "\<exists>r' acc' out.
     mix_and_resample_downmix (Some [FNum 1, FNum (1 / 2)]) 2 1 8000 (Some ring8) (Some 0) =
       Some (Some r', Some acc') \<and>
     unat acc' = (unat (0 :: u32) + unat (2 :: u64) * 16000) mod unat (8000 :: u32) \<and>
     ring_holds r' ([] @ out) \<and>
     length out = (unat (0 :: u32) + unat (2 :: u64) * 16000) div unat (8000 :: u32) \<and>
     (\<forall>j < length out. frame_of (unat (8000 :: u32)) (unat (0 :: u32)) j < unat (2 :: u64) \<and>
        out ! j = mix_spec (frame_slice [FNum 1, FNum (1 / 2)] (unat (1 :: u32))
                    (frame_of (unat (8000 :: u32)) (unat (0 :: u32)) j)))"
  by (rule mix_and_resample_correct [OF ring8_holds]) simp_all


definition parse_stereo :: "unit \<Rightarrow> spa_audio_info \<Rightarrow> int \<times> audio_format \<times> u32 \<times> u32" where
  "parse_stereo pod i = (0, SPA_AUDIO_FORMAT_F32, 48000, 2)"

definition parse_audio :: "unit \<Rightarrow> spa_audio_info \<Rightarrow> int \<times> media_type \<times> media_subtype" where
  "parse_audio pod i = (0, SPA_MEDIA_TYPE_audio, SPA_MEDIA_SUBTYPE_raw)"


end
