(* ===== verification/Wav.thy ===== *)
theory Wav
  imports Files Resample
begin

text \<open>
  The activation recording (\<^verbatim>\<open>put_u16_le\<close>, \<^verbatim>\<open>put_u32_le\<close>, \<^verbatim>\<open>write_activation_wav\<close>): the
  conversion of samples to 16-bit PCM, the RIFF header, and the atomic publication of the
  file.  A reader for the format (\<open>parse_wav\<close>) states what the file means.
\<close>

declare split_paired_All [simp del] split_paired_Ex [simp del]

section \<open>Bytes\<close>

definition memcpy_at :: "u8 list \<Rightarrow> nat \<Rightarrow> u8 list \<Rightarrow> u8 list option" where
  "memcpy_at buf off bs = (if off + length bs \<le> length buf
     then Some (take off buf @ bs @ drop (off + length bs) buf) else None)"

definition put_u16_le :: "u8 list \<Rightarrow> nat \<Rightarrow> u16 \<Rightarrow> u8 list option" where
  "put_u16_le out off v = do {
     out \<leftarrow> store out off (ucast (and v 0xff));
     store out (off + 1) (ucast (and (drop_bit 8 v) 0xff)) }"

definition put_u32_le :: "u8 list \<Rightarrow> nat \<Rightarrow> u32 \<Rightarrow> u8 list option" where
  "put_u32_le out off v = do {
     out \<leftarrow> store out off (ucast (and v 0xff));
     out \<leftarrow> store out (off + 1) (ucast (and (drop_bit 8 v) 0xff));
     out \<leftarrow> store out (off + 2) (ucast (and (drop_bit 16 v) 0xff));
     store out (off + 3) (ucast (and (drop_bit 24 v) 0xff)) }"

text \<open>The bytes they leave, and how to read them back.\<close>

definition le16 :: "u16 \<Rightarrow> u8 list" where
  "le16 v = [ucast v, ucast (drop_bit 8 v)]"

definition le32 :: "u32 \<Rightarrow> u8 list" where
  "le32 v = [ucast v, ucast (drop_bit 8 v), ucast (drop_bit 16 v), ucast (drop_bit 24 v)]"

definition un_le16 :: "u8 list \<Rightarrow> u16" where
  "un_le16 bs = or (ucast (bs ! 0)) (push_bit 8 (ucast (bs ! 1)))"

definition un_le32 :: "u8 list \<Rightarrow> u32" where
  "un_le32 bs = or (or (ucast (bs ! 0)) (push_bit 8 (ucast (bs ! 1))))
     (or (push_bit 16 (ucast (bs ! 2))) (push_bit 24 (ucast (bs ! 3))))"

lemma length_le [simp]: "length (le16 v) = 2" "length (le32 u) = 4"
  by (simp_all add: le16_def le32_def)

lemma ucast_mask8: "(ucast (and v 0xff) :: u8) = ucast v" for v :: "'a::len word"
proof -
  have m: "(0xff :: 'a word) = mask 8" by (simp add: mask_eq_exp_minus_1)
  show ?thesis unfolding m by (auto intro!: bit_word_eqI simp: bit_simps dest: bit_imp_le_length)
qed

lemma put_u16_le_bytes [mem_simps]:
  "off + 2 \<le> length out \<Longrightarrow> put_u16_le out off v = Some (take off out @ le16 v @ drop (off + 2) out)"
  by (simp add: put_u16_le_def mem_simps le16_def ucast_mask8 list_update_append upd_conv_take_nth_drop take_Suc_conv_app_nth nth_append)

lemma put_u32_le_bytes [mem_simps]:
  "off + 4 \<le> length out \<Longrightarrow> put_u32_le out off v = Some (take off out @ le32 v @ drop (off + 4) out)"
  by (simp add: put_u32_le_def mem_simps le32_def ucast_mask8 list_update_append upd_conv_take_nth_drop take_Suc_conv_app_nth nth_append eval_nat_numeral)

lemma un_le16_le16 [simp]: "un_le16 (le16 v) = v"
proof (rule bit_word_eqI)
  fix n assume "n < LENGTH(16)"
  then show "bit (un_le16 (le16 v)) n = bit v n"
    by (cases "n < 8") (auto simp: un_le16_def le16_def bit_simps)
qed

lemma un_le32_le32 [simp]: "un_le32 (le32 v) = v"
proof (rule bit_word_eqI)
  fix n assume "n < LENGTH(32)"
  then consider "n < 8" | "8 \<le> n" "n < 16" | "16 \<le> n" "n < 24" | "24 \<le> n" "n < 32" by fastforce
  then show "bit (un_le32 (le32 v)) n = bit v n"
    by cases (auto simp: un_le32_def le32_def bit_simps numeral_3_eq_3)
qed

text \<open>A fixed-width little-endian coding; a file of many values can be read back.\<close>

locale byte_codec =
  fixes enc :: "'w \<Rightarrow> u8 list" and dcd :: "u8 list \<Rightarrow> 'w" and width :: nat
  assumes round_trip: "dcd (enc v) = v"
    and width: "length (enc v) = width" "0 < width"
begin

fun dec_all :: "nat \<Rightarrow> u8 list \<Rightarrow> 'w list" where
  "dec_all 0 bs = []"
| "dec_all (Suc n) bs = dcd (take width bs) # dec_all n (drop width bs)"

lemma dec_all_enc: "dec_all (length vs) (concat (map enc vs) @ rest) = vs"
  by (induction vs) (simp_all add: round_trip width)

lemma length_enc_all: "length (concat (map enc vs)) = width * length vs"
  by (induction vs) (simp_all add: width)

lemma enc_all_inj: "concat (map enc xs) = concat (map enc ys) \<Longrightarrow> xs = ys"
  by (metis append_Nil2 dec_all_enc length_enc_all mult_cancel1 not_gr_zero width(2))

end

interpretation le16_codec: byte_codec le16 un_le16 2
  by unfold_locales simp_all

interpretation le32_codec: byte_codec le32 un_le32 4
  by unfold_locales simp_all

section \<open>Samples to PCM\<close>

definition pcm_sample :: "fp \<Rightarrow> u16 option" where
  "pcm_sample x = (let bounded = fmax (FNum (- 1)) (fmin (FNum 1) x) in do {
     n \<leftarrow> lrint (fmul binary32 bounded (if flt bounded (FZero False) then FNum 32768 else FNum 32767));
     Some (word_of_int n) })"

text \<open>The conversion loop: \<^verbatim>\<open>pcm[i]\<close> for every \<^verbatim>\<open>i < sample_count\<close>.\<close>

definition pcm_loop :: "fp list \<Rightarrow> u64 \<Rightarrow> u16 list option" where
  "pcm_loop xs sample_count =
     foldM (\<lambda>pcm i. do { x \<leftarrow> load xs i; v \<leftarrow> pcm_sample x; store pcm i v })
       (replicate (unat sample_count) 0) [0..<unat sample_count]"

section \<open>The header and the file\<close>

definition wav_header :: "u32 \<Rightarrow> u8 list option" where
  "wav_header data_size = do {
     header \<leftarrow> memcpy_at (replicate 44 0) 0 (bytes_of ''RIFF'');
     header \<leftarrow> put_u32_le header 4 (36 + data_size);
     header \<leftarrow> memcpy_at header 8 (bytes_of ''WAVEfmt '');
     header \<leftarrow> put_u32_le header 16 16;
     header \<leftarrow> put_u16_le header 20 1;
     header \<leftarrow> put_u16_le header 22 1;
     header \<leftarrow> put_u32_le header 24 MODEL_RATE;
     header \<leftarrow> put_u32_le header 28 (MODEL_RATE * 2);
     header \<leftarrow> put_u16_le header 32 2;
     header \<leftarrow> put_u16_le header 34 16;
     header \<leftarrow> memcpy_at header 36 (bytes_of ''data'');
     put_u32_le header 40 data_size }"

definition sync_and_close :: "nat \<Rightarrow> world \<Rightarrow> bool \<times> world" where
  "sync_and_close fd w = (case sys_fsync fd w of (synced, w) \<Rightarrow>
     if \<not> synced then (False, w) else sys_close fd w)"

text \<open>The conditions that follow the \<^verbatim>\<open>open\<close>, in the order of their evaluation.\<close>

definition wav_fill :: "nat \<Rightarrow> u8 list \<Rightarrow> u8 list \<Rightarrow> world \<Rightarrow> (bool \<times> world) option" where
  "wav_fill fd header pcm w = do {
     (r, w) \<leftarrow> write_all fd header w;
     if r < 0 then Some (False, w) else do {
     (r, w) \<leftarrow> write_all fd pcm w;
     if r < 0 then Some (False, w) else
     Some (sync_and_close fd w) } }"

text \<open>The values of \<^verbatim>\<open>fd\<close> (\<^theory_text>\<open>None\<close> for -1) and \<^verbatim>\<open>result\<close> before the clean-up.\<close>

definition wav_attempt :: "string \<Rightarrow> string \<Rightarrow> u8 list \<Rightarrow> u8 list \<Rightarrow> world \<Rightarrow> (nat option \<times> int \<times> world) option" where
  "wav_attempt temporary path header pcm w = (case sys_open temporary w of
       (None, w) \<Rightarrow> Some (None, - 1, w)
     | (Some fd, w) \<Rightarrow> do {
         (ok, w) \<leftarrow> wav_fill fd header pcm w;
         if \<not> ok then Some (Some fd, - 1, w)
         else (case sys_rename temporary path w of (renamed, w) \<Rightarrow>
           Some (None, if renamed then 0 else - 1, w)) })"

definition wav_finish :: "string \<Rightarrow> nat option \<Rightarrow> int \<Rightarrow> world \<Rightarrow> world" where
  "wav_finish temporary fd result w = (let w = (case fd of None \<Rightarrow> w | Some fd \<Rightarrow> snd (sys_close fd w)) in
     if result \<noteq> 0 then snd (sys_unlink temporary w) else w)"

definition UINT32_MAX :: nat where "UINT32_MAX = 4294967295"

definition write_activation_wav :: "nat \<Rightarrow> string ptr \<Rightarrow> fp list ptr \<Rightarrow> u64 \<Rightarrow> world \<Rightarrow> (int \<times> world) option" where
  "write_activation_wav pid path audio sample_count w = (case (path, audio) of
       (Some path, Some xs) \<Rightarrow>
         if sample_count = 0 \<or> UINT32_MAX div 2 < unat sample_count then Some (- 1, w)
         else (case ensure_parent_dir (Some path) w of (made, w) \<Rightarrow>
           if made < 0 then Some (- 1, w)
           else (let (temporary, n) = snprintf 8192 (path @ ''.tmp.'' @ dec pid) in
             if n < 0 then Some (- 1, w)
             else (case c_malloc w of (allocated, w) \<Rightarrow>
               if \<not> allocated then Some (- 1, w)
               else do {
                 pcm \<leftarrow> pcm_loop xs sample_count;
                 header \<leftarrow> wav_header (ucast (sample_count * 2));
                 (fd, result, w) \<leftarrow> wav_attempt temporary path header (concat (map le16 pcm)) w;
                 Some (result, wav_finish temporary fd result w) })))
     | _ \<Rightarrow> Some (- 1, w))"

section \<open>Samples\<close>

lemma fval_fround:
  assumes "isfinite (fround F s x)" "x \<noteq> 0"
  shows "fval (fround F s x) = (if x < 0 then - (of_int (rne (\<bar>x\<bar> / quantum F x)) * quantum F x)
    else of_int (rne (\<bar>x\<bar> / quantum F x)) * quantum F x)"
proof -
  define m where "m = rne (\<bar>x\<bar> / quantum F x)"
  have "fround F s x = (if m = 0 then FZero (x < 0)
      else if 2 powi emax F \<le> of_int m * quantum F x then FInf (x < 0)
      else FNum (if x < 0 then - (of_int m * quantum F x) else of_int m * quantum F x))"
    using assms(2) by (simp add: fround_def Let_def m_def)
  with assms(1) show ?thesis unfolding m_def [symmetric] by (simp split: if_splits)
qed

lemma fround_near:
  assumes "\<bar>x\<bar> \<le> 2 ^ 15"
  shows "isfinite (fround binary32 s x) \<and> \<bar>fval (fround binary32 s x) - x\<bar> \<le> 1 / 512"
proof (cases "x = 0")
  case False
  let ?q = "quantum binary32 x" and ?m = "rne (\<bar>x\<bar> / quantum binary32 x)"
  have "ilog2 \<bar>x\<bar> < 16" using assms False by (intro ilog2_less) auto
  then have "?q \<le> 2 powi (- 8)"
    unfolding quantum_def by (intro powi2_mono) (simp add: binary32_def)
  then have q: "?q \<le> 1 / 256" by (simp add: power_int_minus)
  have "\<bar>of_int ?m - \<bar>x\<bar> / ?q\<bar> \<le> 1 / 2" using rne_bounds [of "\<bar>x\<bar> / ?q"] by linarith
  then have "\<bar>of_int ?m - \<bar>x\<bar> / ?q\<bar> * ?q \<le> 1 / 2 * (1 / 256)"
    using q by (intro mult_mono) auto
  moreover have "\<bar>of_int ?m - \<bar>x\<bar> / ?q\<bar> * ?q = \<bar>of_int ?m * ?q - \<bar>x\<bar>\<bar>"
    using abs_mult_pos [of ?q "of_int ?m - \<bar>x\<bar> / ?q"] by (simp add: left_diff_distrib)
  ultimately have near: "\<bar>of_int ?m * ?q - \<bar>x\<bar>\<bar> \<le> 1 / 512" by simp
  have "on_grid binary32 (2 ^ 15)" by (rule on_gridI [of _ 1 15]) auto
  moreover have "(2::rat) ^ 15 < 2 powi emax binary32" by (simp add: powi2_of_nat)
  ultimately have fin: "isfinite (fround binary32 s x)"
    using fround_bounded [of binary32 "2 ^ 15" x s] assms by simp
  then have "fval (fround binary32 s x) = (if x < 0 then - (of_int ?m * ?q) else of_int ?m * ?q)"
    by (rule fval_fround [OF _ False])
  moreover have "\<bar>(if x < 0 then - y else y) - x\<bar> = \<bar>y - \<bar>x\<bar>\<bar>" for y by auto
  ultimately show ?thesis using near fin by simp
qed (simp add: fround_def)

definition clamped :: "fp \<Rightarrow> rat" where
  "clamped x = fval (fmax (FNum (- 1)) (fmin (FNum 1) x))"

lemma clamped_fp: "isfinite (fmax (FNum (- 1)) (fmin (FNum 1) x))" "- 1 \<le> clamped x" "clamped x \<le> 1"
proof -
  show fin: "isfinite (fmax (FNum (- 1)) (fmin (FNum 1) x))" by (rule clamp_finite) auto
  show "- 1 \<le> clamped x" "clamped x \<le> 1"
    using clamp_bounds [of "FNum (- 1)" "FNum 1" x] fin by (auto simp: clamped_def)
qed

lemma sint_word_of_int16: "- 32768 \<le> n \<Longrightarrow> n \<le> 32767 \<Longrightarrow> sint (word_of_int n :: u16) = n"
  by (simp add: sint_sbintrunc' signed_take_bit_int_eq_self)

definition pcm_scale :: "rat \<Rightarrow> rat" where
  "pcm_scale b = (if b < 0 then 32768 else 32767)"

text \<open>
Property C16. Every float, NaN and infinities included, converts to a 16-bit sample: the
sample is within 1/2 + 1/512 of the clamped value times 32768 (negative) or 32767.\<close>

theorem pcm_sample_accurate:
  "\<exists>v. pcm_sample x = Some v \<and>
     \<bar>of_int (sint v) - clamped x * pcm_scale (clamped x)\<bar> \<le> 1 / 2 + 1 / 512"
proof -
  let ?b = "fmax (FNum (- 1)) (fmin (FNum 1) x)"
  let ?k = "if flt ?b (FZero False) then FNum 32768 else FNum 32767 :: fp"
  let ?p = "clamped x * pcm_scale (clamped x)"
  have neg: "flt ?b (FZero False) \<longleftrightarrow> clamped x < 0" using clamped_fp(1) [of x] by (simp add: clamped_def)
  have y: "fmul binary32 ?b ?k = fround binary32 (fsign ?b) ?p"
    using fmul_fin [OF clamped_fp(1), of ?k binary32 x] neg by (auto simp: clamped_def pcm_scale_def)
  have cases: "clamped x < 0 \<and> - 32768 \<le> ?p \<and> ?p \<le> 0 \<or> 0 \<le> clamped x \<and> 0 \<le> ?p \<and> ?p \<le> 32767"
    using clamped_fp(2,3) [of x] by (auto simp: pcm_scale_def)
  let ?r = "fval (fround binary32 (fsign ?b) ?p)"
  have "\<bar>?p\<bar> \<le> 2 ^ 15" using cases by auto
  from fround_near [OF this] have fin: "isfinite (fround binary32 (fsign ?b) ?p)"
    and near: "\<bar>?r - ?p\<bar> \<le> 1 / 512" by auto
  have grid: "on_grid binary32 32768" "on_grid binary32 32767"
    using on_grid_of_int [of 32768 binary32] on_grid_of_int [of 32767 binary32] by simp_all
  have emax: "(32768::rat) < 2 powi emax binary32" "(32767::rat) < 2 powi emax binary32"
    by (simp_all add: powi2_of_nat)
  have r: "- 32768 \<le> ?r \<and> ?r \<le> 32767"
    using fround_bounded [OF grid(1) emax(1), of ?p "fsign ?b"]
      fround_bounded [OF grid(2) emax(2), of ?p "fsign ?b"] cases by linarith
  have n: "- 32768 \<le> rne ?r" "rne ?r \<le> 32767"
    using r by (auto intro!: rne_ge_int rne_le_int)
  have "lrint (fround binary32 (fsign ?b) ?p) = Some (rne ?r)"
    using fin n by (simp add: lrint_def in_long_def)
  then have pcm: "pcm_sample x = Some (word_of_int (rne ?r))"
    using y by (simp add: pcm_sample_def Let_def)
  have "\<bar>of_int (rne ?r) - ?r\<bar> \<le> 1 / 2" using rne_bounds [of ?r] by linarith
  then have "\<bar>of_int (rne ?r) - ?p\<bar> \<le> 1 / 2 + 1 / 512" using near by linarith
  moreover have "sint (word_of_int (rne ?r) :: u16) = rne ?r" using n by (rule sint_word_of_int16)
  ultimately show ?thesis using pcm by (metis (no_types, lifting))
qed

lemma pcm_sample_total: "pcm_sample x = Some (the (pcm_sample x))"
  using pcm_sample_accurate [of x] by auto

definition pcm_of :: "fp list \<Rightarrow> u16 list" where
  "pcm_of xs = map (\<lambda>x. the (pcm_sample x)) xs"

lemma pcm_loop_correct:
  assumes "unat n \<le> length xs"
  shows "pcm_loop xs n = Some (pcm_of (take (unat n) xs))"
proof -
  have "foldM (\<lambda>pcm i. do { x \<leftarrow> load xs i; v \<leftarrow> pcm_sample x; store pcm i v })
      (replicate k 0) [0..<m] = Some (pcm_of (take m xs) @ replicate (k - m) 0)"
    if "m \<le> k" "k \<le> length xs" for m k
    using that
  proof (induction m)
    case (Suc m)
    have "pcm_of (take (Suc m) xs) = pcm_of (take m xs) @ [the (pcm_sample (xs ! m))]"
      using Suc.prems by (simp add: pcm_of_def take_Suc_conv_app_nth)
    moreover have "replicate (k - m) (0 :: u16) = 0 # replicate (k - Suc m) 0"
      using Suc.prems by (simp flip: replicate_Suc add: Suc_diff_Suc)
    moreover have "length (pcm_of (take m xs)) = m" using Suc.prems by (simp add: pcm_of_def)
    ultimately show ?case
      using Suc
      by (simp add: foldM_append load_in store_in list_update_append) (subst pcm_sample_total, simp add: store_in list_update_append)
  qed (simp add: pcm_of_def)
  from this [of "unat n" "unat n"] assms show ?thesis by (simp add: pcm_loop_def)
qed

section \<open>The file\<close>

definition wav_bytes :: "u16 list \<Rightarrow> u8 list" where
  "wav_bytes pcm = (let ds = of_nat (2 * length pcm) in
     bytes_of ''RIFF'' @ le32 (36 + ds) @ bytes_of ''WAVEfmt '' @ le32 16 @ le16 1 @ le16 1 @
     le32 MODEL_RATE @ le32 (MODEL_RATE * 2) @ le16 2 @ le16 16 @ bytes_of ''data'' @ le32 ds @
     concat (map le16 pcm))"

lemma memcpy_at_ok [mem_simps]:
  "off + length bs \<le> length buf \<Longrightarrow> memcpy_at buf off bs = Some (take off buf @ bs @ drop (off + length bs) buf)"
  by (simp add: memcpy_at_def)

lemma length_bytes_of [simp]: "length (bytes_of s) = length s"
  by (simp add: bytes_of_def)

lemma wav_header_correct:
  "wav_header ds = Some (bytes_of ''RIFF'' @ le32 (36 + ds) @ bytes_of ''WAVEfmt '' @ le32 16 @
     le16 1 @ le16 1 @ le32 MODEL_RATE @ le32 (MODEL_RATE * 2) @ le16 2 @ le16 16 @ bytes_of ''data'' @ le32 ds)"
  unfolding wav_header_def by (simp add: mem_simps)

text \<open>A reader of canonical PCM files: channels, rate, bits, and the samples.\<close>

record wav_content =
  wav_channels :: u16
  wav_rate :: u32
  wav_bits :: u16
  wav_samples :: "u16 list"

definition parse_wav :: "u8 list \<Rightarrow> wav_content option" where
  "parse_wav bs = (
     if length bs < 44 \<or> take 4 bs \<noteq> bytes_of ''RIFF'' \<or> take 8 (drop 8 bs) \<noteq> bytes_of ''WAVEfmt '' \<or>
        take 4 (drop 36 bs) \<noteq> bytes_of ''data'' then None
     else (let riff = unat (un_le32 (take 4 (drop 4 bs))); fmt = un_le32 (take 4 (drop 16 bs));
               kind = un_le16 (take 2 (drop 20 bs)); channels = un_le16 (take 2 (drop 22 bs));
               rate = un_le32 (take 4 (drop 24 bs)); byte_rate = un_le32 (take 4 (drop 28 bs));
               align = un_le16 (take 2 (drop 32 bs)); bits = un_le16 (take 2 (drop 34 bs));
               data = unat (un_le32 (take 4 (drop 40 bs))) in
       if riff \<noteq> length bs - 8 \<or> fmt \<noteq> 16 \<or> kind \<noteq> 1 \<or> bits \<noteq> 16 \<or>
          data \<noteq> length bs - 44 \<or> ucast align \<noteq> (ucast channels :: u32) * 2 \<or>
          byte_rate \<noteq> rate * ucast align \<or> odd data
       then None
       else Some \<lparr>wav_channels = channels, wav_rate = rate, wav_bits = bits,
                   wav_samples = le16_codec.dec_all (data div 2) (drop 44 bs)\<rparr>))"



section \<open>Publication\<close>

lemma sync_and_close_spec:
  assumes run: "sync_and_close fd w = (ok, w')" and live: "open_on fd (To_File m) w"
    and fds: "fds w = (fd, To_File m) # old" "fd \<notin> fst ` set old" and distinct: "m \<noteq> n"
  shows "quiet n w w' \<and> (if ok then fds w' = old \<and> files w' m = files w m \<and> durable w' m = files w m
      else fds w' = fds w \<or> fds w' = old)"
proof -
  obtain b u where u: "sys_fsync fd w = (b, u)" by force
  have q: "quiet n w u" using live distinct by (intro quiet_fsync [OF u]) (auto simp: open_on_def)
  have f: "fds u = fds w" by (rule sys_fsync_fds [OF u])
  show ?thesis
  proof (cases b)
    case True
    then have cl: "sys_close fd u = (ok, w')" using run u by (simp add: sync_and_close_def)
    note restored = sys_close_restores [OF cl, of "To_File m" old]
    show ?thesis
      using sys_fsync_target [of fd w u m] u True live f fds restored quiet_trans [OF q quiet_close [OF cl]]
      by auto
  qed (use run u q f in \<open>auto simp: sync_and_close_def\<close>)
qed

lemma wav_fill_spec:
  assumes run: "wav_fill fd header pcm w = Some (ok, w')" and live: "open_on fd (To_File m) w"
    and fds: "fds w = (fd, To_File m) # old" "fd \<notin> fst ` set old"
    and empty: "files w m = Some []" and distinct: "m \<noteq> n"
  shows "quiet n w w' \<and> (if ok then fds w' = old \<and> files w' m = Some (header @ pcm) \<and>
      durable w' m = Some (header @ pcm) else fds w' = fds w \<or> fds w' = old)"
proof -
  let ?t = "To_File m"
  from run obtain r2 w2 where w2: "write_all fd header w = Some (r2, w2)"
    by (auto simp: wav_fill_def bind_eq_Some_conv)
  note s2 = write_all_spec [OF w2 live]
  have q2: "quiet n w w2" using s2 quiet_wrote distinct by metis
  have f2: "fds w2 = fds w" using s2 wrote_fds by metis
  show ?thesis
  proof (cases "r2 < 0")
    case True
    then show ?thesis using run w2 q2 f2 by (auto simp: wav_fill_def)
  next
    case False
    then have wr2: "wrote ?t header w w2" using s2 by auto
    note live2 = open_on_wrote [OF live wr2]
    from run w2 False obtain r3 w3 where w3: "write_all fd pcm w2 = Some (r3, w3)"
      by (auto simp: wav_fill_def bind_eq_Some_conv)
    note s3 = write_all_spec [OF w3 live2]
    have q3: "quiet n w w3" using s3 q2 quiet_wrote distinct quiet_trans by metis
    have f3: "fds w3 = fds w" using s3 wrote_fds f2 by metis
    show ?thesis
    proof (cases "r3 < 0")
      case True
      then show ?thesis using run w2 \<open>\<not> r2 < 0\<close> w3 q3 f3 by (auto simp: wav_fill_def)
    next
      case ok3: False
      then have wr3: "wrote ?t pcm w2 w3" using s3 by auto
      have tail: "sync_and_close fd w3 = (ok, w')"
        using run w2 False w3 ok3 by (auto simp: wav_fill_def sync_and_close_def)
      have "files w3 m = Some (header @ pcm)" using wr2 wr3 empty by (simp add: wrote_def)
      with sync_and_close_spec [OF tail open_on_wrote [OF live2 wr3] _ fds(2) distinct] f3 fds(1) q3
      show ?thesis by (auto intro: quiet_trans)
    qed
  qed
qed

text \<open>The clean-up closes what is still open and removes the temporary file; a second
  \<^verbatim>\<open>close\<close> of a descriptor that is gone changes nothing here.\<close>

lemma close_again:
  assumes "sys_close fd w = (b, w')" "fd \<notin> fst ` set old" "fds w = (fd, t) # old \<or> fds w = old"
  shows "fds w' = old"
  using assms sys_close_restores(1) [of fd w b w' t old] sys_close_absent(1) [of fd w b w'] by auto

lemma wav_finish_quiet:
  assumes "case fd of None \<Rightarrow> fds w = old
      | Some k \<Rightarrow> k \<notin> fst ` set old \<and> (fds w = (k, t) # old \<or> fds w = old)"
    and "node_of a \<noteq> n" "r \<noteq> 0"
  shows "quiet n w (wav_finish a fd r w) \<and> fds (wav_finish a fd r w) = old"
proof -
  define u where "u = (case fd of None \<Rightarrow> w | Some fd \<Rightarrow> snd (sys_close fd w))"
  have u: "quiet n w u \<and> fds u = old"
  proof (cases fd)
    case (Some k)
    obtain b where "sys_close k w = (b, u)" using Some by (metis option.simps(5) prod.collapse u_def)
    then show ?thesis using assms(1) Some quiet_close [of k w b u n] close_again [of k w b u old t]
      by auto
  qed (use assms(1) in \<open>simp add: u_def\<close>)
  obtain b v where v: "sys_unlink a u = (b, v)" by force
  have "wav_finish a fd r w = v" using assms(3) v by (simp add: wav_finish_def u_def)
  moreover have "quiet n u v" by (rule quiet_unlink [OF v assms(2)])
  moreover have "fds v = fds u" using sys_unlink_frame [OF v] by (simp add: same_fds_def)
  ultimately show ?thesis using u quiet_trans by metis
qed

lemma wav_attempt_outcome:
  assumes run: "wav_attempt a p header pcm w = Some (fd, r, w')" and ok: "world_ok w"
    and distinct: "node_of a \<noteq> node_of p"
  shows "r = 0 \<and> fd = None \<and> replaces (node_of p) (header @ pcm) True w w' \<or>
     r = - 1 \<and> quiet (node_of p) w w' \<and>
       (case fd of None \<Rightarrow> fds w' = fds w
        | Some k \<Rightarrow> k \<notin> fst ` set (fds w) \<and> (fds w' = (k, To_File (node_of a)) # fds w \<or> fds w' = fds w))"
proof (cases "sys_open a w")
  case (Pair o1 w1)
  show ?thesis
  proof (cases o1)
    case None
    then show ?thesis using run Pair sys_open_None [of a w w1] quiet_open [OF Pair distinct]
      by (auto simp: wav_attempt_def same_fds_def)
  next
    case (Some k)
    note opened = sys_open_target [OF Pair [unfolded Some] ok]
    have q1: "quiet (node_of p) w w1" by (rule quiet_open [OF Pair distinct])
    from run Pair Some obtain good w2 where w2: "wav_fill k header pcm w1 = Some (good, w2)"
      by (auto simp: wav_attempt_def bind_eq_Some_conv)
    note fill = wav_fill_spec [OF w2 opened(1,4,5,2) distinct]
    have q2: "quiet (node_of p) w w2" using q1 fill quiet_trans by blast
    show ?thesis
    proof (cases good)
      case False
      then show ?thesis using run Pair Some w2 q2 fill opened(4,5) by (auto simp: wav_attempt_def)
    next
      case True
      obtain b w3 where w3: "sys_rename a p w2 = (b, w3)" by force
      have "replaces (node_of p) (header @ pcm) True w w3" if b
        using replaces_rename [OF q2 _ _ distinct] fill True w3 that by simp
      moreover have "quiet (node_of p) w w3 \<and> fds w3 = fds w" if "\<not> b"
        using quiet_trans [OF q2 quiet_rename [OF w3]] sys_rename_frame [OF w3] fill True that
        by (simp add: same_fds_def)
      moreover have "fd = None \<and> r = (if b then 0 else - 1) \<and> w' = w3"
        using run Pair Some w2 w3 True by (auto simp: wav_attempt_def)
      ultimately show ?thesis by (cases b) auto
    qed
  qed
qed

lemma wav_publish_outcome:
  assumes run: "wav_attempt a p header pcm w = Some (fd, r, w')" and ok: "world_ok w"
    and distinct: "node_of a \<noteq> node_of p"
  shows "(r = 0 \<or> r = - 1) \<and> replaces (node_of p) (header @ pcm) (r = 0) w (wav_finish a fd r w')"
proof (cases "r = 0")
  case True
  then show ?thesis using wav_attempt_outcome [OF assms] by (auto simp: wav_finish_def)
next
  case False
  then have out: "r = - 1" "quiet (node_of p) w w'" "case fd of None \<Rightarrow> fds w' = fds w
      | Some k \<Rightarrow> k \<notin> fst ` set (fds w) \<and> (fds w' = (k, To_File (node_of a)) # fds w \<or> fds w' = fds w)"
    using wav_attempt_outcome [OF assms] by auto
  from wav_finish_quiet [OF out(3) distinct False] show ?thesis
    using False out(1,2) by (auto intro!: replaces_quiet intro: quiet_trans [OF out(2)])
qed

lemma ucast_double: "2 * unat n < 2 ^ 32 \<Longrightarrow> ucast (n * 2) = (of_nat (2 * unat n) :: u32)" for n :: u64
proof -
  assume "2 * unat n < 2 ^ 32"
  then have "take_bit 64 (2 * unat n) = 2 * unat n" by (intro take_bit_nat_eq_self) simp
  then have "(ucast (of_nat (2 * unat n) :: u64) :: u32) = of_nat (2 * unat n)"
    by (simp only: unsigned_of_nat len_num1 len_bit0 len_bit1) (simp add: mult.commute)
  moreover have "n * 2 = of_nat (2 * unat n)" by simp
  ultimately show ?thesis by metis
qed

lemma wav_fill_total:
  assumes "open_on fd (To_File m) w" "fair w"
  shows "\<exists>ok w'. wav_fill fd header pcm w = Some (ok, w')"
proof -
  obtain r u where u: "write_all fd header w = Some (r, u)" by (rule write_all_total [OF assms])
  show ?thesis
  proof (cases "r < 0")
    case False
    then have wr: "wrote (To_File m) header w u" using write_all_spec [OF u assms(1)] by auto
    obtain r' u' where "write_all fd pcm u = Some (r', u')"
      by (rule write_all_total [OF open_on_wrote [OF assms(1) wr] wrote_fair [OF wr assms(2)]])
    then show ?thesis using u False
      by (cases "sync_and_close fd u'"; cases "r' < 0") (auto simp: wav_fill_def)
  qed (use u in \<open>auto simp: wav_fill_def\<close>)
qed

lemma wav_attempt_total:
  assumes "world_ok w" "fair w"
  shows "\<exists>fd r w'. wav_attempt a p header pcm w = Some (fd, r, w')"
proof (cases "sys_open a w")
  case (Pair o1 w1)
  show ?thesis
  proof (cases o1)
    case (Some k)
    note opened = sys_open_Some [OF Pair [unfolded Some] assms(1)]
    have "fair w1" using assms(2) opened(9) by (simp add: fair_def)
    with wav_fill_total [OF sys_open_target(1) [OF Pair [unfolded Some] assms(1)]]
    obtain ok w2 where "wav_fill k header pcm w1 = Some (ok, w2)" by blast
    then show ?thesis using Pair Some by (auto simp: wav_attempt_def split: prod.split)
  qed (use Pair in \<open>simp add: wav_attempt_def\<close>)
qed

lemma write_activation_wav_spec:
  assumes "world_ok w" "fair w" "unat n \<le> length xs" "length (path @ ''.tmp.'' @ dec pid) < 8192"
  shows "\<exists>r w'. write_activation_wav pid (Some path) (Some xs) n w = Some (r, w') \<and>
     (r = 0 \<or> r = - 1) \<and>
     replaces (node_of path) (wav_bytes (pcm_of (take (unat n) xs))) (r = 0) w w'"
proof (cases "n = 0 \<or> UINT32_MAX div 2 < unat n")
  case True
  then show ?thesis
    by (auto simp: write_activation_wav_def intro!: replaces_quiet)
next
  case False
  let ?node = "node_of path" and ?tmp = "path @ ''.tmp.'' @ dec pid" and ?pcm = "pcm_of (take (unat n) xs)"
  have slash: "CHR ''/'' \<notin> set (''.tmp.'' @ dec pid)"
    using dec_digits [of "CHR ''/''" pid] by (auto simp: is_digit_def)
  have distinct: "node_of ?tmp \<noteq> ?node" using node_of_suffix [OF slash, of path] by simp
  have snp: "snprintf 8192 ?tmp = (?tmp, int (length ?tmp))"
    using assms(4) by (simp add: snprintf_def INT_MAX_def)
  have pcm: "pcm_loop xs n = Some ?pcm" by (rule pcm_loop_correct [OF assms(3)])
  have ds: "ucast (n * 2) = (of_nat (2 * length ?pcm) :: u32)"
    using ucast_double [of n] False assms(3) by (simp add: pcm_of_def UINT32_MAX_def)
  obtain r1 w1 where w1: "ensure_parent_dir (Some path) w = (r1, w1)" by force
  have only: "only_dirs w w1" by (rule ensure_parent_dir_only_dirs [OF w1])
  have q1: "quiet ?node w w1" by (rule quiet_only_dirs [OF only])
  have f1: "fds w1 = fds w" using only by (simp add: only_dirs_def same_fds_def)
  obtain b w2 where w2: "c_malloc w1 = (b, w2)" by force
  have q2: "quiet ?node w w2" by (rule quiet_trans [OF q1 quiet_malloc [OF w2]])
  have f2: "fds w2 = fds w" using c_malloc_frame [OF w2] f1 by (simp add: same_fds_def)
  show ?thesis
  proof (cases "r1 < 0 \<or> \<not> b")
    case True
    then show ?thesis using False w1 w2 snp q1 q2 f1 f2
      by (cases "r1 < 0") (auto simp: write_activation_wav_def intro!: replaces_quiet)
  next
    case go: False
    have ok2: "world_ok w2" "fair w2"
      using quiet_world_ok [OF q2 f2 assms(1)] quiet_fair [OF q2 assms(2)] by auto
    have head: "wav_header (ucast (n * 2)) = Some (take 44 (wav_bytes ?pcm))"
      by (simp add: wav_header_correct wav_bytes_def ds Let_def)
    have bytes: "take 44 (wav_bytes ?pcm) @ concat (map le16 ?pcm) = wav_bytes ?pcm"
      by (simp add: wav_bytes_def Let_def)
    obtain fd r w3 where w3: "wav_attempt ?tmp path (take 44 (wav_bytes ?pcm)) (concat (map le16 ?pcm)) w2 = Some (fd, r, w3)"
      using wav_attempt_total [OF ok2] by blast
    have "write_activation_wav pid (Some path) (Some xs) n w = Some (r, wav_finish ?tmp fd r w3)"
      using False w1 go snp w2 pcm head w3 by (simp add: write_activation_wav_def)
    then show ?thesis using wav_publish_outcome [OF w3 ok2(1) distinct] bytes replaces_after [OF q2 f2]
      by auto
  qed
qed



text \<open>The length guard of write_activation_wav admits counts (up to 2147483647) for which
36 + data_size wraps around: the RIFF length is then wrong and a reader rejects the file.\<close>

lemma wav_riff_size_wraps:
  assumes "2 ^ 32 \<le> 36 + 2 * length pcm" "length pcm \<le> UINT32_MAX div 2"
  shows "parse_wav (wav_bytes pcm) = None"
proof -
  let ?ds = "of_nat (2 * length pcm) :: u32"
  have u: "unat ?ds = 2 * length pcm"
    using assms(2) by (intro unat_of_nat_u32) (simp add: UINT32_MAX_def)
  have "unat (36 + ?ds) \<noteq> 36 + 2 * length pcm"
    using assms(1) unat_u32_less [of "36 + ?ds"] by linarith
  moreover have "length (concat (map le16 pcm)) = 2 * length pcm"
    by (simp add: le16_codec.length_enc_all)
  ultimately show ?thesis using u
    by (simp add: parse_wav_def wav_bytes_def Let_def MODEL_RATE_def)
qed

text \<open>Every other node, the temporary one apart, is left alone.\<close>

lemma wav_attempt_frame:
  assumes run: "wav_attempt a p header pcm w = Some (fd, r, w')" and ok: "world_ok w"
    and m: "m \<noteq> node_of a" "m \<noteq> node_of p"
  shows "quiet m w (wav_finish a fd r w')"
proof -
  have "quiet m w w'"
  proof (cases "sys_open a w")
    case (Pair o1 w1)
    have q1: "quiet m w w1" using m by (intro quiet_open [OF Pair]) auto
    show ?thesis
    proof (cases o1)
      case None
      then show ?thesis using run Pair q1 by (simp add: wav_attempt_def)
    next
      case (Some k)
      note opened = sys_open_target [OF Pair [unfolded Some] ok]
      from run Pair Some obtain good w2 where w2: "wav_fill k header pcm w1 = Some (good, w2)"
        by (auto simp: wav_attempt_def bind_eq_Some_conv)
      have q2: "quiet m w w2" using wav_fill_spec [OF w2 opened(1,4,5,2), of m] m q1 quiet_trans by blast
      show ?thesis
      proof (cases good)
        case True
        obtain b w3 where w3: "sys_rename a p w2 = (b, w3)" by force
        have "quiet m w w3" using quiet_trans [OF q2 quiet_rename [OF w3]] m by auto
        then show ?thesis using run Pair Some w2 w3 True by (simp add: wav_attempt_def)
      qed (use run Pair Some w2 q2 in \<open>simp add: wav_attempt_def\<close>)
    qed
  qed
  moreover have "quiet m u (snd (sys_close k u))" for u k by (rule quiet_close) (rule surjective_pairing)
  moreover have "quiet m u (snd (sys_unlink a u))" for u
    using m by (intro quiet_unlink [OF surjective_pairing]) auto
  ultimately show ?thesis unfolding wav_finish_def Let_def
    by (cases fd; cases "r = 0") (simp_all, (metis quiet_trans)+)
qed

lemma write_activation_wav_frame:
  assumes run: "write_activation_wav pid (Some path) audio n w = Some (r, w')" and ok: "world_ok w"
    and len: "length (path @ ''.tmp.'' @ dec pid) < 8192"
    and m: "m \<noteq> node_of (path @ ''.tmp.'' @ dec pid)" "m \<noteq> node_of path"
  shows "quiet m w w'"
proof -
  let ?tmp = "path @ ''.tmp.'' @ dec pid"
  obtain r1 w1 where w1: "ensure_parent_dir (Some path) w = (r1, w1)" by force
  have only: "only_dirs w w1" by (rule ensure_parent_dir_only_dirs [OF w1])
  obtain b w2 where w2: "c_malloc w1 = (b, w2)" by force
  have q1: "quiet m w w1" by (rule quiet_only_dirs [OF only])
  have q2: "quiet m w w2" by (rule quiet_trans [OF q1 quiet_malloc [OF w2]])
  have "fds w2 = fds w" using c_malloc_frame [OF w2] only by (simp add: only_dirs_def same_fds_def)
  then have ok2: "world_ok w2" using quiet_world_ok [OF q2 _ ok] by simp
  have snp: "snprintf 8192 ?tmp = (?tmp, int (length ?tmp))"
    using len by (simp add: snprintf_def INT_MAX_def)
  consider "w' = w" | "w' = w1" | "w' = w2"
    | h pcm fd v where "wav_attempt ?tmp path h pcm w2 = Some (fd, r, v)" "w' = wav_finish ?tmp fd r v"
    using run w1 w2 snp
    by (fastforce simp: write_activation_wav_def bind_eq_Some_conv split: option.splits if_splits)
  then show ?thesis
  proof cases
    case 4
    then show ?thesis using wav_attempt_frame [OF 4(1) ok2 m] quiet_trans [OF q2] by simp
  qed (use q1 q2 in simp_all)
qed

text \<open>Recordings written to one path, seen as a sequence of publications.\<close>

definition record_window :: "nat \<Rightarrow> string \<Rightarrow> fp list \<Rightarrow> world \<Rightarrow> world option" where
  "record_window pid path xs w =
     map_option snd (write_activation_wav pid (Some path) (Some xs) (ucast MODEL_SAMPLES) w)"

definition recordable :: "nat \<Rightarrow> string \<Rightarrow> world \<Rightarrow> bool" where
  "recordable pid path w \<longleftrightarrow> world_ok w \<and> fair w \<and> length (path @ ''.tmp.'' @ dec pid) < 8192"

definition full_window :: "fp list \<Rightarrow> fp list" where
  "full_window xs = take 48000 (xs @ replicate 48000 (FZero False))"

lemma record_window_replaces:
  assumes "recordable pid path w" "record_window pid path (full_window xs) w = Some w'"
  shows "\<exists>ok. replaces (node_of path) (wav_bytes (pcm_of (full_window xs))) ok w w'"
proof -
  have "unat (ucast MODEL_SAMPLES :: u64) = 48000" "length (full_window xs) = 48000"
    by (simp_all add: MODEL_SAMPLES_def MODEL_RATE_def MODEL_SECONDS_def full_window_def)
  with write_activation_wav_spec [of w "ucast MODEL_SAMPLES" "full_window xs" path pid] assms
  show ?thesis by (auto simp: record_window_def recordable_def)
qed

lemma replaces_recordable:
  "replaces n new ok w w' \<Longrightarrow> recordable pid path w \<Longrightarrow> recordable pid path w'"
  by (auto simp: recordable_def intro: replaces_world_ok replaces_fair)

interpretation wav_file: file_publisher "\<lambda>xs. record_window pid path (full_window xs)" "node_of path"
    "\<lambda>xs. wav_bytes (pcm_of (full_window xs))" "recordable pid path" for pid path
  by unfold_locales (meson record_window_replaces replaces_recordable)+

end
