(* ===== verification/Archive.thy ===== *)
theory Archive
  imports Wav
begin

text \<open>
  \<^verbatim>\<open>archive_activation\<close>: the names of an archived activation, its WAV file and its JSON
  metadata, with the clean-up when the second file fails.  The clock is read from the
  environment: \<open>now\<close> is the result of \<^verbatim>\<open>clock_gettime(CLOCK_REALTIME)\<close>, seconds and
  nanoseconds, or \<^theory_text>\<open>None\<close> when it fails.
\<close>

declare split_paired_All [simp del] split_paired_Ex [simp del]

section \<open>Calendar\<close>

text \<open>\<^verbatim>\<open>gmtime_r\<close>: year, month and day from the days since 1970 (proleptic Gregorian), then the
  time of the day; NULL when the year does not fit an \<^verbatim>\<open>int\<close>.\<close>

definition civil_of_days :: "int \<Rightarrow> int \<times> int \<times> int" where
  "civil_of_days d = (let z = d + 719468; era = z div 146097; doe = z mod 146097;
       yoe = (doe - doe div 1460 + doe div 36524 - doe div 146096) div 365;
       doy = doe - (365 * yoe + yoe div 4 - yoe div 100); mp = (5 * doy + 2) div 153;
       m = (if mp < 10 then mp + 3 else mp - 9) in
     (yoe + era * 400 + (if m \<le> 2 then 1 else 0), m, doy - (153 * mp + 2) div 5 + 1))"

record tm =
  tm_year :: int
  tm_mon :: int
  tm_mday :: int
  tm_hour :: int
  tm_min :: int
  tm_sec :: int

definition gmtime_r :: "int \<Rightarrow> tm option" where
  "gmtime_r t = (let (y, m, d) = civil_of_days (t div 86400); s = t mod 86400 in
     if y - 1900 < - (2 ^ 31) \<or> 2 ^ 31 \<le> y - 1900 then None
     else Some \<lparr>tm_year = y, tm_mon = m, tm_mday = d, tm_hour = s div 3600,
                tm_min = s mod 3600 div 60, tm_sec = s mod 60\<rparr>)"

definition dec_pad :: "nat \<Rightarrow> int \<Rightarrow> string" where
  "dec_pad k n = pad_left CHR ''0'' k (dec_int n)"

text \<open>\<^verbatim>\<open>strftime(buf, size, "%Y%m%d_%H%M%S", tm)\<close>: the text, or 0 when it does not fit.\<close>

definition strftime_stamp :: "nat \<Rightarrow> tm \<Rightarrow> string option" where
  "strftime_stamp sz t = (let s = dec_int (tm_year t) @ dec_pad 2 (tm_mon t) @ dec_pad 2 (tm_mday t) @
       ''_'' @ dec_pad 2 (tm_hour t) @ dec_pad 2 (tm_min t) @ dec_pad 2 (tm_sec t) in
     if length s < sz then Some s else None)"

section \<open>archive_activation\<close>

definition stem_text :: "string \<Rightarrow> string \<Rightarrow> int \<Rightarrow> nat \<Rightarrow> u32 \<Rightarrow> bool \<Rightarrow> string" where
  "stem_text directory timestamp nsec pid seqno self_test =
     directory @ ''/activation_'' @ timestamp @ ''_'' @ dec_pad 3 (nsec div 1000000) @ ''_'' @ dec pid @
     ''_'' @ dec (unat seqno) @ (if self_test then ''_selftest'' else [])"

definition metadata_text :: "fp \<Rightarrow> u64 \<Rightarrow> bool \<Rightarrow> string" where
  "metadata_text probability sample_count self_test =
     ''{\"probability\":'' @ fmt_g9 (fp_conv binary64 probability) @ '',\"sample_rate\":'' @ dec (unat MODEL_RATE) @
     '',\"sample_count\":'' @ dec (unat sample_count) @ '',\"duration_seconds\":'' @
     fmt_f 1 (fdiv binary64 (fp_of_int binary64 (int (unat sample_count))) (fp_of_int binary64 (int (unat MODEL_RATE)))) @
     '',\"native_listener\":true,\"self_test\":'' @ (if self_test then ''true'' else ''false'') @ ''}'' @ [CHR 0x0A]"

definition metadata_failure :: "string \<Rightarrow> string \<Rightarrow> world \<Rightarrow> int \<times> world" where
  "metadata_failure metadata_tmp wav_path w = (- 1, snd (sys_unlink wav_path (snd (sys_unlink metadata_tmp w))))"

definition write_metadata :: "string \<Rightarrow> string \<Rightarrow> string \<Rightarrow> string \<Rightarrow> world \<Rightarrow> int \<times> world" where
  "write_metadata metadata_tmp metadata_path wav_path contents w = (case c_fopen metadata_tmp w of
       (None, w) \<Rightarrow> metadata_failure metadata_tmp wav_path w
     | (Some metadata, w) \<Rightarrow> (case stream_save metadata contents w of (saved, w) \<Rightarrow>
         if \<not> saved then metadata_failure metadata_tmp wav_path w
         else (case sys_rename metadata_tmp metadata_path w of (renamed, w) \<Rightarrow>
           if renamed then (0, w) else metadata_failure metadata_tmp wav_path w)))"

definition archive_activation ::
    "nat \<Rightarrow> (int \<times> int) option \<Rightarrow> string ptr \<Rightarrow> fp list ptr \<Rightarrow> u64 \<Rightarrow> fp \<Rightarrow> bool \<Rightarrow> u32 \<times> world \<Rightarrow> (int \<times> u32 \<times> world) option" where
  "archive_activation pid now directory audio sample_count probability self_test = (\<lambda>(seqno, w).
     (case directory of None \<Rightarrow> Some (0, seqno, w) | Some directory \<Rightarrow>
      if directory = [] then Some (0, seqno, w)
      else (case now of None \<Rightarrow> Some (- 1, seqno, w) | Some (sec, nsec) \<Rightarrow>
       (case gmtime_r sec of None \<Rightarrow> Some (- 1, seqno, w) | Some utc \<Rightarrow>
        (case strftime_stamp 32 utc of None \<Rightarrow> Some (- 1, seqno, w) | Some timestamp \<Rightarrow>
          (let seqno' = seqno + 1;
               (stem, n1) = snprintf 4096 (stem_text directory timestamp nsec pid seqno self_test);
               (wav_path, n2) = snprintf 8192 (stem @ ''.wav'');
               (metadata_path, n3) = snprintf 8192 (stem @ ''.json'');
               (metadata_tmp, n4) = snprintf 8192 (metadata_path @ ''.tmp'') in
           if 4096 \<le> n1 \<or> 8192 \<le> n2 \<or> 8192 \<le> n3 \<or> 8192 \<le> n4 then Some (- 1, seqno', w)
           else do {
             (r, w) \<leftarrow> write_activation_wav pid (Some wav_path) audio sample_count w;
             if r < 0 then Some (- 1, seqno', w)
             else (case write_metadata metadata_tmp metadata_path wav_path
                       (metadata_text probability sample_count self_test) w of (r, w) \<Rightarrow>
                     Some (r, seqno', w)) }))))))"

text \<open>A score of plus infinity reaches every threshold and is archived (the event is then refused); its metadata is not JSON.\<close>

lemma metadata_of_infinity: "take 19 (metadata_text (FInf False) n st) = ''{\"probability\":inf,''"
  by (simp add: metadata_text_def fmt_g9_def fp_conv_def fmt_special_def)

section \<open>Names\<close>

lemma node_of_suffixes:
  assumes "CHR ''/'' \<notin> set s" "1 < length s" "CHR ''/'' \<notin> set t" "1 < length t" "s \<noteq> t"
  shows "node_of (p @ s) \<noteq> node_of (p @ t)"
proof -
  obtain b l where split: "split_slash p = b @ [l]" by (metis append_butlast_last_id split_slash_ne)
  have "l @ s \<noteq> []" "l @ s \<noteq> ''.''" "l @ t \<noteq> []" "l @ t \<noteq> ''.''"
    using assms(2,4) by (cases l; auto simp: Suc_lessI)+
  then show ?thesis
    using assms(5) by (auto simp: node_of_def split_slash_suffix assms(1,3) split)
qed

lemma dec_no [simp]: "CHR ''_'' \<notin> set (dec n)" "CHR ''/'' \<notin> set (dec n)"
  using dec_digits [of _ n] by (fastforce simp: is_digit_def)+

text \<open>Within one process no two activations get the same file names as long as their
sequence numbers differ, whatever the clock says (the counter wraps after 2^32 activations).\<close>

lemma archive_names_distinct:
  assumes "a \<noteq> b"
  shows "stem_text dir ts1 n1 pid a st \<noteq> stem_text dir ts2 n2 pid b st"
proof
  assume eq: "stem_text dir ts1 n1 pid a st = stem_text dir ts2 n2 pid b st"
  let ?sfx = "if st then ''_selftest'' else []"
  let ?l1 = "dir @ ''/activation_'' @ ts1 @ ''_'' @ dec_pad 3 (n1 div 1000000) @ ''_'' @ dec pid"
  let ?l2 = "dir @ ''/activation_'' @ ts2 @ ''_'' @ dec_pad 3 (n2 div 1000000) @ ''_'' @ dec pid"
  have "(?l1 @ CHR ''_'' # dec (unat a)) @ ?sfx = (?l2 @ CHR ''_'' # dec (unat b)) @ ?sfx"
    using eq by (simp add: stem_text_def)
  then have "?l1 @ CHR ''_'' # dec (unat a) = ?l2 @ CHR ''_'' # dec (unat b)" by (simp only: append_same_eq)
  then have "dec (unat a) = dec (unat b)" by (rule suffix_after) simp_all
  then have "unat a = unat b" by (rule dec_inj)
  then show False using assms by (simp add: word_unat_eq_iff)
qed

section \<open>All or nothing\<close>

lemma metadata_failure_outcome:
  assumes run: "metadata_failure tmp wav w = (r, w')" and m: "n \<noteq> node_of tmp" "n \<noteq> node_of wav"
    and d: "node_of tmp \<noteq> node_of wav"
  shows "r = - 1 \<and> quiet n w w' \<and> fds w' = fds w \<and> files w' (node_of wav) \<in> {files w (node_of wav), None}"
proof -
  obtain b u where u: "sys_unlink tmp w = (b, u)" by force
  obtain c v where v: "sys_unlink wav u = (c, v)" by force
  have "quiet n w v"
    using quiet_trans [OF quiet_unlink [OF u] quiet_unlink [OF v]] m by auto
  moreover have "files u (node_of wav) = files w (node_of wav)"
    using quiet_unlink [OF u, of "node_of wav"] d by (auto simp: quiet_def untouched_def)
  moreover have "files v (node_of wav) \<in> {files u (node_of wav), None}"
    using sys_unlink_frame [OF v, of "node_of wav"] by (cases c) (auto simp: untouched_def)
  ultimately show ?thesis
    using run u v sys_unlink_frame [OF u] sys_unlink_frame [OF v]
    by (auto simp: metadata_failure_def same_fds_def)
qed

lemma write_metadata_outcome:
  assumes run: "write_metadata tmp json wav s w = (r, w')" and ok: "world_ok w"
    and d: "node_of tmp \<noteq> node_of json" "node_of tmp \<noteq> node_of wav" "node_of json \<noteq> node_of wav"
  shows "(r = 0 \<or> r = - 1) \<and> replaces (node_of json) (bytes_of s) (r = 0) w w' \<and>
     (r = 0 \<longrightarrow> quiet (node_of wav) w w') \<and>
     (r = - 1 \<longrightarrow> files w' (node_of wav) \<in> {files w (node_of wav), None})"
proof -
  let ?J = "node_of json" and ?W = "node_of wav"
  have fail: "r = - 1 \<and> replaces ?J (bytes_of s) False w w' \<and> files w' ?W \<in> {files w ?W, None}"
    if "metadata_failure tmp wav u = (r, w')" "quiet ?J w u" "quiet ?W w u" "fds u = fds w" for u
    using metadata_failure_outcome [OF that(1), of ?J] d that(2-4)
    by (auto intro!: replaces_quiet intro: quiet_trans simp: quiet_def [of ?W] untouched_def [of ?W])
  obtain fo w1 where w1: "c_fopen tmp w = (fo, w1)" by force
  show ?thesis
  proof (cases fo)
    case None
    then have op: "sys_open tmp w = (None, w1)" using w1 by (auto simp: c_fopen_def split: prod.splits option.splits)
    have "metadata_failure tmp wav w1 = (r, w')" using run w1 None by (simp add: write_metadata_def)
    from fail [OF this] show ?thesis
      using quiet_open [OF op d(1)] quiet_open [OF op d(2)] sys_open_None [OF op] by (auto simp: same_fds_def)
  next
    case (Some f)
    then obtain fd where op: "sys_open tmp w = (Some fd, w1)" and f: "f = \<lparr>cf_fd = fd, cf_buf = []\<rparr>"
      using w1 by (auto simp: c_fopen_def split: prod.splits option.splits)
    note opened = sys_open_target [OF op ok]
    obtain b w2 where w2: "stream_save f s w1 = (b, w2)" by force
    have save: "quiet n w1 w2 \<and> fds w2 = fds w \<and>
        (b \<longrightarrow> files w2 (node_of tmp) = Some (bytes_of s) \<and> durable w2 (node_of tmp) = Some (bytes_of s))"
      if "node_of tmp \<noteq> n" for n
      using stream_save_spec [OF w2, of "node_of tmp" "fds w" n] opened f that by simp
    have q2: "quiet ?J w w2" "quiet ?W w w2"
      using quiet_trans [OF quiet_open [OF op d(1)]] quiet_trans [OF quiet_open [OF op d(2)]] save d by auto
    show ?thesis
    proof (cases b)
      case False
      then have "metadata_failure tmp wav w2 = (r, w')" using run w1 Some w2 by (simp add: write_metadata_def)
      from fail [OF this q2] show ?thesis using save [OF d(1)] by auto
    next
      case True
      obtain c w3 where w3: "sys_rename tmp json w2 = (c, w3)" by force
      have q3: "quiet ?W w w3" using quiet_trans [OF q2(2) quiet_rename [OF w3]] d by auto
      show ?thesis
      proof (cases c)
        case True
        then have "r = 0" "w' = w3" using run w1 Some w2 w3 \<open>b\<close> by (auto simp: write_metadata_def)
        then show ?thesis
          using replaces_rename [OF q2(1) _ _ d(1)] save [OF d(1)] w3 True \<open>b\<close> q3 by simp
      next
        case False
        then have f3: "metadata_failure tmp wav w3 = (r, w')"
          using run w1 Some w2 w3 \<open>b\<close> by (simp add: write_metadata_def)
        have "quiet ?J w w3" using quiet_trans [OF q2(1) quiet_rename [OF w3]] False by simp
        moreover have "fds w3 = fds w"
          using sys_rename_frame [OF w3] save [OF d(1)] by (simp add: same_fds_def)
        ultimately show ?thesis using fail [OF f3 _ q3] by auto
      qed
    qed
  qed
qed

definition archive_stamp :: "int \<Rightarrow> string option" where
  "archive_stamp sec = gmtime_r sec \<bind> strftime_stamp 32"

lemma archive_activation_spec:
  assumes w: "world_ok w" "fair w" and len: "unat n \<le> length xs" and pid: "pid < 2 ^ 31"
    and dir: "directory \<noteq> []" "length (stem_text directory ts nsec pid seqno st) < 2 ^ 31"
    and now: "archive_stamp sec = Some ts"
  shows "\<exists>r w'. archive_activation pid (Some (sec, nsec)) (Some directory) (Some xs) n prob st (seqno, w)
       = Some (r, seqno + 1, w') \<and>
     (let stem = stem_text directory ts nsec pid seqno st; wav = node_of (stem @ ''.wav'');
          json = node_of (stem @ ''.json''); recording = wav_bytes (pcm_of (take (unat n) xs)) in
       (r = 0 \<or> r = - 1) \<and> fds w' = fds w \<and>
       replaces json (bytes_of (metadata_text prob n st)) (r = 0) w w' \<and>
       (r = 0 \<longrightarrow> files w' wav = Some recording \<and> durable w' wav = Some recording) \<and>
       (r = - 1 \<longrightarrow> files w' wav \<in> {files w wav, None, Some recording}))"
proof -
  define stem where "stem = stem_text directory ts nsec pid seqno st"
  let ?wav = "stem @ ''.wav''" and ?json = "stem @ ''.json''" and ?tmp = "stem @ ''.json.tmp''"
  let ?rec = "wav_bytes (pcm_of (take (unat n) xs))" and ?meta = "metadata_text prob n st"
  let ?run = "archive_activation pid (Some (sec, nsec)) (Some directory) (Some xs) n prob st (seqno, w)"
  obtain utc where utc: "gmtime_r sec = Some utc" "strftime_stamp 32 utc = Some ts"
    using now by (auto simp: archive_stamp_def bind_eq_Some_conv)
  have snp: "snprintf k t = (take (k - 1) t, int (length t))" if "length t < 2 ^ 31" for k t
    using that by (simp add: snprintf_def INT_MAX_def)
  show ?thesis
  proof (cases "length stem < 4096")
    case False
    have "?run = Some (- 1, seqno + 1, w)"
      using False dir utc snp [OF dir(2), of 4096]
      by (simp add: archive_activation_def stem_def [symmetric] Let_def split: prod.split)
    then show ?thesis by (auto simp: Let_def intro!: replaces_quiet)
  next
    case True
    have names: "snprintf 4096 stem = (stem, int (length stem))" "snprintf 8192 ?wav = (?wav, int (length ?wav))"
        "snprintf 8192 ?json = (?json, int (length ?json))" "snprintf 8192 (?json @ ''.tmp'') = (?tmp, int (length ?tmp))"
      using True by (simp_all add: snp)
    have "pid < 10 ^ 10" using pid by simp
    then have "length (dec pid) \<le> 10" by (rule length_dec) simp
    then have short: "length (?wav @ ''.tmp.'' @ dec pid) < 8192" using True by simp
    let ?wtmp = "?wav @ ''.tmp.'' @ dec pid"
    have d: "node_of ?tmp \<noteq> node_of ?json" "node_of ?tmp \<noteq> node_of ?wav" "node_of ?json \<noteq> node_of ?wav"
        "node_of ?json \<noteq> node_of (stem @ ''.wav.tmp.'' @ dec pid)"
      by (rule node_of_suffixes; simp)+
    obtain r1 w1 where w1: "write_activation_wav pid (Some ?wav) (Some xs) n w = Some (r1, w1)"
        "r1 = 0 \<or> r1 = - 1" "replaces (node_of ?wav) ?rec (r1 = 0) w w1"
      using write_activation_wav_spec [OF w len short] by blast
    have quiet1: "quiet (node_of ?json) w w1"
      using write_activation_wav_frame [OF w1(1) w(1) short, of "node_of ?json"] d by simp
    have fds1: "fds w1 = fds w" using w1(3) by (simp add: replaces_def same_fds_def)
    show ?thesis
    proof (cases "r1 = 0")
      case False
      then have "?run = Some (- 1, seqno + 1, w1)"
        using True dir(1) utc names w1(1,2) by (simp add: archive_activation_def stem_def [symmetric] Let_def)
      then show ?thesis using False quiet1 fds1 w1(3)
        by (auto simp: Let_def stem_def [symmetric] replaces_def [of "node_of ?wav"] intro!: replaces_quiet)
    next
      case ok: True
      obtain r2 w2 where w2: "write_metadata ?tmp ?json ?wav ?meta w1 = (r2, w2)" by force
      have run: "?run = Some (r2, seqno + 1, w2)"
        using True dir(1) utc names w1(1) w2 ok by (simp add: archive_activation_def stem_def [symmetric] Let_def)
      note out = write_metadata_outcome [OF w2 replaces_world_ok [OF w1(3) w(1)] d(1-3)]
      have "files w1 (node_of ?wav) = Some ?rec" "durable w1 (node_of ?wav) = Some ?rec"
        using w1(3) ok by (simp_all add: replaces_def)
      moreover have "replaces (node_of ?json) (bytes_of ?meta) (r2 = 0) w w2"
        using replaces_after [OF quiet1 fds1] out by blast
      ultimately show ?thesis using run out fds1
        by (auto simp: Let_def stem_def [symmetric] replaces_def same_fds_def quiet_def untouched_def)
    qed
  qed
qed

text \<open>In particular it returns whatever the clock and the directory are, and neither opens nor closes
  a descriptor for good.\<close>

lemma length_stem_text:
  assumes "length directory < 2 ^ 20" "length ts < 32" "0 \<le> nsec" "nsec < 1000000000" "pid < 2 ^ 31"
  shows "length (stem_text directory ts nsec pid seqno st) < 2 ^ 31"
proof -
  have "length (dec pid) \<le> 10" using assms(5) by (intro length_dec) simp_all
  moreover have "length (dec (unat seqno)) \<le> 10"
    using unsigned_less [of seqno, where ?'a = nat] by (intro length_dec) simp_all
  moreover have "length (dec (nat (nsec div 1000000))) \<le> 3"
    using assms(3,4) by (intro length_dec) (simp_all add: nat_less_iff)
  ultimately show ?thesis using assms(1-4)
    by (simp add: stem_text_def dec_pad_def dec_int_def pad_left_def pos_imp_zdiv_neg_iff not_less)
qed

lemma archive_activation_steady:
  assumes w: "world_ok w" "fair w" and len: "unat n \<le> length xs" and pid: "pid < 2 ^ 31"
    and dir: "\<forall>d. directory = Some d \<longrightarrow> length d < 2 ^ 20"
    and now: "\<forall>sec nsec. now = Some (sec, nsec) \<longrightarrow> 0 \<le> nsec \<and> nsec < 1000000000"
  shows "\<exists>r seqno' w'. archive_activation pid now directory (Some xs) n prob st (seqno, w) = Some (r, seqno', w') \<and>
     same_fds w w'"
proof (cases "\<exists>d sec nsec ts. directory = Some d \<and> d \<noteq> [] \<and> now = Some (sec, nsec) \<and> archive_stamp sec = Some ts")
  case True
  then obtain d sec nsec ts where t: "directory = Some d" "d \<noteq> []" "now = Some (sec, nsec)" "archive_stamp sec = Some ts"
    by blast
  have "length ts < 32" using t(4)
    by (auto simp: archive_stamp_def strftime_stamp_def Let_def bind_eq_Some_conv split: if_splits)
  then have "length (stem_text d ts nsec pid seqno st) < 2 ^ 31"
    using dir now t pid by (intro length_stem_text) auto
  from archive_activation_spec [OF w len pid t(2) this t(4), of prob] show ?thesis
    by (auto simp: t(1,3) Let_def replaces_def)
next
  case False
  then show ?thesis
    by (cases directory; cases now)
      (auto simp: archive_activation_def archive_stamp_def bind_eq_None_conv split: option.splits)
qed

text \<open>
Property C7. archive_activation is all or nothing: it returns; with result 0 both the recording
and its metadata are complete and on disk; the metadata appears atomically and only after the
recording; with -1 the metadata is as before and the recording is absent, as before, or (when
its removal failed) complete, never partial.  Descriptors are all closed and the sequence
number advances by one.\<close>

theorem archive_activation_all_or_nothing:
  assumes w: "world_ok w" "fair w" and len: "unat n \<le> length xs" and pid: "pid < 2 ^ 31"
    and dir: "directory \<noteq> []" "length (stem_text directory ts nsec pid seqno st) < 2 ^ 31"
    and now: "archive_stamp sec = Some ts"
  shows "\<exists>r w'. archive_activation pid (Some (sec, nsec)) (Some directory) (Some xs) n prob st (seqno, w)
       = Some (r, seqno + 1, w') \<and>
     (let stem = stem_text directory ts nsec pid seqno st; wav = node_of (stem @ ''.wav'');
          json = node_of (stem @ ''.json''); recording = wav_bytes (pcm_of (take (unat n) xs)) in
       (r = 0 \<or> r = - 1) \<and> fds w' = fds w \<and>
       replaces json (bytes_of (metadata_text prob n st)) (r = 0) w w' \<and>
       (r = 0 \<longrightarrow> files w' wav = Some recording \<and> durable w' wav = Some recording) \<and>
       (r = - 1 \<longrightarrow> files w' wav \<in> {files w wav, None, Some recording}))"
  using archive_activation_spec [OF w len pid dir now] .

theorem archive_activation_all_or_nothing_witness:
  "\<exists>r w'. archive_activation 77 (Some (1767225600, 5)) (Some ''/arc'') (Some [FNum 1]) 1 (FNum 1) False
       (0, tty_world (\<lambda>_. Ok)) = Some (r, 0 + 1, w') \<and>
     (let stem = stem_text ''/arc'' ''20260101_000000'' 5 77 0 False; wav = node_of (stem @ ''.wav'');
          json = node_of (stem @ ''.json''); recording = wav_bytes (pcm_of (take (unat (1 :: u64)) [FNum 1])) in
       (r = 0 \<or> r = - 1) \<and> fds w' = fds (tty_world (\<lambda>_. Ok)) \<and>
       replaces json (bytes_of (metadata_text (FNum 1) 1 False)) (r = 0) (tty_world (\<lambda>_. Ok)) w' \<and>
       (r = 0 \<longrightarrow> files w' wav = Some recording \<and> durable w' wav = Some recording) \<and>
       (r = - 1 \<longrightarrow> files w' wav \<in> {files (tty_world (\<lambda>_. Ok)) wav, None, Some recording}))"
proof (rule archive_activation_all_or_nothing)
  show "archive_stamp 1767225600 = Some ''20260101_000000''" by code_simp
  show "length (stem_text ''/arc'' ''20260101_000000'' 5 77 0 False) < 2 ^ 31" by code_simp
qed (auto simp: tty_world_def world_ok_def fair_def makes_progress_def)

end
