(* ===== verification/Status.thy ===== *)
theory Status
  imports Files
begin

text \<open>
  The capture status file (\<^verbatim>\<open>write_capture_status\<close>, \<^verbatim>\<open>clear_capture_status\<close>), which other
  processes poll: it satisfies the contract \<open>file_publisher\<close>, so a reader only ever sees
  complete status lines.
\<close>

declare split_paired_All [simp del] split_paired_Ex [simp del]

section \<open>The code\<close>

text \<open>The structure is only read for its path; NULL data is \<^theory_text>\<open>None\<close>.\<close>

definition write_capture_status :: "nat \<Rightarrow> string ptr \<Rightarrow> string ptr \<Rightarrow> world \<Rightarrow> world" where
  "write_capture_status pid data status w = (case (data, status) of
       (Some path, Some status) \<Rightarrow>
         if path = [] then w
         else (case ensure_parent_dir (Some path) w of (r, w) \<Rightarrow>
           if r < 0 then w
           else (let (tmp_path, rc) = snprintf 8192 (path @ ''.tmp.'' @ dec pid) in
             if rc < 0 \<or> 8192 \<le> rc then w
             else (case sys_open tmp_path w of (None, w) \<Rightarrow> w
               | (Some fd, w) \<Rightarrow> (case c_fdopen fd w of
                   (None, w) \<Rightarrow> snd (sys_unlink tmp_path (snd (sys_close fd w)))
                 | (Some fp, w) \<Rightarrow> (case stream_save fp (status @ [CHR 0x0A]) w of (saved, w) \<Rightarrow>
                     if \<not> saved then snd (sys_unlink tmp_path w)
                     else snd (sys_rename tmp_path path w))))))
     | _ \<Rightarrow> w)"

definition clear_capture_status :: "string ptr \<Rightarrow> world \<Rightarrow> world" where
  "clear_capture_status data w = (case data of None \<Rightarrow> w
     | Some path \<Rightarrow> if path \<noteq> [] then snd (sys_unlink path w) else w)"

section \<open>Its contract\<close>

definition status_line :: "string \<Rightarrow> u8 list" where
  "status_line status = bytes_of (status @ [CHR 0x0A])"

lemma status_write_outcome:
  assumes op: "sys_open tmp w = (Some fd, w1)" and ok: "world_ok w" and d: "node_of tmp \<noteq> node_of path"
    and run: "(case c_fdopen fd w1 of
        (None, w) \<Rightarrow> snd (sys_unlink tmp (snd (sys_close fd w)))
      | (Some fp, w) \<Rightarrow> (case stream_save fp (status @ [CHR 0x0A]) w of (saved, w) \<Rightarrow>
          if \<not> saved then snd (sys_unlink tmp w) else snd (sys_rename tmp path w))) = w'"
  shows "\<exists>good. replaces (node_of path) (status_line status) good w w'"
proof -
  let ?n = "node_of path"
  note opened = sys_open_target [OF op ok]
  have q1: "quiet ?n w w1" by (rule quiet_open [OF op d])
  have drop: "\<exists>good. replaces ?n (status_line status) good w (snd (sys_unlink tmp u))"
    if "quiet ?n w u" "fds u = fds w" for u
  proof -
    obtain b v where v: "sys_unlink tmp u = (b, v)" by force
    have "fds v = fds w" using sys_unlink_frame [OF v] that(2) by (simp add: same_fds_def)
    then show ?thesis using replaces_quiet [OF quiet_trans [OF that(1) quiet_unlink [OF v d]]] v by auto
  qed
  obtain fo w2 where w2: "c_fdopen fd w1 = (fo, w2)" by force
  have q2: "quiet ?n w w2" by (rule quiet_trans [OF q1 quiet_fdopen [OF w2]])
  have same: "fds w2 = fds w1" "files w2 = files w1"
    using w2 by (auto simp: c_fdopen_def ask_def)
  show ?thesis
  proof (cases fo)
    case None
    obtain b w3 where w3: "sys_close fd w2 = (b, w3)" by force
    have "fds w3 = fds w" using sys_close_restores(1) [OF w3] same opened by simp
    from drop [OF quiet_trans [OF q2 quiet_close [OF w3]] this] show ?thesis
      using run w2 None w3 by simp
  next
    case (Some fp)
    have fp: "fp = \<lparr>cf_fd = fd, cf_buf = []\<rparr>"
      using w2 Some by (auto simp: c_fdopen_def split: prod.splits if_splits)
    obtain saved w3 where w3: "stream_save fp (status @ [CHR 0x0A]) w2 = (saved, w3)" by force
    have live: "open_on fd (To_File (node_of tmp)) w2"
      using open_on_fds [OF opened(1) same(1)] same(2) opened(2) by simp
    have save: "quiet ?n w w3 \<and> fds w3 = fds w \<and> (saved \<longrightarrow>
        files w3 (node_of tmp) = Some (status_line status) \<and> durable w3 (node_of tmp) = Some (status_line status))"
      using stream_save_spec [OF w3, of "node_of tmp" "fds w" ?n] fp live same opened d quiet_trans [OF q2]
      by (simp add: status_line_def)
    show ?thesis
    proof (cases saved)
      case False
      then show ?thesis using run w2 Some w3 drop save by auto
    next
      case True
      obtain b w4 where w4: "sys_rename tmp path w3 = (b, w4)" by force
      have end': "w' = w4" using run w2 Some w3 True w4 by simp
      show ?thesis
      proof (cases b)
        case True
        then have "sys_rename tmp path w3 = (True, w4)" using w4 by simp
        from replaces_rename [OF _ _ this d] save \<open>saved\<close> end' show ?thesis by blast
      next
        case False
        have "quiet ?n w w4" using quiet_trans [OF _ quiet_rename [OF w4]] save False by blast
        moreover have "fds w4 = fds w" using sys_rename_frame [OF w4] save by (simp add: same_fds_def)
        ultimately show ?thesis using replaces_quiet end' by blast
      qed
    qed
  qed
qed

lemma write_capture_status_replaces:
  assumes "world_ok w"
  shows "\<exists>good. replaces (node_of path) (status_line status) good w
     (write_capture_status pid (Some path) (Some status) w)"
proof -
  let ?tmp = "path @ ''.tmp.'' @ dec pid" and ?w' = "write_capture_status pid (Some path) (Some status) w"
  let ?goal = "\<lambda>w w'. \<exists>good. replaces (node_of path) (status_line status) good w w'"
  have idle: "?goal u u" for u by (rule exI [of _ False]) (simp add: replaces_quiet)
  have slash: "CHR ''/'' \<notin> set (''.tmp.'' @ dec pid)"
    using dec_digits [of "CHR ''/''" pid] by (auto simp: is_digit_def)
  have d: "node_of ?tmp \<noteq> node_of path" using node_of_suffix [OF slash, of path] by simp
  obtain r w1 where w1: "ensure_parent_dir (Some path) w = (r, w1)" by force
  have only: "only_dirs w w1" by (rule ensure_parent_dir_only_dirs [OF w1])
  have q1: "quiet (node_of path) w w1" "fds w1 = fds w"
    using quiet_only_dirs [OF only] only by (auto simp: only_dirs_def same_fds_def)
  have after: "?goal w u" if "?goal w1 u" for u using that replaces_after [OF q1] by blast
  obtain t rc where snp: "snprintf 8192 ?tmp = (t, rc)" by force
  show ?thesis
  proof (cases "path = [] \<or> r < 0 \<or> rc < 0 \<or> 8192 \<le> rc")
    case True
    then have "?w' = w \<or> ?w' = w1" using w1 snp by (auto simp: write_capture_status_def)
    then consider "?w' = w" | "?w' = w1" by blast
    then show ?thesis
    proof cases
      case 1
      show ?thesis unfolding 1 by (rule idle)
    next
      case 2
      show ?thesis unfolding 2 by (rule after [OF idle])
    qed
  next
    case False
    then have t: "t = ?tmp" using snp by (auto simp: snprintf_def split: if_splits)
    obtain fo w2 where w2: "sys_open ?tmp w1 = (fo, w2)" by force
    show ?thesis
    proof (cases fo)
      case None
      have "?goal w1 w2" using quiet_open [OF w2 d] sys_open_None [of ?tmp w1 w2] w2 None
        by (auto intro!: replaces_quiet simp: same_fds_def)
      moreover have "?w' = w2" using False w1 snp t w2 None by (simp add: write_capture_status_def)
      ultimately show ?thesis using after by simp
    next
      case (Some fd)
      have "?goal w1 ?w'"
      proof (rule status_write_outcome [OF w2 [unfolded Some] quiet_world_ok [OF q1 assms] d])
        show "(case c_fdopen fd w2 of
            (None, w) \<Rightarrow> snd (sys_unlink ?tmp (snd (sys_close fd w)))
          | (Some fp, w) \<Rightarrow> (case stream_save fp (status @ [CHR 0x0A]) w of (saved, w) \<Rightarrow>
              if \<not> saved then snd (sys_unlink ?tmp w) else snd (sys_rename ?tmp path w))) = ?w'"
          using False w1 snp w2 Some unfolding t
          by (simp add: write_capture_status_def del: append.simps append_Cons append_Nil)
      qed
      then show ?thesis by (rule after)
    qed
  qed
qed

interpretation status_file: file_publisher
    "\<lambda>status w. Some (write_capture_status pid (Some path) (Some status) w)" "node_of path" status_line world_ok
  for pid path
  by unfold_locales (auto intro: write_capture_status_replaces dest: write_capture_status_replaces replaces_world_ok)

text \<open>
Property C8. A process that polls the capture status file while any sequence of statuses is
being written sees, at every moment, what was there before or one complete status line.\<close>

theorem status_reader_sees_complete_lines:
  assumes "world_ok w"
  shows "\<exists>w' seen. foldM (\<lambda>w s. Some (write_capture_status pid (Some path) (Some s) w)) w statuses = Some w' \<and>
     hist w' = seen @ hist w \<and>
     (\<forall>f \<in> insert (files w') (set seen).
        f (node_of path) \<in> insert (files w (node_of path)) (Some ` status_line ` set statuses))"
proof -
  have "\<exists>w'. foldM (\<lambda>w s. Some (write_capture_status pid (Some path) (Some s) w)) w statuses = Some w'"
    by (induction statuses arbitrary: w) simp_all
  then obtain w' where w': "foldM (\<lambda>w s. Some (write_capture_status pid (Some path) (Some s) w)) w statuses = Some w'"
    by blast
  then have run: "status_file.runs pid path statuses w = Some w'" by (simp add: status_file.runs_def)
  show ?thesis using w' status_file.reader_sees_complete [OF assms run] status_file.runs_content [OF assms run]
    by blast
qed

theorem status_reader_sees_complete_lines_witness:
  "\<exists>w' seen. foldM (\<lambda>w s. Some (write_capture_status 7 (Some ''/run/cap'') (Some s) w))
       (tty_world (\<lambda>_. Ok)) [''starting'', ''healthy''] = Some w' \<and>
     hist w' = seen @ hist (tty_world (\<lambda>_. Ok)) \<and>
     (\<forall>f \<in> insert (files w') (set seen). f (node_of ''/run/cap'') \<in>
        insert (files (tty_world (\<lambda>_. Ok)) (node_of ''/run/cap'')) (Some ` status_line ` set [''starting'', ''healthy'']))"
  by (rule status_reader_sees_complete_lines) (simp add: tty_world_def world_ok_def)

section \<open>It does publish\<close>

lemma ask_ok: "verdicts w = (\<lambda>_. Ok) \<Longrightarrow> ask w = (Ok, w\<lparr>tick := Suc (tick w), hist := files w # hist w\<rparr>)"
  by (simp add: ask_def)

lemma parent_of_suffix:
  assumes "CHR ''/'' \<notin> set base" "base \<noteq> []" "base \<noteq> ''.''" "CHR ''/'' \<notin> set s"  "dir \<noteq> []" "1 < length s"
  shows "parent_node (node_of ((dir @ CHR ''/'' # base) @ s)) = node_of dir"
    "parent_node (node_of (dir @ CHR ''/'' # base)) = node_of dir"
proof -
  have "base @ s \<noteq> ''.''" using assms(2,6) by (cases base) auto
  then show "parent_node (node_of ((dir @ CHR ''/'' # base) @ s)) = node_of dir"
    using parent_node_join(2) [OF assms(5), of "base @ s"] assms by simp
qed (rule parent_node_join(2) [OF assms(5,1,2,3)])

lemma append_ok:
  "files w n = Some old \<Longrightarrow> append_to (To_File n) bs w = w\<lparr>files := (files w)(n \<mapsto> old @ bs)\<rparr>"
  by (simp add: append_to_def)

lemma stream_save_ok:
  assumes ok: "verdicts w = (\<lambda>_. Ok)" and live: "map_of (fds w) fd = Some (To_File m)" "files w m = Some []"
    and s: "s \<noteq> []"
  shows "\<exists>w'. stream_save \<lparr>cf_fd = fd, cf_buf = []\<rparr> s w = (True, w') \<and> verdicts w' = (\<lambda>_. Ok) \<and>
     files w' = (files w)(m \<mapsto> bytes_of s) \<and> dirs w' = dirs w"
  using assms by (simp add: stream_save_def c_fprintf_def c_fflush_def flush_buf_def c_fclose_def
      sys_fsync_def sys_close_def ask_ok append_ok bytes_of_def)

lemma sys_open_ok:
  assumes "verdicts w = (\<lambda>_. Ok)" "\<not> dir_exists w (node_of p)" "dir_exists w (parent_node (node_of p))"
  obtains fd w' where "sys_open p w = (Some fd, w')" "verdicts w' = (\<lambda>_. Ok)"
    "map_of (fds w') fd = Some (To_File (node_of p))" "files w' (node_of p) = Some []" "dirs w' = dirs w"
  using assms by (auto simp: sys_open_def ask_ok dir_exists_def Let_def)

lemma sys_rename_ok:
  assumes "verdicts w = (\<lambda>_. Ok)" "\<not> dir_exists w (node_of b)" "dir_exists w (parent_node (node_of b))"
    "files w (node_of a) = Some c" "node_of a \<noteq> node_of b"
  shows "files (snd (sys_rename a b w)) (node_of b) = Some c"
  using assms by (auto simp: sys_rename_def ask_ok dir_exists_def Let_def)

text \<open>When no call fails, no directory or file is in the way, write_capture_status creates the
missing directories and the status file then holds exactly the status line.\<close>

lemma status_published:
  assumes ok: "verdicts w = (\<lambda>_. Ok)" and pid: "pid < 2 ^ 31"
    and path: "dir \<noteq> []" "CHR ''/'' \<notin> set base" "base \<noteq> []" "base \<noteq> ''.''" "length (dir @ CHR ''/'' # base) < 4096"
    and free: "\<forall>i \<le> length dir. files w (node_of (take i dir)) = None" "\<forall>n \<in> dirs w. parent_node n \<noteq> node_of dir"
  shows "files (write_capture_status pid (Some (dir @ CHR ''/'' # base)) (Some status) w)
      (node_of (dir @ CHR ''/'' # base)) = Some (status_line status)"
proof -
  let ?p = "dir @ CHR ''/'' # base" and ?s = "''.tmp.'' @ dec pid"
  let ?tmp = "?p @ ?s"
  have slash: "CHR ''/'' \<notin> set ?s"
    using dec_digits [of "CHR ''/''" pid] by (auto simp: is_digit_def)
  have d: "node_of ?tmp \<noteq> node_of ?p" using node_of_suffix [OF slash, of ?p] by simp
  have "1 < length ?s" by simp
  note parents = parent_of_suffix [OF path(2-4) slash path(1) this]
  have "pid < 10 ^ 10" using pid by simp
  then have "length (dec pid) \<le> 10" by (rule length_dec) simp
  then have snp: "snprintf 8192 ?tmp = (?tmp, int (length ?tmp))" "int (length ?tmp) < 8192"
    using path(5) by (simp_all add: snprintf_def INT_MAX_def)
  obtain w1 where w1: "ensure_parent_dir (Some ?p) w = (0, w1)" "only_dirs w w1" "dir_exists w1 (node_of dir)"
    using ensure_parent_dir_creates [OF ok path(2,5) free(1)] by blast
  have ok1: "verdicts w1 = (\<lambda>_. Ok)" using w1(2) ok by (simp add: only_dirs_def same_fds_def)
  have nodir: "\<not> dir_exists w1 n" if "parent_node n = node_of dir" "snd n \<noteq> []" for n
  proof -
    have "butlast (snd n) = components dir"
      using that(1) by (simp add: parent_node_def node_of_components)
    then have "length (snd n) = Suc (length (components dir))"
      using append_butlast_last_id [OF that(2)] by (metis length_append_singleton)
    then show ?thesis using ensure_parent_dir_dirs [OF w1(1) path(2,5)] that free(2)
      by (auto simp: dir_exists_def)
  qed
  have ne: "snd (node_of ?p) \<noteq> []" "snd (node_of ?tmp) \<noteq> []"
    using path slash components_join [of dir base] components_join [of dir "base @ ?s"]
    by (auto simp: node_of_components components_plain)
  obtain w2 fd where w2: "sys_open ?tmp w1 = (Some fd, w2)" "verdicts w2 = (\<lambda>_. Ok)"
      "map_of (fds w2) fd = Some (To_File (node_of ?tmp))" "files w2 (node_of ?tmp) = Some []" "dirs w2 = dirs w1"
    using sys_open_ok [OF ok1 nodir [OF parents(1) ne(2)] w1(3) [folded parents(1)]] .
  define w3 where "w3 = snd (c_fdopen fd w2)"
  have fdo: "c_fdopen fd w2 = (Some \<lparr>cf_fd = fd, cf_buf = []\<rparr>, w3)"
    using w2(2) by (simp add: c_fdopen_def ask_ok w3_def)
  have w3: "verdicts w3 = (\<lambda>_. Ok)" "fds w3 = fds w2" "files w3 = files w2" "dirs w3 = dirs w2"
    using w2(2) by (simp_all add: w3_def c_fdopen_def ask_ok)
  obtain w4 where w4: "stream_save \<lparr>cf_fd = fd, cf_buf = []\<rparr> (status @ [CHR 0x0A]) w3 = (True, w4)"
      "verdicts w4 = (\<lambda>_. Ok)" "files w4 (node_of ?tmp) = Some (status_line status)" "dirs w4 = dirs w3"
    using stream_save_ok [OF w3(1), of fd "node_of ?tmp" "status @ [CHR 0x0A]"] w3 w2
    by (auto simp: status_line_def)
  have "files (snd (sys_rename ?tmp ?p w4)) (node_of ?p) = Some (status_line status)"
  proof (rule sys_rename_ok [OF w4(2) _ _ w4(3) d])
    have same: "dir_exists w4 = dir_exists w1" using w4(4) w3(4) w2(5) by (auto simp: dir_exists_def)
    show "\<not> dir_exists w4 (node_of ?p)" "dir_exists w4 (parent_node (node_of ?p))"
      unfolding same parents(2) using nodir [OF parents(2) ne(1)] w1(3) by auto
  qed
  then show ?thesis using w1(1) snp w2(1) w4(1) fdo by (simp add: write_capture_status_def)
qed

end
