(* ===== verification/Activation.thy ===== *)
theory Activation
  imports Files
begin

text \<open>
  Reporting an activation: \<^verbatim>\<open>monotonic_seconds\<close>, \<^verbatim>\<open>build_activation_payload\<close>,
  \<^verbatim>\<open>write_activation\<close> (to standard output) and \<^verbatim>\<open>run_handler\<close> (a child process fed
  through a pipe).  The monotonic clock is an argument: the result of \<^verbatim>\<open>clock_gettime\<close>,
  seconds and nanoseconds, or \<^theory_text>\<open>None\<close> when it fails.
\<close>

declare split_paired_All [simp del] split_paired_Ex [simp del]

section \<open>The payload\<close>

definition monotonic_seconds :: "(int \<times> int) option \<Rightarrow> fp" where
  "monotonic_seconds clock = (case clock of None \<Rightarrow> FZero False
     | Some (sec, nsec) \<Rightarrow> fadd binary64 (fp_of_int binary64 sec)
         (fdiv binary64 (fp_of_int binary64 nsec) (fp_of_int binary64 1000000000)))"

text \<open>The buffer is its contents, \<^theory_text>\<open>None\<close> for NULL.\<close>

definition payload_text :: "fp \<Rightarrow> string \<Rightarrow> fp \<Rightarrow> bool \<Rightarrow> string" where
  "payload_text probability kind detected_at native =
     ''{\"type\":\"'' @ kind @ ''\",\"probability\":'' @ fmt_f 9 (fp_conv binary64 probability) @
     '',\"detected_at\":'' @ fmt_f 9 detected_at @ (if native then '',\"native_listener\":true}'' else ''}'') @ [CHR 0x0A]"

definition build_activation_payload ::
    "string ptr \<Rightarrow> nat \<Rightarrow> fp \<Rightarrow> string \<Rightarrow> fp \<Rightarrow> bool \<Rightarrow> string ptr \<times> int" where
  "build_activation_payload out out_size probability kind detected_at include_native_flag =
     (if out = None \<or> out_size = 0 then (out, - 1)
      else if \<not> isfinite probability \<or> flt probability (FZero False) \<or> flt (FNum 1) probability then (out, - 1)
      else if \<not> isfinite detected_at then (out, - 1)
      else (case snprintf out_size (payload_text probability kind detected_at include_native_flag) of
        (s, n) \<Rightarrow> (Some s, n)))"

section \<open>write_activation\<close>

definition write_activation :: "(int \<times> int) option \<Rightarrow> fp \<Rightarrow> world \<Rightarrow> (int \<times> world) option" where
  "write_activation clock probability w =
     (case build_activation_payload (Some []) 256 probability ''activation'' (monotonic_seconds clock) True of
       (payload, len) \<Rightarrow>
         if len < 0 \<or> 256 \<le> len then Some (- 1, w)
         else do {
           (r, w) \<leftarrow> write_all 1 (bytes_of (take (nat len) (the payload))) w;
           Some (if r < 0 then - 1 else 0, w) })"

section \<open>run_handler\<close>

text \<open>The child: it moves the read end to standard input and executes the handler, or ends with
  status 127.  What the executed program does is a parameter: whether it keeps the pipe open
  for reading, and how it ends.\<close>

datatype wait_status = Exited nat | Signalled nat

type_synonym programs = "string list \<Rightarrow> (bool \<times> wait_status) option"

record handler_env =
  pipe2_ok :: bool
  fork_ok :: bool
  dup2_ok :: bool
  execv :: programs
  child_first :: bool       \<comment> \<open>the child ends before the parent writes\<close>
  waitpid_ok :: bool

definition handler_child :: "handler_env \<Rightarrow> string list \<Rightarrow> bool \<times> wait_status" where
  "handler_child env handler_argv = (if \<not> dup2_ok env then (False, Exited 127)
     else (case execv env handler_argv of None \<Rightarrow> (False, Exited 127) | Some behaviour \<Rightarrow> behaviour))"

text \<open>A write to a pipe without a reader raises \<^verbatim>\<open>SIGPIPE\<close>, which the listener does not handle:
  the process dies.\<close>

datatype handler_end = Returned int | Killed_by_sigpipe

definition open_pipe :: "world \<Rightarrow> nat \<times> nat \<times> world" where
  "open_pipe w = (let r = 3 + tick w; wr = 4 + tick w; (_, w) = ask w; (_, w) = ask w in
     (r, wr, w\<lparr>fds := (wr, To_Pipe) # (r, To_Pipe) # fds w, pipe_bytes := []\<rparr>))"

definition run_handler ::
    "handler_env \<Rightarrow> (int \<times> int) option \<Rightarrow> string list ptr \<Rightarrow> nat \<Rightarrow> fp \<Rightarrow> world \<Rightarrow> (handler_end \<times> world) option" where
  "run_handler env clock handler_argv handler_argc probability w =
     (case handler_argv of None \<Rightarrow> Some (Returned (- 1), w) | Some argv \<Rightarrow>
      if handler_argc = 0 then Some (Returned (- 1), w)
      else (case build_activation_payload (Some []) 256 probability ''activation'' (monotonic_seconds clock) True of
        (payload, payload_len) \<Rightarrow>
          if payload_len < 0 \<or> 256 \<le> payload_len then Some (Returned (- 1), w)
          else if \<not> pipe2_ok env then Some (Returned (- 1), w)
          else (case open_pipe w of (rd, wr, w) \<Rightarrow>
            if \<not> fork_ok env then Some (Returned (- 1), snd (sys_close wr (snd (sys_close rd w))))
            else (let (reads, status) = handler_child env argv; w = snd (sys_close rd w) in
              if \<not> reads \<and> child_first env then Some (Killed_by_sigpipe, w)
              else do {
                (r, w) \<leftarrow> write_all wr (bytes_of (take (nat payload_len) (the payload))) w;
                let w = snd (sys_close wr w);
                if r < 0 then Some (Returned (- 1), w)
                else if \<not> waitpid_ok env then Some (Returned (- 1), w)
                else Some (Returned (if status = Exited 0 then 0 else - 1), w) }))))"

section \<open>The payload fits its buffer\<close>

lemma length_fmt_f:
  assumes "isfinite x" "\<bar>fval x\<bar> < 10 ^ j" "0 < j"
  shows "length (fmt_f 9 x) \<le> j + 12"
  using length_fmt_rat [of "\<bar>fval x\<bar>" j 9] assms by (simp add: fmt_f_def)

lemma length_payload_text:
  assumes "isfinite p" "\<bar>fval p\<bar> \<le> 1" "is_fp binary32 p" "isfinite t" "\<bar>fval t\<bar> < 10 ^ 19"
  shows "length (payload_text p ''activation'' t native) < 256"
proof -
  have "length (fmt_f 9 p) \<le> 13" using length_fmt_f [of p 1] assms by simp
  moreover have "length (fmt_f 9 t) \<le> 31" using length_fmt_f [of t 19] assms by simp
  ultimately show ?thesis by (simp add: payload_text_def fp_conv_widen [OF assms(3)])
qed

definition clock_ok :: "(int \<times> int) option \<Rightarrow> bool" where
  "clock_ok clock = (case clock of None \<Rightarrow> True
     | Some (sec, nsec) \<Rightarrow> 0 \<le> sec \<and> sec < 2 ^ 62 \<and> 0 \<le> nsec \<and> nsec < 1000000000)"

lemma grid64: "on_grid binary64 (2 ^ k)" "(2 :: rat) ^ k < 2 powi emax binary64" if "k < 1024"
proof -
  show "on_grid binary64 (2 ^ k)" by (rule on_gridI [of _ 1 "int k"]) auto
  have "(2 :: rat) powi int k < 2 powi 1024" using that by (intro powi2_strict_mono) simp
  then show "(2 :: rat) ^ k < 2 powi emax binary64" by (simp add: binary64_def)
qed

lemma fp_of_int_nonneg:
  assumes "0 \<le> n" "n \<le> 2 ^ k" "k < 1024"
  shows "isfinite (fp_of_int binary64 n) \<and> 0 \<le> fval (fp_of_int binary64 n) \<and> fval (fp_of_int binary64 n) \<le> 2 ^ k"
proof -
  have "\<bar>of_int n :: rat\<bar> \<le> 2 ^ k"
    using assms by (metis abs_of_nonneg of_int_0_le_iff of_int_le_iff of_int_numeral of_int_power)
  from fround_bounded [OF grid64 [OF assms(3)] this, of False] show ?thesis
    using assms(1) by (auto simp: fp_of_int_def abs_le_iff)
qed

lemma fdiv_by_number: "isfinite a \<Longrightarrow> 0 < r \<Longrightarrow> fdiv F a (FNum r) = fround F (fsign a) (fval a / r)"
  by (cases a) auto

lemma fadd_fin: "isfinite a \<Longrightarrow> isfinite b \<Longrightarrow>
    fadd F a b = fround F False (fval a + fval b) \<or> (\<exists>s. fadd F a b = FZero s)"
  by (cases a; cases b) auto

lemma monotonic_seconds_bounds:
  assumes "clock_ok clock"
  shows "isfinite (monotonic_seconds clock) \<and> 0 \<le> fval (monotonic_seconds clock) \<and>
     fval (monotonic_seconds clock) \<le> 2 ^ 63"
proof (cases clock)
  case (Some c)
  then obtain sec nsec where c: "clock = Some (sec, nsec)" by (cases c) simp
  with assms have r: "0 \<le> sec" "sec \<le> 2 ^ 62" "0 \<le> nsec" "nsec < 1000000000"
    by (auto simp: clock_ok_def)
  let ?s = "fp_of_int binary64 sec" and ?n = "fp_of_int binary64 nsec"
  have s: "isfinite ?s" "0 \<le> fval ?s" "fval ?s \<le> 2 ^ 62"
    using fp_of_int_nonneg [OF r(1,2)] by auto
  have n: "isfinite ?n" "0 \<le> fval ?n" "fval ?n \<le> 2 ^ 30"
    using fp_of_int_nonneg [OF r(3), of 30] r(4) by auto
  have "on_grid binary64 (of_int 1000000000)" by (rule on_grid_of_int) auto
  moreover have "(1000000000 :: rat) < 2 powi 1024"
    by (rule less_trans [of _ "2 powi 30"]) (simp, rule powi2_strict_mono, simp)
  ultimately have g: "fp_of_int binary64 1000000000 = FNum 1000000000"
    by (simp add: fp_of_int_def fround_exact binary64_def)
  let ?q = "fdiv binary64 ?n (FNum 1000000000)"
  have "\<bar>fval ?n / 1000000000\<bar> \<le> (2 :: rat) ^ 1" using n by (simp add: divide_simps)
  from fround_bounded [OF grid64 [of 1] this, of "fsign ?n"] n(2)
  have "isfinite (fround binary64 (fsign ?n) (fval ?n / 1000000000)) \<and>
      0 \<le> fval (fround binary64 (fsign ?n) (fval ?n / 1000000000)) \<and>
      fval (fround binary64 (fsign ?n) (fval ?n / 1000000000)) \<le> 2"
    unfolding abs_le_iff by (metis divide_nonneg_pos one_less_numeral_iff order_refl power_one_right semiring_norm(76) zero_less_numeral)
  moreover have "?q = fround binary64 (fsign ?n) (fval ?n / 1000000000)"
    using n(1) by (rule fdiv_by_number) simp
  ultimately have q: "isfinite ?q" "0 \<le> fval ?q" "fval ?q \<le> 2" by simp_all
  have sum: "\<bar>fval ?s + fval ?q\<bar> \<le> 2 ^ 63" using s q by simp
  from fround_bounded [OF grid64 [of 63] this, of False] s(2) q(2)
  have "isfinite (fadd binary64 ?s ?q) \<and> 0 \<le> fval (fadd binary64 ?s ?q) \<and> fval (fadd binary64 ?s ?q) \<le> 2 ^ 63"
    using fadd_fin [OF s(1) q(1), of binary64] by (auto simp: abs_le_iff)
  then show ?thesis by (simp add: c monotonic_seconds_def g)
qed (simp add: monotonic_seconds_def)

definition activation_payload :: "(int \<times> int) option \<Rightarrow> fp \<Rightarrow> string" where
  "activation_payload clock p = payload_text p ''activation'' (monotonic_seconds clock) True"

definition reportable :: "fp \<Rightarrow> bool" where
  "reportable p \<longleftrightarrow> is_fp binary32 p \<and> isfinite p \<and> 0 \<le> fval p \<and> fval p \<le> 1"

lemma payload_built:
  assumes "reportable p" "clock_ok clock"
  shows "build_activation_payload (Some []) 256 p ''activation'' (monotonic_seconds clock) True =
      (Some (activation_payload clock p), int (length (activation_payload clock p)))"
    "length (activation_payload clock p) < 256" "activation_payload clock p \<noteq> []"
proof -
  have m: "isfinite (monotonic_seconds clock)" "\<bar>fval (monotonic_seconds clock)\<bar> < 10 ^ 19"
    using monotonic_seconds_bounds [OF assms(2)] by auto
  show len: "length (activation_payload clock p) < 256"
    using assms(1) m by (simp add: activation_payload_def reportable_def length_payload_text)
  show "build_activation_payload (Some []) 256 p ''activation'' (monotonic_seconds clock) True =
      (Some (activation_payload clock p), int (length (activation_payload clock p)))"
    using assms(1) m len
    by (simp add: build_activation_payload_def reportable_def snprintf_def activation_payload_def INT_MAX_def)
  show "activation_payload clock p \<noteq> []" by (simp add: activation_payload_def payload_text_def)
qed



text \<open>A probability outside [0, 1], infinite or NaN is refused: nothing is written and
write_activation returns -1.\<close>

lemma write_activation_refuses:
  assumes "\<not> (fle (FZero False) p \<and> fle p (FNum 1))"
  shows "write_activation clock p w = Some (- 1, w)"
proof -
  have "\<not> isfinite p \<or> flt p (FZero False) \<or> flt (FNum 1) p"
    using assms not_flt_fle [of p "FZero False"] not_flt_fle [of "FNum 1" p] by (cases p) auto
  then show ?thesis by (auto simp: write_activation_def build_activation_payload_def)
qed

section \<open>The handler\<close>

lemma open_pipe_spec:
  assumes "open_pipe w = (rd, wr, w')" "world_ok w"
  shows "fds w' = (wr, To_Pipe) # (rd, To_Pipe) # fds w" "rd \<noteq> wr" "rd \<notin> fst ` set (fds w)"
    "wr \<notin> fst ` set (fds w)" "pipe_bytes w' = []" "files w' = files w" "stdout_bytes w' = stdout_bytes w"
    "verdicts w' = verdicts w"
  using assms by (force simp: open_pipe_def ask_def world_ok_def Let_def)+

lemma sys_close_simple: "fds (snd (sys_close fd w)) = filter (\<lambda>(k, _). k \<noteq> fd) (fds w)"
    "files (snd (sys_close fd w)) = files w" "stdout_bytes (snd (sys_close fd w)) = stdout_bytes w"
    "pipe_bytes (snd (sys_close fd w)) = pipe_bytes w" "verdicts (snd (sys_close fd w)) = verdicts w"
  using sys_close_frame [OF surjective_pairing [of "sys_close fd w"]]
  by (auto simp: sys_close_def ask_def split: if_splits)

lemma filter_fd: "fd \<notin> fst ` set xs \<Longrightarrow> filter (\<lambda>(k, _). k \<noteq> fd) xs = xs"
  by (rule filter_True) force

text \<open>After the two closes the descriptors are those before the pipe was made.\<close>

lemma pipe_closed:
  assumes "open_pipe w = (rd, wr, w1)" "world_ok w" "fds w2 = fds (snd (sys_close rd w1))"
  shows "fds (snd (sys_close wr w2)) = fds w" "map_of (fds (snd (sys_close rd w1))) wr = Some To_Pipe"
  using open_pipe_spec [OF assms(1,2)] assms(3) by (auto simp: sys_close_simple filter_fd)

definition delivered :: "handler_env \<Rightarrow> string list \<Rightarrow> bool" where
  "delivered env argv \<longleftrightarrow> pipe2_ok env \<and> fork_ok env \<and> waitpid_ok env \<and> snd (handler_child env argv) = Exited 0"

text \<open>For any probability and clock the two ways to report return (the handler one unless the
  signal strikes) and leave the descriptors as they were.\<close>

lemma wrote_same_fds: "wrote t bs w w' \<Longrightarrow> same_fds w w'"
  by (simp add: wrote_def)

lemma write_activation_steady:
  assumes "open_on 1 To_Stdout w" "fair w"
  shows "\<exists>r w'. write_activation clock p w = Some (r, w') \<and> same_fds w w'"
proof -
  obtain payload len where built:
    "build_activation_payload (Some []) 256 p ''activation'' (monotonic_seconds clock) True = (payload, len)" by force
  obtain r w' where w': "write_all 1 (bytes_of (take (nat len) (the payload))) w = Some (r, w')"
    by (rule write_all_total [OF assms])
  then have "same_fds w w'" using write_all_spec [OF w' assms(1)] by (auto dest: wrote_same_fds)
  with w' built show ?thesis by (simp add: write_activation_def)
qed

lemma sys_close_tick: "tick (snd (sys_close fd w)) = Suc (tick w)"
  by (auto simp: sys_close_def ask_def)

lemma run_handler_steady:
  assumes w: "world_ok w" "fair w"
  shows "\<exists>e w'. run_handler env clock argv argc p w = Some (e, w') \<and> (e \<noteq> Killed_by_sigpipe \<longrightarrow> same_fds w w')"
proof -
  obtain rd wr w1 where w1: "open_pipe w = (rd, wr, w1)" by (metis prod_cases3)
  note opened = open_pipe_spec [OF w1 w(1)]
  have tick1: "tick w < tick w1" using w1 by (auto simp: open_pipe_def ask_def Let_def)
  let ?w2 = "snd (sys_close rd w1)"
  have live: "open_on wr To_Pipe ?w2" using pipe_closed(2) [OF w1 w(1) refl] by (simp add: open_on_def)
  have fair: "fair ?w2" using w(2) opened(8) by (simp add: fair_def sys_close_simple)
  have closed2: "same_fds w (snd (sys_close wr ?w2))"
    using pipe_closed(1) [OF w1 w(1) refl] tick1 opened(8) by (simp add: same_fds_def sys_close_simple sys_close_tick)
  have sent: "\<exists>r w3. write_all wr bs ?w2 = Some (r, w3) \<and> same_fds w (snd (sys_close wr w3))" for bs
  proof -
    obtain r w3 where w3: "write_all wr bs ?w2 = Some (r, w3)" by (rule write_all_total [OF live fair])
    then have "same_fds ?w2 w3" using write_all_spec [OF w3 live] by (auto dest: wrote_same_fds)
    then have "same_fds w (snd (sys_close wr w3))"
      using pipe_closed(1) [OF w1 w(1), of w3] tick1 opened(8) by (simp add: same_fds_def sys_close_simple sys_close_tick)
    then show ?thesis using w3 by blast
  qed
  obtain payload len where built:
    "build_activation_payload (Some []) 256 p ''activation'' (monotonic_seconds clock) True = (payload, len)" by force
  obtain r w3 where w3: "write_all wr (bytes_of (take (nat len) (the payload))) ?w2 = Some (r, w3)"
      "same_fds w (snd (sys_close wr w3))" using sent by blast
  show ?thesis
  proof (cases argv)
    case None
    then show ?thesis by (simp add: run_handler_def)
  next
    case (Some av)
    obtain reads status where child: "handler_child env av = (reads, status)" by force
    show ?thesis using Some built w1 closed2 child w3 by (simp add: run_handler_def Let_def)
  qed
qed

text \<open>Writing to the pipe whose reading end the parent has closed, and closing the writing end.\<close>

lemma pipe_written:
  assumes w1: "open_pipe w = (rd, wr, w1)" and w: "world_ok w" "fair w"
  obtains r w3 where "write_all wr bytes (snd (sys_close rd w1)) = Some (r, w3)" "files w3 = files w"
    "stdout_bytes w3 = stdout_bytes w" "fds (snd (sys_close wr w3)) = fds w" "r < 0 \<or> pipe_bytes w3 = bytes"
proof -
  let ?w2 = "snd (sys_close rd w1)"
  note opened = open_pipe_spec [OF w1 w(1)]
  have live: "open_on wr To_Pipe ?w2" using pipe_closed(2) [OF w1 w(1) refl] by (simp add: open_on_def)
  have fair: "fair ?w2" using w(2) opened(8) by (simp add: fair_def sys_close_simple)
  obtain r w3 where w3: "write_all wr bytes ?w2 = Some (r, w3)" by (rule write_all_total [OF live fair])
  then obtain bs where wr3: "wrote To_Pipe bs ?w2 w3" "r < 0 \<or> bs = bytes" using write_all_spec [OF w3 live] by auto
  have "target_bytes t w3 = target_bytes t ?w2" if "t \<noteq> To_Pipe" for t
    using wr3(1) that by (simp add: wrote_def)
  from this [of "To_File n" for n] this [of To_Stdout]
  have "files w3 = files w" "stdout_bytes w3 = stdout_bytes w" using opened(6,7) by (auto simp: sys_close_simple)
  moreover have "pipe_bytes w3 = bs" using wr3(1) opened(5) by (simp add: wrote_def sys_close_simple)
  moreover have "fds (snd (sys_close wr w3)) = fds w"
    using pipe_closed(1) [OF w1 w(1)] wrote_fds [OF wr3(1)] by simp
  ultimately show thesis using that w3 wr3(2) by blast
qed

text \<open>
Property C9. run_handler returns 0 only when the child was started, was given the whole
activation line, was waited for and exited with status 0; it returns -1 in every other case and
never leaves an end of the pipe open; the one way it does not return is the signal for a pipe
whose reader is gone.\<close>

theorem run_handler_correct:
  assumes p: "reportable p" "clock_ok clock" and w: "world_ok w" "fair w" and argc: "0 < argc"
  shows "\<exists>e w'. run_handler env clock (Some argv) argc p w = Some (e, w') \<and>
     files w' = files w \<and> stdout_bytes w' = stdout_bytes w \<and>
     (case e of Killed_by_sigpipe \<Rightarrow> child_first env \<and> \<not> fst (handler_child env argv)
      | Returned r \<Rightarrow> fds w' = fds w \<and> (r = 0 \<or> r = - 1) \<and>
          (r = 0 \<longrightarrow> delivered env argv \<and> pipe_bytes w' = bytes_of (activation_payload clock p)))"
proof -
  let ?line = "activation_payload clock p"
  note built = payload_built [OF p]
  obtain rd wr w1 where w1: "open_pipe w = (rd, wr, w1)" by (metis prod_cases3)
  note opened = open_pipe_spec [OF w1 w(1)]
  let ?w2 = "snd (sys_close rd w1)"
  obtain r w3 where w3: "write_all wr (bytes_of ?line) ?w2 = Some (r, w3)" and same: "files w3 = files w" "stdout_bytes w3 = stdout_bytes w"
    and closed3: "fds (snd (sys_close wr w3)) = fds w" and all: "r < 0 \<or> pipe_bytes w3 = bytes_of ?line"
    by (rule pipe_written [OF w1 w])
  have closed2: "fds (snd (sys_close wr ?w2)) = fds w" by (rule pipe_closed(1) [OF w1 w(1) refl])
  show ?thesis
  proof (cases "pipe2_ok env \<and> fork_ok env")
    case False
    then show ?thesis using argc built w1 closed2 opened
      by (auto simp: run_handler_def sys_close_simple)
  next
    case True
    obtain reads status where child: "handler_child env argv = (reads, status)" by force
    show ?thesis
    proof (cases "\<not> reads \<and> child_first env")
      case True
      then show ?thesis using \<open>pipe2_ok env \<and> fork_ok env\<close> argc built w1 child opened
        by (simp add: run_handler_def sys_close_simple)
    next
      case False
      then show ?thesis using True argc built w1 child w3 closed3 same all
        by (auto simp: run_handler_def sys_close_simple delivered_def Let_def)
    qed
  qed
qed

definition cat_env :: handler_env where
  "cat_env = \<lparr>pipe2_ok = True, fork_ok = True, dup2_ok = True,
     execv = (\<lambda>argv. if argv = [''/bin/cat''] then Some (True, Exited 0) else None), child_first = False, waitpid_ok = True\<rparr>"

theorem run_handler_correct_witness:
  "\<exists>e w'. run_handler cat_env (Some (1, 2)) (Some [''/bin/cat'']) 1 (FNum (1 / 2)) (tty_world (\<lambda>_. Ok)) = Some (e, w') \<and>
     files w' = files (tty_world (\<lambda>_. Ok)) \<and> stdout_bytes w' = stdout_bytes (tty_world (\<lambda>_. Ok)) \<and>
     (case e of Killed_by_sigpipe \<Rightarrow> child_first cat_env \<and> \<not> fst (handler_child cat_env [''/bin/cat''])
      | Returned r \<Rightarrow> fds w' = fds (tty_world (\<lambda>_. Ok)) \<and> (r = 0 \<or> r = - 1) \<and>
          (r = 0 \<longrightarrow> delivered cat_env [''/bin/cat''] \<and> pipe_bytes w' = bytes_of (activation_payload (Some (1, 2)) (FNum (1 / 2)))))"
proof (rule run_handler_correct)
  have "on_grid binary32 (1 / 2)" by (rule on_gridI [of _ 1 "-1"]) auto
  then show "reportable (FNum (1 / 2))" by (simp add: reportable_def powi2_of_nat)
qed (auto simp: tty_world_def clock_ok_def world_ok_def fair_def makes_progress_def)



section \<open>Reading the line back\<close>

text \<open>A reader of the line: the two decimal fields of a native activation.\<close>

definition read_fixed :: "string \<Rightarrow> rat" where
  "read_fixed s = (let neg = (s \<noteq> [] \<and> hd s = CHR ''-''); t = (if neg then tl s else s);
       a = takeWhile (\<lambda>c. c \<noteq> CHR ''.'') t; b = drop (Suc (length a)) t;
       v = of_nat (undec 0 a) + of_nat (undec 0 b) / 10 ^ length b in
     if neg then - v else v)"

definition strip_prefix :: "string \<Rightarrow> string \<Rightarrow> string option" where
  "strip_prefix p s = (if take (length p) s = p then Some (drop (length p) s) else None)"

definition until_comma :: "string \<Rightarrow> string \<times> string" where
  "until_comma s = (takeWhile (\<lambda>c. c \<noteq> CHR '','') s, dropWhile (\<lambda>c. c \<noteq> CHR '','') s)"

definition parse_activation :: "string \<Rightarrow> (rat \<times> rat) option" where
  "parse_activation s = do {
     s \<leftarrow> strip_prefix ''{\"type\":\"activation\",\"probability\":'' s;
     let (p, s) = until_comma s;
     s \<leftarrow> strip_prefix '',\"detected_at\":'' s;
     let (t, s) = until_comma s;
     s \<leftarrow> strip_prefix ('',\"native_listener\":true}'' @ [CHR 0x0A]) s;
     if s = [] then Some (read_fixed p, read_fixed t) else None }"

lemma strip_prefix_append [simp]: "strip_prefix p (p @ s) = Some s"
  by (simp add: strip_prefix_def)

lemma until_comma_append: "CHR '','' \<notin> set s \<Longrightarrow> until_comma (s @ CHR '','' # t) = (s, CHR '','' # t)"
  by (simp add: until_comma_def takeWhile_stop dropWhile_stop)

lemma undec_zeros: "undec 0 (replicate n CHR ''0'' @ s) = undec 0 s"
  by (induction n) (simp_all add: undec_def digit_val_def)

lemma set_pad_left: "set (pad_left c w s) \<subseteq> insert c (set s)"
  by (auto simp: pad_left_def)

lemma fmt_rat_chars: "c \<in> set (fmt_rat k x) \<Longrightarrow> is_digit c \<or> c = CHR ''.''"
  using set_pad_left by (fastforce simp: fmt_rat_def Let_def is_digit_def dest: dec_digits split: if_splits)

lemma read_fmt_rat:
  assumes "0 \<le> x" "0 < k"
  shows "\<bar>read_fixed (fmt_rat k x) - x\<bar> \<le> 1 / 2 / 10 ^ k" "fmt_rat k x \<noteq> []" "hd (fmt_rat k x) \<noteq> CHR ''-''"
proof -
  define m where "m = nat (rne (x * 10 ^ k))"
  let ?a = "dec (m div 10 ^ k)" and ?b = "pad_left CHR ''0'' k (dec (m mod 10 ^ k))"
  have s: "fmt_rat k x = ?a @ CHR ''.'' # ?b" using assms(2) by (simp add: fmt_rat_def Let_def m_def)
  have digits: "\<forall>c \<in> set ?a. is_digit c" by (auto dest: dec_digits)
  then have nodot: "CHR ''.'' \<notin> set ?a" by (auto simp: is_digit_def)
  have "is_digit (hd ?a)" using digits by simp
  then have hd: "hd ?a \<noteq> CHR ''-''" by (auto simp: is_digit_def)
  show "fmt_rat k x \<noteq> []" "hd (fmt_rat k x) \<noteq> CHR ''-''" using s hd by auto
  have "m mod 10 ^ k < 10 ^ k" by simp
  then have "length (dec (m mod 10 ^ k)) \<le> k" by (rule length_dec) (rule assms(2))
  then have len: "length ?b = k" by (simp add: length_pad_left)
  have pad: "undec 0 ?b = undec 0 (dec (m mod 10 ^ k))" by (simp add: pad_left_def undec_zeros)
  have tw: "takeWhile (\<lambda>c. c \<noteq> CHR ''.'') (?a @ CHR ''.'' # ?b) = ?a"
    by (rule takeWhile_stop [OF nodot])
  have "read_fixed (fmt_rat k x) = of_nat (m div 10 ^ k) + of_nat (m mod 10 ^ k) / 10 ^ k"
    using hd by (simp add: read_fixed_def s tw len Let_def pad undec_dec)
  also have "\<dots> = of_nat m / 10 ^ k"
  proof -
    have "(of_nat m :: rat) = of_nat (m div 10 ^ k * 10 ^ k + m mod 10 ^ k)"
      by (simp only: div_mult_mod_eq)
    also have "\<dots> = of_nat (m div 10 ^ k) * 10 ^ k + of_nat (m mod 10 ^ k)"
      by (simp only: of_nat_add of_nat_mult of_nat_power of_nat_numeral)
    finally show ?thesis by (simp add: add_divide_distrib)
  qed
  finally have r: "read_fixed (fmt_rat k x) = of_nat m / 10 ^ k" .
  have "0 \<le> rne (x * 10 ^ k)" using assms(1) by (intro rne_ge_int) simp
  then have "of_nat m = (of_int (rne (x * 10 ^ k)) :: rat)" by (simp add: m_def)
  moreover have "\<bar>of_int (rne (x * 10 ^ k)) - x * 10 ^ k\<bar> \<le> 1 / 2" using rne_bounds [of "x * 10 ^ k"] by linarith
  ultimately have "\<bar>of_nat m - x * 10 ^ k\<bar> \<le> 1 / 2" by simp
  moreover have "of_nat m / 10 ^ k - x = (of_nat m - x * 10 ^ k) / 10 ^ k" by (simp add: diff_divide_distrib)
  ultimately show "\<bar>read_fixed (fmt_rat k x) - x\<bar> \<le> 1 / 2 / 10 ^ k"
    unfolding r using divide_right_mono [of "\<bar>of_nat m - x * 10 ^ k\<bar>" "1 / 2" "10 ^ k :: rat"]
    by (simp only: abs_divide) simp
qed

lemma read_fmt_f:
  assumes "isfinite x"
  shows "\<bar>read_fixed (fmt_f 9 x) - fval x\<bar> \<le> 1 / 2 / 10 ^ 9" "CHR '','' \<notin> set (fmt_f 9 x)"
proof -
  let ?a = "fmt_rat 9 \<bar>fval x\<bar>"
  note a = read_fmt_rat [of "\<bar>fval x\<bar>" 9, simplified]
  have neg: "read_fixed (CHR ''-'' # ?a) = - read_fixed ?a" using a(2,3) by (simp add: read_fixed_def Let_def)
  show "\<bar>read_fixed (fmt_f 9 x) - fval x\<bar> \<le> 1 / 2 / 10 ^ 9"
  proof (cases "fsign x")
    case True
    then have "fval x \<le> 0" using fval_pos_not_fsign [of x] by force
    then have "fval x = - \<bar>fval x\<bar>" by simp
    moreover have "read_fixed (fmt_f 9 x) = - read_fixed ?a" using True assms neg by (simp add: fmt_f_def)
    ultimately have "read_fixed (fmt_f 9 x) - fval x = - (read_fixed ?a - \<bar>fval x\<bar>)" by linarith
    then show ?thesis using a(1) by (simp add: abs_minus_commute)
  next
    case False
    then have "0 \<le> fval x" using fsign_fval [OF assms] by force
    then show ?thesis using a(1) False assms by (simp add: fmt_f_def)
  qed
  show "CHR '','' \<notin> set (fmt_f 9 x)" using assms fmt_rat_chars [of "CHR '',''" 9 "\<bar>fval x\<bar>"]
    by (auto simp: fmt_f_def is_digit_def)
qed

text \<open>
Property C14. A reader of the activation line gets back the probability and the time, each within
half a unit of the ninth decimal.\<close>

theorem activation_payload_round_trip:
  assumes "reportable p" "clock_ok clock"
  shows "\<exists>q t. parse_activation (activation_payload clock p) = Some (q, t) \<and>
     \<bar>q - fval p\<bar> \<le> 1 / 2 / 10 ^ 9 \<and> \<bar>t - fval (monotonic_seconds clock)\<bar> \<le> 1 / 2 / 10 ^ 9"
proof -
  let ?t = "monotonic_seconds clock"
  have fin: "isfinite p" "isfinite ?t" "is_fp binary32 p"
    using assms monotonic_seconds_bounds by (auto simp: reportable_def)
  note p = read_fmt_f [OF fin(1)] and t = read_fmt_f [OF fin(2)]
  have "activation_payload clock p = ''{\"type\":\"activation\",\"probability\":'' @ fmt_f 9 p @ CHR '','' #
      ''\"detected_at\":'' @ fmt_f 9 ?t @ CHR '','' # ''\"native_listener\":true}'' @ [CHR 0x0A]"
    by (simp add: activation_payload_def payload_text_def fp_conv_widen [OF fin(3)])
  then have "parse_activation (activation_payload clock p) = Some (read_fixed (fmt_f 9 p), read_fixed (fmt_f 9 ?t))"
    by (simp add: parse_activation_def strip_prefix_def until_comma_append [OF p(2)] until_comma_append [OF t(2)])
  then show ?thesis using p(1) t(1) by simp
qed

theorem activation_payload_round_trip_witness:
  "\<exists>q t. parse_activation (activation_payload (Some (12, 5)) (FNum (1 / 2))) = Some (q, t) \<and>
     \<bar>q - fval (FNum (1 / 2))\<bar> \<le> 1 / 2 / 10 ^ 9 \<and> \<bar>t - fval (monotonic_seconds (Some (12, 5)))\<bar> \<le> 1 / 2 / 10 ^ 9"
proof (rule activation_payload_round_trip)
  have "on_grid binary32 (1 / 2)" by (rule on_gridI [of _ 1 "-1"]) auto
  then show "reportable (FNum (1 / 2))" by (simp add: reportable_def powi2_of_nat)
qed (simp add: clock_ok_def)

end
