(* ===== verification/Options.thy ===== *)
theory Options
  imports CText Prelude
begin

text \<open>
  The command line (\<^verbatim>\<open>parse_float\<close>, \<^verbatim>\<open>parse_unsigned\<close>, \<^verbatim>\<open>validate_existing_file\<close>,
  \<^verbatim>\<open>parse_options\<close>, \<^verbatim>\<open>listener_options_destroy\<close>).  The environment of the process is a
  record: what \<^verbatim>\<open>calloc\<close>, \<^verbatim>\<open>access\<close>, \<^verbatim>\<open>stat\<close> and \<^verbatim>\<open>getenv("HOME")\<close> answer.  The messages on
  standard error are not modelled; the text of \<^verbatim>\<open>--help\<close> is.
\<close>

section \<open>Constants and data\<close>

definition DEFAULT_THRESHOLD :: fp where
  "DEFAULT_THRESHOLD = fp_lit binary32 (6973556280136108 / 10 ^ 16)"

definition DEFAULT_CONSECUTIVE_WINDOWS :: u32 where "DEFAULT_CONSECUTIVE_WINDOWS = 2"
definition DEFAULT_INFERENCE_INTERVAL_MS :: u32 where "DEFAULT_INFERENCE_INTERVAL_MS = 250"

definition CAPTURE_STATUS_DIR :: string where "CAPTURE_STATUS_DIR = ''okay-hermes-realtime''"
definition CAPTURE_STATUS_NAME :: string where "CAPTURE_STATUS_NAME = ''capture.status''"

text \<open>The cells of \<^verbatim>\<open>handler_argv\<close> are pointers; \<^theory_text>\<open>None\<close> is the NULL that ends the vector.\<close>

record listener_options =
  model_path :: "string ptr"
  capture_health_path :: "string ptr"
  activation_archive_dir :: "string ptr"
  capture_health_buffer :: string
  handler_argv :: "string ptr list ptr"
  handler_argc :: nat
  threshold :: fp
  consecutive_windows :: u32
  inference_interval_ms :: u32
  self_test :: bool

record process_env =
  mem_ok :: bool
  readable :: "string \<Rightarrow> bool"
  is_regular :: "string \<Rightarrow> bool option"   \<comment> \<open>\<^theory_text>\<open>None\<close>: \<^verbatim>\<open>stat\<close> fails\<close>
  home :: "string ptr"

section \<open>The parsers of values\<close>

text \<open>\<^theory_text>\<open>None\<close> is the return value -1, with \<^verbatim>\<open>*out\<close> left alone.\<close>

definition parse_float :: "string \<Rightarrow> fp option" where
  "parse_float v = (let (parsed, rest, erange) = strtofp binary32 v in
     if erange \<or> rest = v \<or> rest \<noteq> [] \<or> \<not> isfinite parsed \<or> flt parsed (FZero False) \<or> flt (FNum 1) parsed
     then None else Some parsed)"

definition parse_unsigned :: "string \<Rightarrow> u32 option" where
  "parse_unsigned v = (let (parsed, rest, erange) = strtoul v in
     if erange \<or> rest = v \<or> rest \<noteq> [] \<or> parsed = 0 then None
     else if unat parsed > 4294967295 then None
     else Some (ucast parsed))"

definition validate_existing_file :: "process_env \<Rightarrow> string ptr \<Rightarrow> bool" where
  "validate_existing_file env path = (case path of None \<Rightarrow> False
     | Some p \<Rightarrow> p \<noteq> [] \<and> readable env p \<and> is_regular env p = Some True)"

section \<open>parse_options\<close>

datatype parse_end = Parsed | Help_shown | Invalid

definition help_text :: string where
  "help_text = ''Usage: okay-hermes-realtime-wake-listener [options]'' @ [CHR 0x0A, CHR 0x0A] @
     ''  --model PATH               Path to ONNX wakeword model'' @ [CHR 0x0A] @
     ''  --handler [--] PATH [ARGS..] External activation handler invocation'' @ [CHR 0x0A] @
     ''  --capture-health PATH      Output path for capture status'' @ [CHR 0x0A] @
     ''  --activation-archive-dir PATH  Save accepted 3-second wake clips and metadata'' @ [CHR 0x0A] @
     ''  --threshold FLOAT          Activation threshold in [0,1] (default '' @
       fmt_f 7 (fp_conv binary64 DEFAULT_THRESHOLD) @ '')'' @ [CHR 0x0A] @
     ''  --consecutive-windows N    Consecutive activations required (default '' @
       dec (unat DEFAULT_CONSECUTIVE_WINDOWS) @ '') [or --consecutive]'' @ [CHR 0x0A] @
     ''  --inference-interval N     Inference interval in milliseconds (default '' @
       dec (unat DEFAULT_INFERENCE_INTERVAL_MS) @ '') [or --inference-interval-ms]'' @ [CHR 0x0A] @
     ''  --self-test                Emit deterministic self-test event and exit'' @ [CHR 0x0A] @
     ''  --help                    Show this message'' @ [CHR 0x0A]"

definition default_options :: listener_options where
  "default_options = \<lparr>model_path = NULL, capture_health_path = NULL, activation_archive_dir = NULL,
     capture_health_buffer = [], handler_argv = NULL, handler_argc = 0, threshold = DEFAULT_THRESHOLD,
     consecutive_windows = DEFAULT_CONSECUTIVE_WINDOWS, inference_interval_ms = DEFAULT_INFERENCE_INTERVAL_MS,
     self_test = False\<rparr>"

text \<open>\<^verbatim>\<open>--handler -- ...\<close>: a vector of \<open>n\<close> cells, filled with the remaining arguments and a NULL.\<close>

definition copy_handler_args :: "nat \<Rightarrow> string list \<Rightarrow> (string ptr list \<times> nat) option" where
  "copy_handler_args n rest = do {
     (argv, argc) \<leftarrow> foldM (\<lambda>(argv, argc) a. do { argv \<leftarrow> store argv argc (Some a); Some (argv, argc + 1) })
       (replicate n None, 0) rest;
     argv \<leftarrow> store argv argc None;
     Some (argv, argc) }"

text \<open>One turn of the loop, with the argument and those behind it: go on with what is left, or stop.\<close>

datatype turn = Next "string list" listener_options | Stop parse_end listener_options

definition option_step :: "process_env \<Rightarrow> string \<Rightarrow> string list \<Rightarrow> listener_options \<Rightarrow> turn option" where
  "option_step env a rest opts =
    (if a = ''--help'' then Some (Stop Help_shown opts)
     else if a = ''--self-test'' then Some (Next rest (opts\<lparr>self_test := True\<rparr>))
     else if a = ''--model'' then
       (case rest of [] \<Rightarrow> Some (Stop Invalid opts)
        | v # rest' \<Rightarrow> Some (Next rest' (opts\<lparr>model_path := Some v\<rparr>)))
     else if a = ''--capture-health'' then
       (case rest of [] \<Rightarrow> Some (Stop Invalid opts)
        | v # rest' \<Rightarrow> Some (Next rest' (opts\<lparr>capture_health_path := Some v\<rparr>)))
     else if a = ''--activation-archive-dir'' then
       (case rest of [] \<Rightarrow> Some (Stop Invalid opts)
        | v # rest' \<Rightarrow> Some (Next rest' (opts\<lparr>activation_archive_dir := Some v\<rparr>)))
     else if a = ''--handler'' then
       (case rest of [] \<Rightarrow> Some (Stop Invalid opts)
        | v # rest' \<Rightarrow>
          if v = ''--'' then
            (if \<not> mem_ok env then Some (Stop Invalid (opts\<lparr>handler_argv := NULL\<rparr>))
             else do {
               (argv, argc) \<leftarrow> copy_handler_args (length rest) rest';
               Some (Next [] (opts\<lparr>handler_argv := Some argv, handler_argc := argc\<rparr>)) })
          else if \<not> mem_ok env then Some (Stop Invalid (opts\<lparr>handler_argv := NULL\<rparr>))
          else do {
            argv \<leftarrow> store (replicate 2 None) 0 (Some v);
            argv \<leftarrow> store argv 1 None;
            Some (Next rest' (opts\<lparr>handler_argv := Some argv, handler_argc := 1\<rparr>)) })
     else if a = ''--threshold'' then
       (case rest of [] \<Rightarrow> Some (Stop Invalid opts)
        | v # rest' \<Rightarrow> (case parse_float v of None \<Rightarrow> Some (Stop Invalid opts)
            | Some parsed \<Rightarrow> Some (Next rest' (opts\<lparr>threshold := parsed\<rparr>))))
     else if a = ''--consecutive'' \<or> a = ''--consecutive-windows'' then
       (case rest of [] \<Rightarrow> Some (Stop Invalid opts)
        | v # rest' \<Rightarrow> (case parse_unsigned v of None \<Rightarrow> Some (Stop Invalid opts)
            | Some parsed \<Rightarrow> Some (Next rest' (opts\<lparr>consecutive_windows := parsed\<rparr>))))
     else if a = ''--inference-interval'' \<or> a = ''--inference-interval-ms'' then
       (case rest of [] \<Rightarrow> Some (Stop Invalid opts)
        | v # rest' \<Rightarrow> (case parse_unsigned v of None \<Rightarrow> Some (Stop Invalid opts)
            | Some parsed \<Rightarrow> Some (Next rest' (opts\<lparr>inference_interval_ms := parsed\<rparr>))))
     else Some (Stop Invalid opts))"

lemma option_step_shorter: "option_step env a rest opts = Some (Next rest' opts') \<Longrightarrow> length rest' \<le> length rest"
  unfolding option_step_def
  by (cases rest) (simp_all split: if_split_asm option.split_asm add: bind_eq_Some_conv case_prod_beta, auto)

text \<open>The loop, over the arguments that are left; the result carries the options as they are when
  it stops.\<close>

function parse_args :: "process_env \<Rightarrow> string list \<Rightarrow> listener_options \<Rightarrow> (parse_end \<times> listener_options) option" where
  "parse_args env [] opts = Some (Parsed, opts)"
| "parse_args env (a # rest) opts = option_step env a rest opts \<bind> (\<lambda>t. case t of
       Next rest' opts' \<Rightarrow> parse_args env rest' opts'
     | Stop r opts' \<Rightarrow> Some (r, opts'))"
  by pat_completeness auto
termination by (relation "measure (\<lambda>(env, args, opts). length args)") (auto dest: option_step_shorter)

text \<open>What follows the loop: the model must exist, and the status path defaults to one under the
  home directory.\<close>

definition finish_options :: "process_env \<Rightarrow> listener_options \<Rightarrow> parse_end \<times> listener_options" where
  "finish_options env opts = (if self_test opts then (Parsed, opts)
     else if \<not> (model_path opts \<noteq> NULL \<and> model_path opts \<noteq> Some [] \<and> validate_existing_file env (model_path opts)) then (Invalid, opts)
     else if capture_health_path opts = NULL \<or> capture_health_path opts = Some [] then
       (case home env of None \<Rightarrow> (Invalid, opts)
        | Some h \<Rightarrow> if h = [] then (Invalid, opts)
          else (let (buf, n) = snprintf 4096 (h @ ''/.local/state/'' @ CAPTURE_STATUS_DIR @ ''/'' @ CAPTURE_STATUS_NAME);
                    opts' = opts\<lparr>capture_health_buffer := buf\<rparr> in
            if 4096 \<le> n then (Invalid, opts') else (Parsed, opts'\<lparr>capture_health_path := Some buf\<rparr>)))
     else (Parsed, opts))"

text \<open>The whole function: the return value, what is printed on standard output, and the options.
  \<open>args\<close> are the arguments after the program name.\<close>

definition parse_options :: "process_env \<Rightarrow> string list \<Rightarrow> (int \<times> string \<times> listener_options) option" where
  "parse_options env args = do {
     (r, opts) \<leftarrow> parse_args env args default_options;
     Some (case r of Help_shown \<Rightarrow> (1, help_text, opts) | Invalid \<Rightarrow> (- 1, [], opts)
       | Parsed \<Rightarrow> (case finish_options env opts of (r, opts) \<Rightarrow> (if r = Parsed then 0 else - 1, [], opts))) }"

definition listener_options_destroy :: "listener_options ptr \<Rightarrow> listener_options ptr" where
  "listener_options_destroy options = (case options of NULL \<Rightarrow> NULL
     | Some opts \<Rightarrow> Some (opts\<lparr>handler_argv := NULL, handler_argc := 0, model_path := NULL,
         capture_health_path := NULL, activation_archive_dir := NULL, capture_health_buffer := []\<rparr>))"

section \<open>Values\<close>

lemma unat_ucast_u64_u32: "unat p < 2 ^ 32 \<Longrightarrow> unat (ucast p :: u32) = unat p" for p :: u64
proof -
  assume le: "unat p < 2 ^ 32"
  then have "take_bit 64 (unat p) = unat p" by (intro take_bit_nat_eq_self) simp
  then have "(ucast (of_nat (unat p) :: u64) :: u32) = of_nat (unat p)"
    by (simp only: unsigned_of_nat len_num1 len_bit0 len_bit1) (simp add: mult.commute)
  moreover have "(of_nat (unat p) :: u64) = p" by simp
  ultimately have "(ucast p :: u32) = of_nat (unat p)" by metis
  then show ?thesis using le unat_of_nat_u32 by metis
qed

text \<open>A usable threshold: a finite single in [0, 1].\<close>

definition is_threshold :: "fp \<Rightarrow> bool" where
  "is_threshold t \<longleftrightarrow> is_fp binary32 t \<and> isfinite t \<and> 0 \<le> fval t \<and> fval t \<le> 1"

lemma is_fp_fneg: "is_fp F x \<Longrightarrow> is_fp F (fneg x)"
  by (cases x) auto

lemma strtofp_is_fp: "is_fp binary32 (fst (strtofp binary32 s))"
  by (auto simp: strtofp_def fp_of_text_def Let_def fround_is_fp is_fp_fneg split: prod.splits)

lemma parse_float_range: "parse_float s = Some v \<Longrightarrow> is_threshold v"
  using strtofp_is_fp [of s]
  by (auto simp: parse_float_def is_threshold_def not_less split: prod.splits if_splits)

lemma default_threshold_ok: "is_threshold DEFAULT_THRESHOLD"
proof -
  have eq: "DEFAULT_THRESHOLD = FNum (5849843 / 8388608)" by code_simp
  have "is_fp binary32 DEFAULT_THRESHOLD" by (simp add: DEFAULT_THRESHOLD_def fp_lit_def fround_is_fp)
  then show ?thesis unfolding is_threshold_def eq by simp
qed

lemma parse_unsigned_nonzero: "parse_unsigned s = Some v \<Longrightarrow> v \<noteq> 0"
proof -
  assume "parse_unsigned s = Some v"
  then obtain p :: u64 where p: "p \<noteq> 0" "unat p \<le> 4294967295" "v = ucast p"
    by (auto simp: parse_unsigned_def Let_def not_less split: prod.splits if_splits)
  have "unat v = unat p" using p(2,3) by (simp add: unat_ucast_u64_u32)
  then show "v \<noteq> 0" using p(1) by (auto simp: unat_eq_zero)
qed

section \<open>The options\<close>

lemma copy_handler_args_correct:
  assumes "length rest < n"
  shows "copy_handler_args n rest = Some (map Some rest @ replicate (n - length rest) None, length rest)"
proof -
  have loop: "foldM (\<lambda>(argv, argc) a. do { argv \<leftarrow> store argv argc (Some a); Some (argv, argc + 1) })
      (map Some pre @ replicate k None, length pre) rest =
      Some (map Some (pre @ rest) @ replicate (k - length rest) None, length (pre @ rest))"
    if "length rest \<le> k" for pre rest and k :: nat
    using that
  proof (induction rest arbitrary: pre k)
    case (Cons a rest)
    then obtain j where k: "k = Suc j" by (cases k) auto
    have "store (map Some pre @ replicate k None) (length pre) (Some a) =
        Some (map Some (pre @ [a]) @ replicate j None)"
      by (simp add: k store_in list_update_append)
    then show ?case using Cons.IH [of j "pre @ [a]"] Cons.prems k by simp
  qed simp
  from loop [of rest n "[]"] assms show ?thesis
    by (simp add: copy_handler_args_def store_in list_update_append)
      (metis Suc_diff_Suc list_update_code(2) replicate_Suc)
qed

text \<open>What \<^verbatim>\<open>execv\<close> needs: \<open>handler_argc\<close> strings and a terminating NULL.\<close>

definition handler_ok :: "string ptr list ptr \<Rightarrow> nat \<Rightarrow> bool" where
  "handler_ok argv argc \<longleftrightarrow> (case argv of NULL \<Rightarrow> argc = 0
     | Some argv \<Rightarrow> (\<exists>args n. argv = map Some args @ None # replicate n None \<and> argc = length args))"

definition options_ok :: "listener_options \<Rightarrow> bool" where
  "options_ok opts \<longleftrightarrow> is_threshold (threshold opts) \<and> consecutive_windows opts \<noteq> 0 \<and>
     inference_interval_ms opts \<noteq> 0 \<and>
     handler_ok (handler_argv opts) (handler_argc opts)"

lemma options_ok_default: "options_ok default_options"
  by (simp add: options_ok_def default_options_def handler_ok_def default_threshold_ok
      DEFAULT_CONSECUTIVE_WINDOWS_def DEFAULT_INFERENCE_INTERVAL_MS_def)

lemma options_ok_updates [simp]:
  "options_ok (opts\<lparr>self_test := b\<rparr>) = options_ok opts"
  "options_ok (opts\<lparr>model_path := p\<rparr>) = options_ok opts"
  "options_ok (opts\<lparr>capture_health_path := p\<rparr>) = options_ok opts"
  "options_ok (opts\<lparr>activation_archive_dir := p\<rparr>) = options_ok opts"
  "options_ok (opts\<lparr>capture_health_buffer := q\<rparr>) = options_ok opts"
  by (simp_all add: options_ok_def)

lemma options_ok_values:
  "options_ok opts \<Longrightarrow> is_threshold t \<Longrightarrow> options_ok (opts\<lparr>threshold := t\<rparr>)"
  "options_ok opts \<Longrightarrow> n \<noteq> 0 \<Longrightarrow> options_ok (opts\<lparr>consecutive_windows := n\<rparr>)"
  "options_ok opts \<Longrightarrow> n \<noteq> 0 \<Longrightarrow> options_ok (opts\<lparr>inference_interval_ms := n\<rparr>)"
  by (simp_all add: options_ok_def)

lemma options_ok_handler:
  "options_ok opts \<Longrightarrow> options_ok (opts\<lparr>handler_argv := Some (map Some args @ None # replicate n None),
     handler_argc := length args\<rparr>)"
  unfolding options_ok_def handler_ok_def by auto

lemma copy_handler_args_ok:
  assumes "options_ok opts" "length rest < n"
  shows "\<exists>argv argc. copy_handler_args n rest = Some (argv, argc) \<and>
     options_ok (opts\<lparr>handler_argv := Some argv, handler_argc := argc\<rparr>)"
proof -
  have "replicate (n - length rest) None = None # replicate (n - Suc (length rest)) None"
    using assms(2) by (metis Suc_diff_Suc replicate_Suc)
  from copy_handler_args_correct [OF assms(2), unfolded this]
    options_ok_handler [OF assms(1), of rest "n - Suc (length rest)"]
  show ?thesis by blast
qed

lemma single_handler_ok:
  assumes "options_ok opts"
  shows "options_ok (opts\<lparr>handler_argv := Some [Some v, None], handler_argc := 1\<rparr>)"
  using options_ok_handler [OF assms, of "[v]" 0] by simp

fun turn_ok :: "turn \<Rightarrow> bool" where
  "turn_ok (Next rest opts) = options_ok opts"
| "turn_ok (Stop r opts) = (r = Invalid \<or> options_ok opts)"

lemma option_step_total:
  assumes "options_ok opts"
  shows "\<exists>t. option_step env a rest opts = Some t \<and> turn_ok t"
proof (cases rest)
  case (Cons v rest')
  obtain argv argc where copy: "copy_handler_args (length rest) rest' = Some (argv, argc)"
      "options_ok (opts\<lparr>handler_argv := Some argv, handler_argc := argc\<rparr>)"
    using copy_handler_args_ok [OF assms, of rest' "length rest"] Cons by auto
  have single: "store (replicate 2 None) 0 (Some v) = Some [Some v, None]" "store [Some v, None] 1 None = Some [Some v, None]"
    by (simp_all add: store_def numeral_2_eq_2)
  note ok = assms options_ok_values [OF assms] single_handler_ok [OF assms] parse_float_range parse_unsigned_nonzero
  show ?thesis
    using copy single ok by (simp add: option_step_def Cons split: option.split)
qed (use assms in \<open>simp add: option_step_def\<close>)

lemma parse_args_total:
  assumes "options_ok opts"
  shows "\<exists>r opts'. parse_args env args opts = Some (r, opts') \<and> (r = Invalid \<or> options_ok opts')"
  using assms
proof (induction env args opts rule: parse_args.induct)
  case (2 env a rest opts)
  obtain t where t: "option_step env a rest opts = Some t" "turn_ok t" using option_step_total [OF 2(2)] by blast
  then show ?case using 2(1) [OF t(1)] by (cases t) auto
qed simp

lemma finish_options_ok:
  assumes "finish_options env opts = (Parsed, opts')" "options_ok opts"
  shows "options_ok opts'" "self_test opts' = self_test opts"
    "\<not> self_test opts \<Longrightarrow> validate_existing_file env (model_path opts') \<and>
       (\<exists>p. capture_health_path opts' = Some p \<and> p \<noteq> [])"
  using assms
  by (auto simp: finish_options_def snprintf_def Let_def split: if_splits option.splits)

text \<open>The archive directory, when there is one, is one of the arguments.\<close>

lemma option_step_rest:
  "option_step env a rest opts = Some (Next rest' opts') \<Longrightarrow> set rest' \<subseteq> set rest"
  unfolding option_step_def
  by (cases rest) (simp_all split: if_split_asm option.split_asm add: bind_eq_Some_conv case_prod_beta, auto)

lemma option_step_stop_archive:
  "option_step env a rest opts = Some (Stop r opts') \<Longrightarrow> activation_archive_dir opts' = activation_archive_dir opts"
  unfolding option_step_def
  by (cases rest) (simp_all split: if_split_asm option.split_asm add: bind_eq_Some_conv case_prod_beta, auto)

lemma option_step_archive:
  assumes "option_step env a rest opts = Some (Next rest' opts')" "activation_archive_dir opts' \<noteq> activation_archive_dir opts"
  shows "rest \<noteq> [] \<and> activation_archive_dir opts' = Some (hd rest)"
proof (cases "a = ''--activation-archive-dir''")
  case True
  then show ?thesis using assms(1) by (auto simp: option_step_def split: list.split_asm)
next
  case False
  show ?thesis using assms False unfolding option_step_def
    by (cases rest) (simp_all split: if_split_asm option.split_asm add: bind_eq_Some_conv case_prod_beta,
      ((elim exE conjE)?, hypsubst, simp)+)
qed

lemma parse_args_archive:
  "parse_args env args opts = Some (r, opts') \<Longrightarrow>
    activation_archive_dir opts' = activation_archive_dir opts \<or> activation_archive_dir opts' \<in> Some ` set args"
proof (induction env args opts rule: parse_args.induct)
  case (2 env a rest opts)
  then obtain t where t: "option_step env a rest opts = Some t" by (auto simp: bind_eq_Some_conv)
  show ?case
  proof (cases t)
    case (Next rest1 opts1)
    then have "activation_archive_dir opts' = activation_archive_dir opts1 \<or> activation_archive_dir opts' \<in> Some ` set rest1"
      using 2 t by simp
    moreover have "activation_archive_dir opts1 = activation_archive_dir opts \<or> activation_archive_dir opts1 \<in> Some ` set rest"
      using option_step_archive [OF t [unfolded Next]] by (cases rest) auto
    ultimately show ?thesis using option_step_rest [OF t [unfolded Next]] by auto
  next
    case (Stop r1 opts1)
    then show ?thesis using 2(2) t option_step_stop_archive [OF t [unfolded Stop]] by simp
  qed
qed simp

lemma finish_options_archive: "activation_archive_dir (snd (finish_options env opts)) = activation_archive_dir opts"
  by (simp add: finish_options_def Let_def split: option.split prod.split)

lemma parse_options_archive:
  assumes "parse_options env args = Some (rc, printed, opts)" "activation_archive_dir opts = Some d"
  shows "d \<in> set args"
proof -
  obtain e o' where r: "parse_args env args default_options = Some (e, o')" using assms(1)
    by (cases "parse_args env args default_options") (auto simp: parse_options_def)
  then have "opts = o' \<or> opts = snd (finish_options env o')" using assms(1)
    by (cases e; cases "finish_options env o'") (auto simp: parse_options_def)
  then have "activation_archive_dir o' = Some d" using assms(2) finish_options_archive [of env o'] by auto
  then show ?thesis using parse_args_archive [OF r] by (auto simp: default_options_def)
qed

text \<open>
Property C13. parse_options never touches memory out of range, whatever the arguments, and returns
0, 1 or -1; when it returns 0 the threshold is a number in [0, 1], the two counts are not zero,
the handler vector is empty or holds handler_argc strings and a terminating NULL, and, unless
the self test was asked for, the model file is readable and there is a status path.\<close>

theorem parse_options_sound:
  "\<exists>rc out opts. parse_options env args = Some (rc, out, opts) \<and> rc \<in> {0, 1, - 1} \<and>
     (rc \<noteq> 0 \<or> options_ok opts \<and>
       (self_test opts \<or> validate_existing_file env (model_path opts) \<and>
         (\<exists>p. capture_health_path opts = Some p \<and> p \<noteq> [])))"
proof -
  obtain r opts where r: "parse_args env args default_options = Some (r, opts)" "r = Invalid \<or> options_ok opts"
    using parse_args_total [OF options_ok_default] by blast
  show ?thesis
  proof (cases r)
    case Parsed
    obtain r' opts' where f: "finish_options env opts = (r', opts')" by force
    show ?thesis using r Parsed f finish_options_ok [of env opts opts']
      by (cases "r' = Parsed") (auto simp: parse_options_def)
  qed (use r in \<open>auto simp: parse_options_def\<close>)
qed

text \<open>parse_unsigned accepts the decimal notation of exactly the numbers from 1 to 2^32 - 1.\<close>

lemma parse_unsigned_decimal:
  "parse_unsigned (dec n) = (if 0 < n \<and> n < 2 ^ 32 then Some (of_nat n) else None)"
proof -
  have digits: "\<forall>c \<in> set (dec n). is_digit c" by (auto dest: dec_digits)
  have "dec n \<noteq> []" by simp
  then obtain c s where c: "dec n = c # s" by (cases "dec n") auto
  have "\<not> is_space c" "c \<noteq> CHR ''-''" "c \<noteq> CHR ''+''"
    using digits c by (auto simp: is_digit_def is_space_def Let_def)
  then have sign: "opt_sign (dropWhile is_space (dec n)) = (False, dec n)" by (simp add: c)
  have all: "takeWhile is_digit (dec n) = dec n" "dropWhile is_digit (dec n) = []"
    using digits by (simp_all add: takeWhile_eq_all_conv dropWhile_eq_Nil_conv)
  have str: "strtoul (dec n) = (if 2 ^ 64 \<le> n then (- 1, [], True) else (of_nat n, [], False))"
    by (simp add: strtoul_def sign all)
  show ?thesis
  proof (cases "2 ^ 64 \<le> n")
    case False
    then have u: "unat (of_nat n :: u64) = n" by (intro unat_of_nat_u64) simp
    then have zero: "(of_nat n :: u64) = 0 \<longleftrightarrow> n = 0"
      using unat_eq_zero [of "of_nat n :: u64"] by (simp only: u)
    show ?thesis
    proof (cases "n < 2 ^ 32")
      case True
      have "unat (ucast (of_nat n :: u64) :: u32) = unat (of_nat n :: u32)"
        using unat_ucast_u64_u32 [of "of_nat n"] u True unat_of_nat_u32 by simp
      then have "(ucast (of_nat n :: u64) :: u32) = of_nat n" by (simp add: word_unat_eq_iff)
      then show ?thesis using str False u zero True \<open>dec n \<noteq> []\<close> [symmetric] by (simp add: parse_unsigned_def)
    qed (use str False u in \<open>simp add: parse_unsigned_def\<close>)
  qed (use str in \<open>simp add: parse_unsigned_def\<close>)
qed

text \<open>strtoul takes a sign: a negative number is accepted when its value modulo 2^64 is
small, so a huge negative count is read as a small positive one.\<close>

lemma parse_unsigned_accepts_negative:
  "parse_unsigned ''-18446744073709551615'' = Some 1"
  by code_simp

text \<open>A handler given as --handler -- takes every argument behind it verbatim, options and all,
in order, as its argument vector.\<close>

lemma handler_takes_rest:
  assumes "mem_ok env" "args \<noteq> []"
  shows "parse_args env (''--handler'' # ''--'' # args) opts =
     Some (Parsed, opts\<lparr>handler_argv := Some (map Some args @ [None]), handler_argc := length args\<rparr>)"
  using assms copy_handler_args_correct [of args "Suc (length args)"]
  by (simp add: option_step_def)

definition desktop_env :: process_env where
  "desktop_env = \<lparr>mem_ok = True, readable = (\<lambda>p. p = ''/m.onnx''),
     is_regular = (\<lambda>p. if p = ''/m.onnx'' then Some True else None), home = Some ''/home/u''\<rparr>"

text \<open>--handler -- with nothing behind it is accepted: the handler is then absent without a
message, and activations go to standard output.\<close>

lemma empty_handler_accepted:
  "map_option (\<lambda>(rc, out, opts). (rc, handler_argc opts, handler_argv opts))
     (parse_options desktop_env [''--model'', ''/m.onnx'', ''--handler'', ''--'']) = Some (0, 0, Some [None])"
  by code_simp

theorem parse_options_sound_witness:
  "\<exists>out opts. parse_options desktop_env [''--self-test''] = Some (0, out, opts) \<and> options_ok opts"
proof -
  have "map_option fst (parse_options desktop_env [''--self-test'']) = Some 0"
    by (simp add: parse_options_def option_step_def finish_options_def default_options_def)
  then show ?thesis using parse_options_sound [of desktop_env "[''--self-test'']"] by auto
qed

end
