(* ===== verification/Ort_Types.thy ===== *)
theory Ort_Types
  imports Prelude
begin

text \<open>
  The vocabulary of the ONNX Runtime C interface the listener is compiled against
  (\<^verbatim>\<open>include/onnxruntime_c_api.h\<close> and \<^verbatim>\<open>include/onnxruntime_ep_c_api.h\<close>): its enumerations with
  their numeric codes, and the declarations of which its tables of function pointers consist.
  The bodies of the functions are not in the repository.
\<close>

section \<open>Enumerations\<close>

datatype ONNXTensorElementDataType =
  ONNX_TENSOR_ELEMENT_DATA_TYPE_UNDEFINED | ONNX_TENSOR_ELEMENT_DATA_TYPE_FLOAT
  | ONNX_TENSOR_ELEMENT_DATA_TYPE_UINT8 | ONNX_TENSOR_ELEMENT_DATA_TYPE_INT8
  | ONNX_TENSOR_ELEMENT_DATA_TYPE_UINT16 | ONNX_TENSOR_ELEMENT_DATA_TYPE_INT16
  | ONNX_TENSOR_ELEMENT_DATA_TYPE_INT32 | ONNX_TENSOR_ELEMENT_DATA_TYPE_INT64
  | ONNX_TENSOR_ELEMENT_DATA_TYPE_STRING | ONNX_TENSOR_ELEMENT_DATA_TYPE_BOOL
  | ONNX_TENSOR_ELEMENT_DATA_TYPE_FLOAT16 | ONNX_TENSOR_ELEMENT_DATA_TYPE_DOUBLE
  | ONNX_TENSOR_ELEMENT_DATA_TYPE_UINT32 | ONNX_TENSOR_ELEMENT_DATA_TYPE_UINT64
  | ONNX_TENSOR_ELEMENT_DATA_TYPE_COMPLEX64 | ONNX_TENSOR_ELEMENT_DATA_TYPE_COMPLEX128
  | ONNX_TENSOR_ELEMENT_DATA_TYPE_BFLOAT16 | ONNX_TENSOR_ELEMENT_DATA_TYPE_FLOAT8E4M3FN
  | ONNX_TENSOR_ELEMENT_DATA_TYPE_FLOAT8E4M3FNUZ | ONNX_TENSOR_ELEMENT_DATA_TYPE_FLOAT8E5M2
  | ONNX_TENSOR_ELEMENT_DATA_TYPE_FLOAT8E5M2FNUZ | ONNX_TENSOR_ELEMENT_DATA_TYPE_UINT4
  | ONNX_TENSOR_ELEMENT_DATA_TYPE_INT4 | ONNX_TENSOR_ELEMENT_DATA_TYPE_FLOAT4E2M1
  | ONNX_TENSOR_ELEMENT_DATA_TYPE_UINT2 | ONNX_TENSOR_ELEMENT_DATA_TYPE_INT2

fun element_code :: "ONNXTensorElementDataType \<Rightarrow> int" where
  "element_code ONNX_TENSOR_ELEMENT_DATA_TYPE_UNDEFINED = 0"
| "element_code ONNX_TENSOR_ELEMENT_DATA_TYPE_FLOAT = 1"
| "element_code ONNX_TENSOR_ELEMENT_DATA_TYPE_UINT8 = 2"
| "element_code ONNX_TENSOR_ELEMENT_DATA_TYPE_INT8 = 3"
| "element_code ONNX_TENSOR_ELEMENT_DATA_TYPE_UINT16 = 4"
| "element_code ONNX_TENSOR_ELEMENT_DATA_TYPE_INT16 = 5"
| "element_code ONNX_TENSOR_ELEMENT_DATA_TYPE_INT32 = 6"
| "element_code ONNX_TENSOR_ELEMENT_DATA_TYPE_INT64 = 7"
| "element_code ONNX_TENSOR_ELEMENT_DATA_TYPE_STRING = 8"
| "element_code ONNX_TENSOR_ELEMENT_DATA_TYPE_BOOL = 9"
| "element_code ONNX_TENSOR_ELEMENT_DATA_TYPE_FLOAT16 = 10"
| "element_code ONNX_TENSOR_ELEMENT_DATA_TYPE_DOUBLE = 11"
| "element_code ONNX_TENSOR_ELEMENT_DATA_TYPE_UINT32 = 12"
| "element_code ONNX_TENSOR_ELEMENT_DATA_TYPE_UINT64 = 13"
| "element_code ONNX_TENSOR_ELEMENT_DATA_TYPE_COMPLEX64 = 14"
| "element_code ONNX_TENSOR_ELEMENT_DATA_TYPE_COMPLEX128 = 15"
| "element_code ONNX_TENSOR_ELEMENT_DATA_TYPE_BFLOAT16 = 16"
| "element_code ONNX_TENSOR_ELEMENT_DATA_TYPE_FLOAT8E4M3FN = 17"
| "element_code ONNX_TENSOR_ELEMENT_DATA_TYPE_FLOAT8E4M3FNUZ = 18"
| "element_code ONNX_TENSOR_ELEMENT_DATA_TYPE_FLOAT8E5M2 = 19"
| "element_code ONNX_TENSOR_ELEMENT_DATA_TYPE_FLOAT8E5M2FNUZ = 20"
| "element_code ONNX_TENSOR_ELEMENT_DATA_TYPE_UINT4 = 21"
| "element_code ONNX_TENSOR_ELEMENT_DATA_TYPE_INT4 = 22"
| "element_code ONNX_TENSOR_ELEMENT_DATA_TYPE_FLOAT4E2M1 = 23"
| "element_code ONNX_TENSOR_ELEMENT_DATA_TYPE_UINT2 = 24"
| "element_code ONNX_TENSOR_ELEMENT_DATA_TYPE_INT2 = 25"

datatype ONNXType =
  ONNX_TYPE_UNKNOWN | ONNX_TYPE_TENSOR | ONNX_TYPE_SEQUENCE | ONNX_TYPE_MAP | ONNX_TYPE_OPAQUE
  | ONNX_TYPE_SPARSETENSOR | ONNX_TYPE_OPTIONAL

fun onnx_type_code :: "ONNXType \<Rightarrow> int" where
  "onnx_type_code ONNX_TYPE_UNKNOWN = 0"
| "onnx_type_code ONNX_TYPE_TENSOR = 1"
| "onnx_type_code ONNX_TYPE_SEQUENCE = 2"
| "onnx_type_code ONNX_TYPE_MAP = 3"
| "onnx_type_code ONNX_TYPE_OPAQUE = 4"
| "onnx_type_code ONNX_TYPE_SPARSETENSOR = 5"
| "onnx_type_code ONNX_TYPE_OPTIONAL = 6"

datatype OrtSparseFormat =
  ORT_SPARSE_UNDEFINED | ORT_SPARSE_COO | ORT_SPARSE_CSRC | ORT_SPARSE_BLOCK_SPARSE

fun sparse_code :: "OrtSparseFormat \<Rightarrow> int" where
  "sparse_code ORT_SPARSE_UNDEFINED = 0"
| "sparse_code ORT_SPARSE_COO = 1"
| "sparse_code ORT_SPARSE_CSRC = 2"
| "sparse_code ORT_SPARSE_BLOCK_SPARSE = 4"

datatype OrtLoggingLevel =
  ORT_LOGGING_LEVEL_VERBOSE | ORT_LOGGING_LEVEL_INFO | ORT_LOGGING_LEVEL_WARNING
  | ORT_LOGGING_LEVEL_ERROR | ORT_LOGGING_LEVEL_FATAL

fun logging_code :: "OrtLoggingLevel \<Rightarrow> int" where
  "logging_code ORT_LOGGING_LEVEL_VERBOSE = 0"
| "logging_code ORT_LOGGING_LEVEL_INFO = 1"
| "logging_code ORT_LOGGING_LEVEL_WARNING = 2"
| "logging_code ORT_LOGGING_LEVEL_ERROR = 3"
| "logging_code ORT_LOGGING_LEVEL_FATAL = 4"

datatype OrtErrorCode =
  ORT_OK | ORT_FAIL | ORT_INVALID_ARGUMENT | ORT_NO_SUCHFILE | ORT_NO_MODEL | ORT_ENGINE_ERROR
  | ORT_RUNTIME_EXCEPTION | ORT_INVALID_PROTOBUF | ORT_MODEL_LOADED | ORT_NOT_IMPLEMENTED
  | ORT_INVALID_GRAPH | ORT_EP_FAIL | ORT_MODEL_LOAD_CANCELED | ORT_MODEL_REQUIRES_COMPILATION
  | ORT_NOT_FOUND

fun error_code :: "OrtErrorCode \<Rightarrow> int" where
  "error_code ORT_OK = 0"
| "error_code ORT_FAIL = 1"
| "error_code ORT_INVALID_ARGUMENT = 2"
| "error_code ORT_NO_SUCHFILE = 3"
| "error_code ORT_NO_MODEL = 4"
| "error_code ORT_ENGINE_ERROR = 5"
| "error_code ORT_RUNTIME_EXCEPTION = 6"
| "error_code ORT_INVALID_PROTOBUF = 7"
| "error_code ORT_MODEL_LOADED = 8"
| "error_code ORT_NOT_IMPLEMENTED = 9"
| "error_code ORT_INVALID_GRAPH = 10"
| "error_code ORT_EP_FAIL = 11"
| "error_code ORT_MODEL_LOAD_CANCELED = 12"
| "error_code ORT_MODEL_REQUIRES_COMPILATION = 13"
| "error_code ORT_NOT_FOUND = 14"

datatype OrtOpAttrType =
  ORT_OP_ATTR_UNDEFINED | ORT_OP_ATTR_INT | ORT_OP_ATTR_INTS | ORT_OP_ATTR_FLOAT
  | ORT_OP_ATTR_FLOATS | ORT_OP_ATTR_STRING | ORT_OP_ATTR_STRINGS | ORT_OP_ATTR_GRAPH
  | ORT_OP_ATTR_TENSOR

fun attr_code :: "OrtOpAttrType \<Rightarrow> int" where
  "attr_code ORT_OP_ATTR_UNDEFINED = 0"
| "attr_code ORT_OP_ATTR_INT = 1"
| "attr_code ORT_OP_ATTR_INTS = 2"
| "attr_code ORT_OP_ATTR_FLOAT = 3"
| "attr_code ORT_OP_ATTR_FLOATS = 4"
| "attr_code ORT_OP_ATTR_STRING = 5"
| "attr_code ORT_OP_ATTR_STRINGS = 6"
| "attr_code ORT_OP_ATTR_GRAPH = 7"
| "attr_code ORT_OP_ATTR_TENSOR = 8"

datatype GraphOptimizationLevel =
  ORT_DISABLE_ALL | ORT_ENABLE_BASIC | ORT_ENABLE_EXTENDED | ORT_ENABLE_LAYOUT | ORT_ENABLE_ALL

fun optimization_code :: "GraphOptimizationLevel \<Rightarrow> int" where
  "optimization_code ORT_DISABLE_ALL = 0"
| "optimization_code ORT_ENABLE_BASIC = 1"
| "optimization_code ORT_ENABLE_EXTENDED = 2"
| "optimization_code ORT_ENABLE_LAYOUT = 3"
| "optimization_code ORT_ENABLE_ALL = 99"

datatype ExecutionMode =
  ORT_SEQUENTIAL | ORT_PARALLEL

fun execution_code :: "ExecutionMode \<Rightarrow> int" where
  "execution_code ORT_SEQUENTIAL = 0"
| "execution_code ORT_PARALLEL = 1"

datatype OrtLanguageProjection =
  ORT_PROJECTION_C | ORT_PROJECTION_CPLUSPLUS | ORT_PROJECTION_CSHARP | ORT_PROJECTION_PYTHON
  | ORT_PROJECTION_JAVA | ORT_PROJECTION_WINML | ORT_PROJECTION_NODEJS

fun projection_code :: "OrtLanguageProjection \<Rightarrow> int" where
  "projection_code ORT_PROJECTION_C = 0"
| "projection_code ORT_PROJECTION_CPLUSPLUS = 1"
| "projection_code ORT_PROJECTION_CSHARP = 2"
| "projection_code ORT_PROJECTION_PYTHON = 3"
| "projection_code ORT_PROJECTION_JAVA = 4"
| "projection_code ORT_PROJECTION_WINML = 5"
| "projection_code ORT_PROJECTION_NODEJS = 6"

datatype OrtAllocatorType =
  OrtInvalidAllocator | OrtDeviceAllocator | OrtArenaAllocator | OrtReadOnlyAllocator

fun allocator_code :: "OrtAllocatorType \<Rightarrow> int" where
  "allocator_code OrtInvalidAllocator = - 1"
| "allocator_code OrtDeviceAllocator = 0"
| "allocator_code OrtArenaAllocator = 1"
| "allocator_code OrtReadOnlyAllocator = 2"

datatype OrtMemType =
  OrtMemTypeCPUInput | OrtMemTypeCPUOutput | OrtMemTypeDefault

fun mem_type_code :: "OrtMemType \<Rightarrow> int" where
  "mem_type_code OrtMemTypeCPUInput = - 2"
| "mem_type_code OrtMemTypeCPUOutput = - 1"
| "mem_type_code OrtMemTypeDefault = 0"

datatype OrtSparseIndicesFormat =
  ORT_SPARSE_COO_INDICES | ORT_SPARSE_CSR_INNER_INDICES | ORT_SPARSE_CSR_OUTER_INDICES
  | ORT_SPARSE_BLOCK_SPARSE_INDICES

fun sparse_indices_code :: "OrtSparseIndicesFormat \<Rightarrow> int" where
  "sparse_indices_code ORT_SPARSE_COO_INDICES = 0"
| "sparse_indices_code ORT_SPARSE_CSR_INNER_INDICES = 1"
| "sparse_indices_code ORT_SPARSE_CSR_OUTER_INDICES = 2"
| "sparse_indices_code ORT_SPARSE_BLOCK_SPARSE_INDICES = 3"

datatype OrtDeviceMemoryType =
  OrtDeviceMemoryType_DEFAULT | OrtDeviceMemoryType_HOST_ACCESSIBLE

fun device_memory_code :: "OrtDeviceMemoryType \<Rightarrow> int" where
  "device_memory_code OrtDeviceMemoryType_DEFAULT = 0"
| "device_memory_code OrtDeviceMemoryType_HOST_ACCESSIBLE = 5"

datatype OrtMemoryInfoDeviceType =
  OrtMemoryInfoDeviceType_CPU | OrtMemoryInfoDeviceType_GPU | OrtMemoryInfoDeviceType_FPGA
  | OrtMemoryInfoDeviceType_NPU

fun memory_device_code :: "OrtMemoryInfoDeviceType \<Rightarrow> int" where
  "memory_device_code OrtMemoryInfoDeviceType_CPU = 0"
| "memory_device_code OrtMemoryInfoDeviceType_GPU = 1"
| "memory_device_code OrtMemoryInfoDeviceType_FPGA = 2"
| "memory_device_code OrtMemoryInfoDeviceType_NPU = 3"

datatype OrtHardwareDeviceType =
  OrtHardwareDeviceType_CPU | OrtHardwareDeviceType_GPU | OrtHardwareDeviceType_NPU

fun hardware_code :: "OrtHardwareDeviceType \<Rightarrow> int" where
  "hardware_code OrtHardwareDeviceType_CPU = 0"
| "hardware_code OrtHardwareDeviceType_GPU = 1"
| "hardware_code OrtHardwareDeviceType_NPU = 2"

datatype OrtExecutionProviderDevicePolicy =
  OrtExecutionProviderDevicePolicy_DEFAULT | OrtExecutionProviderDevicePolicy_PREFER_CPU
  | OrtExecutionProviderDevicePolicy_PREFER_NPU | OrtExecutionProviderDevicePolicy_PREFER_GPU
  | OrtExecutionProviderDevicePolicy_MAX_PERFORMANCE
  | OrtExecutionProviderDevicePolicy_MAX_EFFICIENCY
  | OrtExecutionProviderDevicePolicy_MIN_OVERALL_POWER

fun policy_code :: "OrtExecutionProviderDevicePolicy \<Rightarrow> int" where
  "policy_code OrtExecutionProviderDevicePolicy_DEFAULT = 0"
| "policy_code OrtExecutionProviderDevicePolicy_PREFER_CPU = 1"
| "policy_code OrtExecutionProviderDevicePolicy_PREFER_NPU = 2"
| "policy_code OrtExecutionProviderDevicePolicy_PREFER_GPU = 3"
| "policy_code OrtExecutionProviderDevicePolicy_MAX_PERFORMANCE = 4"
| "policy_code OrtExecutionProviderDevicePolicy_MAX_EFFICIENCY = 5"
| "policy_code OrtExecutionProviderDevicePolicy_MIN_OVERALL_POWER = 6"

datatype OrtDeviceEpIncompatibilityReason =
  OrtDeviceEpIncompatibility_NONE | OrtDeviceEpIncompatibility_DRIVER_INCOMPATIBLE
  | OrtDeviceEpIncompatibility_DEVICE_INCOMPATIBLE
  | OrtDeviceEpIncompatibility_MISSING_DEPENDENCY | OrtDeviceEpIncompatibility_UNKNOWN

fun incompatibility_code :: "OrtDeviceEpIncompatibilityReason \<Rightarrow> int" where
  "incompatibility_code OrtDeviceEpIncompatibility_NONE = 0"
| "incompatibility_code OrtDeviceEpIncompatibility_DRIVER_INCOMPATIBLE = 1"
| "incompatibility_code OrtDeviceEpIncompatibility_DEVICE_INCOMPATIBLE = 2"
| "incompatibility_code OrtDeviceEpIncompatibility_MISSING_DEPENDENCY = 4"
| "incompatibility_code OrtDeviceEpIncompatibility_UNKNOWN = - 2147483648"

datatype OrtCudnnConvAlgoSearch =
  OrtCudnnConvAlgoSearchExhaustive | OrtCudnnConvAlgoSearchHeuristic
  | OrtCudnnConvAlgoSearchDefault

fun cudnn_search_code :: "OrtCudnnConvAlgoSearch \<Rightarrow> int" where
  "cudnn_search_code OrtCudnnConvAlgoSearchExhaustive = 0"
| "cudnn_search_code OrtCudnnConvAlgoSearchHeuristic = 1"
| "cudnn_search_code OrtCudnnConvAlgoSearchDefault = 2"

datatype OrtExternalMemoryHandleType =
  ORT_EXTERNAL_MEMORY_HANDLE_TYPE_D3D12_RESOURCE | ORT_EXTERNAL_MEMORY_HANDLE_TYPE_D3D12_HEAP
  | ORT_EXTERNAL_MEMORY_HANDLE_TYPE_VK_MEMORY_WIN32
  | ORT_EXTERNAL_MEMORY_HANDLE_TYPE_VK_MEMORY_OPAQUE_FD

fun external_memory_code :: "OrtExternalMemoryHandleType \<Rightarrow> int" where
  "external_memory_code ORT_EXTERNAL_MEMORY_HANDLE_TYPE_D3D12_RESOURCE = 0"
| "external_memory_code ORT_EXTERNAL_MEMORY_HANDLE_TYPE_D3D12_HEAP = 1"
| "external_memory_code ORT_EXTERNAL_MEMORY_HANDLE_TYPE_VK_MEMORY_WIN32 = 2"
| "external_memory_code ORT_EXTERNAL_MEMORY_HANDLE_TYPE_VK_MEMORY_OPAQUE_FD = 3"

datatype OrtExternalSemaphoreType =
  ORT_EXTERNAL_SEMAPHORE_D3D12_FENCE | ORT_EXTERNAL_SEMAPHORE_VK_TIMELINE_SEMAPHORE_WIN32
  | ORT_EXTERNAL_SEMAPHORE_VK_TIMELINE_SEMAPHORE_OPAQUE_FD

fun external_semaphore_code :: "OrtExternalSemaphoreType \<Rightarrow> int" where
  "external_semaphore_code ORT_EXTERNAL_SEMAPHORE_D3D12_FENCE = 0"
| "external_semaphore_code ORT_EXTERNAL_SEMAPHORE_VK_TIMELINE_SEMAPHORE_WIN32 = 1"
| "external_semaphore_code ORT_EXTERNAL_SEMAPHORE_VK_TIMELINE_SEMAPHORE_OPAQUE_FD = 2"

datatype OrtGraphicsApi =
  ORT_GRAPHICS_API_NONE | ORT_GRAPHICS_API_D3D12 | ORT_GRAPHICS_API_VULKAN

fun graphics_code :: "OrtGraphicsApi \<Rightarrow> int" where
  "graphics_code ORT_GRAPHICS_API_NONE = 0"
| "graphics_code ORT_GRAPHICS_API_D3D12 = 1"
| "graphics_code ORT_GRAPHICS_API_VULKAN = 2"

datatype OrtCompiledModelCompatibility =
  OrtCompiledModelCompatibility_EP_NOT_APPLICABLE
  | OrtCompiledModelCompatibility_EP_SUPPORTED_OPTIMAL
  | OrtCompiledModelCompatibility_EP_SUPPORTED_PREFER_RECOMPILATION
  | OrtCompiledModelCompatibility_EP_UNSUPPORTED

fun compatibility_code :: "OrtCompiledModelCompatibility \<Rightarrow> int" where
  "compatibility_code OrtCompiledModelCompatibility_EP_NOT_APPLICABLE = 0"
| "compatibility_code OrtCompiledModelCompatibility_EP_SUPPORTED_OPTIMAL = 1"
| "compatibility_code OrtCompiledModelCompatibility_EP_SUPPORTED_PREFER_RECOMPILATION = 2"
| "compatibility_code OrtCompiledModelCompatibility_EP_UNSUPPORTED = 3"

datatype OrtCustomOpInputOutputCharacteristic =
  INPUT_OUTPUT_REQUIRED | INPUT_OUTPUT_OPTIONAL | INPUT_OUTPUT_VARIADIC

fun characteristic_code :: "OrtCustomOpInputOutputCharacteristic \<Rightarrow> int" where
  "characteristic_code INPUT_OUTPUT_REQUIRED = 0"
| "characteristic_code INPUT_OUTPUT_OPTIONAL = 1"
| "characteristic_code INPUT_OUTPUT_VARIADIC = 2"

datatype OrtCompileApiFlags =
  OrtCompileApiFlags_NONE | OrtCompileApiFlags_ERROR_IF_NO_NODES_COMPILED
  | OrtCompileApiFlags_ERROR_IF_OUTPUT_FILE_EXISTS

fun compile_flags_code :: "OrtCompileApiFlags \<Rightarrow> int" where
  "compile_flags_code OrtCompileApiFlags_NONE = 0"
| "compile_flags_code OrtCompileApiFlags_ERROR_IF_NO_NODES_COMPILED = 1"
| "compile_flags_code OrtCompileApiFlags_ERROR_IF_OUTPUT_FILE_EXISTS = 2"

datatype OrtProfilingEventCategory =
  OrtProfilingEventCategory_SESSION | OrtProfilingEventCategory_NODE
  | OrtProfilingEventCategory_KERNEL | OrtProfilingEventCategory_API

fun profiling_code :: "OrtProfilingEventCategory \<Rightarrow> int" where
  "profiling_code OrtProfilingEventCategory_SESSION = 0"
| "profiling_code OrtProfilingEventCategory_NODE = 1"
| "profiling_code OrtProfilingEventCategory_KERNEL = 2"
| "profiling_code OrtProfilingEventCategory_API = 3"

datatype OrtResourceCountKind =
  OrtResourceCountKind_None | OrtResourceCountKind_TotalBytes

fun resource_count_code :: "OrtResourceCountKind \<Rightarrow> int" where
  "resource_count_code OrtResourceCountKind_None = 0"
| "resource_count_code OrtResourceCountKind_TotalBytes = 1"

datatype OrtEpDataLayout =
  OrtEpDataLayout_NCHW | OrtEpDataLayout_NHWC

fun data_layout_code :: "OrtEpDataLayout \<Rightarrow> int" where
  "data_layout_code OrtEpDataLayout_NCHW = 0"
| "data_layout_code OrtEpDataLayout_NHWC = 1"

datatype OrtGraphCaptureNodeAssignmentPolicy =
  OrtGraphCaptureNodeAssignmentPolicy_ALL_NODES_ON_EP
  | OrtGraphCaptureNodeAssignmentPolicy_ALLOW_CPU_FOR_SHAPES

fun graph_capture_code :: "OrtGraphCaptureNodeAssignmentPolicy \<Rightarrow> int" where
  "graph_capture_code OrtGraphCaptureNodeAssignmentPolicy_ALL_NODES_ON_EP = 0"
| "graph_capture_code OrtGraphCaptureNodeAssignmentPolicy_ALLOW_CPU_FOR_SHAPES = 1"

section \<open>Declarations\<close>

text \<open>A type: whether its innermost pointee is const, its base name, its pointer depth (a pointer to
  a function has its C type as its name).  A parameter also has the direction of its annotation:
  \<^verbatim>\<open>_In_\<close> and its variants, \<^verbatim>\<open>_In_opt_\<close>, \<^verbatim>\<open>_Out_\<close>, \<^verbatim>\<open>_Out_opt_\<close>, \<^verbatim>\<open>_Outptr_\<close> (a handle handed
  out), \<^verbatim>\<open>_Outptr_opt_\<close>, \<^verbatim>\<open>_Inout_\<close>, \<^verbatim>\<open>_Frees_ptr_opt_\<close>, or none.\<close>

datatype ctype = Ty (ty_const: bool) (ty_base: string) (ty_stars: nat)

datatype direction = Val | In | In_opt | Out | Out_opt | Outptr | Outptr_opt | Inout | Frees

datatype result = Ret_status | Ret_void | Ret_value ctype | Data ctype

text \<open>A member of a table: a pointer to a function, or a member that holds data.  Its second component
  is the minor version of its \<^verbatim>\<open>\since Version 1.n\<close> mark, 0 where the header states none.\<close>

datatype slot = Slot (slot_name: string) (slot_since: nat) (slot_result: result)
  (slot_params: "(direction \<times> ctype) list")

end
