(* ===== verification/Ort_Api.thy ===== *)
theory Ort_Api
  imports Ort_Types
begin

text \<open>
  The table of function pointers \<^verbatim>\<open>struct OrtApi\<close> of \<^verbatim>\<open>include/onnxruntime_c_api.h\<close>, slot by slot in
  the order of the header, from its start to \<^verbatim>\<open>UnregisterAllocator\<close>, with what each returns and
  what it takes; the component that calls these functions takes them as a parameter.  Here the calls
  of the listener are checked against the declarations.  The first nine sections are version 1 of
  the table.
\<close>

section \<open>Function pointers\<close>

definition ort_slots_1 :: "slot list" where
  "ort_slots_1 = [
     Slot ''CreateStatus'' 0 (Ret_value (Ty False ''OrtStatus'' 1))
       [(Val, Ty False ''OrtErrorCode'' 0), (In, Ty True ''char'' 1)],
     Slot ''GetErrorCode'' 0 (Ret_value (Ty False ''OrtErrorCode'' 0)) [(In, Ty True ''OrtStatus'' 1)],
     Slot ''GetErrorMessage'' 0 (Ret_value (Ty True ''char'' 1)) [(In, Ty True ''OrtStatus'' 1)],
     Slot ''CreateEnv'' 0 Ret_status
       [(Val, Ty False ''OrtLoggingLevel'' 0), (In, Ty True ''char'' 1), (Outptr, Ty False ''OrtEnv'' 2)],
     Slot ''CreateEnvWithCustomLogger'' 0 Ret_status
       [(In, Ty False ''OrtLoggingFunction'' 0), (In_opt, Ty False ''void'' 1),
        (In, Ty False ''OrtLoggingLevel'' 0), (In, Ty True ''char'' 1), (Outptr, Ty False ''OrtEnv'' 2)],
     Slot ''EnableTelemetryEvents'' 0 Ret_status [(In, Ty True ''OrtEnv'' 1)],
     Slot ''DisableTelemetryEvents'' 0 Ret_status [(In, Ty True ''OrtEnv'' 1)],
     Slot ''CreateSession'' 0 Ret_status
       [(In, Ty True ''OrtEnv'' 1), (In, Ty True ''ORTCHAR_T'' 1), (In, Ty True ''OrtSessionOptions'' 1),
        (Outptr, Ty False ''OrtSession'' 2)],
     Slot ''CreateSessionFromArray'' 0 Ret_status
       [(In, Ty True ''OrtEnv'' 1), (In, Ty True ''void'' 1), (Val, Ty False ''size_t'' 0),
        (In, Ty True ''OrtSessionOptions'' 1), (Outptr, Ty False ''OrtSession'' 2)],
     Slot ''Run'' 0 Ret_status
       [(Inout, Ty False ''OrtSession'' 1), (In_opt, Ty True ''OrtRunOptions'' 1), (In, Ty True ''char'' 2),
        (In, Ty True ''OrtValue'' 2), (Val, Ty False ''size_t'' 0), (In, Ty True ''char'' 2),
        (Val, Ty False ''size_t'' 0), (Inout, Ty False ''OrtValue'' 2)]]"

definition ort_slots_2 :: "slot list" where
  "ort_slots_2 = [
     Slot ''CreateSessionOptions'' 0 Ret_status [(Outptr, Ty False ''OrtSessionOptions'' 2)],
     Slot ''SetOptimizedModelFilePath'' 0 Ret_status
       [(Inout, Ty False ''OrtSessionOptions'' 1), (In, Ty True ''ORTCHAR_T'' 1)],
     Slot ''CloneSessionOptions'' 0 Ret_status
       [(In, Ty True ''OrtSessionOptions'' 1), (Outptr, Ty False ''OrtSessionOptions'' 2)],
     Slot ''SetSessionExecutionMode'' 0 Ret_status
       [(Inout, Ty False ''OrtSessionOptions'' 1), (Val, Ty False ''ExecutionMode'' 0)],
     Slot ''EnableProfiling'' 0 Ret_status [(Inout, Ty False ''OrtSessionOptions'' 1), (In, Ty True ''ORTCHAR_T'' 1)],
     Slot ''DisableProfiling'' 0 Ret_status [(Inout, Ty False ''OrtSessionOptions'' 1)],
     Slot ''EnableMemPattern'' 0 Ret_status [(Inout, Ty False ''OrtSessionOptions'' 1)],
     Slot ''DisableMemPattern'' 0 Ret_status [(Inout, Ty False ''OrtSessionOptions'' 1)],
     Slot ''EnableCpuMemArena'' 0 Ret_status [(Inout, Ty False ''OrtSessionOptions'' 1)],
     Slot ''DisableCpuMemArena'' 0 Ret_status [(Inout, Ty False ''OrtSessionOptions'' 1)],
     Slot ''SetSessionLogId'' 0 Ret_status [(Inout, Ty False ''OrtSessionOptions'' 1), (Val, Ty True ''char'' 1)],
     Slot ''SetSessionLogVerbosityLevel'' 0 Ret_status
       [(Inout, Ty False ''OrtSessionOptions'' 1), (Val, Ty False ''int'' 0)],
     Slot ''SetSessionLogSeverityLevel'' 0 Ret_status
       [(Inout, Ty False ''OrtSessionOptions'' 1), (Val, Ty False ''int'' 0)]]"

definition ort_slots_3 :: "slot list" where
  "ort_slots_3 = [
     Slot ''SetSessionGraphOptimizationLevel'' 0 Ret_status
       [(Inout, Ty False ''OrtSessionOptions'' 1), (Val, Ty False ''GraphOptimizationLevel'' 0)],
     Slot ''SetIntraOpNumThreads'' 0 Ret_status [(Inout, Ty False ''OrtSessionOptions'' 1), (Val, Ty False ''int'' 0)],
     Slot ''SetInterOpNumThreads'' 0 Ret_status [(Inout, Ty False ''OrtSessionOptions'' 1), (Val, Ty False ''int'' 0)],
     Slot ''CreateCustomOpDomain'' 0 Ret_status [(In, Ty True ''char'' 1), (Outptr, Ty False ''OrtCustomOpDomain'' 2)],
     Slot ''CustomOpDomain_Add'' 0 Ret_status
       [(Inout, Ty False ''OrtCustomOpDomain'' 1), (In, Ty True ''OrtCustomOp'' 1)],
     Slot ''AddCustomOpDomain'' 0 Ret_status
       [(Inout, Ty False ''OrtSessionOptions'' 1), (In, Ty False ''OrtCustomOpDomain'' 1)],
     Slot ''RegisterCustomOpsLibrary'' 0 Ret_status
       [(Inout, Ty False ''OrtSessionOptions'' 1), (In, Ty True ''char'' 1), (Outptr, Ty False ''void'' 2)],
     Slot ''SessionGetInputCount'' 0 Ret_status [(In, Ty True ''OrtSession'' 1), (Out, Ty False ''size_t'' 1)],
     Slot ''SessionGetOutputCount'' 0 Ret_status [(In, Ty True ''OrtSession'' 1), (Out, Ty False ''size_t'' 1)],
     Slot ''SessionGetOverridableInitializerCount'' 0 Ret_status
       [(In, Ty True ''OrtSession'' 1), (Out, Ty False ''size_t'' 1)],
     Slot ''SessionGetInputTypeInfo'' 0 Ret_status
       [(In, Ty True ''OrtSession'' 1), (Val, Ty False ''size_t'' 0), (Outptr, Ty False ''OrtTypeInfo'' 2)]]"

definition ort_slots_4 :: "slot list" where
  "ort_slots_4 = [
     Slot ''SessionGetOutputTypeInfo'' 0 Ret_status
       [(In, Ty True ''OrtSession'' 1), (Val, Ty False ''size_t'' 0), (Outptr, Ty False ''OrtTypeInfo'' 2)],
     Slot ''SessionGetOverridableInitializerTypeInfo'' 0 Ret_status
       [(In, Ty True ''OrtSession'' 1), (Val, Ty False ''size_t'' 0), (Outptr, Ty False ''OrtTypeInfo'' 2)],
     Slot ''SessionGetInputName'' 0 Ret_status
       [(In, Ty True ''OrtSession'' 1), (Val, Ty False ''size_t'' 0), (Inout, Ty False ''OrtAllocator'' 1),
        (Outptr, Ty False ''char'' 2)],
     Slot ''SessionGetOutputName'' 0 Ret_status
       [(In, Ty True ''OrtSession'' 1), (Val, Ty False ''size_t'' 0), (Inout, Ty False ''OrtAllocator'' 1),
        (Outptr, Ty False ''char'' 2)],
     Slot ''SessionGetOverridableInitializerName'' 0 Ret_status
       [(In, Ty True ''OrtSession'' 1), (Val, Ty False ''size_t'' 0), (Inout, Ty False ''OrtAllocator'' 1),
        (Outptr, Ty False ''char'' 2)],
     Slot ''CreateRunOptions'' 0 Ret_status [(Outptr, Ty False ''OrtRunOptions'' 2)],
     Slot ''RunOptionsSetRunLogVerbosityLevel'' 0 Ret_status
       [(Inout, Ty False ''OrtRunOptions'' 1), (Val, Ty False ''int'' 0)],
     Slot ''RunOptionsSetRunLogSeverityLevel'' 0 Ret_status
       [(Inout, Ty False ''OrtRunOptions'' 1), (Val, Ty False ''int'' 0)],
     Slot ''RunOptionsSetRunTag'' 0 Ret_status [(Inout, Ty False ''OrtRunOptions'' 1), (In, Ty True ''char'' 1)],
     Slot ''RunOptionsGetRunLogVerbosityLevel'' 0 Ret_status
       [(In, Ty True ''OrtRunOptions'' 1), (Out, Ty False ''int'' 1)],
     Slot ''RunOptionsGetRunLogSeverityLevel'' 0 Ret_status
       [(In, Ty True ''OrtRunOptions'' 1), (Out, Ty False ''int'' 1)],
     Slot ''RunOptionsGetRunTag'' 0 Ret_status [(In, Ty True ''OrtRunOptions'' 1), (Out, Ty True ''char'' 2)],
     Slot ''RunOptionsSetTerminate'' 0 Ret_status [(Inout, Ty False ''OrtRunOptions'' 1)]]"

definition ort_slots_5 :: "slot list" where
  "ort_slots_5 = [
     Slot ''RunOptionsUnsetTerminate'' 0 Ret_status [(Inout, Ty False ''OrtRunOptions'' 1)],
     Slot ''CreateTensorAsOrtValue'' 0 Ret_status
       [(Inout, Ty False ''OrtAllocator'' 1), (In, Ty True ''int64_t'' 1), (Val, Ty False ''size_t'' 0),
        (Val, Ty False ''ONNXTensorElementDataType'' 0), (Outptr, Ty False ''OrtValue'' 2)],
     Slot ''CreateTensorWithDataAsOrtValue'' 0 Ret_status
       [(In, Ty True ''OrtMemoryInfo'' 1), (Inout, Ty False ''void'' 1), (Val, Ty False ''size_t'' 0),
        (In, Ty True ''int64_t'' 1), (Val, Ty False ''size_t'' 0),
        (Val, Ty False ''ONNXTensorElementDataType'' 0), (Outptr, Ty False ''OrtValue'' 2)],
     Slot ''IsTensor'' 0 Ret_status [(In, Ty True ''OrtValue'' 1), (Out, Ty False ''int'' 1)],
     Slot ''GetTensorMutableData'' 0 Ret_status [(In, Ty False ''OrtValue'' 1), (Outptr, Ty False ''void'' 2)],
     Slot ''FillStringTensor'' 0 Ret_status
       [(Inout, Ty False ''OrtValue'' 1), (In, Ty True ''char'' 2), (Val, Ty False ''size_t'' 0)],
     Slot ''GetStringTensorDataLength'' 0 Ret_status [(In, Ty True ''OrtValue'' 1), (Out, Ty False ''size_t'' 1)],
     Slot ''GetStringTensorContent'' 0 Ret_status
       [(In, Ty True ''OrtValue'' 1), (Out, Ty False ''void'' 1), (Val, Ty False ''size_t'' 0),
        (Out, Ty False ''size_t'' 1), (Val, Ty False ''size_t'' 0)],
     Slot ''CastTypeInfoToTensorInfo'' 0 Ret_status
       [(In, Ty True ''OrtTypeInfo'' 1), (Outptr, Ty True ''OrtTensorTypeAndShapeInfo'' 2)],
     Slot ''GetOnnxTypeFromTypeInfo'' 0 Ret_status [(In, Ty True ''OrtTypeInfo'' 1), (Out, Ty False ''ONNXType'' 1)],
     Slot ''CreateTensorTypeAndShapeInfo'' 0 Ret_status [(Outptr, Ty False ''OrtTensorTypeAndShapeInfo'' 2)]]"

definition ort_slots_6 :: "slot list" where
  "ort_slots_6 = [
     Slot ''SetTensorElementType'' 0 Ret_status
       [(Inout, Ty False ''OrtTensorTypeAndShapeInfo'' 1), (Val, Ty False ''ONNXTensorElementDataType'' 0)],
     Slot ''SetDimensions'' 0 Ret_status
       [(Val, Ty False ''OrtTensorTypeAndShapeInfo'' 1), (In, Ty True ''int64_t'' 1),
        (Val, Ty False ''size_t'' 0)],
     Slot ''GetTensorElementType'' 0 Ret_status
       [(In, Ty True ''OrtTensorTypeAndShapeInfo'' 1), (Out, Ty False ''ONNXTensorElementDataType'' 1)],
     Slot ''GetDimensionsCount'' 0 Ret_status
       [(In, Ty True ''OrtTensorTypeAndShapeInfo'' 1), (Out, Ty False ''size_t'' 1)],
     Slot ''GetDimensions'' 0 Ret_status
       [(In, Ty True ''OrtTensorTypeAndShapeInfo'' 1), (Out, Ty False ''int64_t'' 1),
        (Val, Ty False ''size_t'' 0)],
     Slot ''GetSymbolicDimensions'' 0 Ret_status
       [(In, Ty True ''OrtTensorTypeAndShapeInfo'' 1), (Out, Ty True ''char'' 2), (Val, Ty False ''size_t'' 0)],
     Slot ''GetTensorShapeElementCount'' 0 Ret_status
       [(In, Ty True ''OrtTensorTypeAndShapeInfo'' 1), (Out, Ty False ''size_t'' 1)],
     Slot ''GetTensorTypeAndShape'' 0 Ret_status
       [(In, Ty True ''OrtValue'' 1), (Outptr, Ty False ''OrtTensorTypeAndShapeInfo'' 2)],
     Slot ''GetTypeInfo'' 0 Ret_status [(In, Ty True ''OrtValue'' 1), (Outptr, Ty False ''OrtTypeInfo'' 2)],
     Slot ''GetValueType'' 0 Ret_status [(In, Ty True ''OrtValue'' 1), (Out, Ty False ''ONNXType'' 1)],
     Slot ''CreateMemoryInfo'' 0 Ret_status
       [(In, Ty True ''char'' 1), (Val, Ty False ''OrtAllocatorType'' 0), (Val, Ty False ''int'' 0),
        (Val, Ty False ''OrtMemType'' 0), (Outptr, Ty False ''OrtMemoryInfo'' 2)],
     Slot ''CreateCpuMemoryInfo'' 0 Ret_status
       [(Val, Ty False ''OrtAllocatorType'' 0), (Val, Ty False ''OrtMemType'' 0),
        (Outptr, Ty False ''OrtMemoryInfo'' 2)]]"

definition ort_slots_7 :: "slot list" where
  "ort_slots_7 = [
     Slot ''CompareMemoryInfo'' 0 Ret_status
       [(In, Ty True ''OrtMemoryInfo'' 1), (In, Ty True ''OrtMemoryInfo'' 1), (Out, Ty False ''int'' 1)],
     Slot ''MemoryInfoGetName'' 0 Ret_status [(In, Ty True ''OrtMemoryInfo'' 1), (Out, Ty True ''char'' 2)],
     Slot ''MemoryInfoGetId'' 0 Ret_status [(In, Ty True ''OrtMemoryInfo'' 1), (Out, Ty False ''int'' 1)],
     Slot ''MemoryInfoGetMemType'' 0 Ret_status [(In, Ty True ''OrtMemoryInfo'' 1), (Out, Ty False ''OrtMemType'' 1)],
     Slot ''MemoryInfoGetType'' 0 Ret_status
       [(In, Ty True ''OrtMemoryInfo'' 1), (Out, Ty False ''OrtAllocatorType'' 1)],
     Slot ''AllocatorAlloc'' 0 Ret_status
       [(Inout, Ty False ''OrtAllocator'' 1), (Val, Ty False ''size_t'' 0), (Outptr, Ty False ''void'' 2)],
     Slot ''AllocatorFree'' 0 Ret_status [(Inout, Ty False ''OrtAllocator'' 1), (Val, Ty False ''void'' 1)],
     Slot ''AllocatorGetInfo'' 0 Ret_status [(In, Ty True ''OrtAllocator'' 1), (Outptr, Ty True ''OrtMemoryInfo'' 2)],
     Slot ''GetAllocatorWithDefaultOptions'' 0 Ret_status [(Outptr, Ty False ''OrtAllocator'' 2)],
     Slot ''AddFreeDimensionOverride'' 0 Ret_status
       [(Inout, Ty False ''OrtSessionOptions'' 1), (In, Ty True ''char'' 1), (In, Ty False ''int64_t'' 0)],
     Slot ''GetValue'' 0 Ret_status
       [(In, Ty True ''OrtValue'' 1), (Val, Ty False ''int'' 0), (Inout, Ty False ''OrtAllocator'' 1),
        (Outptr, Ty False ''OrtValue'' 2)],
     Slot ''GetValueCount'' 0 Ret_status [(In, Ty True ''OrtValue'' 1), (Out, Ty False ''size_t'' 1)],
     Slot ''CreateValue'' 0 Ret_status
       [(In, Ty True ''OrtValue'' 2), (Val, Ty False ''size_t'' 0), (Val, Ty False ''ONNXType'' 0),
        (Outptr, Ty False ''OrtValue'' 2)]]"

definition ort_slots_8 :: "slot list" where
  "ort_slots_8 = [
     Slot ''CreateOpaqueValue'' 0 Ret_status
       [(In, Ty True ''char'' 1), (In, Ty True ''char'' 1), (In, Ty True ''void'' 1),
        (Val, Ty False ''size_t'' 0), (Outptr, Ty False ''OrtValue'' 2)],
     Slot ''GetOpaqueValue'' 0 Ret_status
       [(In, Ty True ''char'' 1), (In, Ty True ''char'' 1), (In, Ty True ''OrtValue'' 1),
        (Out, Ty False ''void'' 1), (Val, Ty False ''size_t'' 0)],
     Slot ''KernelInfoGetAttribute_float'' 0 Ret_status
       [(In, Ty True ''OrtKernelInfo'' 1), (In, Ty True ''char'' 1), (Out, Ty False ''float'' 1)],
     Slot ''KernelInfoGetAttribute_int64'' 0 Ret_status
       [(In, Ty True ''OrtKernelInfo'' 1), (In, Ty True ''char'' 1), (Out, Ty False ''int64_t'' 1)],
     Slot ''KernelInfoGetAttribute_string'' 0 Ret_status
       [(In, Ty True ''OrtKernelInfo'' 1), (In, Ty True ''char'' 1), (Out, Ty False ''char'' 1),
        (Inout, Ty False ''size_t'' 1)],
     Slot ''KernelContext_GetInputCount'' 0 Ret_status
       [(In, Ty True ''OrtKernelContext'' 1), (Out, Ty False ''size_t'' 1)],
     Slot ''KernelContext_GetOutputCount'' 0 Ret_status
       [(In, Ty True ''OrtKernelContext'' 1), (Out, Ty False ''size_t'' 1)],
     Slot ''KernelContext_GetInput'' 0 Ret_status
       [(In, Ty True ''OrtKernelContext'' 1), (In, Ty False ''size_t'' 0), (Out, Ty True ''OrtValue'' 2)],
     Slot ''KernelContext_GetOutput'' 0 Ret_status
       [(Inout, Ty False ''OrtKernelContext'' 1), (In, Ty False ''size_t'' 0), (In, Ty True ''int64_t'' 1),
        (Val, Ty False ''size_t'' 0), (Outptr, Ty False ''OrtValue'' 2)],
     Slot ''ReleaseEnv'' 0 Ret_void [(Frees, Ty False ''OrtEnv'' 1)],
     Slot ''ReleaseStatus'' 0 Ret_void [(Frees, Ty False ''OrtStatus'' 1)]]"

definition ort_slots_9 :: "slot list" where
  "ort_slots_9 = [
     Slot ''ReleaseMemoryInfo'' 0 Ret_void [(Frees, Ty False ''OrtMemoryInfo'' 1)],
     Slot ''ReleaseSession'' 0 Ret_void [(Frees, Ty False ''OrtSession'' 1)],
     Slot ''ReleaseValue'' 0 Ret_void [(Frees, Ty False ''OrtValue'' 1)],
     Slot ''ReleaseRunOptions'' 0 Ret_void [(Frees, Ty False ''OrtRunOptions'' 1)],
     Slot ''ReleaseTypeInfo'' 0 Ret_void [(Frees, Ty False ''OrtTypeInfo'' 1)],
     Slot ''ReleaseTensorTypeAndShapeInfo'' 0 Ret_void [(Frees, Ty False ''OrtTensorTypeAndShapeInfo'' 1)],
     Slot ''ReleaseSessionOptions'' 0 Ret_void [(Frees, Ty False ''OrtSessionOptions'' 1)],
     Slot ''ReleaseCustomOpDomain'' 0 Ret_void [(Frees, Ty False ''OrtCustomOpDomain'' 1)]]"

definition ort_slots_10 :: "slot list" where
  "ort_slots_10 = [
     Slot ''GetDenotationFromTypeInfo'' 0 Ret_status
       [(In, Ty True ''OrtTypeInfo'' 1), (Out, Ty True ''char'' 2), (Out, Ty False ''size_t'' 1)],
     Slot ''CastTypeInfoToMapTypeInfo'' 0 Ret_status
       [(In, Ty True ''OrtTypeInfo'' 1), (Outptr, Ty True ''OrtMapTypeInfo'' 2)],
     Slot ''CastTypeInfoToSequenceTypeInfo'' 0 Ret_status
       [(In, Ty True ''OrtTypeInfo'' 1), (Outptr, Ty True ''OrtSequenceTypeInfo'' 2)],
     Slot ''GetMapKeyType'' 0 Ret_status
       [(In, Ty True ''OrtMapTypeInfo'' 1), (Out, Ty False ''ONNXTensorElementDataType'' 1)],
     Slot ''GetMapValueType'' 0 Ret_status [(In, Ty True ''OrtMapTypeInfo'' 1), (Outptr, Ty False ''OrtTypeInfo'' 2)],
     Slot ''GetSequenceElementType'' 0 Ret_status
       [(In, Ty True ''OrtSequenceTypeInfo'' 1), (Outptr, Ty False ''OrtTypeInfo'' 2)],
     Slot ''ReleaseMapTypeInfo'' 0 Ret_void [(Frees, Ty False ''OrtMapTypeInfo'' 1)],
     Slot ''ReleaseSequenceTypeInfo'' 0 Ret_void [(Frees, Ty False ''OrtSequenceTypeInfo'' 1)],
     Slot ''SessionEndProfiling'' 0 Ret_status
       [(In, Ty False ''OrtSession'' 1), (Inout, Ty False ''OrtAllocator'' 1), (Outptr, Ty False ''char'' 2)],
     Slot ''SessionGetModelMetadata'' 0 Ret_status
       [(In, Ty True ''OrtSession'' 1), (Outptr, Ty False ''OrtModelMetadata'' 2)],
     Slot ''ModelMetadataGetProducerName'' 0 Ret_status
       [(In, Ty True ''OrtModelMetadata'' 1), (Inout, Ty False ''OrtAllocator'' 1),
        (Outptr, Ty False ''char'' 2)]]"

definition ort_slots_11 :: "slot list" where
  "ort_slots_11 = [
     Slot ''ModelMetadataGetGraphName'' 0 Ret_status
       [(In, Ty True ''OrtModelMetadata'' 1), (Inout, Ty False ''OrtAllocator'' 1),
        (Outptr, Ty False ''char'' 2)],
     Slot ''ModelMetadataGetDomain'' 0 Ret_status
       [(In, Ty True ''OrtModelMetadata'' 1), (Inout, Ty False ''OrtAllocator'' 1),
        (Outptr, Ty False ''char'' 2)],
     Slot ''ModelMetadataGetDescription'' 0 Ret_status
       [(In, Ty True ''OrtModelMetadata'' 1), (Inout, Ty False ''OrtAllocator'' 1),
        (Outptr, Ty False ''char'' 2)],
     Slot ''ModelMetadataLookupCustomMetadataMap'' 0 Ret_status
       [(In, Ty True ''OrtModelMetadata'' 1), (Inout, Ty False ''OrtAllocator'' 1), (In, Ty True ''char'' 1),
        (Outptr, Ty False ''char'' 2)],
     Slot ''ModelMetadataGetVersion'' 0 Ret_status
       [(In, Ty True ''OrtModelMetadata'' 1), (Out, Ty False ''int64_t'' 1)],
     Slot ''ReleaseModelMetadata'' 0 Ret_void [(Frees, Ty False ''OrtModelMetadata'' 1)],
     Slot ''CreateEnvWithGlobalThreadPools'' 0 Ret_status
       [(Val, Ty False ''OrtLoggingLevel'' 0), (In, Ty True ''char'' 1),
        (In, Ty True ''OrtThreadingOptions'' 1), (Outptr, Ty False ''OrtEnv'' 2)],
     Slot ''DisablePerSessionThreads'' 0 Ret_status [(Inout, Ty False ''OrtSessionOptions'' 1)],
     Slot ''CreateThreadingOptions'' 0 Ret_status [(Outptr, Ty False ''OrtThreadingOptions'' 2)],
     Slot ''ReleaseThreadingOptions'' 0 Ret_void [(Frees, Ty False ''OrtThreadingOptions'' 1)],
     Slot ''ModelMetadataGetCustomMetadataMapKeys'' 0 Ret_status
       [(In, Ty True ''OrtModelMetadata'' 1), (Inout, Ty False ''OrtAllocator'' 1),
        (Outptr, Ty False ''char'' 3), (Out, Ty False ''int64_t'' 1)],
     Slot ''AddFreeDimensionOverrideByName'' 0 Ret_status
       [(Inout, Ty False ''OrtSessionOptions'' 1), (In, Ty True ''char'' 1), (In, Ty False ''int64_t'' 0)]]"

definition ort_slots_12 :: "slot list" where
  "ort_slots_12 = [
     Slot ''GetAvailableProviders'' 0 Ret_status [(Outptr, Ty False ''char'' 3), (Out, Ty False ''int'' 1)],
     Slot ''ReleaseAvailableProviders'' 0 Ret_status [(In, Ty False ''char'' 2), (In, Ty False ''int'' 0)],
     Slot ''GetStringTensorElementLength'' 0 Ret_status
       [(In, Ty True ''OrtValue'' 1), (Val, Ty False ''size_t'' 0), (Out, Ty False ''size_t'' 1)],
     Slot ''GetStringTensorElement'' 0 Ret_status
       [(In, Ty True ''OrtValue'' 1), (Val, Ty False ''size_t'' 0), (Val, Ty False ''size_t'' 0),
        (Out, Ty False ''void'' 1)],
     Slot ''FillStringTensorElement'' 0 Ret_status
       [(Inout, Ty False ''OrtValue'' 1), (In, Ty True ''char'' 1), (Val, Ty False ''size_t'' 0)],
     Slot ''AddSessionConfigEntry'' 0 Ret_status
       [(Inout, Ty False ''OrtSessionOptions'' 1), (In, Ty True ''char'' 1), (In, Ty True ''char'' 1)],
     Slot ''CreateAllocator'' 0 Ret_status
       [(In, Ty True ''OrtSession'' 1), (In, Ty True ''OrtMemoryInfo'' 1), (Outptr, Ty False ''OrtAllocator'' 2)],
     Slot ''ReleaseAllocator'' 0 Ret_void [(Frees, Ty False ''OrtAllocator'' 1)],
     Slot ''RunWithBinding'' 0 Ret_status
       [(Inout, Ty False ''OrtSession'' 1), (In, Ty True ''OrtRunOptions'' 1), (In, Ty True ''OrtIoBinding'' 1)],
     Slot ''CreateIoBinding'' 0 Ret_status [(Inout, Ty False ''OrtSession'' 1), (Outptr, Ty False ''OrtIoBinding'' 2)],
     Slot ''ReleaseIoBinding'' 0 Ret_void [(Frees, Ty False ''OrtIoBinding'' 1)]]"

definition ort_slots_13 :: "slot list" where
  "ort_slots_13 = [
     Slot ''BindInput'' 0 Ret_status
       [(Inout, Ty False ''OrtIoBinding'' 1), (In, Ty True ''char'' 1), (In, Ty True ''OrtValue'' 1)],
     Slot ''BindOutput'' 0 Ret_status
       [(Inout, Ty False ''OrtIoBinding'' 1), (In, Ty True ''char'' 1), (In, Ty True ''OrtValue'' 1)],
     Slot ''BindOutputToDevice'' 0 Ret_status
       [(Inout, Ty False ''OrtIoBinding'' 1), (In, Ty True ''char'' 1), (In, Ty True ''OrtMemoryInfo'' 1)],
     Slot ''GetBoundOutputNames'' 0 Ret_status
       [(In, Ty True ''OrtIoBinding'' 1), (In, Ty False ''OrtAllocator'' 1), (Out, Ty False ''char'' 2),
        (Out, Ty False ''size_t'' 2), (Out, Ty False ''size_t'' 1)],
     Slot ''GetBoundOutputValues'' 0 Ret_status
       [(In, Ty True ''OrtIoBinding'' 1), (In, Ty False ''OrtAllocator'' 1), (Out, Ty False ''OrtValue'' 3),
        (Out, Ty False ''size_t'' 1)],
     Slot ''ClearBoundInputs'' 0 Ret_void [(Inout, Ty False ''OrtIoBinding'' 1)],
     Slot ''ClearBoundOutputs'' 0 Ret_void [(Inout, Ty False ''OrtIoBinding'' 1)],
     Slot ''TensorAt'' 0 Ret_status
       [(Inout, Ty False ''OrtValue'' 1), (Val, Ty True ''int64_t'' 1), (Val, Ty False ''size_t'' 0),
        (Outptr, Ty False ''void'' 2)],
     Slot ''CreateAndRegisterAllocator'' 0 Ret_status
       [(Inout, Ty False ''OrtEnv'' 1), (In, Ty True ''OrtMemoryInfo'' 1), (In, Ty True ''OrtArenaCfg'' 1)],
     Slot ''SetLanguageProjection'' 0 Ret_status
       [(In, Ty True ''OrtEnv'' 1), (In, Ty False ''OrtLanguageProjection'' 0)]]"

definition ort_slots_14 :: "slot list" where
  "ort_slots_14 = [
     Slot ''SessionGetProfilingStartTimeNs'' 0 Ret_status
       [(In, Ty True ''OrtSession'' 1), (Outptr, Ty False ''uint64_t'' 1)],
     Slot ''SetGlobalIntraOpNumThreads'' 0 Ret_status
       [(Inout, Ty False ''OrtThreadingOptions'' 1), (Val, Ty False ''int'' 0)],
     Slot ''SetGlobalInterOpNumThreads'' 0 Ret_status
       [(Inout, Ty False ''OrtThreadingOptions'' 1), (Val, Ty False ''int'' 0)],
     Slot ''SetGlobalSpinControl'' 0 Ret_status
       [(Inout, Ty False ''OrtThreadingOptions'' 1), (Val, Ty False ''int'' 0)],
     Slot ''AddInitializer'' 0 Ret_status
       [(Inout, Ty False ''OrtSessionOptions'' 1), (In, Ty True ''char'' 1), (In, Ty True ''OrtValue'' 1)],
     Slot ''CreateEnvWithCustomLoggerAndGlobalThreadPools'' 0 Ret_status
       [(Val, Ty False ''OrtLoggingFunction'' 0), (In_opt, Ty False ''void'' 1),
        (Val, Ty False ''OrtLoggingLevel'' 0), (In, Ty True ''char'' 1),
        (In, Ty True ''OrtThreadingOptions'' 1), (Outptr, Ty False ''OrtEnv'' 2)],
     Slot ''SessionOptionsAppendExecutionProvider_CUDA'' 0 Ret_status
       [(In, Ty False ''OrtSessionOptions'' 1), (In, Ty True ''OrtCUDAProviderOptions'' 1)],
     Slot ''SessionOptionsAppendExecutionProvider_ROCM'' 0 Ret_status
       [(In, Ty False ''OrtSessionOptions'' 1), (In, Ty True ''OrtROCMProviderOptions'' 1)],
     Slot ''SessionOptionsAppendExecutionProvider_OpenVINO'' 0 Ret_status
       [(In, Ty False ''OrtSessionOptions'' 1), (In, Ty True ''OrtOpenVINOProviderOptions'' 1)]]"

definition ort_slots_15 :: "slot list" where
  "ort_slots_15 = [
     Slot ''SetGlobalDenormalAsZero'' 0 Ret_status [(Inout, Ty False ''OrtThreadingOptions'' 1)],
     Slot ''CreateArenaCfg'' 0 Ret_status
       [(In, Ty False ''size_t'' 0), (Val, Ty False ''int'' 0), (Val, Ty False ''int'' 0),
        (Val, Ty False ''int'' 0), (Outptr, Ty False ''OrtArenaCfg'' 2)],
     Slot ''ReleaseArenaCfg'' 0 Ret_void [(Frees, Ty False ''OrtArenaCfg'' 1)],
     Slot ''ModelMetadataGetGraphDescription'' 0 Ret_status
       [(In, Ty True ''OrtModelMetadata'' 1), (Inout, Ty False ''OrtAllocator'' 1),
        (Outptr, Ty False ''char'' 2)],
     Slot ''SessionOptionsAppendExecutionProvider_TensorRT'' 0 Ret_status
       [(In, Ty False ''OrtSessionOptions'' 1), (In, Ty True ''OrtTensorRTProviderOptions'' 1)],
     Slot ''SetCurrentGpuDeviceId'' 0 Ret_status [(In, Ty False ''int'' 0)],
     Slot ''GetCurrentGpuDeviceId'' 0 Ret_status [(In, Ty False ''int'' 1)],
     Slot ''KernelInfoGetAttributeArray_float'' 0 Ret_status
       [(In, Ty True ''OrtKernelInfo'' 1), (In, Ty True ''char'' 1), (Out, Ty False ''float'' 1),
        (Inout, Ty False ''size_t'' 1)]]"

definition ort_slots_16 :: "slot list" where
  "ort_slots_16 = [
     Slot ''KernelInfoGetAttributeArray_int64'' 0 Ret_status
       [(In, Ty True ''OrtKernelInfo'' 1), (In, Ty True ''char'' 1), (Out, Ty False ''int64_t'' 1),
        (Inout, Ty False ''size_t'' 1)],
     Slot ''CreateArenaCfgV2'' 0 Ret_status
       [(In, Ty True ''char'' 2), (In, Ty True ''size_t'' 1), (In, Ty False ''size_t'' 0),
        (Outptr, Ty False ''OrtArenaCfg'' 2)],
     Slot ''AddRunConfigEntry'' 0 Ret_status
       [(Inout, Ty False ''OrtRunOptions'' 1), (In, Ty True ''char'' 1), (In, Ty True ''char'' 1)],
     Slot ''CreatePrepackedWeightsContainer'' 0 Ret_status [(Outptr, Ty False ''OrtPrepackedWeightsContainer'' 2)],
     Slot ''ReleasePrepackedWeightsContainer'' 0 Ret_void [(Frees, Ty False ''OrtPrepackedWeightsContainer'' 1)],
     Slot ''CreateSessionWithPrepackedWeightsContainer'' 0 Ret_status
       [(In, Ty True ''OrtEnv'' 1), (In, Ty True ''ORTCHAR_T'' 1), (In, Ty True ''OrtSessionOptions'' 1),
        (Inout, Ty False ''OrtPrepackedWeightsContainer'' 1), (Outptr, Ty False ''OrtSession'' 2)]]"

definition ort_slots_17 :: "slot list" where
  "ort_slots_17 = [
     Slot ''CreateSessionFromArrayWithPrepackedWeightsContainer'' 0 Ret_status
       [(In, Ty True ''OrtEnv'' 1), (In, Ty True ''void'' 1), (Val, Ty False ''size_t'' 0),
        (In, Ty True ''OrtSessionOptions'' 1), (Inout, Ty False ''OrtPrepackedWeightsContainer'' 1),
        (Outptr, Ty False ''OrtSession'' 2)],
     Slot ''SessionOptionsAppendExecutionProvider_TensorRT_V2'' 0 Ret_status
       [(In, Ty False ''OrtSessionOptions'' 1), (In, Ty True ''OrtTensorRTProviderOptionsV2'' 1)],
     Slot ''CreateTensorRTProviderOptions'' 0 Ret_status [(Outptr, Ty False ''OrtTensorRTProviderOptionsV2'' 2)],
     Slot ''UpdateTensorRTProviderOptions'' 0 Ret_status
       [(Inout, Ty False ''OrtTensorRTProviderOptionsV2'' 1), (In, Ty True ''char'' 2),
        (In, Ty True ''char'' 2), (In, Ty False ''size_t'' 0)],
     Slot ''GetTensorRTProviderOptionsAsString'' 0 Ret_status
       [(In, Ty True ''OrtTensorRTProviderOptionsV2'' 1), (Inout, Ty False ''OrtAllocator'' 1),
        (Outptr, Ty False ''char'' 2)],
     Slot ''ReleaseTensorRTProviderOptions'' 0 Ret_void [(Frees, Ty False ''OrtTensorRTProviderOptionsV2'' 1)],
     Slot ''EnableOrtCustomOps'' 0 Ret_status [(Inout, Ty False ''OrtSessionOptions'' 1)],
     Slot ''RegisterAllocator'' 0 Ret_status [(Inout, Ty False ''OrtEnv'' 1), (In, Ty False ''OrtAllocator'' 1)],
     Slot ''UnregisterAllocator'' 0 Ret_status [(Inout, Ty False ''OrtEnv'' 1), (In, Ty True ''OrtMemoryInfo'' 1)]]"

text \<open>The table of version 1 of the interface.\<close>

definition ort_v1_sections :: "slot list list" where
  "ort_v1_sections =
    [ort_slots_1, ort_slots_2, ort_slots_3, ort_slots_4, ort_slots_5, ort_slots_6, ort_slots_7,
     ort_slots_8, ort_slots_9]"

text \<open>The allocator interface and the entry point.\<close>

definition ort_allocator :: "slot list" where
  "ort_allocator = [
     Slot ''version'' 0 (Data (Ty False ''uint32_t'' 0)) [],
     Slot ''Alloc'' 0 (Ret_value (Ty False ''void'' 1))
       [(Val, Ty False ''OrtAllocator'' 1), (Val, Ty False ''size_t'' 0)],
     Slot ''Free'' 0 Ret_void [(Val, Ty False ''OrtAllocator'' 1), (Val, Ty False ''void'' 1)],
     Slot ''Info'' 0 (Ret_value (Ty True ''OrtMemoryInfo'' 1)) [(Val, Ty True ''OrtAllocator'' 1)],
     Slot ''Reserve'' 18 (Ret_value (Ty False ''void'' 1))
       [(Val, Ty False ''OrtAllocator'' 1), (Val, Ty False ''size_t'' 0)],
     Slot ''GetStats'' 23 Ret_status [(In, Ty True ''OrtAllocator'' 1), (Outptr, Ty False ''OrtKeyValuePairs'' 2)],
     Slot ''AllocOnStream'' 23 (Ret_value (Ty False ''void'' 1))
       [(Val, Ty False ''OrtAllocator'' 1), (Val, Ty False ''size_t'' 0), (Val, Ty False ''OrtSyncStream'' 1)],
     Slot ''Shrink'' 25 Ret_status [(In, Ty False ''OrtAllocator'' 1)]]"

definition ort_api_base :: "slot list" where
  "ort_api_base = [
     Slot ''GetApi'' 0 (Ret_value (Ty True ''OrtApi'' 1)) [(Val, Ty False ''uint32_t'' 0)],
     Slot ''GetVersionString'' 0 (Ret_value (Ty True ''char'' 1)) []]"

definition ORT_API_VERSION :: u32 where "ORT_API_VERSION = 26"

section \<open>The calls of the listener\<close>

text \<open>An argument: an expression of a type, an integer constant, or NULL.\<close>

datatype argument = Expr ctype | Int_const | Null

definition ort_calls :: "(string \<times> argument list) list" where
  "ort_calls = [
     (''CreateEnv'', [Expr (Ty False ''OrtLoggingLevel'' 0), Expr (Ty True ''char'' 1), Expr (Ty False ''OrtEnv'' 2)]),
     (''CreateSessionOptions'', [Expr (Ty False ''OrtSessionOptions'' 2)]),
     (''SetIntraOpNumThreads'', [Expr (Ty False ''OrtSessionOptions'' 1), Int_const]),
     (''SetInterOpNumThreads'', [Expr (Ty False ''OrtSessionOptions'' 1), Int_const]),
     (''SetSessionExecutionMode'', [Expr (Ty False ''OrtSessionOptions'' 1), Expr (Ty False ''ExecutionMode'' 0)]),
     (''DisableCpuMemArena'', [Expr (Ty False ''OrtSessionOptions'' 1)]),
     (''DisableMemPattern'', [Expr (Ty False ''OrtSessionOptions'' 1)]),
     (''CreateSession'', [Expr (Ty False ''OrtEnv'' 1), Expr (Ty True ''char'' 1), Expr (Ty False ''OrtSessionOptions'' 1),
        Expr (Ty False ''OrtSession'' 2)]),
     (''GetAllocatorWithDefaultOptions'', [Expr (Ty False ''OrtAllocator'' 2)]),
     (''SessionGetInputName'', [Expr (Ty False ''OrtSession'' 1), Int_const, Expr (Ty False ''OrtAllocator'' 1), Expr (Ty False ''char'' 2)]),
     (''SessionGetOutputName'', [Expr (Ty False ''OrtSession'' 1), Int_const, Expr (Ty False ''OrtAllocator'' 1), Expr (Ty False ''char'' 2)]),
     (''CreateCpuMemoryInfo'', [Expr (Ty False ''OrtAllocatorType'' 0), Expr (Ty False ''OrtMemType'' 0), Expr (Ty False ''OrtMemoryInfo'' 2)])]"

definition release_calls :: "(string \<times> argument list) list" where
  "release_calls = [
     (''ReleaseSession'', [Expr (Ty False ''OrtSession'' 1)]),
     (''ReleaseMemoryInfo'', [Expr (Ty False ''OrtMemoryInfo'' 1)]),
     (''ReleaseSessionOptions'', [Expr (Ty False ''OrtSessionOptions'' 1)]),
     (''AllocatorFree'', [Expr (Ty False ''OrtAllocator'' 1), Expr (Ty False ''char'' 1)]),
     (''ReleaseStatus'', [Expr (Ty False ''OrtStatus'' 1)]),
     (''ReleaseEnv'', [Expr (Ty False ''OrtEnv'' 1)])]"

definition run_calls :: "(string \<times> argument list) list" where
  "run_calls = [
     (''CreateTensorWithDataAsOrtValue'', [Expr (Ty False ''OrtMemoryInfo'' 1), Expr (Ty False ''void'' 1),
        Expr (Ty False ''size_t'' 0), Expr (Ty False ''int64_t'' 1), Int_const,
        Expr (Ty False ''ONNXTensorElementDataType'' 0), Expr (Ty False ''OrtValue'' 2)]),
     (''Run'', [Expr (Ty False ''OrtSession'' 1), Null, Expr (Ty True ''char'' 2), Expr (Ty True ''OrtValue'' 2), Int_const,
        Expr (Ty True ''char'' 2), Int_const, Expr (Ty False ''OrtValue'' 2)]),
     (''ReleaseValue'', [Expr (Ty False ''OrtValue'' 1)]),
     (''GetTensorMutableData'', [Expr (Ty False ''OrtValue'' 1), Expr (Ty False ''void'' 2)])]"

text \<open>When an argument may be passed: the same type up to added const and to the conversion of
  any object pointer to \<^verbatim>\<open>void *\<close> (\<^verbatim>\<open>ORTCHAR_T\<close> is \<^verbatim>\<open>char\<close> here); an integer for an integer; NULL for an
  optional pointer.\<close>

definition same_base :: "string \<Rightarrow> string \<Rightarrow> bool" where
  "same_base a p \<longleftrightarrow> a = p \<or> a = ''char'' \<and> p = ''ORTCHAR_T''"

fun passes :: "argument \<Rightarrow> direction \<times> ctype \<Rightarrow> bool" where
  "passes (Expr a) (d, p) \<longleftrightarrow> ty_stars a = ty_stars p \<and> (ty_const a \<longrightarrow> ty_const p) \<and>
     (same_base (ty_base a) (ty_base p) \<or> ty_base p = ''void'' \<and> ty_stars p = 1)"
| "passes Int_const (d, p) \<longleftrightarrow> ty_stars p = 0 \<and> ty_base p \<in> {''int'', ''size_t'', ''int64_t''}"
| "passes Null (d, p) \<longleftrightarrow> d = In_opt \<and> 0 < ty_stars p"

definition conforms :: "result \<Rightarrow> string \<times> argument list \<Rightarrow> slot \<Rightarrow> bool" where
  "conforms r c s \<longleftrightarrow> (if slot_name s = fst c then slot_result s = r \<and> list_all2 passes (snd c) (slot_params s) else False)"

definition declared :: "slot list list \<Rightarrow> result \<Rightarrow> string \<times> argument list \<Rightarrow> bool" where
  "declared sections r c \<longleftrightarrow> list_ex (\<lambda>slots. list_ex (conforms r c) slots) sections"

section \<open>The calls agree with the declarations\<close>

lemma declaredI: "slots \<in> set sections \<Longrightarrow> list_ex (conforms r c) slots \<Longrightarrow> declared sections r c"
  by (auto simp: declared_def list_ex_iff)

lemma v1_sections: "ort_slots_1 \<in> set ort_v1_sections" "ort_slots_2 \<in> set ort_v1_sections" "ort_slots_3 \<in> set ort_v1_sections"
    "ort_slots_4 \<in> set ort_v1_sections" "ort_slots_5 \<in> set ort_v1_sections" "ort_slots_6 \<in> set ort_v1_sections"
    "ort_slots_7 \<in> set ort_v1_sections" "ort_slots_8 \<in> set ort_v1_sections" "ort_slots_9 \<in> set ort_v1_sections"
  by (simp_all add: ort_v1_sections_def)

lemma declared_1:
  "declared ort_v1_sections Ret_status
     (''CreateEnv'', [Expr (Ty False ''OrtLoggingLevel'' 0), Expr (Ty True ''char'' 1), Expr (Ty False
     ''OrtEnv'' 2)])"
  "declared ort_v1_sections Ret_status
     (''CreateSession'', [Expr (Ty False ''OrtEnv'' 1), Expr (Ty True ''char'' 1), Expr (Ty False
     ''OrtSessionOptions'' 1), Expr (Ty False ''OrtSession'' 2)])"
  "declared ort_v1_sections Ret_status
     (''Run'', [Expr (Ty False ''OrtSession'' 1), Null, Expr (Ty True ''char'' 2), Expr (Ty True
     ''OrtValue'' 2), Int_const, Expr (Ty True ''char'' 2), Int_const, Expr (Ty False ''OrtValue'' 2)])"
  by (rule declaredI [OF v1_sections(1)], simp add: conforms_def same_base_def ort_slots_1_def)+

lemma declared_2:
  "declared ort_v1_sections Ret_status
     (''CreateSessionOptions'', [Expr (Ty False ''OrtSessionOptions'' 2)])"
  "declared ort_v1_sections Ret_status
     (''SetSessionExecutionMode'', [Expr (Ty False ''OrtSessionOptions'' 1), Expr (Ty False
     ''ExecutionMode'' 0)])"
  "declared ort_v1_sections Ret_status
     (''DisableMemPattern'', [Expr (Ty False ''OrtSessionOptions'' 1)])"
  "declared ort_v1_sections Ret_status
     (''DisableCpuMemArena'', [Expr (Ty False ''OrtSessionOptions'' 1)])"
  by (rule declaredI [OF v1_sections(2)], simp add: conforms_def same_base_def ort_slots_2_def)+

lemma declared_3:
  "declared ort_v1_sections Ret_status
     (''SetIntraOpNumThreads'', [Expr (Ty False ''OrtSessionOptions'' 1), Int_const])"
  "declared ort_v1_sections Ret_status
     (''SetInterOpNumThreads'', [Expr (Ty False ''OrtSessionOptions'' 1), Int_const])"
  by (rule declaredI [OF v1_sections(3)], simp add: conforms_def same_base_def ort_slots_3_def)+

lemma declared_4:
  "declared ort_v1_sections Ret_status
     (''SessionGetInputName'', [Expr (Ty False ''OrtSession'' 1), Int_const, Expr (Ty False ''OrtAllocator''
     1), Expr (Ty False ''char'' 2)])"
  "declared ort_v1_sections Ret_status
     (''SessionGetOutputName'', [Expr (Ty False ''OrtSession'' 1), Int_const, Expr (Ty False
     ''OrtAllocator'' 1), Expr (Ty False ''char'' 2)])"
  by (rule declaredI [OF v1_sections(4)], simp add: conforms_def same_base_def ort_slots_4_def)+

lemma declared_5:
  "declared ort_v1_sections Ret_status
     (''CreateTensorWithDataAsOrtValue'', [Expr (Ty False ''OrtMemoryInfo'' 1), Expr (Ty False ''void'' 1),
     Expr (Ty False ''size_t'' 0), Expr (Ty False ''int64_t'' 1), Int_const, Expr (Ty False
     ''ONNXTensorElementDataType'' 0), Expr (Ty False ''OrtValue'' 2)])"
  "declared ort_v1_sections Ret_status
     (''GetTensorMutableData'', [Expr (Ty False ''OrtValue'' 1), Expr (Ty False ''void'' 2)])"
  by (rule declaredI [OF v1_sections(5)], simp add: conforms_def same_base_def ort_slots_5_def)+

lemma declared_6:
  "declared ort_v1_sections Ret_status
     (''CreateCpuMemoryInfo'', [Expr (Ty False ''OrtAllocatorType'' 0), Expr (Ty False ''OrtMemType'' 0),
     Expr (Ty False ''OrtMemoryInfo'' 2)])"
  by (rule declaredI [OF v1_sections(6)], simp add: conforms_def same_base_def ort_slots_6_def)

lemma declared_7:
  "declared ort_v1_sections Ret_status
     (''GetAllocatorWithDefaultOptions'', [Expr (Ty False ''OrtAllocator'' 2)])"
  "declared ort_v1_sections Ret_status
     (''AllocatorFree'', [Expr (Ty False ''OrtAllocator'' 1), Expr (Ty False ''char'' 1)])"
  by (rule declaredI [OF v1_sections(7)], simp add: conforms_def same_base_def ort_slots_7_def)+

lemma declared_8:
  "declared ort_v1_sections Ret_void
     (''ReleaseStatus'', [Expr (Ty False ''OrtStatus'' 1)])"
  "declared ort_v1_sections Ret_void
     (''ReleaseEnv'', [Expr (Ty False ''OrtEnv'' 1)])"
  by (rule declaredI [OF v1_sections(8)], simp add: conforms_def same_base_def ort_slots_8_def)+

lemma declared_9:
  "declared ort_v1_sections Ret_void
     (''ReleaseSession'', [Expr (Ty False ''OrtSession'' 1)])"
  "declared ort_v1_sections Ret_void
     (''ReleaseMemoryInfo'', [Expr (Ty False ''OrtMemoryInfo'' 1)])"
  "declared ort_v1_sections Ret_void
     (''ReleaseSessionOptions'', [Expr (Ty False ''OrtSessionOptions'' 1)])"
  "declared ort_v1_sections Ret_void
     (''ReleaseValue'', [Expr (Ty False ''OrtValue'' 1)])"
  by (rule declaredI [OF v1_sections(9)], simp add: conforms_def same_base_def ort_slots_9_def)+

lemmas declared_calls = declared_1 declared_2 declared_3 declared_4 declared_5 declared_6 declared_7 declared_8 declared_9

lemmas ort_v1_slots = ort_slots_1_def ort_slots_2_def ort_slots_3_def ort_slots_4_def ort_slots_5_def ort_slots_6_def
  ort_slots_7_def ort_slots_8_def ort_slots_9_def


end
