(* ===== verification/Wake_Model.thy ===== *)
theory Wake_Model
  imports Resample Ort_Api "HOL-Library.Multiset"
begin

text \<open>
  The wakeword model behind the ONNX runtime: \<^verbatim>\<open>ort_status_check\<close>, \<^verbatim>\<open>wake_model_init\<close>,
  \<^verbatim>\<open>wake_model_destroy\<close>, \<^verbatim>\<open>run_model\<close>.  The runtime itself is a parameter \<open>lib\<close>: which of its
  calls fail, by number, and what the output tensors hold.  A ledger of the live objects makes
  ownership visible: using or releasing an object that is not live is undefined behaviour,
  \<^theory_text>\<open>None\<close>, and what is still in the ledger at the end was leaked.
\<close>

declare split_paired_All [simp del] split_paired_Ex [simp del]

section \<open>The runtime and its ledger\<close>

datatype kind = K_Env | K_Options | K_Session | K_Name | K_Memory | K_Value | K_Status

type_synonym handle = "kind \<times> nat"

record ort_lib =
  base_found :: bool                     \<comment> \<open>\<^verbatim>\<open>OrtGetApiBase() != NULL\<close>\<close>
  api_found :: bool                      \<comment> \<open>\<^verbatim>\<open>GetApi(ORT_API_VERSION) != NULL\<close>\<close>
  fails :: "nat \<Rightarrow> bool"
  tensor_data :: "nat \<Rightarrow> fp list ptr"

record ort_state =
  live :: "handle multiset"
  calls :: nat

definition all_live :: "handle option list \<Rightarrow> ort_state \<Rightarrow> bool" where
  "all_live hs w \<longleftrightarrow> list_all (\<lambda>h. case h of None \<Rightarrow> False | Some h \<Rightarrow> h \<in># live w) hs"

text \<open>A call that returns a status: it needs its object arguments alive, and gives a status (an
  object of its own) when it fails, a new object of the kind it creates otherwise.\<close>

definition ort_call ::
    "ort_lib \<Rightarrow> kind option \<Rightarrow> handle option list \<Rightarrow> ort_state \<Rightarrow> (handle option \<times> handle option \<times> ort_state) option" where
  "ort_call lib creates uses w =
     (if \<not> all_live uses w then None
      else let k = calls w; w = w\<lparr>calls := Suc k\<rparr> in
        if fails lib k then Some (Some (K_Status, k), None, w\<lparr>live := add_mset (K_Status, k) (live w)\<rparr>)
        else (case creates of None \<Rightarrow> Some (None, None, w)
          | Some kd \<Rightarrow> Some (None, Some (kd, k), w\<lparr>live := add_mset (kd, k) (live w)\<rparr>)))"

definition ort_release :: "handle \<Rightarrow> ort_state \<Rightarrow> ort_state option" where
  "ort_release h w = (if h \<in># live w then Some (w\<lparr>live := live w - {#h#}\<rparr>) else None)"

text \<open>\<^verbatim>\<open>AllocatorFree\<close> frees the block and may still report a status.\<close>

definition ort_allocator_free :: "ort_lib \<Rightarrow> bool \<Rightarrow> handle \<Rightarrow> ort_state \<Rightarrow> (handle option \<times> ort_state) option" where
  "ort_allocator_free lib allocator h w = (if \<not> allocator then None else do {
     w \<leftarrow> ort_release h w;
     (status, _, w) \<leftarrow> ort_call lib None [] w;
     Some (status, w) })"

section \<open>The code\<close>

record wake_model =
  ort :: bool
  env :: "handle option"
  session_options :: "handle option"
  session :: "handle option"
  memory_info :: "handle option"
  allocator :: bool
  input_name :: "handle option"
  output_name :: "handle option"

definition zero_model :: wake_model where
  "zero_model = \<lparr>ort = False, env = None, session_options = None, session = None, memory_info = None,
     allocator = False, input_name = None, output_name = None\<rparr>"

text \<open>The message on standard error is not modelled; the functions of a runtime that was found are
  all there.\<close>

definition ort_status_check :: "wake_model ptr \<Rightarrow> handle option \<Rightarrow> ort_state \<Rightarrow> (int \<times> ort_state) option" where
  "ort_status_check model status w = (case status of None \<Rightarrow> Some (0, w)
     | Some st \<Rightarrow> (case model of None \<Rightarrow> Some (- 1, w)
         | Some m \<Rightarrow> if ort m then do { w \<leftarrow> ort_release st w; Some (- 1, w) } else Some (- 1, w)))"

text \<open>The calls of \<^verbatim>\<open>wake_model_init\<close> after the lookup of the interface, in order: what each creates,
  the objects it uses, and the field that takes the result.\<close>

definition init_steps :: "(kind option \<times> (wake_model \<Rightarrow> handle option list) \<times> (handle option \<Rightarrow> wake_model \<Rightarrow> wake_model)) list" where
  "init_steps = [
     (Some K_Env, \<lambda>m. [], \<lambda>h m. m\<lparr>env := h\<rparr>),
     (Some K_Options, \<lambda>m. [], \<lambda>h m. m\<lparr>session_options := h\<rparr>),
     (None, \<lambda>m. [session_options m], \<lambda>h m. m),
     (None, \<lambda>m. [session_options m], \<lambda>h m. m),
     (None, \<lambda>m. [session_options m], \<lambda>h m. m),
     (None, \<lambda>m. [session_options m], \<lambda>h m. m),
     (None, \<lambda>m. [session_options m], \<lambda>h m. m),
     (Some K_Session, \<lambda>m. [env m, session_options m], \<lambda>h m. m\<lparr>session := h\<rparr>),
     (None, \<lambda>m. [], \<lambda>h m. m\<lparr>allocator := True\<rparr>),
     (Some K_Name, \<lambda>m. [session m], \<lambda>h m. m\<lparr>input_name := h\<rparr>),
     (Some K_Name, \<lambda>m. [session m], \<lambda>h m. m\<lparr>output_name := h\<rparr>),
     (Some K_Memory, \<lambda>m. [], \<lambda>h m. m\<lparr>memory_info := h\<rparr>)]"

fun run_steps :: "ort_lib \<Rightarrow> (kind option \<times> (wake_model \<Rightarrow> handle option list) \<times> (handle option \<Rightarrow> wake_model \<Rightarrow> wake_model)) list \<Rightarrow>
    wake_model \<times> ort_state \<Rightarrow> (int \<times> wake_model \<times> ort_state) option" where
  "run_steps lib [] (m, w) = Some (0, m, w)"
| "run_steps lib ((creates, uses, put) # steps) (m, w) = do {
     (status, h, w) \<leftarrow> ort_call lib creates (uses m) w;
     let m = (if status = None then put h m else m);
     (r, w) \<leftarrow> ort_status_check (Some m) status w;
     if r < 0 then Some (- 1, m, w) else run_steps lib steps (m, w) }"

definition wake_model_init :: "ort_lib \<Rightarrow> wake_model \<times> ort_state \<Rightarrow> (int \<times> wake_model \<times> ort_state) option" where
  "wake_model_init lib = (\<lambda>(m, w).
     if \<not> base_found lib then Some (- 1, m, w)
     else let m = zero_model\<lparr>ort := api_found lib\<rparr> in
       if \<not> ort m then Some (- 1, m, w) else run_steps lib init_steps (m, w))"

definition release_field :: "handle option \<Rightarrow> ort_state \<Rightarrow> ort_state option" where
  "release_field h w = (case h of None \<Rightarrow> Some w | Some h \<Rightarrow> ort_release h w)"

definition free_name :: "ort_lib \<Rightarrow> wake_model \<Rightarrow> handle option \<Rightarrow> ort_state \<Rightarrow> ort_state option" where
  "free_name lib m name w = (case name of None \<Rightarrow> Some w
     | Some h \<Rightarrow> do { (status, w) \<leftarrow> ort_allocator_free lib (allocator m) h w; release_field status w })"

definition wake_model_destroy :: "ort_lib \<Rightarrow> wake_model ptr \<times> ort_state \<Rightarrow> (wake_model ptr \<times> ort_state) option" where
  "wake_model_destroy lib = (\<lambda>(model, w). case model of None \<Rightarrow> Some (None, w)
     | Some m \<Rightarrow> if \<not> ort m then Some (Some m, w)
       else do {
         w \<leftarrow> release_field (session m) w;
         w \<leftarrow> release_field (memory_info m) w;
         w \<leftarrow> release_field (session_options m) w;
         w \<leftarrow> free_name lib m (output_name m) w;
         w \<leftarrow> free_name lib m (input_name m) w;
         w \<leftarrow> release_field (env m) w;
         Some (Some zero_model, w) })"

text \<open>\<^verbatim>\<open>run_model\<close>: the model is read before it is compared with NULL; the status of a failed tensor
  creation is only tested.  The result is the return value and the score, if it was set.\<close>

definition run_model ::
    "ort_lib \<Rightarrow> wake_model ptr \<Rightarrow> fp list ptr \<Rightarrow> bool \<Rightarrow> ort_state \<Rightarrow> (int \<times> fp option \<times> ort_state) option" where
  "run_model lib model input score w = (case model of None \<Rightarrow> None
     | Some m \<Rightarrow>
       if \<not> score then Some (- 1, None, w)
       else if input_name m = None \<or> output_name m = None \<or> session m = None then Some (- 1, None, w)
       else if memory_info m = None \<or> input = NULL then Some (- 1, None, w)
       else if \<not> ort m then Some (- 1, None, w)
       else if length (the input) < unat MODEL_SAMPLES then None  \<comment> \<open>the tensor covers that many samples\<close>
       else do {
         (status, input_tensor, w) \<leftarrow> ort_call lib (Some K_Value) [memory_info m] w;
         if status \<noteq> None then Some (- 1, None, w)
         else do {
           (status, output_tensor, w) \<leftarrow> ort_call lib (Some K_Value) [session m, input_name m, output_name m, input_tensor] w;
           (r, w) \<leftarrow> ort_status_check (Some m) status w;
           if r < 0 then do { w \<leftarrow> release_field input_tensor w; Some (- 1, None, w) }
           else do {
             w \<leftarrow> release_field input_tensor w;
             let data = tensor_data lib (calls w);
             (status, _, w) \<leftarrow> ort_call lib None [output_tensor] w;
             (r, w) \<leftarrow> ort_status_check (Some m) status w;
             if r < 0 then do { w \<leftarrow> release_field output_tensor w; Some (- 1, None, w) }
             else do {
               s \<leftarrow> (case data of None \<Rightarrow> Some (FZero False) | Some xs \<Rightarrow> load xs 0);
               w \<leftarrow> release_field output_tensor w;
               Some (0, Some s, w) } } } })"

section \<open>Ownership\<close>

definition held :: "handle option \<Rightarrow> handle multiset" where
  "held h = (case h of None \<Rightarrow> {#} | Some h \<Rightarrow> {#h#})"

lemma held_simps [simp]: "held None = {#}" "held (Some h) = {#h#}"
  by (simp_all add: held_def)

lemma ort_call_fails:
  "all_live uses w \<Longrightarrow> fails lib (calls w) \<Longrightarrow> ort_call lib creates uses w =
     Some (Some (K_Status, calls w), None, w\<lparr>calls := Suc (calls w), live := add_mset (K_Status, calls w) (live w)\<rparr>)"
  by (simp add: ort_call_def Let_def)

lemma ort_call_succeeds:
  "all_live uses w \<Longrightarrow> \<not> fails lib (calls w) \<Longrightarrow> ort_call lib creates uses w =
     Some (None, map_option (\<lambda>kd. (kd, calls w)) creates,
       w\<lparr>calls := Suc (calls w), live := live w + held (map_option (\<lambda>kd. (kd, calls w)) creates)\<rparr>)"
  by (cases creates) (simp_all add: ort_call_def Let_def)

lemma status_checked:
  "ort m \<Longrightarrow> live w = add_mset st base \<Longrightarrow> ort_status_check (Some m) (Some st) w = Some (- 1, w\<lparr>live := base\<rparr>)"
  "ort_status_check mp None w = Some (0, w)"
  by (simp_all add: ort_status_check_def ort_release_def)

definition owned :: "wake_model \<Rightarrow> handle multiset" where
  "owned m = held (env m) + held (session_options m) + held (session m) + held (memory_info m) +
     held (input_name m) + held (output_name m)"

text \<open>\<open>ledger m w base\<close>: besides the objects \<open>base\<close> of others, exactly those of the model are live.\<close>

definition ledger :: "wake_model \<Rightarrow> ort_state \<Rightarrow> handle multiset \<Rightarrow> bool" where
  "ledger m w base \<longleftrightarrow> live w = base + owned m"

lemma ledger_zero [simp]: "ledger zero_model w base \<longleftrightarrow> live w = base" "ledger (zero_model\<lparr>ort := b\<rparr>) w base \<longleftrightarrow> live w = base"
  by (simp_all add: ledger_def owned_def zero_model_def)

text \<open>\<open>ready i m\<close>: the fields that the first \<open>i\<close> steps fill are filled, and no other.\<close>

definition ready :: "nat \<Rightarrow> wake_model \<Rightarrow> bool" where
  "ready i m \<longleftrightarrow> ort m \<and> (env m \<noteq> None \<longleftrightarrow> 0 < i) \<and> (session_options m \<noteq> None \<longleftrightarrow> 1 < i) \<and> (session m \<noteq> None \<longleftrightarrow> 7 < i) \<and>
     (allocator m \<longleftrightarrow> 8 < i) \<and> (input_name m \<noteq> None \<longleftrightarrow> 9 < i) \<and> (output_name m \<noteq> None \<longleftrightarrow> 10 < i) \<and>
     (memory_info m \<noteq> None \<longleftrightarrow> 11 < i)"

lemma init_step_ready:
  assumes "ready i m" "ledger m w base" "i < 12" "init_steps ! i = (creates, uses, put)"
    and h: "h = map_option (\<lambda>kd. (kd, k)) creates"
  shows "all_live (uses m) w \<and> ready (Suc i) (put h m) \<and> owned (put h m) = owned m + held h"
proof -
  have "i = 0 \<or> i = 1 \<or> i = 2 \<or> i = 3 \<or> i = 4 \<or> i = 5 \<or> i = 6 \<or> i = 7 \<or> i = 8 \<or> i = 9 \<or> i = 10 \<or> i = 11"
    using assms(3) by presburger
  then show ?thesis
    using assms by (elim disjE) (auto simp: init_steps_def ready_def ledger_def owned_def all_live_def)
qed

lemma length_init_steps [simp]: "length init_steps = 12"
  by (simp add: init_steps_def)

lemma run_init_steps:
  assumes "ready i m" "ledger m w base" "i \<le> 12"
  shows "\<exists>r m' w'. run_steps lib (drop i init_steps) (m, w) = Some (r, m', w') \<and> ledger m' w' base \<and>
     (r = 0 \<and> ready 12 m' \<or> r = - 1 \<and> (\<exists>j < 12. ready j m'))"
  using assms
proof (induction "12 - i" arbitrary: i m w)
  case 0
  then show ?case by (auto intro: exI [of _ 0])
next
  case (Suc d)
  then have i: "i < 12" by simp
  obtain creates uses put where step: "init_steps ! i = (creates, uses, put)" by (metis prod_cases3)
  then have drop: "drop i init_steps = (creates, uses, put) # drop (Suc i) init_steps"
    using i by (simp add: Cons_nth_drop_Suc [symmetric])
  let ?k = "calls w"
  let ?h = "map_option (\<lambda>kd. (kd, ?k)) creates"
  note ok = init_step_ready [OF Suc.prems(1,2) i step refl, of ?k]
  show ?case
  proof (cases "fails lib ?k")
    case True
    have "run_steps lib (drop i init_steps) (m, w) = Some (- 1, m, w\<lparr>calls := Suc ?k, live := live w\<rparr>)"
      using ok True Suc.prems(1)
      by (simp add: drop ort_call_fails ready_def status_checked(1) [where base = "live w"])
    then show ?thesis using Suc.prems i by (auto simp: ledger_def)
  next
    case False
    define w1 where "w1 = w\<lparr>calls := Suc ?k, live := live w + held ?h\<rparr>"
    have "ledger (put ?h m) w1 base" using Suc.prems(2) ok by (simp add: ledger_def w1_def)
    moreover have "run_steps lib (drop i init_steps) (m, w) = run_steps lib (drop (Suc i) init_steps) (put ?h m, w1)"
      using ok False by (simp add: drop ort_call_succeeds status_checked(2) w1_def)
    ultimately show ?thesis using Suc.hyps(1) [of "Suc i" "put ?h m" w1] Suc.hyps(2) ok i by auto
  qed
qed

lemma wake_model_init_ledger:
  assumes "live w = base"
  shows "\<exists>r m' w'. wake_model_init lib (zero_model, w) = Some (r, m', w') \<and> ledger m' w' base \<and>
     (r = 0 \<and> ready 12 m' \<or> r = - 1 \<and> (m' = zero_model \<or> (\<exists>j < 12. ready j m')))"
proof (cases "base_found lib \<and> api_found lib")
  case True
  have "ready 0 (zero_model\<lparr>ort := True\<rparr>)" by (simp add: ready_def zero_model_def)
  from run_init_steps [OF this, of w base lib] assms True show ?thesis
    by (auto simp: wake_model_init_def)
qed (use assms in \<open>auto simp: wake_model_init_def ledger_def zero_model_def owned_def\<close>)

text \<open>Releasing: each field gives back its object.\<close>

lemma release_field_held: "live w = base + held h \<Longrightarrow> \<exists>w'. release_field h w = Some w' \<and> live w' = base"
  by (cases h) (simp_all add: release_field_def ort_release_def)

lemma free_name_held:
  assumes "live w = base + held h" "h \<noteq> None \<longrightarrow> allocator m"
  shows "\<exists>w'. free_name lib m h w = Some w' \<and> live w' = base"
  using assms
  by (cases h) (auto simp: free_name_def ort_allocator_free_def ort_release_def ort_call_def all_live_def
      release_field_def Let_def)

lemma wake_model_destroy_ledger:
  assumes "ledger m w base" "input_name m \<noteq> None \<or> output_name m \<noteq> None \<longrightarrow> allocator m"
  shows "ort m \<Longrightarrow> \<exists>w'. wake_model_destroy lib (Some m, w) = Some (Some zero_model, w') \<and> live w' = base"
proof -
  assume "ort m"
  have "live w = (base + held (env m) + held (input_name m) + held (output_name m) + held (session_options m) +
      held (memory_info m)) + held (session m)"
    using assms(1) by (simp add: ledger_def owned_def)
  from release_field_held [OF this] obtain w1 where w1: "release_field (session m) w = Some w1"
    "live w1 = (base + held (env m) + held (input_name m) + held (output_name m) + held (session_options m)) + held (memory_info m)"
    by auto
  from release_field_held [OF w1(2)] obtain w2 where w2: "release_field (memory_info m) w1 = Some w2"
    "live w2 = (base + held (env m) + held (input_name m) + held (output_name m)) + held (session_options m)" by auto
  from release_field_held [OF w2(2)] obtain w3 where w3: "release_field (session_options m) w2 = Some w3"
    "live w3 = (base + held (env m) + held (input_name m)) + held (output_name m)" by auto
  from free_name_held [OF w3(2), of m lib] assms(2) obtain w4 where w4: "free_name lib m (output_name m) w3 = Some w4"
    "live w4 = (base + held (env m)) + held (input_name m)" by auto
  from free_name_held [OF w4(2), of m lib] assms(2) obtain w5 where w5: "free_name lib m (input_name m) w4 = Some w5"
    "live w5 = base + held (env m)" by auto
  from release_field_held [OF w5(2)] obtain w6 where w6: "release_field (env m) w5 = Some w6" "live w6 = base" by auto
  show ?thesis using \<open>ort m\<close> w1(1) w2(1) w3(1) w4(1) w5(1) w6 by (simp add: wake_model_destroy_def)
qed

text \<open>
Property C10. Whatever calls fail, wake_model_init followed by wake_model_destroy touches no object that
is not live, releases every object once and leaves nothing behind, statuses included; a second
wake_model_destroy (the one of main after the one of the worker) does nothing.\<close>

theorem wake_model_no_leak:
  assumes "live w = base"
  shows "\<exists>r m' w' w''. wake_model_init lib (zero_model, w) = Some (r, m', w') \<and> (r = 0 \<or> r = - 1) \<and>
     wake_model_destroy lib (Some m', w') = Some (Some zero_model, w'') \<and> live w'' = base \<and>
     wake_model_destroy lib (Some zero_model, w'') = Some (Some zero_model, w'')"
proof -
  from wake_model_init_ledger [OF assms, of lib] obtain r m' w' where init:
    "wake_model_init lib (zero_model, w) = Some (r, m', w')" "ledger m' w' base"
    "r = 0 \<and> ready 12 m' \<or> r = - 1 \<and> (m' = zero_model \<or> (\<exists>j < 12. ready j m'))" by blast
  have zero: "wake_model_destroy lib (Some zero_model, u) = Some (Some zero_model, u)" for u
    by (simp add: wake_model_destroy_def zero_model_def)
  show ?thesis
  proof (cases "m' = zero_model")
    case True
    then show ?thesis using zero init by auto
  next
    case False
    then have "ort m'" "input_name m' \<noteq> None \<or> output_name m' \<noteq> None \<longrightarrow> allocator m'"
      using init(3) by (auto simp: ready_def)
    from wake_model_destroy_ledger [OF init(2) this(2) this(1), of lib] zero init(1,3) show ?thesis by blast
  qed
qed

definition flaky_lib :: ort_lib where
  "flaky_lib = \<lparr>base_found = True, api_found = True, fails = (\<lambda>k. k = 10), tensor_data = (\<lambda>_. Some [FNum (3 / 4)])\<rparr>"

theorem wake_model_no_leak_witness:
  "\<exists>r m' w' w''. wake_model_init flaky_lib (zero_model, \<lparr>live = {#}, calls = 0\<rparr>) = Some (r, m', w') \<and> (r = 0 \<or> r = - 1) \<and>
     wake_model_destroy flaky_lib (Some m', w') = Some (Some zero_model, w'') \<and> live w'' = {#} \<and>
     wake_model_destroy flaky_lib (Some zero_model, w'') = Some (Some zero_model, w'')"
  by (rule wake_model_no_leak) simp

section \<open>Running the model\<close>

text \<open>A window and a runtime that honours its contract: the samples are all there, and a tensor
  that has data has at least one value.\<close>

definition runnable :: "ort_lib \<Rightarrow> wake_model \<Rightarrow> fp list \<Rightarrow> ort_state \<Rightarrow> bool" where
  "runnable lib m input w \<longleftrightarrow> ready 12 m \<and> (\<exists>base. ledger m w base) \<and> unat MODEL_SAMPLES \<le> length input \<and>
     (\<forall>k xs. tensor_data lib k = Some xs \<longrightarrow> xs \<noteq> [])"

lemma load_0: "xs \<noteq> [] \<Longrightarrow> load xs 0 = Some (hd xs)"
  by (cases xs) (simp_all add: load_def)

lemma run_model_outcome:
  assumes "runnable lib m input w"
  shows "\<exists>r s w'. run_model lib (Some m) (Some input) True w = Some (r, s, w') \<and> (r = 0 \<or> r = - 1) \<and> (r = 0 \<longleftrightarrow> s \<noteq> None) \<and>
     live w' = live w + (if fails lib (calls w) then {#(K_Status, calls w)#} else {#})"
proof -
  obtain base where m: "ready 12 m" "ledger m w base" "unat MODEL_SAMPLES \<le> length input"
      and data: "\<And>k xs. tensor_data lib k = Some xs \<Longrightarrow> xs \<noteq> []"
    using assms by (auto simp: runnable_def)
  obtain e o' s i u y where fields: "env m = Some e" "session_options m = Some o'" "session m = Some s"
      "input_name m = Some i" "output_name m = Some u" "memory_info m = Some y" "ort m"
    using m(1) by (auto simp: ready_def)
  let ?k = "calls w"
  let ?in = "(K_Value, ?k)" and ?out = "(K_Value, Suc ?k)"
  define w1 where "w1 = w\<lparr>calls := Suc ?k, live := add_mset ?in (live w)\<rparr>"
  define w2 where "w2 = w\<lparr>calls := Suc (Suc ?k), live := add_mset ?out (live w)\<rparr>"
  have in_live: "s \<in># live w" "i \<in># live w" "u \<in># live w" "y \<in># live w"
    using m(2) fields by (auto simp: ledger_def owned_def)
  have first: "ort_call lib (Some K_Value) [memory_info m] w =
      (if fails lib ?k then Some (Some (K_Status, ?k), None, w\<lparr>calls := Suc ?k, live := add_mset (K_Status, ?k) (live w)\<rparr>)
       else Some (None, Some ?in, w1))"
    using in_live fields by (simp add: ort_call_fails ort_call_succeeds all_live_def w1_def)
  have second: "ort_call lib (Some K_Value) [session m, input_name m, output_name m, Some ?in] w1 =
      (if fails lib (Suc ?k) then Some (Some (K_Status, Suc ?k), None,
         w1\<lparr>calls := Suc (Suc ?k), live := add_mset (K_Status, Suc ?k) (live w1)\<rparr>)
       else Some (None, Some ?out, w1\<lparr>calls := Suc (Suc ?k), live := add_mset ?out (live w1)\<rparr>))"
    using in_live fields by (simp add: ort_call_fails ort_call_succeeds all_live_def w1_def)
  have len: "\<not> length input < unat MODEL_SAMPLES" using m(3) by simp
  have rel: "release_field (Some ?in) w1' = Some (w1'\<lparr>live := base'\<rparr>)" if "live w1' = add_mset ?in base'" for w1' base'
    using that by (simp add: release_field_def ort_release_def)
  have rel_out: "release_field (Some ?out) v = Some (v\<lparr>live := base'\<rparr>)" if "live v = add_mset ?out base'" for v base'
    using that by (simp add: release_field_def ort_release_def)
  show ?thesis
  proof (cases "fails lib ?k")
    case True
    then show ?thesis using first fields len by (simp add: run_model_def)
  next
    case f1: False
    show ?thesis
    proof (cases "fails lib (Suc ?k)")
      case True
      then show ?thesis using f1 first second fields len
        by (simp add: run_model_def status_checked(1) [where base = "live w1"] rel [where base' = "live w"] w1_def)
    next
      case f2: False
      have third: "ort_call lib None [Some ?out] w2 =
          (if fails lib (Suc (Suc ?k)) then Some (Some (K_Status, Suc (Suc ?k)), None,
             w2\<lparr>calls := Suc (Suc (Suc ?k)), live := add_mset (K_Status, Suc (Suc ?k)) (live w2)\<rparr>)
           else Some (None, None, w2\<lparr>calls := Suc (Suc (Suc ?k))\<rparr>))"
        by (simp add: ort_call_fails ort_call_succeeds all_live_def w2_def)
      have r1: "release_field (Some ?in) (w1\<lparr>calls := Suc (Suc ?k), live := add_mset ?out (live w1)\<rparr>) = Some w2"
        by (subst rel [where base' = "add_mset ?out (live w)"]) (simp_all add: w1_def w2_def)
      have calls2: "calls w2 = Suc (Suc ?k)" by (simp add: w2_def)
      show ?thesis
      proof (cases "fails lib (Suc (Suc ?k))")
        case True
        then show ?thesis using f1 f2 first second third fields len r1
          by (simp add: run_model_def status_checked(2) status_checked(1) [where base = "live w2"]
              rel_out [where base' = "live w"] w2_def)
      next
        case False
        then show ?thesis using f1 f2 first second third fields len r1 data [of "Suc (Suc ?k)"]
          by (cases "tensor_data lib (Suc (Suc ?k))")
            (simp_all add: run_model_def status_checked(2) rel_out [where base' = "live w"] w2_def load_0 calls2)
      qed
    qed
  qed
qed

text \<open>
Property C11. run_model with a complete model and a full window returns 0 with a score or -1, touches
only live objects, and gives back everything it took, except that the status of a failed
tensor creation is never released: one status leaks exactly when that call fails.\<close>

theorem run_model_ledger:
  assumes "runnable lib m input w"
  shows "\<exists>r s w'. run_model lib (Some m) (Some input) True w = Some (r, s, w') \<and> (r = 0 \<or> r = - 1) \<and> (r = 0 \<longleftrightarrow> s \<noteq> None) \<and>
     live w' = live w + (if fails lib (calls w) then {#(K_Status, calls w)#} else {#})"
  using run_model_outcome [OF assms] .

definition ready_model :: wake_model where
  "ready_model = \<lparr>ort = True, env = Some (K_Env, 0), session_options = Some (K_Options, 1), session = Some (K_Session, 7),
     memory_info = Some (K_Memory, 11), allocator = True, input_name = Some (K_Name, 9), output_name = Some (K_Name, 10)\<rparr>"

theorem run_model_ledger_witness:
  "\<exists>r s w'. run_model flaky_lib (Some ready_model) (Some (replicate 48000 (FZero False))) True
       \<lparr>live = owned ready_model, calls = 12\<rparr> = Some (r, s, w') \<and> (r = 0 \<or> r = - 1) \<and> (r = 0 \<longleftrightarrow> s \<noteq> None) \<and>
     live w' = live \<lparr>live = owned ready_model, calls = 12\<rparr> +
       (if fails flaky_lib (calls \<lparr>live = owned ready_model, calls = 12\<rparr>) then
          {#(K_Status, calls \<lparr>live = owned ready_model, calls = 12\<rparr>)#} else {#})"
proof (rule run_model_ledger)
  have "unat MODEL_SAMPLES = 48000" by (simp add: MODEL_SAMPLES_def MODEL_RATE_def MODEL_SECONDS_def)
  then show "runnable flaky_lib ready_model (replicate 48000 (FZero False)) \<lparr>live = owned ready_model, calls = 12\<rparr>"
    by (auto simp: runnable_def ready_def ready_model_def flaky_lib_def ledger_def intro: exI [of _ "{#}"])
qed

text \<open>The names of the model are read before the model is compared with NULL, so a null model is
  undefined behaviour and that comparison never helps.\<close>

lemma run_model_null_traps: "run_model lib NULL input score w = None"
  by (simp add: run_model_def)

end
