(* ===== verification/Worker.thy ===== *)
theory Worker
  imports Archive Status Activation Options Wake_Model
begin

text \<open>
  The worker thread: \<^verbatim>\<open>listener_worker\<close> and \<^verbatim>\<open>sleep_worker_until_next_deadline\<close> of
  \<^verbatim>\<open>src/native/okay-hermes-realtime-wake-listener.c\<close>.  It composes the ring, the wake model, the
  archive, the activation event and the status file.

  The local variables are the record \<open>worker\<close>, everything else the thread changes is the record
  \<open>effects\<close>.  What the environment supplies to one turn of the loop (the clocks, the ring as the audio
  thread has left it, the handler process, the value of \<^verbatim>\<open>running\<close>) is a \<open>turn_input\<close>, and a run is
  given by a list of those, as long as the environment likes.  Three fields of \<open>effects\<close> are a
  record of what was done and are never read by the code: the statuses handed to
  \<^verbatim>\<open>write_capture_status\<close>, the scores of the model, and the numbers of scores after which an activation
  was reported.
\<close>

declare split_paired_All [simp del] split_paired_Ex [simp del]

section \<open>The pause between two turns\<close>

definition CAPTURE_HEALTH_TIMEOUT_SECONDS :: fp where "CAPTURE_HEALTH_TIMEOUT_SECONDS = fp_lit binary64 10"
definition WORKER_MIN_SLEEP_SECONDS :: fp where "WORKER_MIN_SLEEP_SECONDS = fp_lit binary64 (1 / 1000)"
definition WORKER_MAX_SLEEP_SECONDS :: fp where "WORKER_MAX_SLEEP_SECONDS = fp_lit binary64 (1 / 2)"

definition next_deadline :: "fp \<Rightarrow> fp \<Rightarrow> fp \<Rightarrow> bool \<Rightarrow> fp" where
  "next_deadline now inference_interval last_capture_sample_at wrote_unhealthy =
     (let next = fadd binary64 now WORKER_MAX_SLEEP_SECONDS;
          next_inference = fadd binary64 now inference_interval;
          next = (if flt next_inference next then next_inference else next) in
      if \<not> wrote_unhealthy then
        (let next_health = fadd binary64 last_capture_sample_at CAPTURE_HEALTH_TIMEOUT_SECONDS in
         if flt next_health next then next_health else next)
      else next)"

text \<open>The result is the argument of \<^verbatim>\<open>nanosleep\<close>, whose own result is ignored; a cast of a value
  that is no \<^verbatim>\<open>long\<close> is undefined.\<close>

definition sleep_worker_until_next_deadline :: "fp \<Rightarrow> fp \<Rightarrow> fp \<Rightarrow> bool \<Rightarrow> (int \<times> int) option" where
  "sleep_worker_until_next_deadline now inference_interval last_capture_sample_at wrote_unhealthy =
     (let next = next_deadline now inference_interval last_capture_sample_at wrote_unhealthy;
          delay = fsub binary64 next now;
          delay = (if flt delay WORKER_MIN_SLEEP_SECONDS then WORKER_MIN_SLEEP_SECONDS else delay);
          delay = (if flt WORKER_MAX_SLEEP_SECONDS delay then WORKER_MAX_SLEEP_SECONDS else delay) in do {
       tv_sec \<leftarrow> fp_to_long delay;
       tv_nsec \<leftarrow> fp_to_long (fmul binary64 (fsub binary64 delay (fp_of_int binary64 tv_sec)) (fp_lit binary64 1000000000));
       Some (tv_sec, tv_nsec) })"

lemma fround_pos:
  "0 < x \<Longrightarrow> quantum F x = q \<Longrightarrow> rne (x / q) = m \<Longrightarrow> 0 < m \<Longrightarrow> of_int m * q < 2 powi emax F \<Longrightarrow>
     fround F s x = FNum (of_int m * q)"
  by (simp add: fround_def Let_def)

lemma sleep_constants:
  "WORKER_MAX_SLEEP_SECONDS = FNum (1 / 2)"
  "WORKER_MIN_SLEEP_SECONDS = FNum (1152921504606847 / 2 ^ 60)"
  "fp_lit binary64 1000000000 = FNum 1000000000"
proof -
  have grid: "on_grid binary64 (1 / 2)" "on_grid binary64 1000000000"
    by (rule on_gridI [of _ 1 "- 1"], simp_all) (rule on_gridI [of _ 1000000000 0], simp_all)
  have big: "(1000000000 :: rat) < 2 powi 1024"
    using powi2_mono [of 30 1024] by (simp add: powi2_of_nat)
  show "WORKER_MAX_SLEEP_SECONDS = FNum (1 / 2)" "fp_lit binary64 1000000000 = FNum 1000000000"
    using grid big by (simp_all add: WORKER_MAX_SLEEP_SECONDS_def fp_lit_def fround_exact)
  have "ilog2 (1 / 1000) = - 10"
    by (rule ilog2_eqI) (simp_all add: power_int_minus field_simps)
  then have q: "quantum binary64 (1 / 1000) = 1 / 2 ^ 62"
    by (simp add: quantum_def power_int_minus field_simps)
  have m: "rne (1 / 1000 / (1 / 2 ^ 62)) = 4611686018427388"
    by code_simp
  have "fround binary64 False (1 / 1000) = FNum (of_int 4611686018427388 * (1 / 2 ^ 62))"
    by (rule fround_pos [OF _ q m]) (use powi2_mono [of 0 1024] in simp_all)
  then show "WORKER_MIN_SLEEP_SECONDS = FNum (1152921504606847 / 2 ^ 60)"
    by (simp add: WORKER_MIN_SLEEP_SECONDS_def fp_lit_def)
qed

lemma fadd_not_nan: "isfinite a \<Longrightarrow> \<not> isnan b \<Longrightarrow> \<not> isnan (fadd F a b)" "isfinite b \<Longrightarrow> \<not> isnan a \<Longrightarrow> \<not> isnan (fadd F a b)"
  by (cases a; cases b; simp)+

lemma next_deadline_not_nan:
  assumes "isfinite now"
  shows "\<not> isnan (next_deadline now interval heard unhealthy)"
proof -
  have "\<not> isnan (fadd binary64 now WORKER_MAX_SLEEP_SECONDS)"
    using assms by (simp add: fadd_not_nan sleep_constants)
  moreover have "\<not> isnan a" if "flt a b" for a b using that by (auto simp: flt_def)
  ultimately show ?thesis by (auto simp: next_deadline_def Let_def)
qed

lemma delay_clamped:
  assumes "\<not> isnan delay" "isfinite lo" "isfinite hi" "fle lo hi"
  defines "d \<equiv> (if flt delay lo then lo else delay)"
  shows "fle lo (if flt hi d then hi else d) \<and> fle (if flt hi d then hi else d) hi"
proof -
  have nan: "\<not> isnan lo" "\<not> isnan hi" using assms(2,3) by (cases lo; cases hi; simp)+
  have lo: "fle lo d" using not_flt_fle [of delay lo] nan assms(1) by (simp add: d_def fle_refl)
  have "\<not> isnan d" using nan assms(1) by (simp add: d_def)
  then have "\<not> flt hi d \<Longrightarrow> fle d hi" using not_flt_fle [of hi d] nan by simp
  then show ?thesis using lo assms(4) nan by (simp add: fle_refl)
qed

text \<open>A delay in range splits into no seconds and a number of nanoseconds that \<^verbatim>\<open>nanosleep\<close> accepts.\<close>

lemma split_delay:
  assumes "1152921504606847 / 2 ^ 60 \<le> r" "r \<le> 1 / 2" "is_fp binary64 (FNum r)"
  shows "\<exists>ns. fp_to_long (FNum r) = Some 0 \<and>
     fp_to_long (fmul binary64 (fsub binary64 (FNum r) (fp_of_int binary64 0)) (FNum 1000000000)) = Some ns \<and>
     1000000 \<le> ns \<and> ns \<le> 500000000"
proof -
  have "(0 :: rat) < 1152921504606847 / 2 ^ 60" by simp
  then have r: "0 < r" using assms(1) by linarith
  have "fsub binary64 (FNum r) (fp_of_int binary64 0) = FNum r"
    using fround_fp [OF assms(3)] by (simp add: fsub_def fp_of_int_def fround_def)
  moreover define y where "y = fround binary64 False (r * 1000000000)"
  moreover have "fmul binary64 (FNum r) (FNum 1000000000) = y"
    using r by (simp add: y_def)
  moreover have grid: "on_grid binary64 500000000" "on_grid binary64 1000000"
    by (rule on_gridI [of _ 500000000 0], simp_all) (rule on_gridI [of _ 1000000 0], simp_all)
  have up: "isfinite y \<and> fval y \<le> 500000000"
  proof -
    have "(500000000 :: rat) < 2 powi 1024" using powi2_mono [of 29 1024] by (simp add: powi2_of_nat)
    moreover have "\<bar>r * 1000000000\<bar> \<le> 500000000" using r assms(2) by simp
    ultimately have "isfinite y \<and> \<bar>fval y\<bar> \<le> 500000000"
      using fround_bounded [OF grid(1), of "r * 1000000000" False] by (simp only: y_def) (simp add: binary64_def)
    then show ?thesis by linarith
  qed
  moreover have "1000000 \<le> fval y"
  proof -
    have "1000000 \<le> (1152921504606847 / 2 ^ 60 :: rat) * 1000000000" by simp
    also have "\<dots> \<le> r * 1000000000" using assms(1) by (intro mult_right_mono) simp_all
    finally show ?thesis using fround_lower [OF grid(2)] up by (simp add: y_def)
  qed
  moreover have "trunc_rat r = 0" using r assms(2) by (simp add: trunc_rat_def floor_eq_iff)
  moreover have "in_long 0" "1000000 \<le> trunc_rat (fval y)" "trunc_rat (fval y) \<le> 500000000"
    using up \<open>1000000 \<le> fval y\<close> by (simp_all add: in_long_def trunc_rat_def le_floor_iff floor_le_iff)
  ultimately show ?thesis by (auto simp: fp_to_long_def in_long_def)
qed

lemma sleep_bounds:
  assumes "isfinite now"
  shows "\<exists>ns. sleep_worker_until_next_deadline now interval heard unhealthy = Some (0, ns) \<and> 1000000 \<le> ns \<and> ns \<le> 500000000"
proof -
  define d0 where "d0 = fsub binary64 (next_deadline now interval heard unhealthy) now"
  define d1 where "d1 = (if flt d0 WORKER_MIN_SLEEP_SECONDS then WORKER_MIN_SLEEP_SECONDS else d0)"
  define d where "d = (if flt WORKER_MAX_SLEEP_SECONDS d1 then WORKER_MAX_SLEEP_SECONDS else d1)"
  have "\<not> isnan (fneg now)" "isfinite (fneg now)" using assms by (cases now; simp)+
  then have "\<not> isnan d0"
    using next_deadline_not_nan [OF assms] by (simp add: d0_def fsub_def fadd_not_nan)
  then have "fle WORKER_MIN_SLEEP_SECONDS d \<and> fle d WORKER_MAX_SLEEP_SECONDS"
    unfolding d_def d1_def by (rule delay_clamped) (simp_all add: sleep_constants)
  then have b: "fle WORKER_MIN_SLEEP_SECONDS d" "fle d WORKER_MAX_SLEEP_SECONDS" by simp_all
  then have "isfinite d" using fle_between_finite [OF b] by (simp add: sleep_constants)
  with b obtain r where r: "d = FNum r" "1152921504606847 / 2 ^ 60 \<le> r" "r \<le> 1 / 2"
    by (cases d) (simp_all add: sleep_constants)
  have "is_fp binary64 d"
    by (simp add: d_def d1_def d0_def fsub_def fadd_is_fp' WORKER_MIN_SLEEP_SECONDS_def WORKER_MAX_SLEEP_SECONDS_def
        fp_lit_def fround_is_fp)
  moreover have "sleep_worker_until_next_deadline now interval heard unhealthy = do {
       tv_sec \<leftarrow> fp_to_long d;
       tv_nsec \<leftarrow> fp_to_long (fmul binary64 (fsub binary64 d (fp_of_int binary64 tv_sec)) (fp_lit binary64 1000000000));
       Some (tv_sec, tv_nsec) }"
    by (simp only: sleep_worker_until_next_deadline_def Let_def d_def d1_def d0_def)
  ultimately show ?thesis using r split_delay [of r] by (auto simp: sleep_constants(3))
qed

section \<open>One turn of the loop\<close>

record worker =
  last_health_total :: u64
  consecutive_hits :: u32
  last_inference_at :: fp
  last_capture_sample_at :: fp
  wrote_unhealthy :: bool
  model_window :: "fp list"

record config =
  proc_id :: nat
  runtime_lib :: ort_lib
  options :: listener_options
  status_path :: string

record effects =
  sys :: world
  runtime :: ort_state
  the_model :: wake_model
  archive_seq :: u32
  statuses :: "string list"
  scores :: "fp list"
  reported :: "nat list"

record turn_input =
  running_seen :: bool
  ring_seen :: sample_ring        \<comment> \<open>when \<^verbatim>\<open>total_written\<close> is loaded\<close>
  ring_copied :: sample_ring      \<comment> \<open>when the window is copied\<close>
  clock_now :: "(int \<times> int) option"
  clock_archive :: "(int \<times> int) option"
  clock_event :: "(int \<times> int) option"
  handler_now :: handler_env

definition set_status :: "config \<Rightarrow> string \<Rightarrow> effects \<Rightarrow> effects" where
  "set_status s status e = e\<lparr>sys := write_capture_status (proc_id s) (Some (status_path s)) (Some status) (sys e),
     statuses := statuses e @ [status]\<rparr>"

definition check_health :: "config \<Rightarrow> u64 \<Rightarrow> fp \<Rightarrow> worker \<times> effects \<Rightarrow> worker \<times> effects" where
  "check_health s written now = (\<lambda>(wk, e).
     if written \<noteq> last_health_total wk then
       (wk\<lparr>last_health_total := written, wrote_unhealthy := False, last_capture_sample_at := now\<rparr>,
        set_status s ''healthy'' e)
     else if \<not> wrote_unhealthy wk \<and> fle CAPTURE_HEALTH_TIMEOUT_SECONDS (fsub binary64 now (last_capture_sample_at wk)) then
       (wk\<lparr>wrote_unhealthy := True\<rparr>, set_status s ''unhealthy'' e)
     else (wk, e))"

text \<open>\<^verbatim>\<open>execv\<close> reads the vector up to its NULL.  The boolean of a result is false when the process was
  killed.\<close>

definition handler_strings :: "string ptr list ptr \<Rightarrow> string list ptr" where
  "handler_strings argv = map_option (\<lambda>v. map the (takeWhile (\<lambda>a. a \<noteq> None) v)) argv"

definition report_activation :: "config \<Rightarrow> turn_input \<Rightarrow> fp list \<Rightarrow> fp \<Rightarrow> effects \<Rightarrow> (bool \<times> effects) option" where
  "report_activation s t window probability e = do {
     (r, seqno, w) \<leftarrow> archive_activation (proc_id s) (clock_archive t) (activation_archive_dir (options s))
       (Some window) (ucast MODEL_SAMPLES) probability False (archive_seq e, sys e);
     let e = e\<lparr>archive_seq := seqno, sys := w, reported := reported e @ [length (scores e)]\<rparr>;
     if handler_argc (options s) = 0 then do {
       (r, w) \<leftarrow> write_activation (clock_event t) probability (sys e);
       let e = e\<lparr>sys := w\<rparr>;
       Some (True, if r \<noteq> 0 then set_status s ''handler_failed'' e else e) }
     else do {
       (how, w) \<leftarrow> run_handler (handler_now t) (clock_event t) (handler_strings (handler_argv (options s)))
         (handler_argc (options s)) probability (sys e);
       let e = e\<lparr>sys := w\<rparr>;
       (case how of Killed_by_sigpipe \<Rightarrow> Some (False, e)
         | Returned r \<Rightarrow> Some (True, if r \<noteq> 0 then set_status s ''handler_failed'' e else e)) } }"

definition score_window :: "config \<Rightarrow> turn_input \<Rightarrow> worker \<times> effects \<Rightarrow> (bool \<times> worker \<times> effects) option" where
  "score_window s t = (\<lambda>(wk, e). do {
     (n, window) \<leftarrow> ring_snapshot_latest (Some (ring_copied t)) (Some (model_window wk)) (ucast MODEL_SAMPLES);
     let wk = wk\<lparr>model_window := the window\<rparr>;
     if n \<noteq> ucast MODEL_SAMPLES then Some (True, wk, e)
     else do {
       (r, score, rt) \<leftarrow> run_model (runtime_lib s) (Some (the_model e)) (Some (model_window wk)) True (runtime e);
       let e = e\<lparr>runtime := rt\<rparr>;
       if r \<noteq> 0 then Some (True, wk, e)
       else do {
         let probability = (case score of None \<Rightarrow> FZero False | Some p \<Rightarrow> p);
         let e = e\<lparr>scores := scores e @ [probability]\<rparr>;
         let hits = (if fle (threshold (options s)) probability then consecutive_hits wk + 1 else 0);
         if consecutive_windows (options s) \<le> hits then do {
           (alive, e) \<leftarrow> report_activation s t (model_window wk) probability e;
           Some (alive, wk\<lparr>consecutive_hits := 0\<rparr>, e) }
         else Some (True, wk\<lparr>consecutive_hits := hits\<rparr>, e) } } })"

definition inference_due :: "u64 \<Rightarrow> fp \<Rightarrow> fp \<Rightarrow> worker \<Rightarrow> bool" where
  "inference_due written now interval wk \<longleftrightarrow> ucast MODEL_SAMPLES \<le> written \<and>
     (feq (last_inference_at wk) (FZero False) \<or> fle interval (fsub binary64 now (last_inference_at wk)))"

definition worker_turn :: "config \<Rightarrow> turn_input \<Rightarrow> worker \<times> effects \<Rightarrow> (bool \<times> worker \<times> effects) option" where
  "worker_turn s t st = do {
     let written = total_written (ring_seen t);
     let now = monotonic_seconds (clock_now t);
     let interval = fdiv binary64 (fp_of_int binary64 (uint (inference_interval_ms (options s)))) (fp_of_int binary64 1000);
     let st = check_health s written now st;
     (alive, wk, e) \<leftarrow> (if inference_due written now interval (fst st) then do {
         (alive, wk, e) \<leftarrow> score_window s t st;
         Some (alive, wk\<lparr>last_inference_at := now\<rparr>, e) }
       else Some (True, st));
     if \<not> alive then Some (False, wk, e)
     else do {
       _ \<leftarrow> sleep_worker_until_next_deadline now interval (last_capture_sample_at wk) (wrote_unhealthy wk);
       Some (True, wk, e) } }"

section \<open>The thread\<close>

datatype worker_exit = Start_failed | Worker_stopped | Process_killed | Still_running

fun worker_loop :: "config \<Rightarrow> turn_input list \<Rightarrow> worker \<times> effects \<Rightarrow> (worker_exit \<times> worker \<times> effects) option" where
  "worker_loop s [] st = Some (Still_running, st)"
| "worker_loop s (t # ts) st = (if \<not> running_seen t then Some (Worker_stopped, st)
     else do {
       (alive, st) \<leftarrow> worker_turn s t st;
       if alive then worker_loop s ts st else Some (Process_killed, st) })"

text \<open>The window is what \<^verbatim>\<open>malloc\<close> gives, with any contents, or NULL.  A failed start also sets \<^verbatim>\<open>failed\<close>
  and clears \<^verbatim>\<open>running\<close>; that part of the function is in theory \<^theory_text>\<open>Lifecycle\<close>.\<close>

definition listener_worker ::
    "config \<Rightarrow> fp list ptr \<Rightarrow> (int \<times> int) option \<Rightarrow> turn_input list \<Rightarrow> effects \<Rightarrow> (worker_exit \<times> effects) option" where
  "listener_worker s window start turns e = (case window of None \<Rightarrow> Some (Start_failed, e)
     | Some window \<Rightarrow> do {
       (r, m, rt) \<leftarrow> wake_model_init (runtime_lib s) (the_model e, runtime e);
       let e = e\<lparr>the_model := m, runtime := rt\<rparr>;
       if r < 0 then Some (Start_failed, e)
       else do {
         let e = set_status s ''starting'' e;
         (exit, wk, e) \<leftarrow> worker_loop s turns
           (\<lparr>last_health_total = 0, consecutive_hits = 0, last_inference_at = FZero False,
             last_capture_sample_at = monotonic_seconds start, wrote_unhealthy = False, model_window = window\<rparr>, e);
         if exit = Worker_stopped then do {
           (m, rt) \<leftarrow> wake_model_destroy (runtime_lib s) (Some (the_model e), runtime e);
           Some (exit, set_status s ''stopped'' (e\<lparr>the_model := the m, runtime := rt\<rparr>)) }
         else Some (exit, e) } })"

section \<open>What one turn keeps\<close>

definition world_ready :: "world \<Rightarrow> bool" where
  "world_ready w \<longleftrightarrow> world_ok w \<and> fair w \<and> open_on 1 To_Stdout w"

lemma same_fds_ready: "same_fds w w' \<Longrightarrow> world_ready w \<Longrightarrow> world_ready w'"
  by (auto simp: world_ready_def same_fds_ok) (auto simp: same_fds_def fair_def open_on_def)

definition turn_input_ok :: "turn_input \<Rightarrow> bool" where
  "turn_input_ok t \<longleftrightarrow> clock_ok (clock_now t) \<and> clock_ok (clock_archive t) \<and>
     unat MODEL_SAMPLES \<le> unat (capacity (ring_copied t)) \<and> (\<exists>h. ring_holds (ring_copied t) h \<and> length h < 2 ^ 64)"

definition config_ok :: "config \<Rightarrow> bool" where
  "config_ok s \<longleftrightarrow> options_ok (options s) \<and> proc_id s < 2 ^ 31 \<and>
     (\<forall>d. activation_archive_dir (options s) = Some d \<longrightarrow> length d < 2 ^ 20) \<and>
     (\<forall>k xs. tensor_data (runtime_lib s) k = Some xs \<longrightarrow> xs \<noteq> [])"

lemma unat_MODEL_SAMPLES [simp]: "unat MODEL_SAMPLES = 48000" "unat (ucast MODEL_SAMPLES :: u64) = 48000"
  by (simp_all add: MODEL_SAMPLES_def MODEL_RATE_def MODEL_SECONDS_def)

lemma set_status_frame:
  assumes "world_ready (sys e)"
  shows "same_fds (sys e) (sys (set_status s status e))" "world_ready (sys (set_status s status e))"
proof -
  have "world_ok (sys e)" using assms by (simp add: world_ready_def)
  from write_capture_status_replaces [OF this, of "status_path s" status "proc_id s"]
  show "same_fds (sys e) (sys (set_status s status e))" by (auto simp: set_status_def replaces_def)
  then show "world_ready (sys (set_status s status e))" using assms by (rule same_fds_ready)
qed

lemma set_status_fields [simp]:
  "runtime (set_status s status e) = runtime e" "the_model (set_status s status e) = the_model e"
  "archive_seq (set_status s status e) = archive_seq e" "statuses (set_status s status e) = statuses e @ [status]"
  "scores (set_status s status e) = scores e" "reported (set_status s status e) = reported e"
  by (simp_all add: set_status_def)

text \<open>Reporting returns; unless the process is killed the descriptors are as before, and the only
  status it may add is the one for a failed handler.\<close>

lemma report_activation_frame:
  assumes s: "config_ok s" and t: "turn_input_ok t" and w: "world_ready (sys e)" and win: "48000 \<le> length window"
  shows "\<exists>alive e'. report_activation s t window p e = Some (alive, e') \<and> runtime e' = runtime e \<and> the_model e' = the_model e \<and>
     scores e' = scores e \<and> reported e' = reported e @ [length (scores e)] \<and>
     (statuses e' = statuses e \<or> statuses e' = statuses e @ [''handler_failed'']) \<and>
     (alive \<longrightarrow> same_fds (sys e) (sys e'))"
proof -
  have ok: "world_ok (sys e)" "fair (sys e)" using w by (simp_all add: world_ready_def)
  have now: "\<forall>sec nsec. clock_archive t = Some (sec, nsec) \<longrightarrow> 0 \<le> nsec \<and> nsec < 1000000000"
    using t by (auto simp: turn_input_ok_def clock_ok_def)
  have dir: "\<forall>d. activation_archive_dir (options s) = Some d \<longrightarrow> length d < 2 ^ 20"
    and pid: "proc_id s < 2 ^ 31" using s by (auto simp: config_ok_def)
  have len: "unat (ucast MODEL_SAMPLES :: u64) \<le> length window" using win by simp
  from archive_activation_steady [OF ok len pid dir now, of p False "archive_seq e"]
  obtain r seqno w1 where arc: "archive_activation (proc_id s) (clock_archive t) (activation_archive_dir (options s))
      (Some window) (ucast MODEL_SAMPLES) p False (archive_seq e, sys e) = Some (r, seqno, w1)" "same_fds (sys e) w1" by blast
  have w1: "world_ready w1" using arc(2) w by (rule same_fds_ready)
  then have ok1: "world_ok w1" "fair w1" "open_on 1 To_Stdout w1" by (simp_all add: world_ready_def)
  have status: "same_fds (sys e) (sys (set_status s x (e\<lparr>archive_seq := q, reported := l, sys := w2\<rparr>)))"
    if "same_fds w1 w2" for w2 x q l
    using set_status_frame(1) [of "e\<lparr>archive_seq := q, reported := l, sys := w2\<rparr>" s x] same_fds_ready [OF that w1]
      same_fds_trans [OF arc(2) that] by (simp add: same_fds_trans)
  show ?thesis
  proof (cases "handler_argc (options s) = 0")
    case True
    from write_activation_steady [OF ok1(3,2), of "clock_event t" p] obtain r2 w2
      where "write_activation (clock_event t) p w1 = Some (r2, w2)" "same_fds w1 w2" by blast
    then show ?thesis using True arc(1) status same_fds_trans [OF arc(2)]
      by (cases "r2 = 0") (auto simp add: report_activation_def)
  next
    case False
    from run_handler_steady [OF ok1(1,2), of "handler_now t" "clock_event t" "handler_strings (handler_argv (options s))"
        "handler_argc (options s)" p] obtain how w2
      where "run_handler (handler_now t) (clock_event t) (handler_strings (handler_argv (options s)))
          (handler_argc (options s)) p w1 = Some (how, w2)" "how \<noteq> Killed_by_sigpipe \<longrightarrow> same_fds w1 w2" by blast
    then show ?thesis using False arc(1) status same_fds_trans [OF arc(2)]
      by (cases how) (auto simp add: report_activation_def Let_def)
  qed
qed

section \<open>When an activation is due\<close>

text \<open>The specification of the detector: an activation is due at the \<open>n\<close>-th score when the
  uninterrupted run of scores at or above the threshold that ends there has a length that is a
  multiple of the number of windows asked for.\<close>

definition hit_run :: "fp \<Rightarrow> fp list \<Rightarrow> nat" where
  "hit_run th ps = length (takeWhile (fle th) (rev ps))"

definition due_at :: "fp \<Rightarrow> nat \<Rightarrow> fp list \<Rightarrow> bool" where
  "due_at th k ps \<longleftrightarrow> 0 < hit_run th ps \<and> k dvd hit_run th ps"

definition activations_due :: "fp \<Rightarrow> nat \<Rightarrow> fp list \<Rightarrow> nat list" where
  "activations_due th k ps = filter (\<lambda>n. due_at th k (take n ps)) [1..<Suc (length ps)]"

lemma hit_run_snoc: "hit_run th (ps @ [p]) = (if fle th p then Suc (hit_run th ps) else 0)"
  by (simp add: hit_run_def)

lemma activations_due_Nil [simp]: "activations_due th k [] = []" "hit_run th [] = 0"
  by (simp_all add: activations_due_def hit_run_def)

lemma activations_due_snoc:
  "activations_due th k (ps @ [p]) = activations_due th k ps @ (if due_at th k (ps @ [p]) then [Suc (length ps)] else [])"
proof -
  have "filter (\<lambda>n. due_at th k (take n (ps @ [p]))) [1..<Suc (length ps)] = activations_due th k ps"
    unfolding activations_due_def by (rule filter_cong) auto
  then show ?thesis unfolding activations_due_def by simp
qed

definition counts_inv :: "config \<Rightarrow> u32 \<Rightarrow> effects \<Rightarrow> bool" where
  "counts_inv s hits e \<longleftrightarrow> (let th = threshold (options s); k = unat (consecutive_windows (options s)) in
     reported e = activations_due th k (scores e) \<and> unat hits = hit_run th (scores e) mod k)"

text \<open>The counter of the code is the length of the run modulo the number of windows.\<close>

lemma count_step:
  assumes k: "k \<noteq> (0 :: u32)" and hits: "unat hits = n mod unat k"
  shows "k \<le> hits + 1 \<longleftrightarrow> unat k dvd Suc n" "\<not> k \<le> hits + 1 \<Longrightarrow> unat (hits + 1) = Suc n mod unat k"
proof -
  have pos: "0 < unat k" using k by (simp add: unat_gt_0)
  then have "unat hits < unat k" using hits by simp
  then have "unat hits + 1 < 2 ^ 32" using unsigned_less [of k, where ?'a = nat] by simp
  then have plus: "unat (hits + 1) = Suc (n mod unat k)"
    using hits by (subst unat_add_small) simp_all
  show "k \<le> hits + 1 \<longleftrightarrow> unat k dvd Suc n"
    using pos by (simp add: word_le_nat_alt plus mod_Suc dvd_eq_mod_eq_0) (metis mod_less_divisor not_less_eq_eq Suc_leI le_antisym)
  show "\<not> k \<le> hits + 1 \<Longrightarrow> unat (hits + 1) = Suc n mod unat k"
    using pos by (auto simp: word_le_nat_alt plus mod_Suc)
qed

section \<open>The invariant of the loop\<close>

text \<open>Besides the objects \<open>base\<close> of others the model's own are live, and statuses of failed tensor
  creations, which \<^verbatim>\<open>run_model\<close> never releases.\<close>

definition only_statuses :: "handle multiset \<Rightarrow> bool" where
  "only_statuses leaked \<longleftrightarrow> (\<forall>h \<in># leaked. fst h = K_Status)"

definition objects_inv :: "handle multiset \<Rightarrow> effects \<Rightarrow> bool" where
  "objects_inv base e \<longleftrightarrow> ready 12 (the_model e) \<and>
     (\<exists>leaked. only_statuses leaked \<and> ledger (the_model e) (runtime e) (base + leaked))"

lemma run_model_keeps:
  assumes "objects_inv base e" "48000 \<le> length xs" "\<forall>k xs. tensor_data lib k = Some xs \<longrightarrow> xs \<noteq> []"
  shows "\<exists>r sc w'. run_model lib (Some (the_model e)) (Some xs) True (runtime e) = Some (r, sc, w') \<and>
     objects_inv base (e\<lparr>runtime := w'\<rparr>)"
proof -
  from assms(1) obtain leaked where l: "ready 12 (the_model e)" "only_statuses leaked"
      "ledger (the_model e) (runtime e) (base + leaked)" by (auto simp: objects_inv_def)
  then have "runnable lib (the_model e) xs (runtime e)" using assms(2,3) by (auto simp: runnable_def)
  from run_model_outcome [OF this] obtain r sc w' where r:
    "run_model lib (Some (the_model e)) (Some xs) True (runtime e) = Some (r, sc, w')"
    "live w' = live (runtime e) + (if fails lib (calls (runtime e)) then {#(K_Status, calls (runtime e))#} else {#})" by blast
  define extra where "extra = (if fails lib (calls (runtime e)) then {#(K_Status, calls (runtime e))#} else {#})"
  have "ledger (the_model e) w' (base + (leaked + extra))"
    using l(3) r(2) by (simp add: ledger_def extra_def ac_simps)
  moreover have "only_statuses (leaked + extra)"
    using l(2) by (auto simp: only_statuses_def extra_def)
  ultimately have "objects_inv base (e\<lparr>runtime := w'\<rparr>)"
    using l(1) by (auto simp: objects_inv_def)
  then show ?thesis using r(1) by blast
qed

lemma snapshot_total:
  assumes "turn_input_ok t" "48000 \<le> length ys"
  obtains n ys' where "ring_snapshot_latest (Some (ring_copied t)) (Some ys) (ucast MODEL_SAMPLES) = Some (n, Some ys')"
    "48000 \<le> length ys'"
    "\<And>h. ring_holds (ring_copied t) h \<Longrightarrow> length h < 2 ^ 64 \<Longrightarrow> n = ucast MODEL_SAMPLES \<Longrightarrow> length ys = 48000 \<Longrightarrow>
       48000 \<le> length h \<and> ys' = drop (length h - 48000) h"
proof -
  let ?n = "ucast MODEL_SAMPLES :: u64"
  have n: "?n \<noteq> 0" "unat ?n = 48000" using unat_MODEL_SAMPLES(2) by (auto simp del: unat_MODEL_SAMPLES)
  from assms obtain h where h: "ring_holds (ring_copied t) h" "length h < 2 ^ 64" "unat ?n \<le> unat (capacity (ring_copied t))"
      "unat ?n \<le> length ys" by (auto simp: turn_input_ok_def)
  note snap = ring_snapshot_holds [OF _ _ n(1) h(3,4)]
  show ?thesis
  proof (cases "length h < 48000")
    case True
    with snap [OF h(1,2)] have "ring_snapshot_latest (Some (ring_copied t)) (Some ys) ?n = Some (0, Some ys)" by simp
    then show ?thesis using that [of 0 ys] assms(2) n(1) by simp
  next
    case False
    then have eq: "ring_snapshot_latest (Some (ring_copied t)) (Some ys) ?n =
        Some (?n, Some (drop (length h - 48000) h @ drop 48000 ys))"
      using snap [OF h(1,2)] n(2) by simp
    show ?thesis
    proof (rule that [OF eq])
      show "48000 \<le> length (drop (length h - 48000) h @ drop 48000 ys)" using False by simp
    next
      fix g assume g: "ring_holds (ring_copied t) g" "length g < 2 ^ 64" "length ys = 48000"
      show "48000 \<le> length g \<and> drop (length h - 48000) h @ drop 48000 ys = drop (length g - 48000) g"
        using snap [OF g(1,2)] eq g(3) n by (auto split: if_splits)
    qed
  qed
qed

text \<open>Scoring a window: what the worker keeps across it.\<close>

definition turn_inv :: "config \<Rightarrow> handle multiset \<Rightarrow> worker \<times> effects \<Rightarrow> bool" where
  "turn_inv s base st \<longleftrightarrow> counts_inv s (consecutive_hits (fst st)) (snd st) \<and> objects_inv base (snd st) \<and>
     48000 \<le> length (model_window (fst st))"

lemma score_window_keeps:
  assumes s: "config_ok s" and t: "turn_input_ok t" and w: "world_ready (sys e)" and inv: "turn_inv s base (wk, e)"
  shows "\<exists>alive wk' e'. score_window s t (wk, e) = Some (alive, wk', e') \<and> turn_inv s base (wk', e') \<and>
     last_health_total wk' = last_health_total wk \<and> last_capture_sample_at wk' = last_capture_sample_at wk \<and>
     wrote_unhealthy wk' = wrote_unhealthy wk \<and>
     (statuses e' = statuses e \<or> statuses e' = statuses e @ [''handler_failed'']) \<and> (alive \<longrightarrow> same_fds (sys e) (sys e'))"
proof -
  let ?th = "threshold (options s)" and ?k = "consecutive_windows (options s)"
  have k: "?k \<noteq> 0" using s by (simp add: config_ok_def options_ok_def)
  from inv have c: "reported e = activations_due ?th (unat ?k) (scores e)" "unat (consecutive_hits wk) = hit_run ?th (scores e) mod unat ?k"
      and ob: "objects_inv base e" and len: "48000 \<le> length (model_window wk)"
    by (simp_all add: turn_inv_def counts_inv_def Let_def)
  obtain n ys where snap: "ring_snapshot_latest (Some (ring_copied t)) (Some (model_window wk)) (ucast MODEL_SAMPLES) = Some (n, Some ys)"
      "48000 \<le> length ys" using snapshot_total [OF t len] by metis
  have tens: "\<forall>k xs. tensor_data (runtime_lib s) k = Some xs \<longrightarrow> xs \<noteq> []" using s by (simp add: config_ok_def)
  from run_model_keeps [OF ob snap(2) tens] obtain r sc rt where run:
    "run_model (runtime_lib s) (Some (the_model e)) (Some ys) True (runtime e) = Some (r, sc, rt)"
    "objects_inv base (e\<lparr>runtime := rt\<rparr>)" by blast
  define p where "p = (case sc of None \<Rightarrow> FZero False | Some p \<Rightarrow> p)"
  define e1 where "e1 = e\<lparr>runtime := rt, scores := scores e @ [p]\<rparr>"
  define hits where "hits = (if fle ?th p then consecutive_hits wk + 1 else 0)"
  have ob1: "objects_inv base e1" using run(2) by (simp add: e1_def objects_inv_def)
  have due: "?k \<le> hits \<longleftrightarrow> due_at ?th (unat ?k) (scores e @ [p])"
    using count_step(1) [OF k c(2)] k by (simp add: hits_def due_at_def hit_run_snoc)
  have keep: "unat hits = hit_run ?th (scores e @ [p]) mod unat ?k" if "\<not> ?k \<le> hits"
    using count_step(2) [OF k c(2)] that by (auto simp: hits_def hit_run_snoc split: if_splits)
  have reset: "hit_run ?th (scores e @ [p]) mod unat ?k = 0" if "?k \<le> hits"
    using due that by (simp add: due_at_def)
  have win1: "world_ready (sys e1)" using w by (simp add: e1_def)
  from report_activation_frame [OF s t win1 snap(2), of p] obtain alive e2 where rep:
    "report_activation s t ys p e1 = Some (alive, e2)" "runtime e2 = runtime e1" "the_model e2 = the_model e1"
    "scores e2 = scores e1" "reported e2 = reported e1 @ [length (scores e1)]"
    "statuses e2 = statuses e1 \<or> statuses e2 = statuses e1 @ [''handler_failed'']" "alive \<longrightarrow> same_fds (sys e1) (sys e2)" by blast
  have ob2: "objects_inv base e2" using ob1 rep(2,3) by (simp add: objects_inv_def)
  show ?thesis
  proof (cases "n = ucast MODEL_SAMPLES \<and> r = 0")
    case False
    then show ?thesis using snap run(1) inv run(2)
      by (auto simp: score_window_def turn_inv_def counts_inv_def Let_def)
  next
    case True
    then have unf: "score_window s t (wk, e) = (if ?k \<le> hits then do {
         (alive, e) \<leftarrow> report_activation s t ys p e1;
         Some (alive, wk\<lparr>model_window := ys, consecutive_hits := 0\<rparr>, e) }
       else Some (True, wk\<lparr>model_window := ys, consecutive_hits := hits\<rparr>, e1))"
      using snap(1) run(1) by (simp add: score_window_def p_def e1_def hits_def Let_def)
    show ?thesis
    proof (cases "?k \<le> hits")
      case fire: True
      then have "counts_inv s 0 e2"
        using due rep(4,5) c(1) reset by (simp add: counts_inv_def e1_def activations_due_snoc)
      then show ?thesis using unf fire rep ob2 snap(2)
        by (auto simp: turn_inv_def e1_def)
    next
      case quiet: False
      then have "counts_inv s hits e1"
        using due c(1) keep by (simp add: counts_inv_def e1_def activations_due_snoc)
      then show ?thesis using unf quiet ob1 snap(2) by (auto simp: turn_inv_def e1_def)
    qed
  qed
qed

text \<open>The health reports: \<open>unhealthy\<close> is never reported twice without \<open>healthy\<close> in between, and the
  flag says which report was last.\<close>

definition health_reports :: "string list \<Rightarrow> string list" where
  "health_reports = filter (\<lambda>x. x = ''healthy'' \<or> x = ''unhealthy'')"

definition alternating :: "string list \<Rightarrow> bool" where
  "alternating xs \<longleftrightarrow> successively (\<lambda>a b. a = ''unhealthy'' \<longrightarrow> b = ''healthy'') (health_reports xs)"

definition health_inv :: "worker \<times> effects \<Rightarrow> bool" where
  "health_inv st \<longleftrightarrow> (let hs = health_reports (statuses (snd st)) in alternating (statuses (snd st)) \<and>
     (wrote_unhealthy (fst st) \<longleftrightarrow> hs \<noteq> [] \<and> last hs = ''unhealthy''))"

lemma health_reports_append [simp]:
  "health_reports (xs @ ys) = health_reports xs @ health_reports ys"
  "health_reports [] = []" "health_reports [''handler_failed''] = []" "health_reports [''healthy''] = [''healthy'']"
  "health_reports [''unhealthy''] = [''unhealthy'']" "health_reports [''starting''] = []" "health_reports [''stopped''] = []"
  by (simp_all add: health_reports_def)

lemma alternating_append:
  "alternating (xs @ ys) \<longleftrightarrow> alternating xs \<and> alternating ys \<and>
     (health_reports xs \<noteq> [] \<and> health_reports ys \<noteq> [] \<longrightarrow>
       last (health_reports xs) = ''unhealthy'' \<longrightarrow> hd (health_reports ys) = ''healthy'')"
  by (auto simp: alternating_def successively_append_iff)

lemma alternating_single [simp]: "alternating []" "alternating [x]"
  by (simp_all add: alternating_def health_reports_def)

lemma health_inv_cong:
  "statuses e' = statuses e \<or> statuses e' = statuses e @ [''handler_failed''] \<Longrightarrow> wrote_unhealthy wk' = wrote_unhealthy wk \<Longrightarrow>
     health_inv (wk, e) \<Longrightarrow> health_inv (wk', e')"
  by (auto simp: health_inv_def Let_def alternating_append simp del: append.simps)

lemma check_health_keeps:
  assumes "world_ready (sys e)" "turn_inv s base (wk, e)" "health_inv (wk, e)" "check_health s written now (wk, e) = (wk', e')"
  shows "turn_inv s base (wk', e')" "health_inv (wk', e')" "same_fds (sys e) (sys e')" "scores e' = scores e" "reported e' = reported e"
    "wrote_unhealthy wk' \<longleftrightarrow> written = last_health_total wk \<and>
       (wrote_unhealthy wk \<or> fle CAPTURE_HEALTH_TIMEOUT_SECONDS (fsub binary64 now (last_capture_sample_at wk)))"
    "last_health_total wk' = written" "last_inference_at wk' = last_inference_at wk"
    "\<exists>new. statuses e' = statuses e @ new \<and> set new \<subseteq> {''healthy'', ''unhealthy''}"
  using assms set_status_frame(1) [OF assms(1)]
  by (auto simp: check_health_def turn_inv_def counts_inv_def objects_inv_def health_inv_def Let_def alternating_append
      simp del: append.simps split: if_splits)

lemma worker_turn_keeps:
  assumes s: "config_ok s" and t: "turn_input_ok t" and w: "world_ready (sys e)" and inv: "turn_inv s base (wk, e)" "health_inv (wk, e)"
  shows "\<exists>alive wk' e'. worker_turn s t (wk, e) = Some (alive, wk', e') \<and> turn_inv s base (wk', e') \<and> health_inv (wk', e') \<and>
     (alive \<longrightarrow> same_fds (sys e) (sys e')) \<and>
     (\<exists>new. statuses e' = statuses e @ new \<and> set new \<subseteq> {''healthy'', ''unhealthy'', ''handler_failed''})"
proof -
  let ?now = "monotonic_seconds (clock_now t)" and ?total = "total_written (ring_seen t)"
  let ?interval = "fdiv binary64 (fp_of_int binary64 (uint (inference_interval_ms (options s)))) (fp_of_int binary64 1000)"
  obtain wk1 e1 where ch: "check_health s ?total ?now (wk, e) = (wk1, e1)" by force
  note h = check_health_keeps [OF w inv ch]
  obtain new1 where new1: "statuses e1 = statuses e @ new1" "set new1 \<subseteq> {''healthy'', ''unhealthy''}" using h(9) by blast
  have w1: "world_ready (sys e1)" using h(3) w by (rule same_fds_ready)
  have now: "isfinite ?now" using t monotonic_seconds_bounds by (simp add: turn_input_ok_def)
  from score_window_keeps [OF s t w1 h(1)] obtain alive wk2 e2 where sc:
    "score_window s t (wk1, e1) = Some (alive, wk2, e2)" "turn_inv s base (wk2, e2)" "wrote_unhealthy wk2 = wrote_unhealthy wk1"
    "statuses e2 = statuses e1 \<or> statuses e2 = statuses e1 @ [''handler_failed'']" "alive \<longrightarrow> same_fds (sys e1) (sys e2)" by blast
  let ?wk2 = "wk2\<lparr>last_inference_at := ?now\<rparr>"
  have inv2: "turn_inv s base (?wk2, e2)" "health_inv (?wk2, e2)"
    using sc(2) health_inv_cong [OF sc(4) _ h(2), of ?wk2] sc(3) by (simp_all add: turn_inv_def)
  have fds2: "alive \<longrightarrow> same_fds (sys e) (sys e2)" using sc(5) h(3) same_fds_trans by blast
  have new2: "\<exists>new. statuses e2 = statuses e @ new \<and> set new \<subseteq> {''healthy'', ''unhealthy'', ''handler_failed''}"
    using sc(4) new1 by auto
  show ?thesis
  proof (cases "inference_due ?total ?now ?interval wk1")
    case True
    from sleep_bounds [OF now, of ?interval "last_capture_sample_at wk2" "wrote_unhealthy wk2"] show ?thesis
      using True ch sc(1) inv2 fds2 new2 by (cases alive) (auto simp: worker_turn_def Let_def)
  next
    case False
    from sleep_bounds [OF now, of ?interval "last_capture_sample_at wk1" "wrote_unhealthy wk1"] show ?thesis
      using False ch h(1-3) new1 by (auto simp: worker_turn_def Let_def)
  qed
qed

lemma worker_loop_keeps:
  assumes "config_ok s" "\<forall>t \<in> set ts. turn_input_ok t" "world_ready (sys e)" "turn_inv s base (wk, e)" "health_inv (wk, e)"
  shows "\<exists>exit wk' e'. worker_loop s ts (wk, e) = Some (exit, wk', e') \<and> turn_inv s base (wk', e') \<and> health_inv (wk', e') \<and>
     exit \<noteq> Start_failed \<and> (exit \<noteq> Process_killed \<longrightarrow> same_fds (sys e) (sys e')) \<and>
     (\<exists>new. statuses e' = statuses e @ new \<and> set new \<subseteq> {''healthy'', ''unhealthy'', ''handler_failed''})"
  using assms(2-5)
proof (induction ts arbitrary: wk e)
  case (Cons t ts)
  show ?case
  proof (cases "running_seen t")
    case True
    have t: "turn_input_ok t" using Cons.prems(1) by simp
    from worker_turn_keeps [OF assms(1) t Cons.prems(2-4)] obtain alive wk1 e1 new1 where one:
      "worker_turn s t (wk, e) = Some (alive, wk1, e1)" "turn_inv s base (wk1, e1)" "health_inv (wk1, e1)"
      "alive \<longrightarrow> same_fds (sys e) (sys e1)" "statuses e1 = statuses e @ new1"
      "set new1 \<subseteq> {''healthy'', ''unhealthy'', ''handler_failed''}" by blast
    show ?thesis
    proof (cases alive)
      case True
      have w1: "world_ready (sys e1)" using one(4) True Cons.prems(2) same_fds_ready by blast
      from Cons.IH [OF _ w1 one(2,3)] Cons.prems(1) obtain exit wk2 e2 new2 where two:
        "worker_loop s ts (wk1, e1) = Some (exit, wk2, e2)" "turn_inv s base (wk2, e2)" "health_inv (wk2, e2)" "exit \<noteq> Start_failed"
        "exit \<noteq> Process_killed \<longrightarrow> same_fds (sys e1) (sys e2)" "statuses e2 = statuses e1 @ new2"
        "set new2 \<subseteq> {''healthy'', ''unhealthy'', ''handler_failed''}" by auto
      have "same_fds (sys e) (sys e1)" using one(4) True by simp
      moreover have "statuses e2 = statuses e @ (new1 @ new2)" "set (new1 @ new2) \<subseteq> {''healthy'', ''unhealthy'', ''handler_failed''}"
        using one(5,6) two(6,7) by simp_all
      ultimately show ?thesis using \<open>running_seen t\<close> True one(1) two same_fds_trans by auto
    next
      case False
      then show ?thesis using \<open>running_seen t\<close> one by auto
    qed
  qed (use Cons.prems in auto)
qed auto

section \<open>The thread as a whole\<close>

text \<open>The state the thread starts in: nothing recorded, no model, the objects \<open>base\<close> of others.\<close>

definition starts :: "handle multiset \<Rightarrow> effects \<Rightarrow> bool" where
  "starts base e \<longleftrightarrow> world_ready (sys e) \<and> the_model e = zero_model \<and> live (runtime e) = base \<and>
     statuses e = [] \<and> scores e = [] \<and> reported e = []"

definition worker_done :: "config \<Rightarrow> handle multiset \<Rightarrow> effects \<Rightarrow> worker_exit \<Rightarrow> effects \<Rightarrow> bool" where
  "worker_done s base e exit e' \<longleftrightarrow>
     reported e' = activations_due (threshold (options s)) (unat (consecutive_windows (options s))) (scores e') \<and>
     alternating (statuses e') \<and>
     (exit \<noteq> Process_killed \<longrightarrow> same_fds (sys e) (sys e')) \<and>
     (exit = Worker_stopped \<longrightarrow> the_model e' = zero_model \<and>
        (\<exists>leaked. only_statuses leaked \<and> live (runtime e') = base + leaked)) \<and>
     (exit = Start_failed \<longrightarrow> statuses e' = [] \<and> scores e' = []) \<and>
     (exit = Worker_stopped \<longrightarrow> (\<exists>mid. statuses e' = ''starting'' # mid @ [''stopped''] \<and>
        set mid \<subseteq> {''healthy'', ''unhealthy'', ''handler_failed''}))"

lemma worker_loop_stops: "worker_loop s ts st = Some (Still_running, st') \<Longrightarrow> list_all running_seen ts"
  by (induction ts arbitrary: st) (auto split: if_splits simp: bind_eq_Some_conv)

lemma listener_worker_stops:
  "listener_worker s window start ts e = Some (Still_running, e') \<Longrightarrow> list_all running_seen ts"
  by (auto simp: listener_worker_def Let_def bind_eq_Some_conv split: option.splits if_splits) (erule worker_loop_stops)

lemma listener_worker_done:
  assumes s: "config_ok s" and ts: "\<forall>t \<in> set ts. turn_input_ok t" and e: "starts base e" and win: "48000 \<le> length window"
  shows "\<exists>exit e'. listener_worker s (Some window) start ts e = Some (exit, e') \<and> worker_done s base e exit e'"
proof -
  have e0: "world_ready (sys e)" "the_model e = zero_model" "live (runtime e) = base" "statuses e = []" "scores e = []" "reported e = []"
    using e by (simp_all add: starts_def)
  from wake_model_init_ledger [OF e0(3), of "runtime_lib s"] obtain r m rt where init:
    "wake_model_init (runtime_lib s) (zero_model, runtime e) = Some (r, m, rt)" "ledger m rt base"
    "r = 0 \<and> ready 12 m \<or> r = - 1" by blast
  let ?e1 = "e\<lparr>the_model := m, runtime := rt\<rparr>"
  show ?thesis
  proof (cases "r = 0")
    case False
    then show ?thesis using init e0
      by (auto simp: listener_worker_def worker_done_def)
  next
    case True
    let ?e2 = "set_status s ''starting'' ?e1"
    let ?wk = "\<lparr>last_health_total = 0, consecutive_hits = 0, last_inference_at = FZero False,
             last_capture_sample_at = monotonic_seconds start, wrote_unhealthy = False, model_window = window\<rparr>"
    have w1: "world_ready (sys ?e1)" using e0(1) by simp
    note st = set_status_frame [OF w1, of s "''starting''"]
    have "objects_inv base ?e2" using init True
      by (auto simp: objects_inv_def only_statuses_def intro: exI [of _ "{#}"])
    then have "turn_inv s base (?wk, ?e2)" using e0 win by (simp add: turn_inv_def counts_inv_def)
    moreover have "health_inv (?wk, ?e2)" using e0 by (simp add: health_inv_def Let_def)
    ultimately obtain exit wk3 e3 new where loop: "worker_loop s ts (?wk, ?e2) = Some (exit, wk3, e3)"
        "turn_inv s base (wk3, e3)" "health_inv (wk3, e3)" "exit \<noteq> Start_failed"
        "exit \<noteq> Process_killed \<longrightarrow> same_fds (sys ?e2) (sys e3)" "statuses e3 = statuses ?e2 @ new"
        "set new \<subseteq> {''healthy'', ''unhealthy'', ''handler_failed''}"
      using worker_loop_keeps [OF s ts st(2)] by blast
    have counts: "reported e3 = activations_due (threshold (options s)) (unat (consecutive_windows (options s))) (scores e3)"
      and alt: "alternating (statuses e3)"
      using loop(2,3) by (simp_all add: turn_inv_def counts_inv_def health_inv_def Let_def)
    have fds: "exit \<noteq> Process_killed \<longrightarrow> same_fds (sys e) (sys e3)" using loop(5) st(1) same_fds_trans by auto
    have sts: "statuses e3 = ''starting'' # new" using loop(6) e0(4) by simp
    show ?thesis
    proof (cases "exit = Worker_stopped")
      case False
      then show ?thesis using True init e0(2) loop(1,4) counts alt fds
        by (auto simp: listener_worker_def worker_done_def)
    next
      case stopped: True
      obtain leaked where l: "ready 12 (the_model e3)" "only_statuses leaked" "ledger (the_model e3) (runtime e3) (base + leaked)"
        using loop(2) by (auto simp: turn_inv_def objects_inv_def)
      have "ort (the_model e3)" "input_name (the_model e3) \<noteq> None \<or> output_name (the_model e3) \<noteq> None \<longrightarrow> allocator (the_model e3)"
        using l(1) by (auto simp: ready_def)
      from wake_model_destroy_ledger [OF l(3) this(2) this(1), of "runtime_lib s"] obtain rt4 where des:
        "wake_model_destroy (runtime_lib s) (Some (the_model e3), runtime e3) = Some (Some zero_model, rt4)"
        "live rt4 = base + leaked" by blast
      let ?e4 = "e3\<lparr>the_model := zero_model, runtime := rt4\<rparr>"
      have w4: "world_ready (sys ?e4)" using fds stopped e0(1) same_fds_ready by auto
      note st4 = set_status_frame(1) [OF w4, of s "''stopped''"]
      have run: "listener_worker s (Some window) start ts e = Some (Worker_stopped, set_status s ''stopped'' ?e4)"
        using True init e0(2) loop(1) stopped des(1) by (simp add: listener_worker_def)
      have "same_fds (sys e) (sys (set_status s ''stopped'' ?e4))" using fds stopped st4 same_fds_trans by auto
      then have "worker_done s base e Worker_stopped (set_status s ''stopped'' ?e4)"
        using counts alt l(2) des(2) sts loop(7) by (auto simp: worker_done_def alternating_append simp del: append.simps)
      then show ?thesis using run by blast
    qed
  qed
qed

text \<open>Property C27. The worker thread, whatever fails around it, returns from every turn without leaving its
  memory, and stops when it sees \<^verbatim>\<open>running\<close> cleared; when it stops it has closed every descriptor it opened and released every object of the
  runtime but the statuses of failed tensor creations, the model is zeroed for the second
  \<^verbatim>\<open>wake_model_destroy\<close> in \<^verbatim>\<open>main\<close>, and its status reports run from \<open>starting\<close> to \<open>stopped\<close>.\<close>

theorem worker_releases_everything:
  assumes "config_ok s" "\<forall>t \<in> set ts. turn_input_ok t" "starts base e" "48000 \<le> length window"
  shows "\<exists>exit e'. listener_worker s (Some window) start ts e = Some (exit, e') \<and>
     (exit = Still_running \<longrightarrow> list_all running_seen ts) \<and>
     (exit \<noteq> Process_killed \<longrightarrow> same_fds (sys e) (sys e')) \<and>
     (exit = Worker_stopped \<longrightarrow> the_model e' = zero_model \<and>
        (\<exists>leaked. only_statuses leaked \<and> live (runtime e') = base + leaked) \<and>
        (\<exists>mid. statuses e' = ''starting'' # mid @ [''stopped''] \<and> set mid \<subseteq> {''healthy'', ''unhealthy'', ''handler_failed''}))"
proof -
  obtain exit e' where "listener_worker s (Some window) start ts e = Some (exit, e')" "worker_done s base e exit e'"
    using listener_worker_done [OF assms, of start] by blast
  then show ?thesis using listener_worker_stops by (auto simp: worker_done_def)
qed

text \<open>Property C28. An activation is reported after exactly those scores that end a run of consecutive
  scores at or above the threshold whose length is a multiple of the configured number of windows:
  no single window fires alone, and none is counted twice.\<close>

theorem worker_reports_when_due:
  assumes "config_ok s" "\<forall>t \<in> set ts. turn_input_ok t" "starts base e" "48000 \<le> length window"
  shows "\<exists>exit e'. listener_worker s (Some window) start ts e = Some (exit, e') \<and>
     reported e' = activations_due (threshold (options s)) (unat (consecutive_windows (options s))) (scores e')"
  using listener_worker_done [OF assms, of start] by (auto simp: worker_done_def)


text \<open>A start of the thread on a desktop, and two turns of an idle microphone.\<close>

definition idle_ring :: sample_ring where
  "idle_ring = \<lparr>samples = Some (replicate 64000 (FZero False)), capacity = 64000, write_index = 0, total_written = 0\<rparr>"

definition idle_turn :: "bool \<Rightarrow> turn_input" where
  "idle_turn b = \<lparr>running_seen = b, ring_seen = idle_ring, ring_copied = idle_ring, clock_now = Some (20, 0),
     clock_archive = Some (20, 0), clock_event = None, handler_now = cat_env\<rparr>"

definition desk_config :: config where
  "desk_config = \<lparr>proc_id = 77, runtime_lib = flaky_lib\<lparr>fails := \<lambda>_. False\<rparr>, options = default_options,
     status_path = ''/s/capture-health''\<rparr>"

definition desk_effects :: effects where
  "desk_effects = \<lparr>sys = tty_world (\<lambda>_. Ok), runtime = \<lparr>live = {#}, calls = 0\<rparr>, the_model = zero_model, archive_seq = 0,
     statuses = [], scores = [], reported = []\<rparr>"

lemma desk_start:
  "config_ok desk_config" "\<forall>t \<in> set [idle_turn True, idle_turn False]. turn_input_ok t" "starts {#} desk_effects"
  "48000 \<le> length (replicate 48000 FNan)"
proof -
  show "config_ok desk_config"
    by (simp add: config_ok_def desk_config_def options_ok_default flaky_lib_def) (simp add: default_options_def)
  have "ring_holds idle_ring []" by (simp add: ring_holds_def ring_wf_def idle_ring_def)
  then show "\<forall>t \<in> set [idle_turn True, idle_turn False]. turn_input_ok t"
    by (auto simp: turn_input_ok_def idle_turn_def clock_ok_def intro!: exI [of _ "[]"]) (simp_all add: idle_ring_def)
  show "starts {#} desk_effects"
    by (auto simp: starts_def desk_effects_def world_ready_def tty_world_def world_ok_def fair_def makes_progress_def open_on_def)
qed simp

theorem worker_releases_everything_witness:
  "\<exists>exit e'. listener_worker desk_config (Some (replicate 48000 FNan)) None [idle_turn True, idle_turn False] desk_effects
       = Some (exit, e') \<and>
     (exit = Still_running \<longrightarrow> list_all running_seen [idle_turn True, idle_turn False]) \<and>
     (exit \<noteq> Process_killed \<longrightarrow> same_fds (sys desk_effects) (sys e')) \<and>
     (exit = Worker_stopped \<longrightarrow> the_model e' = zero_model \<and>
        (\<exists>leaked. only_statuses leaked \<and> live (runtime e') = {#} + leaked) \<and>
        (\<exists>mid. statuses e' = ''starting'' # mid @ [''stopped''] \<and> set mid \<subseteq> {''healthy'', ''unhealthy'', ''handler_failed''}))"
  by (rule worker_releases_everything [OF desk_start])

theorem worker_reports_when_due_witness:
  "\<exists>exit e'. listener_worker desk_config (Some (replicate 48000 FNan)) None [idle_turn True, idle_turn False] desk_effects
       = Some (exit, e') \<and>
     reported e' = activations_due (threshold (options desk_config)) (unat (consecutive_windows (options desk_config))) (scores e')"
  by (rule worker_reports_when_due [OF desk_start])


text \<open>Property C30. The pause is between 1 and 500 milliseconds whatever the clock, the interval and the
  flag, and its argument is one that \<^verbatim>\<open>nanosleep\<close> accepts: the loop neither spins nor hangs.\<close>

theorem worker_sleep_bounded:
  assumes "isfinite now"
  shows "\<exists>ns. sleep_worker_until_next_deadline now interval heard unhealthy = Some (0, ns) \<and> 1000000 \<le> ns \<and> ns \<le> 500000000"
  using sleep_bounds [OF assms] .

theorem worker_sleep_bounded_witness:
  "\<exists>ns. sleep_worker_until_next_deadline (FNum 20) FNan (FInf True) False = Some (0, ns) \<and> 1000000 \<le> ns \<and> ns \<le> 500000000"
  by (rule worker_sleep_bounded) simp

end
