(* ===== verification/Transition.thy ===== *)
theory Transition
  imports Prelude
begin

text \<open>
  Transition systems with named actions: reachable states, runs, and two arguments that the
  components with a step relation share.  A property kept by every step holds in every reachable
  state; and a measure that no step increases, and the steps of the program decrease, bounds the number of
  program steps in any run, however the environment interferes.
\<close>

inductive reach :: "('s \<Rightarrow> bool) \<Rightarrow> ('s \<Rightarrow> 'a \<Rightarrow> 's \<Rightarrow> bool) \<Rightarrow> 's \<Rightarrow> bool" for init step where
  reach_init: "init s \<Longrightarrow> reach init step s"
| reach_step: "reach init step s \<Longrightarrow> step s a s' \<Longrightarrow> reach init step s'"

inductive run :: "('s \<Rightarrow> 'a \<Rightarrow> 's \<Rightarrow> bool) \<Rightarrow> 's \<Rightarrow> 'a list \<Rightarrow> 's \<Rightarrow> bool" for step where
  run_Nil: "run step s [] s"
| run_Cons: "step s a s' \<Longrightarrow> run step s' as s'' \<Longrightarrow> run step s (a # as) s''"

inductive_simps run_Nil_iff [simp]: "run step s [] s'"
inductive_simps run_Cons_iff: "run step s (a # as) s'"

lemma reach_run: "run step s as s' \<Longrightarrow> reach init step s \<Longrightarrow> reach init step s'"
  by (induction rule: run.induct) (auto intro: reach_step)

locale inductive_invariant =
  fixes init :: "'s \<Rightarrow> bool"
    and step :: "'s \<Rightarrow> 'a \<Rightarrow> 's \<Rightarrow> bool"
    and inv :: "'s \<Rightarrow> bool"
  assumes inv_init: "init s \<Longrightarrow> inv s"
    and inv_step: "inv s \<Longrightarrow> step s a s' \<Longrightarrow> inv s'"
begin

lemma reachable: "reach init step s \<Longrightarrow> inv s"
  by (induction rule: reach.induct) (auto intro: inv_init inv_step)

lemma along: "run step s as s' \<Longrightarrow> inv s \<Longrightarrow> inv s'"
  by (induction rule: run.induct) (auto intro: inv_step)

end

locale bounded_phase = inductive_invariant +
  fixes phase :: "'a \<Rightarrow> bool"
    and size_of :: "'a \<Rightarrow> nat"
    and program :: "'b \<Rightarrow> bool"
  assumes phase_step: "inv s \<Longrightarrow> phase s \<Longrightarrow> step s a s' \<Longrightarrow> phase s'"
    and size_step: "inv s \<Longrightarrow> phase s \<Longrightarrow> step s a s' \<Longrightarrow> size_of s' + (if program a then 1 else 0) \<le> size_of s"
begin

lemma stays: "run step s as s' \<Longrightarrow> inv s \<Longrightarrow> phase s \<Longrightarrow> phase s'"
  by (induction rule: run.induct) (auto intro: phase_step inv_step)

lemma few_steps: "run step s as s' \<Longrightarrow> inv s \<Longrightarrow> phase s \<Longrightarrow> size_of s' + length (filter program as) \<le> size_of s"
proof (induction rule: run.induct)
  case (run_Cons s a s' as s'')
  have "size_of s'' + length (filter program as) \<le> size_of s'"
    using run_Cons inv_step phase_step by blast
  then show ?case using size_step [OF run_Cons.prems run_Cons.hyps(1)] by (simp split: if_splits)
qed simp

end

end
