(* ===== verification/Lifecycle.thy ===== *)
theory Lifecycle
  imports Transition
begin

text \<open>
  The life of the process, from \<^verbatim>\<open>src/native/okay-hermes-realtime-wake-listener.c\<close>: \<^verbatim>\<open>main\<close> after the
  command line, with its ladder of clean-ups, \<^verbatim>\<open>install_signal_handlers\<close>, \<^verbatim>\<open>signal_request_stop\<close>,
  \<^verbatim>\<open>on_state_changed\<close>, and the way the worker thread starts, fails and stops.

  Every atomic access to the shared flags is a step of its own.  \<open>main_step\<close> has one case for every call
  of \<^verbatim>\<open>main\<close> that may fail or that others can observe; its argument says whether the call succeeds.  The
  callbacks of the stream run on the main thread (inside \<^verbatim>\<open>pw_main_loop_run\<close>, \<^verbatim>\<open>pw_stream_connect\<close> or
  \<^verbatim>\<open>pw_stream_destroy\<close>), so \<^verbatim>\<open>main\<close> waits for them; a signal may strike anywhere once its handler
  is installed.  Using an object after it was destroyed is recorded as a fault.  Whether a main
  loop remembers a \<^verbatim>\<open>pw_main_loop_quit\<close> that comes before \<^verbatim>\<open>pw_main_loop_run\<close> is up to PipeWire, and
  a parameter.  \<open>signalled_early\<close>, \<open>late_signal\<close>, \<open>stream_failed\<close> and \<open>worker_failed\<close> only record what happened.
\<close>

section \<open>State\<close>

datatype object = Absent | Alive | Destroyed

datatype main_pc = M_sigint | M_sigterm | M_set_running | M_loop | M_ring | M_props | M_stream | M_connect | M_thread
  | M_run | M_in_loop | M_stop | M_join | M_check | C_stream | C_ring | C_loop | C_rest | M_exit

datatype worker_pc = W_none | W_start | W_clear | W_quit | W_loop | W_destroy | W_done

datatype callback_pc = CB_idle | CB_failed | CB_quit

datatype pw_stream_state = PW_STREAM_STATE_ERROR | PW_STREAM_STATE_UNCONNECTED | PW_STREAM_STATE_CONNECTING
  | PW_STREAM_STATE_PAUSED | PW_STREAM_STATE_STREAMING

record life =
  pc :: main_pc
  running :: bool
  failed :: bool
  main_loop :: object
  sample_buffer :: object
  stream :: object
  worker_at :: worker_pc
  callback :: callback_pc
  quit_pending :: bool
  sigint_set :: bool
  sigterm_set :: bool
  in_signal :: bool            \<comment> \<open>between the store and the quit of \<^verbatim>\<open>signal_request_stop\<close>\<close>
  exit_status :: int
  model_held :: bool
  status_file :: bool
  options_held :: bool
  pw_held :: bool
  fault :: bool
  signalled_early :: bool
  late_signal :: bool
  stream_failed :: bool
  worker_failed :: bool

definition life_start :: life where
  "life_start = \<lparr>pc = M_sigint, running = False, failed = False, main_loop = Absent, sample_buffer = Absent, stream = Absent,
     worker_at = W_none, callback = CB_idle, quit_pending = False, sigint_set = False, sigterm_set = False, in_signal = False,
     exit_status = 0, model_held = False, status_file = False, options_held = True, pw_held = True, fault = False,
     signalled_early = False, late_signal = False, stream_failed = False, worker_failed = False\<rparr>"

section \<open>Steps\<close>

text \<open>The stretch of \<^verbatim>\<open>main\<close> before \<^verbatim>\<open>running\<close> is set.\<close>

definition starting :: "main_pc \<Rightarrow> bool" where "starting p \<longleftrightarrow> p \<in> {M_sigint, M_sigterm, M_set_running}"

definition quit_loop :: "life \<Rightarrow> life" where
  "quit_loop s = (case main_loop s of Absent \<Rightarrow> s | Alive \<Rightarrow> s\<lparr>quit_pending := True\<rparr> | Destroyed \<Rightarrow> s\<lparr>fault := True\<rparr>)"

definition install_step :: "bool \<Rightarrow> life \<Rightarrow> life" where
  "install_step ok s = (case pc s of
     M_sigint \<Rightarrow> if ok then s\<lparr>sigint_set := True, pc := M_sigterm\<rparr> else s\<lparr>exit_status := 1, pc := C_rest\<rparr>
   | _ \<Rightarrow> if ok then s\<lparr>sigterm_set := True, pc := M_set_running\<rparr> else s\<lparr>exit_status := 1, pc := C_rest\<rparr>)"

definition main_step :: "bool \<Rightarrow> bool \<Rightarrow> life \<Rightarrow> life option" where
  "main_step remembers ok s = (if callback s \<noteq> CB_idle then None else case pc s of
     M_sigint \<Rightarrow> Some (install_step ok s)
   | M_sigterm \<Rightarrow> Some (install_step ok s)
   | M_set_running \<Rightarrow> Some (s\<lparr>running := True, pc := M_loop\<rparr>)
   | M_loop \<Rightarrow> Some (if ok then s\<lparr>main_loop := Alive, pc := M_ring\<rparr> else s\<lparr>exit_status := 1, pc := C_rest\<rparr>)
   | M_ring \<Rightarrow> Some (if ok then s\<lparr>sample_buffer := Alive, pc := M_props\<rparr> else s\<lparr>exit_status := 1, pc := C_loop\<rparr>)
   | M_props \<Rightarrow> Some (if ok then s\<lparr>pc := M_stream\<rparr> else s\<lparr>exit_status := 1, pc := C_ring\<rparr>)
   | M_stream \<Rightarrow> Some (if ok then s\<lparr>stream := Alive, pc := M_connect\<rparr> else s\<lparr>exit_status := 1, pc := C_ring\<rparr>)
   | M_connect \<Rightarrow> Some (if ok then s\<lparr>pc := M_thread\<rparr> else s\<lparr>exit_status := 1, pc := C_stream\<rparr>)
   | M_thread \<Rightarrow> Some (if ok then s\<lparr>worker_at := W_start, pc := M_run\<rparr> else s\<lparr>exit_status := 1, pc := C_stream\<rparr>)
   | M_run \<Rightarrow> Some (s\<lparr>quit_pending := (remembers \<and> quit_pending s), pc := M_in_loop\<rparr>)
   | M_in_loop \<Rightarrow> if quit_pending s then Some (s\<lparr>pc := M_stop\<rparr>) else None
   | M_stop \<Rightarrow> Some (s\<lparr>running := False, pc := M_join\<rparr>)
   | M_join \<Rightarrow> if worker_at s = W_done then Some (s\<lparr>pc := M_check\<rparr>) else None
   | M_check \<Rightarrow> Some (s\<lparr>exit_status := (if failed s then 1 else exit_status s), pc := C_stream\<rparr>)
   | C_stream \<Rightarrow> Some (s\<lparr>stream := (if stream s \<noteq> Absent then Destroyed else Absent), pc := C_ring\<rparr>)
   | C_ring \<Rightarrow> Some (s\<lparr>sample_buffer := Destroyed, pc := C_loop\<rparr>)
   | C_loop \<Rightarrow> Some (s\<lparr>main_loop := (if main_loop s \<noteq> Absent then Destroyed else Absent), pc := C_rest\<rparr>)
   | C_rest \<Rightarrow> Some (s\<lparr>status_file := False, model_held := False, options_held := False, pw_held := False, pc := M_exit\<rparr>)
   | M_exit \<Rightarrow> None)"

text \<open>The worker: a failed start stores \<^verbatim>\<open>failed\<close>, then clears \<^verbatim>\<open>running\<close>, then quits the loop; a turn reads
  the ring and writes the status file; the end destroys the model and writes the last status.\<close>

definition worker_step :: "bool \<Rightarrow> life \<Rightarrow> life option" where
  "worker_step ok s = (case worker_at s of
     W_none \<Rightarrow> None
   | W_start \<Rightarrow> Some (if ok then s\<lparr>model_held := True, status_file := True, worker_at := W_loop\<rparr>
       else s\<lparr>model_held := True, failed := True, worker_failed := True, worker_at := W_clear\<rparr>)
   | W_clear \<Rightarrow> Some (s\<lparr>running := False, worker_at := W_quit\<rparr>)
   | W_quit \<Rightarrow> Some ((quit_loop s)\<lparr>worker_at := W_done\<rparr>)
   | W_loop \<Rightarrow> Some (if running s then s\<lparr>status_file := True, fault := (fault s \<or> sample_buffer s \<noteq> Alive)\<rparr>
       else s\<lparr>worker_at := W_destroy\<rparr>)
   | W_destroy \<Rightarrow> Some (s\<lparr>model_held := False, status_file := True, worker_at := W_done\<rparr>)
   | W_done \<Rightarrow> None)"

definition signal_request_stop :: "life \<Rightarrow> life option" where
  "signal_request_stop s = (if sigint_set s \<or> sigterm_set s then
     Some (s\<lparr>running := False, in_signal := True, 
       signalled_early := (signalled_early s \<or> starting (pc s) \<or> pc s = M_loop)\<rparr>) else None)"

definition signal_quit :: "life \<Rightarrow> life option" where
  "signal_quit s = (if in_signal s then
     Some ((quit_loop s)\<lparr>in_signal := False, late_signal := (late_signal s \<or> main_loop s = Destroyed)\<rparr>) else None)"

definition on_state_changed :: "pw_stream_state \<Rightarrow> life \<Rightarrow> life option" where
  "on_state_changed state s =
     (if stream s \<noteq> Alive \<or> callback s \<noteq> CB_idle \<or> pc s \<notin> {M_connect, M_in_loop, C_stream} then None
      else if state = PW_STREAM_STATE_ERROR \<or> state = PW_STREAM_STATE_UNCONNECTED then
        (if running s then Some (s\<lparr>running := False, stream_failed := True, callback := CB_failed\<rparr>) else Some s)
      else Some s)"

definition callback_step :: "life \<Rightarrow> life option" where
  "callback_step s = (case callback s of CB_idle \<Rightarrow> None
     | CB_failed \<Rightarrow> Some (s\<lparr>failed := True, callback := CB_quit\<rparr>)
     | CB_quit \<Rightarrow> Some ((quit_loop s)\<lparr>callback := CB_idle\<rparr>))"

text \<open>The audio thread writes the ring as long as there is a stream.\<close>

definition audio_step :: "life \<Rightarrow> life option" where
  "audio_step s = (if stream s = Alive then Some (s\<lparr>fault := (fault s \<or> sample_buffer s \<noteq> Alive)\<rparr>) else None)"

datatype actor = Main bool | Worker bool | Callback | Signal | Signal_quit | State_changed pw_stream_state | Audio

fun act :: "bool \<Rightarrow> actor \<Rightarrow> life \<Rightarrow> life option" where
  "act remembers (Main ok) s = main_step remembers ok s"
| "act remembers (Worker ok) s = worker_step ok s"
| "act remembers Callback s = callback_step s"
| "act remembers Signal s = signal_request_stop s"
| "act remembers Signal_quit s = signal_quit s"
| "act remembers (State_changed state) s = on_state_changed state s"
| "act remembers Audio s = audio_step s"

definition life_step :: "bool \<Rightarrow> life \<Rightarrow> actor \<Rightarrow> life \<Rightarrow> bool" where
  "life_step remembers s a s' \<longleftrightarrow> act remembers a s = Some s'"

abbreviation life_init :: "life \<Rightarrow> bool" where "life_init s \<equiv> s = life_start"

abbreviation life_reach :: "bool \<Rightarrow> life \<Rightarrow> bool" where "life_reach remembers \<equiv> reach life_init (life_step remembers)"

text \<open>A schedule is run by folding its actions.\<close>

definition perform :: "bool \<Rightarrow> life \<Rightarrow> actor list \<Rightarrow> life option" where
  "perform remembers = foldM (\<lambda>s a. act remembers a s)"

lemma perform_run: "perform remembers s as = Some s' \<Longrightarrow> run (life_step remembers) s as s'"
  by (induction as arbitrary: s) (auto simp: perform_def life_step_def bind_eq_Some_conv intro: run.intros)

section \<open>The invariant\<close>

text \<open>The stretches of \<^verbatim>\<open>main\<close>: where the loop, the ring and the stream exist, where the worker may be
  running, where it has been started, where it has ended, where a stop must still wake the loop,
  and the clean-up ladder.\<close>

definition has_loop :: "main_pc \<Rightarrow> bool" where
  "has_loop p \<longleftrightarrow> p \<notin> {M_sigint, M_sigterm, M_set_running, M_loop, C_rest, M_exit}"

definition has_ring :: "main_pc \<Rightarrow> bool" where
  "has_ring p \<longleftrightarrow> p \<in> {M_props, M_stream, M_connect, M_thread, M_run, M_in_loop, M_stop, M_join, M_check, C_stream, C_ring}"

definition has_stream :: "main_pc \<Rightarrow> bool" where
  "has_stream p \<longleftrightarrow> p \<in> {M_connect, M_thread, M_run, M_in_loop, M_stop, M_join, M_check, C_stream}"

definition may_work :: "main_pc \<Rightarrow> bool" where "may_work p \<longleftrightarrow> p \<in> {M_run, M_in_loop, M_stop, M_join}"

definition before_join :: "main_pc \<Rightarrow> bool" where
  "before_join p \<longleftrightarrow> p \<in> {M_ring, M_props, M_stream, M_connect, M_thread, M_run, M_in_loop}"

definition cleaning :: "main_pc \<Rightarrow> bool" where "cleaning p \<longleftrightarrow> p \<in> {C_stream, C_ring, C_loop, C_rest, M_exit}"

lemmas pc_defs = has_loop_def has_ring_def has_stream_def may_work_def before_join_def cleaning_def starting_def

lemma pc_facts:
  "may_work p \<Longrightarrow> has_loop p" "may_work p \<Longrightarrow> has_ring p" "may_work p \<Longrightarrow> has_stream p" "may_work p \<Longrightarrow> \<not> cleaning p"
  "may_work p \<Longrightarrow> p \<noteq> M_check" "may_work p \<Longrightarrow> p \<noteq> M_exit" "may_work p \<Longrightarrow> p \<noteq> M_loop" "may_work p \<Longrightarrow> \<not> starting p"
  "before_join p \<Longrightarrow> has_loop p" "has_stream p \<Longrightarrow> has_ring p" "has_stream p \<Longrightarrow> has_loop p" "has_stream p \<Longrightarrow> \<not> starting p"
  "has_stream p \<Longrightarrow> p \<noteq> M_loop" "has_stream p \<Longrightarrow> p \<noteq> M_exit"
  by (auto simp: pc_defs)

text \<open>Where the objects live, by the program point of \<^verbatim>\<open>main\<close>.\<close>

definition objects_ok :: "life \<Rightarrow> bool" where
  "objects_ok s \<longleftrightarrow> (main_loop s = Alive \<longleftrightarrow> has_loop (pc s)) \<and> (sample_buffer s = Alive \<longleftrightarrow> has_ring (pc s)) \<and>
     (starting (pc s) \<or> pc s = M_loop \<longrightarrow> main_loop s = Absent) \<and>
     (stream s = Alive \<longleftrightarrow> has_stream (pc s)) \<and> (callback s \<noteq> CB_idle \<longrightarrow> has_stream (pc s)) \<and>
     (pc s = M_exit \<longrightarrow> \<not> status_file s \<and> \<not> model_held s \<and> \<not> options_held s \<and> \<not> pw_held s)"

definition worker_ok :: "life \<Rightarrow> bool" where
  "worker_ok s \<longleftrightarrow>
     (worker_at s = W_none \<or> worker_at s = W_done \<or> may_work (pc s)) \<and>
     (worker_at s = W_none \<longrightarrow> \<not> may_work (pc s) \<and> pc s \<noteq> M_check) \<and>
     (worker_at s = W_done \<longrightarrow> may_work (pc s) \<or> pc s = M_check \<or> cleaning (pc s)) \<and>
     (pc s = M_join \<or> pc s = M_check \<or> worker_at s = W_done \<and> cleaning (pc s) \<longrightarrow> \<not> running s \<and> callback s = CB_idle) \<and>
     (worker_at s = W_quit \<or> worker_at s = W_destroy \<or> worker_at s = W_done \<or> callback s \<noteq> CB_idle \<longrightarrow> \<not> running s)"

text \<open>The exit status, and what caused a failure.\<close>

definition status_ok :: "life \<Rightarrow> bool" where
  "status_ok s \<longleftrightarrow>
     (failed s \<longleftrightarrow> worker_failed s \<or> stream_failed s \<and> callback s \<noteq> CB_failed) \<and>
     exit_status s = of_bool (cleaning (pc s) \<and> (worker_at s = W_none \<or> worker_failed s \<or> stream_failed s)) \<and>
     (worker_failed s \<longrightarrow> worker_at s \<noteq> W_none) \<and> (callback s = CB_failed \<longrightarrow> stream_failed s) \<and>
     (stream_failed s \<longrightarrow> \<not> running s \<and> \<not> starting (pc s))"

text \<open>A stop is not forgotten, if the signal found a loop and the loop remembers it.\<close>

definition stop_ok :: "bool \<Rightarrow> life \<Rightarrow> bool" where
  "stop_ok remembers s \<longleftrightarrow>
     (running s \<or> \<not> remembers \<or> signalled_early s \<or> \<not> before_join (pc s) \<or>
        quit_pending s \<or> in_signal s \<or> worker_at s = W_quit \<or> callback s \<noteq> CB_idle) \<and>
     (starting (pc s) \<longrightarrow> \<not> running s) \<and>
     (pc s = M_loop \<and> \<not> running s \<longrightarrow> signalled_early s) \<and>
     (fault s \<longrightarrow> late_signal s)"

definition life_inv :: "bool \<Rightarrow> life \<Rightarrow> bool" where
  "life_inv remembers s \<longleftrightarrow> objects_ok s \<and> worker_ok s \<and> status_ok s \<and> stop_ok remembers s"

lemmas life_act_defs = main_step_def install_step_def worker_step_def callback_step_def signal_request_stop_def
  signal_quit_def on_state_changed_def audio_step_def quit_loop_def

lemma main_objects: "objects_ok s \<Longrightarrow> main_step r ok s = Some s' \<Longrightarrow> objects_ok s'"
  by (cases "pc s"; simp add: objects_ok_def pc_defs life_act_defs split: if_splits; (elim exE conjE)?; clarsimp)

lemma main_worker: "worker_ok s \<Longrightarrow> main_step r ok s = Some s' \<Longrightarrow> worker_ok s'"
  by (cases "pc s"; cases "worker_at s"; simp add: worker_ok_def pc_defs life_act_defs split: if_splits; clarsimp)

lemma main_status: "worker_ok s \<Longrightarrow> status_ok s \<Longrightarrow> main_step r ok s = Some s' \<Longrightarrow> status_ok s'"
  by (cases "pc s"; cases "worker_at s"; simp add: worker_ok_def status_ok_def pc_defs life_act_defs split: if_splits; clarsimp)

lemma main_stop: "worker_ok s \<Longrightarrow> stop_ok r s \<Longrightarrow> main_step r ok s = Some s' \<Longrightarrow> stop_ok r s'"
  by (cases "pc s"; cases "worker_at s"; simp add: worker_ok_def stop_ok_def pc_defs life_act_defs split: if_splits; clarsimp)

lemma worker_objects: "objects_ok s \<Longrightarrow> worker_ok s \<Longrightarrow> worker_step ok s = Some s' \<Longrightarrow> objects_ok s'"
  by (cases "worker_at s"; simp add: objects_ok_def worker_ok_def pc_facts life_act_defs split: if_splits object.splits; clarsimp simp: pc_facts)

lemma worker_worker: "worker_ok s \<Longrightarrow> worker_step ok s = Some s' \<Longrightarrow> worker_ok s'"
  by (cases "worker_at s"; simp add: worker_ok_def pc_facts life_act_defs split: if_splits object.splits; clarsimp simp: pc_facts)

lemma worker_status: "worker_ok s \<Longrightarrow> status_ok s \<Longrightarrow> worker_step ok s = Some s' \<Longrightarrow> status_ok s'"
  by (cases "worker_at s"; simp add: worker_ok_def status_ok_def pc_facts life_act_defs split: if_splits object.splits; clarsimp simp: pc_facts)

lemma worker_stop: "objects_ok s \<Longrightarrow> worker_ok s \<Longrightarrow> stop_ok r s \<Longrightarrow> worker_step ok s = Some s' \<Longrightarrow> stop_ok r s'"
  by (cases "worker_at s"; simp add: objects_ok_def worker_ok_def stop_ok_def pc_facts life_act_defs split: if_splits object.splits; clarsimp simp: pc_facts)


lemma callback_keeps:
  assumes "life_inv r s" "callback_step s = Some s'"
  shows "life_inv r s'"
proof -
  have inv: "objects_ok s" "worker_ok s" "status_ok s" "stop_ok r s" using assms(1) by (simp_all add: life_inv_def)
  have "objects_ok s'" using assms(2) inv(1,2)
    by (cases "callback s"; simp add: objects_ok_def worker_ok_def pc_facts life_act_defs split: if_splits object.splits; clarsimp simp: pc_facts)
  moreover have "worker_ok s'" using assms(2) inv(1,2)
    by (cases "callback s"; simp add: objects_ok_def worker_ok_def pc_facts life_act_defs split: if_splits object.splits; clarsimp simp: pc_facts)
  moreover have "status_ok s'" using assms(2) inv(3)
    by (cases "callback s"; simp add: status_ok_def life_act_defs split: object.splits; clarsimp)
  moreover have "stop_ok r s'" using assms(2) inv(1,2,4)
    by (cases "callback s"; simp add: objects_ok_def worker_ok_def stop_ok_def pc_facts life_act_defs split: if_splits object.splits; clarsimp simp: pc_facts)
  ultimately show ?thesis by (simp add: life_inv_def)
qed

lemma signal_keeps:
  assumes "life_inv r s" "signal_request_stop s = Some s'"
  shows "life_inv r s'"
proof -
  have inv: "objects_ok s" "worker_ok s" "status_ok s" "stop_ok r s" using assms(1) by (simp_all add: life_inv_def)
  have "objects_ok s'" using assms(2) inv(1,2)
    by (simp add: objects_ok_def worker_ok_def pc_facts life_act_defs split: if_splits object.splits; clarsimp simp: pc_facts)
  moreover have "worker_ok s'" using assms(2) inv(1,2)
    by (simp add: objects_ok_def worker_ok_def pc_facts life_act_defs split: if_splits object.splits; clarsimp simp: pc_facts)
  moreover have "status_ok s'" using assms(2) inv(3)
    by (simp add: status_ok_def life_act_defs split: if_splits object.splits; clarsimp)
  moreover have "stop_ok r s'" using assms(2) inv(1,2,4)
    by (simp add: objects_ok_def worker_ok_def stop_ok_def pc_facts life_act_defs split: if_splits object.splits; clarsimp simp: pc_facts)
  ultimately show ?thesis by (simp add: life_inv_def)
qed

lemma quit_keeps:
  assumes "life_inv r s" "signal_quit s = Some s'"
  shows "life_inv r s'"
proof -
  have inv: "objects_ok s" "worker_ok s" "status_ok s" "stop_ok r s" using assms(1) by (simp_all add: life_inv_def)
  have "objects_ok s'" using assms(2) inv(1,2)
    by (simp add: objects_ok_def worker_ok_def pc_facts life_act_defs split: if_splits object.splits; clarsimp simp: pc_facts)
  moreover have "worker_ok s'" using assms(2) inv(1,2)
    by (simp add: objects_ok_def worker_ok_def pc_facts life_act_defs split: if_splits object.splits; clarsimp simp: pc_facts)
  moreover have "status_ok s'" using assms(2) inv(3)
    by (simp add: status_ok_def life_act_defs split: if_splits object.splits; clarsimp)
  moreover have "stop_ok r s'" using assms(2) inv(1,2,4)
    by (simp add: objects_ok_def worker_ok_def stop_ok_def pc_facts life_act_defs split: if_splits object.splits; clarsimp simp: pc_facts)
  ultimately show ?thesis by (simp add: life_inv_def)
qed

lemma on_state_changed_cases:
  assumes "on_state_changed st s = Some s'" "worker_ok s" "objects_ok s"
  obtains "s' = s"
  | "s' = s\<lparr>running := False, stream_failed := True, callback := CB_failed\<rparr>" "running s" "callback s = CB_idle" "has_stream (pc s)"
    "pc s \<noteq> M_join" "pc s \<noteq> M_check" "pc s \<noteq> M_exit" "\<not> cleaning (pc s) \<or> worker_at s = W_none"
proof (cases "running s \<and> (st = PW_STREAM_STATE_ERROR \<or> st = PW_STREAM_STATE_UNCONNECTED)")
  case True
  with assms(1) have u: "s' = s\<lparr>running := False, stream_failed := True, callback := CB_failed\<rparr>" "callback s = CB_idle"
      "pc s \<in> {M_connect, M_in_loop, C_stream}"
    by (simp_all add: on_state_changed_def split: if_splits)
  have w: "worker_at s = W_none" if "pc s = C_stream"
    using assms(2) True that by (simp add: worker_ok_def pc_defs) blast
  show ?thesis by (rule that(2)) (use u True w in \<open>auto simp: pc_defs\<close>)
next
  case False
  with assms(1) have "s' = s" by (simp add: on_state_changed_def split: if_splits)
  then show ?thesis by (rule that(1))
qed

lemma changed_keeps:
  assumes "life_inv r s" "on_state_changed st s = Some s'"
  shows "life_inv r s'"
proof -
  have inv: "objects_ok s" "worker_ok s" "status_ok s" "stop_ok r s" using assms(1) by (simp_all add: life_inv_def)
  from assms(2) inv(2,1) show ?thesis
  proof (cases rule: on_state_changed_cases)
    case 1
    then show ?thesis using assms(1) by simp
  next
    case 2
    have "objects_ok s'" using 2 inv(1) by (simp add: objects_ok_def)
    moreover have "worker_ok s'" using 2 inv(2) by (auto simp: worker_ok_def)
    moreover have "status_ok s'" using 2 inv(3) by (auto simp: status_ok_def pc_facts)
    moreover have "stop_ok r s'" using 2 inv(4) by (simp add: stop_ok_def pc_facts)
    ultimately show ?thesis by (simp add: life_inv_def)
  qed
qed

lemma audio_keeps:
  assumes "life_inv r s" "audio_step s = Some s'"
  shows "life_inv r s'"
proof -
  have inv: "objects_ok s" "worker_ok s" "status_ok s" "stop_ok r s" using assms(1) by (simp_all add: life_inv_def)
  have "objects_ok s'" using assms(2) inv(1,2)
    by (simp add: objects_ok_def worker_ok_def pc_facts life_act_defs split: if_splits object.splits; clarsimp simp: pc_facts)
  moreover have "worker_ok s'" using assms(2) inv(1,2)
    by (simp add: objects_ok_def worker_ok_def pc_facts life_act_defs split: if_splits object.splits; clarsimp simp: pc_facts)
  moreover have "status_ok s'" using assms(2) inv(3)
    by (simp add: status_ok_def life_act_defs split: if_splits object.splits; clarsimp)
  moreover have "stop_ok r s'" using assms(2) inv(1,2,4)
    by (simp add: objects_ok_def worker_ok_def stop_ok_def pc_facts life_act_defs split: if_splits object.splits; clarsimp simp: pc_facts)
  ultimately show ?thesis by (simp add: life_inv_def)
qed

section \<open>Properties\<close>

lemma life_inv_start: "life_inv r life_start"
  by (simp add: life_inv_def objects_ok_def worker_ok_def status_ok_def stop_ok_def pc_defs life_start_def)

lemma life_inv_step: "life_inv r s \<Longrightarrow> life_step r s a s' \<Longrightarrow> life_inv r s'"
  by (cases a)
    (auto simp: life_step_def intro: callback_keeps signal_keeps quit_keeps changed_keeps audio_keeps,
     auto simp: life_inv_def intro: main_objects main_worker main_status main_stop worker_objects worker_worker worker_status worker_stop)

fun main_left :: "main_pc \<Rightarrow> nat" where
  "main_left M_sigint = 18" | "main_left M_sigterm = 17" | "main_left M_set_running = 16" | "main_left M_loop = 15"
| "main_left M_ring = 14" | "main_left M_props = 13" | "main_left M_stream = 12" | "main_left M_connect = 11"
| "main_left M_thread = 10" | "main_left M_run = 9" | "main_left M_in_loop = 8" | "main_left M_stop = 7"
| "main_left M_join = 6" | "main_left M_check = 5" | "main_left C_stream = 4" | "main_left C_ring = 3"
| "main_left C_loop = 2" | "main_left C_rest = 1" | "main_left M_exit = 0"

fun worker_left :: "worker_pc \<Rightarrow> nat" where
  "worker_left W_none = 0" | "worker_left W_start = 4" | "worker_left W_clear = 3" | "worker_left W_quit = 2"
| "worker_left W_loop = 3" | "worker_left W_destroy = 2" | "worker_left W_done = 0"

fun callback_left :: "callback_pc \<Rightarrow> nat" where
  "callback_left CB_idle = 0" | "callback_left CB_failed = 2" | "callback_left CB_quit = 1"

definition steps_left :: "life \<Rightarrow> nat" where
  "steps_left s = 6 * main_left (pc s) + worker_left (worker_at s) + callback_left (callback s)"

fun program_action :: "actor \<Rightarrow> bool" where
  "program_action (Main _) = True" | "program_action (Worker _) = True" | "program_action Callback = True"
| "program_action _ = False"

text \<open>Shutting down: a stop was seen after \<^verbatim>\<open>running\<close> was set and there was a loop to quit.\<close>

definition stopping :: "life \<Rightarrow> bool" where
  "stopping s \<longleftrightarrow> \<not> running s \<and> \<not> starting (pc s) \<and> \<not> signalled_early s"

lemma stopping_main:
  "life_inv r s \<Longrightarrow> stopping s \<Longrightarrow> main_step r ok s = Some s' \<Longrightarrow>
     stopping s' \<and> steps_left s' < steps_left s \<and> stream_failed s' = stream_failed s"
  by (cases "pc s"; simp add: life_inv_def stop_ok_def stopping_def starting_def steps_left_def life_act_defs worker_ok_def pc_defs split: if_splits; clarsimp)

lemma stopping_worker:
  "stopping s \<Longrightarrow> worker_step ok s = Some s' \<Longrightarrow> stopping s' \<and> steps_left s' < steps_left s \<and> stream_failed s' = stream_failed s"
  by (cases "worker_at s"; simp add: stopping_def steps_left_def life_act_defs split: if_splits object.splits; clarsimp)

lemma stopping_callback:
  "stopping s \<Longrightarrow> callback_step s = Some s' \<Longrightarrow> stopping s' \<and> steps_left s' < steps_left s \<and> stream_failed s' = stream_failed s"
  by (cases "callback s"; simp add: stopping_def steps_left_def life_act_defs split: object.splits; clarsimp)

lemma stopping_environment:
  "life_inv r s \<Longrightarrow> stopping s \<Longrightarrow> signal_request_stop s = Some s' \<Longrightarrow> stopping s' \<and> steps_left s' = steps_left s \<and> stream_failed s' = stream_failed s"
  "stopping s \<Longrightarrow> signal_quit s = Some s' \<Longrightarrow> stopping s' \<and> steps_left s' = steps_left s \<and> stream_failed s' = stream_failed s"
  "stopping s \<Longrightarrow> on_state_changed st s = Some s' \<Longrightarrow> stopping s' \<and> steps_left s' = steps_left s \<and> stream_failed s' = stream_failed s"
  "stopping s \<Longrightarrow> audio_step s = Some s' \<Longrightarrow> stopping s' \<and> steps_left s' = steps_left s \<and> stream_failed s' = stream_failed s"
  by (auto simp: life_inv_def stop_ok_def stopping_def steps_left_def life_act_defs split: if_splits object.splits)

lemma stopping_step:
  assumes "life_inv r s" "stopping s" "life_step r s a s'"
  shows "stopping s' \<and> steps_left s' + (if program_action a then 1 else 0) \<le> steps_left s \<and> stream_failed s' = stream_failed s"
proof (cases a)
  case (Main ok)
  then show ?thesis using assms stopping_main [of r s ok s'] by (simp add: life_step_def)
next
  case (Worker ok)
  then show ?thesis using assms stopping_worker [of s ok s'] by (simp add: life_step_def)
next
  case Callback
  then show ?thesis using assms stopping_callback [of s s'] by (simp add: life_step_def)
next
  case Signal
  then show ?thesis using assms stopping_environment(1) [of r s s'] by (simp add: life_step_def)
next
  case Signal_quit
  then show ?thesis using assms stopping_environment(2) [of s s'] by (simp add: life_step_def)
next
  case (State_changed st)
  then show ?thesis using assms stopping_environment(3) [of s st s'] by (simp add: life_step_def)
next
  case Audio
  then show ?thesis using assms stopping_environment(4) [of s s'] by (simp add: life_step_def)
qed

interpretation shutdown: bounded_phase life_init "life_step r" "life_inv r" stopping steps_left program_action for r
  by unfold_locales (auto simp: life_inv_start intro: life_inv_step dest: stopping_step)

lemma stopping_progress:
  assumes "life_inv True s" "stopping s" "\<not> in_signal s" "pc s \<noteq> M_exit"
  shows "\<exists>a s'. program_action a \<and> life_step True s a s'"
proof -
  consider "callback s \<noteq> CB_idle" | "worker_at s \<notin> {W_none, W_done}" | "callback s = CB_idle" "worker_at s \<in> {W_none, W_done}" by blast
  then show ?thesis
  proof cases
    case 1
    then have "\<exists>s'. callback_step s = Some s'" by (cases "callback s") (simp_all add: callback_step_def)
    then show ?thesis by (auto simp: life_step_def intro!: exI [of _ Callback])
  next
    case 2
    then have "\<exists>s'. worker_step True s = Some s'" by (cases "worker_at s") (simp_all add: worker_step_def)
    then show ?thesis by (auto simp: life_step_def intro!: exI [of _ "Worker True"])
  next
    case 3
    have "quit_pending s" if "pc s = M_in_loop"
      using assms(1-3) 3 that by (auto simp: life_inv_def stop_ok_def stopping_def before_join_def)
    moreover have "worker_at s = W_done" if "pc s = M_join"
      using assms(1) 3 that by (auto simp: life_inv_def worker_ok_def may_work_def)
    ultimately have "\<exists>s'. main_step True True s = Some s'"
      using 3(1) assms(4) by (cases "pc s") (simp_all add: main_step_def)
    then show ?thesis by (auto simp: life_step_def intro!: exI [of _ "Main True"])
  qed
qed

lemma stopping_same_failure:
  "run (life_step r) s as s' \<Longrightarrow> life_inv r s \<Longrightarrow> stopping s \<Longrightarrow> stream_failed s' = stream_failed s"
  by (induction rule: run.induct) (use stopping_step life_inv_step in blast)+

text \<open>Property C22. In every reachable state: an object is used after its destruction only by a signal handler
  that strikes after the loop was destroyed; and when \<^verbatim>\<open>main\<close> returns the worker has ended, the loop, the
  ring and the stream are gone, the model, the options and PipeWire are released and there is no
  status file.\<close>

theorem shutdown_releases_everything:
  assumes "life_reach r s"
  shows "(fault s \<longrightarrow> late_signal s) \<and>
     (pc s = M_exit \<longrightarrow> worker_at s \<in> {W_none, W_done} \<and> main_loop s \<noteq> Alive \<and> sample_buffer s \<noteq> Alive \<and> stream s \<noteq> Alive \<and>
        \<not> model_held s \<and> \<not> options_held s \<and> \<not> pw_held s \<and> \<not> status_file s)"
proof -
  have inv: "life_inv r s" using assms by (rule shutdown.reachable)
  then have "worker_at s \<in> {W_none, W_done} \<and> main_loop s \<noteq> Alive \<and> sample_buffer s \<noteq> Alive \<and> stream s \<noteq> Alive \<and>
      \<not> model_held s \<and> \<not> options_held s \<and> \<not> pw_held s \<and> \<not> status_file s" if "pc s = M_exit"
    using that by (simp add: life_inv_def objects_ok_def worker_ok_def pc_defs)
  then show ?thesis using inv by (simp add: life_inv_def stop_ok_def)
qed

text \<open>Property C24. The exit status is 1 exactly when the set-up failed (no worker was started) or \<^verbatim>\<open>failed\<close> was
  stored, by the worker that could not start or by a stream that failed while \<^verbatim>\<open>running\<close> was set.\<close>

theorem exit_status_reports_failure:
  assumes "life_reach r s" "pc s = M_exit"
  shows "exit_status s = (if worker_at s = W_none \<or> failed s then 1 else 0) \<and> (failed s \<longleftrightarrow> worker_failed s \<or> stream_failed s)"
proof -
  have "life_inv r s" using assms(1) by (rule shutdown.reachable)
  then show ?thesis using assms(2) by (auto simp: life_inv_def objects_ok_def status_ok_def pc_defs)
qed



text \<open>A start, a stop by a signal, and the way down.\<close>

definition start_up :: "actor list" where
  "start_up = replicate 10 (Main True) @ [Worker True, Worker True]"

definition wind_down :: "actor list" where
  "wind_down = [Main True, Main True, Worker True, Worker True, Main True, Main True,
     State_changed PW_STREAM_STATE_UNCONNECTED, Main True, Main True, Main True, Main True]"

definition life_up :: life where "life_up = the (perform True life_start (start_up @ [Signal]))"
definition life_down :: life where "life_down = the (perform True life_up (Signal_quit # wind_down))"

lemmas perform_simps = perform_def life_start_def life_act_defs numeral_eq_Suc

lemma life_up: "perform True life_start (start_up @ [Signal]) = Some life_up" "stopping life_up" "pc life_up = M_in_loop"
  by (simp_all add: life_up_def start_up_def perform_simps stopping_def starting_def)

lemma life_down: "perform True life_up (Signal_quit # wind_down) = Some life_down" "pc life_down = M_exit" "exit_status life_down = 0"
  by (simp_all add: life_down_def life_up_def start_up_def wind_down_def perform_simps starting_def)

lemma life_up_reach: "life_reach True life_up"
  using reach_run [OF perform_run [OF life_up(1)]] by (simp add: reach_init)

lemma life_down_reach: "life_reach True life_down"
  using reach_run [OF perform_run [OF life_down(1)] life_up_reach] .

theorem shutdown_releases_everything_witness:
  "worker_at life_down \<in> {W_none, W_done} \<and> main_loop life_down \<noteq> Alive \<and>
     sample_buffer life_down \<noteq> Alive \<and> stream life_down \<noteq> Alive \<and> \<not> model_held life_down \<and> \<not> options_held life_down \<and>
     \<not> pw_held life_down \<and> \<not> status_file life_down"
  using shutdown_releases_everything [OF life_down_reach] life_down(2) by blast

theorem exit_status_reports_failure_witness:
  "exit_status life_down = (if worker_at life_down = W_none \<or> failed life_down then 1 else 0) \<and>
     (failed life_down \<longleftrightarrow> worker_failed life_down \<or> stream_failed life_down)"
  by (rule exit_status_reports_failure [OF life_down_reach life_down(2)])



text \<open>A signal that arrives between \<^verbatim>\<open>install_signal_handlers\<close> and the store of \<^verbatim>\<open>running\<close> is lost: the
  listener goes on as if nothing had happened.\<close>

lemma early_signal_lost:
  "map_option (\<lambda>s. (pc s, worker_at s, running s, quit_pending s))
     (perform True life_start ([Main True, Main True, Signal, Signal_quit] @ replicate 8 (Main True) @ [Worker True])) =
   Some (M_in_loop, W_loop, True, False)"
  by (simp add: perform_simps)


text \<open>A signal that arrives after the loop was destroyed makes the handler use the destroyed loop: the
  pointer is not cleared, and the handlers stay installed.\<close>

lemma late_signal_uses_destroyed_loop:
  "map_option (\<lambda>s. (pc s, main_loop s, fault s)) (perform True life_up (Signal_quit # butlast wind_down @ [Signal, Signal_quit])) =
     Some (C_rest, Destroyed, True)"
  by (simp add: life_up_def start_up_def wind_down_def perform_simps starting_def)

end
