(* ===== verification/Tray_State.thy ===== *)
theory Tray_State
  imports Status
begin

text \<open>
  What the tray shows, from \<^verbatim>\<open>src/native/realtime-tray/tray_state.h\<close>: the health texts, the decision of
  the state, and the D-Bus path of a systemd unit.  A \<^verbatim>\<open>QString\<close> is a list of UTF-16 code units.
  \<^verbatim>\<open>QChar::isLetterOrNumber\<close> beyond ASCII and the decoding of bytes to text are Qt's and parameters.
\<close>

type_synonym qstring = "u16 list"

definition QStringLiteral :: "string \<Rightarrow> qstring" where
  "QStringLiteral s = map of_char s"

datatype DaemonState = Off | Starting | On | ConversationActive | NoMicrophone | Error
datatype CaptureHealth = CaptureUnknown | Healthy | Unhealthy
datatype ControllerHealth = ControllerUnknown | Ready | ConversationRunning | ControllerError

section \<open>Health texts\<close>

text \<open>\<^verbatim>\<open>QChar::isSpace\<close> and \<^verbatim>\<open>QString::trimmed\<close>.\<close>

definition isSpace :: "u16 \<Rightarrow> bool" where
  "isSpace c \<longleftrightarrow> c = 0x20 \<or> (9 \<le> c \<and> c \<le> 13) \<or> c = 0x85 \<or> c = 0xa0 \<or> c = 0x1680 \<or> (0x2000 \<le> c \<and> c \<le> 0x200a) \<or>
     c = 0x2028 \<or> c = 0x2029 \<or> c = 0x202f \<or> c = 0x205f \<or> c = 0x3000"

definition trimmed :: "qstring \<Rightarrow> qstring" where
  "trimmed s = rev (dropWhile isSpace (rev (dropWhile isSpace s)))"

definition captureHealthFromStatusText :: "qstring \<Rightarrow> CaptureHealth" where
  "captureHealthFromStatusText text = (let status = trimmed text in
     if status = QStringLiteral ''healthy'' then Healthy
     else if status = QStringLiteral ''unhealthy'' then Unhealthy
     else CaptureUnknown)"

definition controllerHealthFromStatusText :: "qstring \<Rightarrow> ControllerHealth" where
  "controllerHealthFromStatusText text = (let status = trimmed text in
     if status = QStringLiteral ''ready'' then Ready
     else if status = QStringLiteral ''conversation-active'' then ConversationRunning
     else if status = QStringLiteral ''error'' then ControllerError
     else ControllerUnknown)"

section \<open>Unit paths\<close>

definition ascii_letter_or_number :: "u16 \<Rightarrow> bool" where
  "ascii_letter_or_number c \<longleftrightarrow> 0x30 \<le> c \<and> c \<le> 0x39 \<or> 0x41 \<le> c \<and> c \<le> 0x5a \<or> 0x61 \<le> c \<and> c \<le> 0x7a"

definition isLetterOrNumber :: "(u16 \<Rightarrow> bool) \<Rightarrow> u16 \<Rightarrow> bool" where
  "isLetterOrNumber beyond c \<longleftrightarrow> (if c < 0x80 then ascii_letter_or_number c else beyond c)"

definition hex_digit :: "nat \<Rightarrow> u16" where
  "hex_digit d = (if d < 10 then of_nat (0x30 + d) else of_nat (0x57 + d))"

fun hex_digits :: "nat \<Rightarrow> qstring" where
  "hex_digits n = (if n < 16 then [hex_digit n] else hex_digits (n div 16) @ [hex_digit (n mod 16)])"

declare hex_digits.simps [simp del]

text \<open>\<^verbatim>\<open>QString("_%1").arg(n, 2, 16, '0')\<close>.\<close>

definition escaped_unit :: "u16 \<Rightarrow> qstring" where
  "escaped_unit ch = (let h = hex_digits (unat ch) in 0x5f # replicate (2 - length h) 0x30 @ h)"

definition systemdUnitObjectPath :: "(u16 \<Rightarrow> bool) \<Rightarrow> qstring \<Rightarrow> qstring" where
  "systemdUnitObjectPath beyond unit = QStringLiteral ''/org/freedesktop/systemd1/unit/'' @
     concat (map (\<lambda>ch. if isLetterOrNumber beyond ch then [ch] else escaped_unit ch) unit)"

section \<open>The state\<close>

definition stateFromInputs :: "bool \<Rightarrow> CaptureHealth \<Rightarrow> bool \<Rightarrow> bool \<Rightarrow> ControllerHealth \<Rightarrow> DaemonState" where
  "stateFromInputs microphoneAvailable captureHealth controllerActive wakewordActive controllerHealth =
     (if \<not> microphoneAvailable then NoMicrophone
      else if (wakewordActive \<and> captureHealth = Unhealthy) \<or> controllerHealth = ControllerError then Error
      else (let coherentRuntimeMode = (controllerActive \<and> wakewordActive) \<or> (\<not> controllerActive \<and> \<not> wakewordActive) in
        if coherentRuntimeMode \<and> captureHealth = Healthy \<and> controllerHealth = ConversationRunning then ConversationActive
        else if coherentRuntimeMode \<and> captureHealth = Healthy \<and> controllerHealth = Ready then On
        else if \<not> controllerActive \<and> \<not> wakewordActive then Off
        else if controllerActive \<and> \<not> wakewordActive then NoMicrophone
        else Starting))"

text \<open>Property C36. The six states, each by its own condition: the first matching line of the code is the
  only matching condition, so the answer does not depend on the order of the tests.\<close>

theorem state_characterisation:
  "(stateFromInputs mic cap ctl wake hl = On \<longleftrightarrow> mic \<and> cap = Healthy \<and> hl = Ready \<and> ctl = wake) \<and>
   (stateFromInputs mic cap ctl wake hl = ConversationActive \<longleftrightarrow> mic \<and> cap = Healthy \<and> hl = ConversationRunning \<and> ctl = wake) \<and>
   (stateFromInputs mic cap ctl wake hl = Error \<longleftrightarrow> mic \<and> (wake \<and> cap = Unhealthy \<or> hl = ControllerError)) \<and>
   (stateFromInputs mic cap ctl wake hl = Off \<longleftrightarrow> mic \<and> hl \<noteq> ControllerError \<and> \<not> ctl \<and> \<not> wake \<and>
      \<not> (cap = Healthy \<and> hl \<in> {Ready, ConversationRunning})) \<and>
   (stateFromInputs mic cap ctl wake hl = Starting \<longleftrightarrow> mic \<and> wake \<and> cap \<noteq> Unhealthy \<and> hl \<noteq> ControllerError \<and>
      \<not> (ctl \<and> cap = Healthy \<and> hl \<in> {Ready, ConversationRunning})) \<and>
   (stateFromInputs mic cap ctl wake hl = NoMicrophone \<longleftrightarrow> (if mic then ctl \<and> \<not> wake \<and> hl \<noteq> ControllerError else True))"
  by (cases cap; cases hl) (auto simp: stateFromInputs_def)

text \<open>A stale pair of health files alone shows \<open>On\<close>: with both units stopped the state is \<open>On\<close> as
  long as the files say healthy and ready.\<close>

lemma stale_files_show_on: "stateFromInputs True Healthy False False Ready = On"
  by (simp add: stateFromInputs_def)

section \<open>Reading what the listener wrote\<close>

text \<open>\<^verbatim>\<open>readStatusFile\<close> of \<^verbatim>\<open>main.cpp\<close>: at most 128 bytes, decoded; a file that cannot be opened reads as empty.
  The hypothesis on the decoder: ASCII without carriage returns decodes to itself.\<close>

definition readStatusFile :: "(u8 list \<Rightarrow> qstring) \<Rightarrow> u8 list option \<Rightarrow> qstring" where
  "readStatusFile decode file = (case file of None \<Rightarrow> [] | Some bytes \<Rightarrow> decode (take 128 bytes))"

definition decodes_ascii :: "(u8 list \<Rightarrow> qstring) \<Rightarrow> bool" where
  "decodes_ascii decode \<longleftrightarrow> (\<forall>bs. list_all (\<lambda>b. b < 128 \<and> b \<noteq> 13) bs \<longrightarrow> decode bs = map ucast bs)"

definition reported_health :: "string \<Rightarrow> CaptureHealth" where
  "reported_health status = (if status = ''healthy'' then Healthy else if status = ''unhealthy'' then Unhealthy else CaptureUnknown)"

definition listener_statuses :: "string list" where
  "listener_statuses = [''starting'', ''healthy'', ''unhealthy'', ''handler_failed'', ''stopped'']"

lemma listener_lines:
  "list_all (\<lambda>s. length (status_line s) \<le> 128 \<and> list_all (\<lambda>b. b < 128 \<and> b \<noteq> 13) (status_line s) \<and>
     captureHealthFromStatusText (map ucast (status_line s)) = reported_health s) listener_statuses"
  by code_simp

text \<open>The tray understands the listener: the file with a status of the listener is read as the
  health that status stands for, the statuses that are no health report as unknown.\<close>

lemma tray_reads_listener_status:
  assumes "decodes_ascii decode" "status \<in> set listener_statuses"
  shows "captureHealthFromStatusText (readStatusFile decode (Some (status_line status))) = reported_health status"
  using listener_lines assms by (auto simp: list_all_iff readStatusFile_def decodes_ascii_def)

section \<open>Paths name one unit\<close>

definition unhex :: "u16 \<Rightarrow> nat" where
  "unhex c = (if c \<le> 0x39 then unat c - 0x30 else unat c - 0x57)"

fun unescape :: "qstring \<Rightarrow> qstring" where
  "unescape [] = []"
| "unescape (c # cs) = (if c = 0x5f then (case cs of h # l # rest \<Rightarrow> of_nat (16 * unhex h + unhex l) # unescape rest | _ \<Rightarrow> [])
     else c # unescape cs)"

lemma unhex_digit: "d < 16 \<Longrightarrow> unhex (hex_digit d) = d"
proof -
  have "list_all (\<lambda>d. unhex (hex_digit d) = d) [0..<16]" by code_simp
  then show "d < 16 \<Longrightarrow> unhex (hex_digit d) = d" by (simp add: list_all_iff)
qed

lemma escaped_short:
  assumes "ch < 0x100"
  shows "escaped_unit ch = [0x5f, hex_digit (unat ch div 16), hex_digit (unat ch mod 16)]"
proof (cases "unat ch < 16")
  case True
  then have "unat ch div 16 = 0" by simp
  moreover have "hex_digit 0 = 0x30" by (simp add: hex_digit_def)
  ultimately show ?thesis using True by (simp add: escaped_unit_def hex_digits.simps [of "unat ch"])
next
  case False
  have "unat ch < 256" using assms by (simp add: word_less_nat_alt)
  then have "unat ch div 16 < 16" by simp
  then show ?thesis using False
    by (simp add: escaped_unit_def hex_digits.simps [of "unat ch"] hex_digits.simps [of "unat ch div 16"])
qed

lemma unescape_unit:
  assumes "list_all (\<lambda>c. c < 0x100) unit"
  shows "unescape (concat (map (\<lambda>ch. if isLetterOrNumber beyond ch then [ch] else escaped_unit ch) unit)) = unit"
  using assms
proof (induction unit)
  case (Cons c cs)
  have "c \<noteq> 0x5f" if "isLetterOrNumber beyond c"
    using that by (auto simp: isLetterOrNumber_def ascii_letter_or_number_def)
  moreover have "of_nat (16 * unhex (hex_digit (unat c div 16)) + unhex (hex_digit (unat c mod 16))) = c"
  proof -
    have "unat c < 256" using Cons.prems by (simp add: word_less_nat_alt)
    then have "unat c div 16 < 16" by simp
    then show ?thesis by (simp only: unhex_digit mod_less_divisor zero_less_numeral mult_div_mod_eq) simp
  qed
  ultimately show ?case using Cons by (simp add: escaped_short)
qed simp

text \<open>Property C38. The object path of a unit determines the unit, as long as its name has only Latin-1
  characters: taking the prefix off and undoing the escapes gives the name back.\<close>

theorem unit_path_round_trip:
  assumes "list_all (\<lambda>c. c < 0x100) unit"
  shows "unescape (drop 31 (systemdUnitObjectPath beyond unit)) = unit"
  using unescape_unit [OF assms, of beyond] by (simp add: systemdUnitObjectPath_def QStringLiteral_def)

theorem unit_path_round_trip_witness:
  "unescape (drop 31 (systemdUnitObjectPath (\<lambda>_. False) (QStringLiteral ''a-b.service''))) = QStringLiteral ''a-b.service''"
  by (rule unit_path_round_trip) code_simp

text \<open>Beyond Latin-1 the escape is ambiguous, since its width of two digits is only a minimum: an ellipsis
  (U+2026) and the three characters of \<open> 26\<close> have the same path.\<close>

lemma unit_path_ambiguous:
  "systemdUnitObjectPath (\<lambda>_. False) [0x2026] = systemdUnitObjectPath (\<lambda>_. False) (QStringLiteral '' 26'')"
  by code_simp

end
