(* ===== verification/Tray_Controller.thy ===== *)
theory Tray_Controller
  imports Tray_State Transition
begin

text \<open>
  The tray's controller, the class \<^verbatim>\<open>TrayController\<close> of \<^verbatim>\<open>src/native/realtime-tray/main.cpp\<close>, as a
  machine that reacts to one event at a time (Qt delivers them on one thread).

  The record \<open>tray\<close> has the fields of the class that decide its behaviour.  Asynchronous calls (D-Bus,
  the HTTP request) that have not been answered are the list \<open>pending\<close>; an answer is an event.  The outside
  world is what an event handler reads: PulseAudio, the two health files, and whether D-Bus accepts
  a connection of a signal.  \<open>shown\<close> (the state last displayed, if it is still displayed) and \<open>sent\<close> (the
  commands given to systemd) only record what happened.  Painting is not modelled, apart from the
  one integer expression in it that can overflow.
\<close>

section \<open>Icons\<close>

type_synonym colour = "nat \<times> nat \<times> nat"

definition INT32_MAX :: int where "INT32_MAX = 2147483647"

text \<open>The start angle of the spinner arc; the product is a 32-bit \<^verbatim>\<open>int\<close>, so an overflow is undefined.\<close>

definition stateIcon :: "colour \<Rightarrow> int \<Rightarrow> (colour \<times> int option) option" where
  "stateIcon c spinnerFrame = (if spinnerFrame \<ge> 0 then
       (if spinnerFrame * 40 \<le> INT32_MAX then Some (c, Some (((spinnerFrame * 40) mod 360) * 16)) else None)
     else Some (c, None))"

section \<open>State\<close>

definition kControllerUnit :: string where "kControllerUnit = ''okay-hermes-realtime-controller.service''"
definition kWakewordUnit :: string where "kWakewordUnit = ''okay-hermes-realtime-wakeword.service''"

lemma units_differ [simp]: "kControllerUnit \<noteq> kWakewordUnit" "kWakewordUnit \<noteq> kControllerUnit"
  by (simp_all add: kControllerUnit_def kWakewordUnit_def)

datatype call = Get_unit string | Get_active string | Command string "string list" nat | Open_page | Subscribe

record audio_source =
  media_class :: string
  device_class :: string
  is_virtual :: bool

record audio =
  context_there :: bool
  context_ready :: bool
  audio_server :: "nat ptr"
  default_source :: "audio_source ptr"

record outside =
  pulse :: audio
  capture_file :: "u8 list option"
  controller_file :: "u8 list option"
  decode_text :: "u8 list \<Rightarrow> qstring"
  bus_job_removed :: bool
  bus_unit_new :: bool
  bus_unit_removed :: bool
  bus_path :: "qstring \<Rightarrow> bool"
  letter :: "u16 \<Rightarrow> bool"

record watcher =
  watched_dirs :: "string list"
  watched_files :: "string list"

record tray =
  controllerActive :: bool
  wakewordActive :: bool
  systemdCommandInFlight :: bool
  openRequestInFlight :: bool
  turnOnEnabled :: bool
  turnOffEnabled :: bool
  openEnabled :: bool
  toolTip :: string
  icon :: "colour \<times> int option"
  spinnerFrame :: int
  switchingTimer :: bool
  systemdRetryTimer :: bool
  refreshTimer :: bool
  unitSignalPaths :: "qstring list"
  jobRemovedSignalConnected :: bool
  unitNewSignalConnected :: bool
  unitRemovedSignalConnected :: bool
  watchedAudioServer :: "nat ptr"
  audioConnections :: "nat list"
  captureWatcher :: watcher
  controllerWatcher :: watcher
  warnings :: nat
  pending :: "call list"
  shown :: "DaemonState option"
  sent :: "(string \<times> string) list"

section \<open>What is displayed\<close>

definition microphoneAvailable :: "outside \<Rightarrow> bool" where
  "microphoneAvailable out = (let a = pulse out in
     if \<not> context_there a \<or> \<not> context_ready a \<or> audio_server a = NULL then False
     else (case default_source a of None \<Rightarrow> False
       | Some source \<Rightarrow> media_class source = ''Audio/Source'' \<and> device_class source \<noteq> ''monitor'' \<and> \<not> is_virtual source))"

definition anyControlledUnitActive :: "tray \<Rightarrow> bool" where
  "anyControlledUnitActive t \<longleftrightarrow> controllerActive t \<or> wakewordActive t"

definition daemonState :: "outside \<Rightarrow> tray \<Rightarrow> DaemonState" where
  "daemonState out t = stateFromInputs (microphoneAvailable out)
     (captureHealthFromStatusText (readStatusFile (decode_text out) (capture_file out)))
     (controllerActive t) (wakewordActive t)
     (controllerHealthFromStatusText (readStatusFile (decode_text out) (controller_file out)))"

definition refreshState :: "outside \<Rightarrow> tray \<Rightarrow> tray option" where
  "refreshState out t = (if systemdCommandInFlight t then Some t
     else (let state = daemonState out t; t = t\<lparr>shown := Some state\<rparr> in case state of
       NoMicrophone \<Rightarrow> do {
         i \<leftarrow> stateIcon (107, 114, 128) (- 1);
         Some (t\<lparr>switchingTimer := False, turnOnEnabled := False, turnOffEnabled := anyControlledUnitActive t,
           openEnabled := controllerActive t, icon := i,
           toolTip := (if microphoneAvailable out then ''Okay Hermes Realtime: microphone not capturing yet''
                       else ''Okay Hermes Realtime: no microphone available'')\<rparr>) }
     | Error \<Rightarrow> do {
         i \<leftarrow> stateIcon (220, 38, 38) (- 1);
         Some (t\<lparr>switchingTimer := False, turnOnEnabled := False, turnOffEnabled := anyControlledUnitActive t,
           openEnabled := controllerActive t, icon := i, toolTip := ''Okay Hermes Realtime: capture or controller error''\<rparr>) }
     | Starting \<Rightarrow> do {
         i \<leftarrow> stateIcon (234, 179, 8) (spinnerFrame t);
         Some (t\<lparr>turnOnEnabled := False, turnOffEnabled := False, openEnabled := controllerActive t,
           switchingTimer := True, icon := i, toolTip := ''Okay Hermes Realtime: starting...''\<rparr>) }
     | ConversationActive \<Rightarrow> do {
         i \<leftarrow> stateIcon (59, 130, 246) (- 1);
         Some (t\<lparr>switchingTimer := False, turnOnEnabled := False, turnOffEnabled := True, openEnabled := False, icon := i,
           toolTip := ''Okay Hermes Realtime: conversation active''\<rparr>) }
     | On \<Rightarrow> do {
         i \<leftarrow> stateIcon (34, 197, 94) (- 1);
         Some (t\<lparr>switchingTimer := False, turnOnEnabled := False, turnOffEnabled := True, openEnabled := True, icon := i,
           toolTip := ''Okay Hermes Realtime: ON''\<rparr>) }
     | Off \<Rightarrow> do {
         i \<leftarrow> stateIcon (239, 68, 68) (- 1);
         Some (t\<lparr>switchingTimer := False, turnOnEnabled := microphoneAvailable out, turnOffEnabled := False,
           openEnabled := False, icon := i, toolTip := ''Okay Hermes Realtime: OFF''\<rparr>) }))"

definition setSwitchingState :: "string \<Rightarrow> tray \<Rightarrow> tray option" where
  "setSwitchingState text t = do {
     i \<leftarrow> stateIcon (234, 179, 8) 0;
     Some (t\<lparr>spinnerFrame := 0, turnOnEnabled := False, turnOffEnabled := False, openEnabled := False, toolTip := text,
       icon := i, switchingTimer := True, shown := None\<rparr>) }"

definition advanceSpinner :: "tray \<Rightarrow> tray option" where
  "advanceSpinner t = (if spinnerFrame t + 1 > INT32_MAX then None else do {
     i \<leftarrow> stateIcon (234, 179, 8) (spinnerFrame t + 1);
     Some (t\<lparr>spinnerFrame := spinnerFrame t + 1, icon := i\<rparr>) })"

section \<open>Units and commands\<close>

definition requestUnitState :: "string \<Rightarrow> tray \<Rightarrow> tray" where
  "requestUnitState unit t = t\<lparr>pending := pending t @ [Get_unit unit]\<rparr>"

definition requestUnitStates :: "tray \<Rightarrow> tray" where
  "requestUnitStates t = requestUnitState kWakewordUnit (requestUnitState kControllerUnit t)"

definition setCachedUnitActive :: "string \<Rightarrow> bool \<Rightarrow> tray \<Rightarrow> tray" where
  "setCachedUnitActive unit active t = (if unit = kControllerUnit then t\<lparr>controllerActive := active\<rparr>
     else if unit = kWakewordUnit then t\<lparr>wakewordActive := active\<rparr> else t)"

text \<open>Answers: \<open>Failed\<close> is an invalid reply.\<close>

datatype answer = Failed | Path string | Value string | Done

definition unit_answered :: "outside \<Rightarrow> string \<Rightarrow> answer \<Rightarrow> tray \<Rightarrow> tray option" where
  "unit_answered out unit a t = (case a of
     Path p \<Rightarrow> if p = [] then refreshState out (setCachedUnitActive unit False t)
       else Some (t\<lparr>pending := pending t @ [Get_active unit]\<rparr>)
   | _ \<Rightarrow> refreshState out (setCachedUnitActive unit False t))"

definition active_answered :: "outside \<Rightarrow> string \<Rightarrow> answer \<Rightarrow> tray \<Rightarrow> tray option" where
  "active_answered out unit a t = refreshState out (setCachedUnitActive unit (a = Value ''active'') t)"

definition runSystemdCommandAt :: "string \<Rightarrow> string list \<Rightarrow> nat \<Rightarrow> tray \<Rightarrow> tray" where
  "runSystemdCommandAt method units index t =
     (if index \<ge> length units then requestUnitStates (t\<lparr>systemdCommandInFlight := False\<rparr>)
      else t\<lparr>pending := pending t @ [Command method units index], sent := sent t @ [(method, units ! index)]\<rparr>)"

definition command_answered :: "string \<Rightarrow> string list \<Rightarrow> nat \<Rightarrow> answer \<Rightarrow> tray \<Rightarrow> tray" where
  "command_answered method units index a t =
     (if a = Failed then requestUnitStates (t\<lparr>warnings := Suc (warnings t), systemdCommandInFlight := False\<rparr>)
      else runSystemdCommandAt method units (Suc index) t)"

definition runSystemdCommandsAsync :: "string \<Rightarrow> string list \<Rightarrow> tray \<Rightarrow> tray" where
  "runSystemdCommandsAsync method units t = (if systemdCommandInFlight t then t
     else runSystemdCommandAt method units 0 (t\<lparr>systemdCommandInFlight := True\<rparr>))"

definition startServices :: "outside \<Rightarrow> tray \<Rightarrow> tray option" where
  "startServices out t = (if \<not> microphoneAvailable out then refreshState out t
     else map_option (runSystemdCommandsAsync ''StartUnit'' [kControllerUnit, kWakewordUnit])
       (setSwitchingState ''Starting replacement services...'' t))"

definition stopServices :: "tray \<Rightarrow> tray option" where
  "stopServices t = map_option (runSystemdCommandsAsync ''StopUnit'' [kWakewordUnit, kControllerUnit])
     (setSwitchingState ''Stopping replacement services...'' t)"

definition openVoicePage :: "tray \<Rightarrow> tray" where
  "openVoicePage t = (if \<not> controllerActive t \<or> openRequestInFlight t then t
     else t\<lparr>openRequestInFlight := True, openEnabled := False, pending := pending t @ [Open_page]\<rparr>)"

definition page_answered :: "outside \<Rightarrow> answer \<Rightarrow> tray \<Rightarrow> tray option" where
  "page_answered out a t =
     refreshState out (t\<lparr>warnings := (if a = Failed then Suc (warnings t) else warnings t), openRequestInFlight := False\<rparr>)"

section \<open>Watching systemd, the files and PulseAudio\<close>

definition scheduleSystemdWatcherRetry :: "tray \<Rightarrow> tray" where
  "scheduleSystemdWatcherRetry t = (if \<not> systemdRetryTimer t then t\<lparr>systemdRetryTimer := True\<rparr> else t)"

definition connectUnitSignals :: "outside \<Rightarrow> string \<Rightarrow> tray \<Rightarrow> bool \<times> tray" where
  "connectUnitSignals out unit t = (let path = systemdUnitObjectPath (letter out) (QStringLiteral unit) in
     if path \<in> set (unitSignalPaths t) then (True, t)
     else if bus_path out path then (True, t\<lparr>unitSignalPaths := unitSignalPaths t @ [path]\<rparr>)
     else (False, t))"

definition setupSystemdWatchers :: "outside \<Rightarrow> tray \<Rightarrow> tray" where
  "setupSystemdWatchers out t = (
     let t = t\<lparr>pending := pending t @ [Subscribe]\<rparr>;
         t = (if \<not> jobRemovedSignalConnected t then t\<lparr>jobRemovedSignalConnected := bus_job_removed out\<rparr> else t);
         t = (if \<not> unitNewSignalConnected t then t\<lparr>unitNewSignalConnected := bus_unit_new out\<rparr> else t);
         t = (if \<not> unitRemovedSignalConnected t then t\<lparr>unitRemovedSignalConnected := bus_unit_removed out\<rparr> else t);
         allConnected = (jobRemovedSignalConnected t \<and> unitNewSignalConnected t \<and> unitRemovedSignalConnected t);
         (c1, t) = connectUnitSignals out kControllerUnit t; allConnected = (c1 \<and> allConnected);
         (c2, t) = connectUnitSignals out kWakewordUnit t; allConnected = (c2 \<and> allConnected) in
     if \<not> allConnected then scheduleSystemdWatcherRetry t else t\<lparr>systemdRetryTimer := False\<rparr>)"

definition subscribe_answered :: "answer \<Rightarrow> tray \<Rightarrow> tray" where
  "subscribe_answered a t = (if a = Failed then scheduleSystemdWatcherRetry t else t)"

definition systemdStateChanged :: "outside \<Rightarrow> tray \<Rightarrow> tray" where
  "systemdStateChanged out t = (
     let (c1, t) = connectUnitSignals out kControllerUnit t;
         (c2, t) = connectUnitSignals out kWakewordUnit t;
         t = (if \<not> (c2 \<and> c1) then scheduleSystemdWatcherRetry t else t) in
     requestUnitStates t)"

text \<open>File names within the state directory; whether the file exists is read from the outside.\<close>

definition addWatch :: "bool \<Rightarrow> string \<Rightarrow> string \<Rightarrow> watcher \<Rightarrow> watcher" where
  "addWatch file_exists directory file w = (
     let w = (if directory \<notin> set (watched_dirs w) then w\<lparr>watched_dirs := watched_dirs w @ [directory]\<rparr> else w) in
     if file_exists \<and> file \<notin> set (watched_files w) then w\<lparr>watched_files := watched_files w @ [file]\<rparr> else w)"

definition setupStateWatchers :: "outside \<Rightarrow> tray \<Rightarrow> tray" where
  "setupStateWatchers out t = t\<lparr>
     captureWatcher := addWatch (capture_file out \<noteq> None) ''.local/state/okay-hermes-realtime'' ''capture-health'' (captureWatcher t),
     controllerWatcher := addWatch (controller_file out \<noteq> None) ''.local/state/okay-hermes-realtime'' ''controller-health'' (controllerWatcher t)\<rparr>"

definition healthChanged :: "outside \<Rightarrow> tray \<Rightarrow> tray option" where
  "healthChanged out t = refreshState out (setupStateWatchers out t)"

text \<open>The two connections to the signals of the audio server that is watched.\<close>

definition reconnectAudioServerSignals :: "outside \<Rightarrow> tray \<Rightarrow> tray" where
  "reconnectAudioServerSignals out t = (
     let a = pulse out; server = (if context_there a \<and> context_ready a then audio_server a else NULL) in
     if server = watchedAudioServer t then t
     else (let t = t\<lparr>audioConnections := [], watchedAudioServer := server\<rparr> in
       case server of None \<Rightarrow> t | Some s \<Rightarrow> t\<lparr>audioConnections := [s, s]\<rparr>))"

definition contextStateChanged :: "outside \<Rightarrow> tray \<Rightarrow> tray option" where
  "contextStateChanged out t = refreshState out (reconnectAudioServerSignals out t)"

section \<open>Construction and events\<close>

definition tray_fields :: tray where
  "tray_fields = \<lparr>controllerActive = False, wakewordActive = False, systemdCommandInFlight = False, openRequestInFlight = False,
     turnOnEnabled = True, turnOffEnabled = True, openEnabled = True, toolTip = ''Okay Hermes Realtime: loading...'',
     icon = ((234, 179, 8), Some 0), spinnerFrame = 0, switchingTimer = False, systemdRetryTimer = False, refreshTimer = False,
     unitSignalPaths = [], jobRemovedSignalConnected = False, unitNewSignalConnected = False, unitRemovedSignalConnected = False,
     watchedAudioServer = NULL, audioConnections = [], captureWatcher = \<lparr>watched_dirs = [], watched_files = []\<rparr>,
     controllerWatcher = \<lparr>watched_dirs = [], watched_files = []\<rparr>, warnings = 0, pending = [], shown = None, sent = []\<rparr>"

definition construct :: "outside \<Rightarrow> tray option" where
  "construct out = map_option (\<lambda>t. t\<lparr>refreshTimer := True\<rparr>)
     (setSwitchingState ''Loading replacement service state...''
       (requestUnitStates (setupSystemdWatchers out (reconnectAudioServerSignals out (setupStateWatchers out tray_fields)))))"

text \<open>A menu action only fires while it is enabled, a timer while it runs, an answer when its call is
  outstanding; the retry timer and the first refresh are single shots.\<close>

datatype event = Turn_on | Turn_off | Open_voice_page | Spinner_timeout | Retry_timeout | Refresh_timeout
  | Answer nat answer | Systemd_signal | Health_changed | Audio_changed | Context_changed

fun possible :: "event \<Rightarrow> tray \<Rightarrow> bool" where
  "possible Turn_on t = turnOnEnabled t"
| "possible Turn_off t = turnOffEnabled t"
| "possible Open_voice_page t = openEnabled t"
| "possible Spinner_timeout t = switchingTimer t"
| "possible Retry_timeout t = systemdRetryTimer t"
| "possible Refresh_timeout t = refreshTimer t"
| "possible (Answer i a) t = (i < length (pending t))"
| "possible _ t = True"

definition drop_call :: "nat \<Rightarrow> tray \<Rightarrow> tray" where
  "drop_call i t = t\<lparr>pending := take i (pending t) @ drop (Suc i) (pending t)\<rparr>"

definition answered :: "outside \<Rightarrow> call \<Rightarrow> answer \<Rightarrow> tray \<Rightarrow> tray option" where
  "answered out c a t = (case c of
     Get_unit unit \<Rightarrow> unit_answered out unit a t
   | Get_active unit \<Rightarrow> active_answered out unit a t
   | Command method units index \<Rightarrow> Some (command_answered method units index a t)
   | Open_page \<Rightarrow> page_answered out a t
   | Subscribe \<Rightarrow> Some (subscribe_answered a t))"

fun handle :: "outside \<Rightarrow> event \<Rightarrow> tray \<Rightarrow> tray option" where
  "handle out Turn_on t = startServices out t"
| "handle out Turn_off t = stopServices t"
| "handle out Open_voice_page t = Some (openVoicePage t)"
| "handle out Spinner_timeout t = advanceSpinner t"
| "handle out Retry_timeout t = Some (setupSystemdWatchers out (t\<lparr>systemdRetryTimer := False\<rparr>))"
| "handle out Refresh_timeout t = refreshState out (t\<lparr>refreshTimer := False\<rparr>)"
| "handle out (Answer i a) t = answered out (pending t ! i) a (drop_call i t)"
| "handle out Systemd_signal t = Some (systemdStateChanged out t)"
| "handle out Health_changed t = healthChanged out t"
| "handle out Audio_changed t = refreshState out t"
| "handle out Context_changed t = contextStateChanged out t"

inductive tray_step :: "tray \<Rightarrow> outside \<times> event \<Rightarrow> tray \<Rightarrow> bool" where
  react: "possible ev t \<Longrightarrow> handle out ev t = Some t' \<Longrightarrow> tray_step t (out, ev) t'"

inductive_cases tray_stepE: "tray_step t (out, ev) t'"

definition tray_init :: "tray \<Rightarrow> bool" where
  "tray_init t \<longleftrightarrow> (\<exists>out. construct out = Some t)"

section \<open>Calls and commands\<close>

text \<open>The commands of one click: start the controller, then the listener; stop them in the other order.\<close>

definition click :: "string \<Rightarrow> string list \<Rightarrow> bool" where
  "click method units \<longleftrightarrow> method = ''StartUnit'' \<and> units = [kControllerUnit, kWakewordUnit] \<or>
     method = ''StopUnit'' \<and> units = [kWakewordUnit, kControllerUnit]"

text \<open>A history of commands is orderly when it is a sequence of clicks, each carried out from its
  first command on, completely or up to a failure, and never interleaved with another.\<close>

inductive orderly :: "(string \<times> string) list \<Rightarrow> bool" where
  orderly_nil: "orderly []"
| orderly_click: "orderly cmds \<Longrightarrow> click method units \<Longrightarrow> 0 < n \<Longrightarrow> orderly (cmds @ map (Pair method) (take n units))"

fun is_command :: "call \<Rightarrow> bool" where
  "is_command (Command m us i) = True" | "is_command _ = False"

fun is_state_request :: "call \<Rightarrow> bool" where
  "is_state_request (Get_unit u) = True" | "is_state_request (Get_active u) = True" | "is_state_request _ = False"

fun command_ok :: "(string \<times> string) list \<Rightarrow> call \<Rightarrow> bool" where
  "command_ok cmds (Command m us i) = (click m us \<and> i < length us \<and>
     (\<exists>old. orderly old \<and> cmds = old @ map (Pair m) (take (Suc i) us)))"
| "command_ok cmds _ = True"

definition calls_inv :: "tray \<Rightarrow> bool" where
  "calls_inv t \<longleftrightarrow> length (filter is_command (pending t)) = of_bool (systemdCommandInFlight t) \<and>
     length (filter (\<lambda>c. c = Open_page) (pending t)) = of_bool (openRequestInFlight t) \<and>
     orderly (sent t) \<and> list_all (command_ok (sent t)) (pending t)"

definition ui_inv :: "tray \<Rightarrow> bool" where
  "ui_inv t \<longleftrightarrow> \<not> (turnOnEnabled t \<and> turnOffEnabled t) \<and>
     (systemdCommandInFlight t \<longrightarrow> \<not> turnOnEnabled t \<and> \<not> turnOffEnabled t \<and> \<not> openEnabled t) \<and>
     (turnOnEnabled t \<longrightarrow> shown t = Some Off) \<and>
     (shown t = None \<longrightarrow> systemdCommandInFlight t \<or> refreshTimer t \<or> list_ex is_state_request (pending t))"

definition watch_inv :: "tray \<Rightarrow> bool" where
  "watch_inv t \<longleftrightarrow> distinct (unitSignalPaths t) \<and>
     audioConnections t = (case watchedAudioServer t of None \<Rightarrow> [] | Some s \<Rightarrow> [s, s]) \<and>
     distinct (watched_dirs (captureWatcher t)) \<and> distinct (watched_files (captureWatcher t)) \<and>
     distinct (watched_dirs (controllerWatcher t)) \<and> distinct (watched_files (controllerWatcher t))"

text \<open>What a refresh changes: only the display, and nothing while a command is in flight.\<close>

definition same_work :: "tray \<Rightarrow> tray \<Rightarrow> bool" where
  "same_work t t' \<longleftrightarrow> pending t' = pending t \<and> systemdCommandInFlight t' = systemdCommandInFlight t \<and>
     openRequestInFlight t' = openRequestInFlight t \<and> sent t' = sent t \<and> refreshTimer t' = refreshTimer t \<and>
     unitSignalPaths t' = unitSignalPaths t \<and> audioConnections t' = audioConnections t \<and> watchedAudioServer t' = watchedAudioServer t \<and>
     captureWatcher t' = captureWatcher t \<and> controllerWatcher t' = controllerWatcher t"

lemma same_work_invs:
  "same_work t t' \<Longrightarrow> calls_inv t \<Longrightarrow> calls_inv t'" "same_work t t' \<Longrightarrow> watch_inv t \<Longrightarrow> watch_inv t'"
  by (simp_all add: same_work_def calls_inv_def watch_inv_def)

lemma refreshState_spec:
  assumes "refreshState out t = Some t'"
  shows "same_work t t'" "systemdCommandInFlight t \<Longrightarrow> t' = t"
    "\<not> systemdCommandInFlight t \<Longrightarrow> shown t' = Some (daemonState out t) \<and> \<not> (turnOnEnabled t' \<and> turnOffEnabled t') \<and>
       (turnOnEnabled t' \<longrightarrow> shown t' = Some Off)"
  using assms
  by (auto simp: refreshState_def same_work_def Let_def bind_eq_Some_conv split: if_splits DaemonState.splits)

lemma refreshState_keeps:
  assumes "refreshState out t = Some t'" "calls_inv t" "watch_inv t" "systemdCommandInFlight t \<Longrightarrow> ui_inv t"
  shows "calls_inv t' \<and> watch_inv t' \<and> ui_inv t'"
  using refreshState_spec [OF assms(1)] same_work_invs [of t t'] assms(2-4)
  by (cases "systemdCommandInFlight t") (auto simp: ui_inv_def same_work_def)

lemma setCachedUnitActive_invs [simp]:
  "calls_inv (setCachedUnitActive u b t) = calls_inv t" "watch_inv (setCachedUnitActive u b t) = watch_inv t"
  "ui_inv (setCachedUnitActive u b t) = ui_inv t" "systemdCommandInFlight (setCachedUnitActive u b t) = systemdCommandInFlight t"
  by (simp_all add: setCachedUnitActive_def calls_inv_def watch_inv_def ui_inv_def)

lemma requestUnitStates_invs:
  "calls_inv t \<Longrightarrow> calls_inv (requestUnitStates t)" "watch_inv t \<Longrightarrow> watch_inv (requestUnitStates t)"
  "ui_inv t \<Longrightarrow> ui_inv (requestUnitStates t)"
  by (auto simp: requestUnitStates_def requestUnitState_def calls_inv_def watch_inv_def ui_inv_def)


lemma length_filter_drop_call:
  "i < length (pending t) \<Longrightarrow> length (filter P (pending (drop_call i t))) + of_bool (P (pending t ! i)) = length (filter P (pending t))"
  using id_take_nth_drop [of i "pending t", THEN arg_cong [of _ _ "\<lambda>cs. length (filter P cs)"]]
  by (simp add: drop_call_def)

lemma set_drop_call: "i < length (pending t) \<Longrightarrow> set (pending (drop_call i t)) \<subseteq> set (pending t)"
  by (auto simp: drop_call_def dest: in_set_takeD in_set_dropD)

lemma drop_call_fields [simp]:
  "systemdCommandInFlight (drop_call i t) = systemdCommandInFlight t" "openRequestInFlight (drop_call i t) = openRequestInFlight t"
  "sent (drop_call i t) = sent t" "watch_inv (drop_call i t) = watch_inv t" "spinnerFrame (drop_call i t) = spinnerFrame t"
  "systemdCommandInFlight t \<Longrightarrow> ui_inv (drop_call i t) = ui_inv t"
  by (simp_all add: drop_call_def watch_inv_def ui_inv_def)

lemma drop_call_ok:
  assumes "calls_inv t" "i < length (pending t)"
  shows "list_all (command_ok (sent t)) (pending (drop_call i t))" "command_ok (sent t) (pending t ! i)"
  using assms set_drop_call [OF assms(2)] by (auto simp: calls_inv_def list_all_iff)

lemma drop_state_request:
  assumes "calls_inv t" "i < length (pending t)" "\<not> is_command (pending t ! i)" "pending t ! i \<noteq> Open_page"
  shows "calls_inv (drop_call i t)"
  using assms drop_call_ok [OF assms(1,2)] length_filter_drop_call [OF assms(2), of is_command]
    length_filter_drop_call [OF assms(2), of "\<lambda>c. c = Open_page"]
  by (simp add: calls_inv_def)

lemma drop_command:
  assumes "calls_inv t" "i < length (pending t)" "is_command (pending t ! i)"
  shows "systemdCommandInFlight t" "filter is_command (pending (drop_call i t)) = []"
    "length (filter (\<lambda>c. c = Open_page) (pending (drop_call i t))) = of_bool (openRequestInFlight t)"
proof -
  have n: "pending t ! i \<noteq> Open_page" using assms(3) by auto
  have "length (filter is_command (pending (drop_call i t))) + 1 = of_bool (systemdCommandInFlight t)"
    using assms length_filter_drop_call [OF assms(2), of is_command] by (simp add: calls_inv_def)
  then show "systemdCommandInFlight t" "filter is_command (pending (drop_call i t)) = []"
    by (cases "systemdCommandInFlight t"; simp)+
  show "length (filter (\<lambda>c. c = Open_page) (pending (drop_call i t))) = of_bool (openRequestInFlight t)"
    using assms n length_filter_drop_call [OF assms(2), of "\<lambda>c. c = Open_page"] by (simp add: calls_inv_def)
qed

text \<open>The commands of the current click are the last of the history.\<close>

lemma no_commands_ok: "filter is_command cs = [] \<Longrightarrow> list_all (command_ok cmds) cs"
proof (induction cs)
  case (Cons c cs)
  then show ?case by (cases c) (auto split: if_splits)
qed simp

lemma next_command:
  assumes "command_ok cmds (Command m us i)" "Suc i < length us"
  shows "orderly (cmds @ [(m, us ! Suc i)])" "command_ok (cmds @ [(m, us ! Suc i)]) (Command m us (Suc i))"
proof -
  obtain old where o: "orderly old" "cmds = old @ map (Pair m) (take (Suc i) us)" "click m us" using assms(1) by auto
  have e: "cmds @ [(m, us ! Suc i)] = old @ map (Pair m) (take (Suc (Suc i)) us)"
    using o(2) assms(2) by (simp add: take_Suc_conv_app_nth)
  show "orderly (cmds @ [(m, us ! Suc i)])" unfolding e by (rule orderly_click [OF o(1,3)]) simp
  show "command_ok (cmds @ [(m, us ! Suc i)]) (Command m us (Suc i))" using e o assms(2) by auto
qed

lemma first_command:
  assumes "orderly cmds" "click m us"
  shows "orderly (cmds @ [(m, us ! 0)])" "command_ok (cmds @ [(m, us ! 0)]) (Command m us 0)"
proof -
  have l: "0 < length us" using assms(2) by (auto simp: click_def)
  have e: "cmds @ [(m, us ! 0)] = cmds @ map (Pair m) (take (Suc 0) us)" using l by (simp add: take_Suc_conv_app_nth)
  show "orderly (cmds @ [(m, us ! 0)])" unfolding e by (rule orderly_click [OF assms]) simp
  show "command_ok (cmds @ [(m, us ! 0)]) (Command m us 0)" using e assms l by auto
qed

text \<open>Carrying on with a click after an answer, and starting one.\<close>

lemma command_finished:
  assumes "calls_inv t" "watch_inv t" "ui_inv t" "i < length (pending t)" "is_command (pending t ! i)"
    and t1: "t1 = (drop_call i t)\<lparr>systemdCommandInFlight := False\<rparr> \<or>
      t1 = (drop_call i t)\<lparr>warnings := w, systemdCommandInFlight := False\<rparr>"
  shows "calls_inv (requestUnitStates t1) \<and> watch_inv (requestUnitStates t1) \<and> ui_inv (requestUnitStates t1)"
proof -
  have d: "orderly (sent t)" using assms(1) by (simp add: calls_inv_def)
  have "calls_inv t1" using t1 drop_command [OF assms(1,4,5)] d no_commands_ok by (auto simp: calls_inv_def)
  moreover have "watch_inv t1" using t1 assms(2) by (auto simp: watch_inv_def drop_call_def)
  moreover have "ui_inv (requestUnitStates t1)" using t1 assms(3) drop_command(1) [OF assms(1,4,5)]
    by (auto simp: ui_inv_def requestUnitStates_def requestUnitState_def drop_call_def)
  ultimately show ?thesis by (simp add: requestUnitStates_invs)
qed

lemma command_answered_keeps:
  assumes "calls_inv t" "watch_inv t" "ui_inv t" "i < length (pending t)" and c: "pending t ! i = Command m us k"
    and "t' = command_answered m us k a (drop_call i t)"
  shows "calls_inv t' \<and> watch_inv t' \<and> ui_inv t'"
proof -
  have ic: "is_command (pending t ! i)" using c by simp
  note d = drop_command [OF assms(1,4) ic]
  have ok: "command_ok (sent t) (Command m us k)" using drop_call_ok(2) [OF assms(1,4)] c by simp
  consider "a = Failed \<or> Suc k \<ge> length us" | "a \<noteq> Failed" "Suc k < length us" by linarith
  then show ?thesis
  proof cases
    case 1
    define d where "d = drop_call i t"
    from 1 have "t' = requestUnitStates (d\<lparr>systemdCommandInFlight := False\<rparr>) \<or>
        t' = requestUnitStates (d\<lparr>warnings := Suc (warnings d), systemdCommandInFlight := False\<rparr>)"
      unfolding assms(6) d_def [symmetric] by (auto simp: command_answered_def runSystemdCommandAt_def)
    then show ?thesis using command_finished [OF assms(1-4) ic] unfolding d_def by blast
  next
    case 2
    have t': "t' = (drop_call i t)\<lparr>pending := pending (drop_call i t) @ [Command m us (Suc k)], sent := sent t @ [(m, us ! Suc k)]\<rparr>"
      using 2 unfolding assms(6) by (simp add: command_answered_def runSystemdCommandAt_def)
    note n = next_command [OF ok 2(2)]
    have "calls_inv t'" using d n no_commands_ok [OF d(2), of "sent t @ [(m, us ! Suc k)]"] unfolding t' by (simp add: calls_inv_def)
    moreover have "watch_inv t'" using assms(2) unfolding t' by (simp add: watch_inv_def drop_call_def)
    moreover have "ui_inv t'" using assms(3) d(1) unfolding t' by (simp add: ui_inv_def drop_call_def)
    ultimately show ?thesis by simp
  qed
qed

lemma runSystemdCommandsAsync_keeps:
  assumes "calls_inv t" "watch_inv t" "\<not> systemdCommandInFlight t" "click m us"
    "\<not> turnOnEnabled t" "\<not> turnOffEnabled t" "\<not> openEnabled t" and t': "t' = runSystemdCommandsAsync m us t"
  shows "calls_inv t' \<and> watch_inv t' \<and> ui_inv t'"
proof -
  have l: "us \<noteq> []" using assms(4) by (auto simp: click_def)
  have e: "t' = t\<lparr>systemdCommandInFlight := True, pending := pending t @ [Command m us 0], sent := sent t @ [(m, us ! 0)]\<rparr>"
    using assms(3) l unfolding t' by (simp add: runSystemdCommandsAsync_def runSystemdCommandAt_def)
  have "filter is_command (pending t) = []" "orderly (sent t)" using assms(1,3) by (simp_all add: calls_inv_def)
  then have "calls_inv t'" using assms(1) first_command [of "sent t" m us] assms(4) no_commands_ok [of "pending t" "sent t @ [(m, us ! 0)]"]
    unfolding e by (simp add: calls_inv_def)
  moreover have "watch_inv t'" "ui_inv t'" using assms(2,5-7) unfolding e by (simp_all add: watch_inv_def ui_inv_def)
  ultimately show ?thesis by simp
qed

text \<open>Handlers that only watch: they may ask systemd something, and touch neither commands nor display.\<close>

definition watching :: "tray \<Rightarrow> tray \<Rightarrow> bool" where
  "watching t t' \<longleftrightarrow> (\<exists>cs. pending t' = pending t @ cs \<and> list_all (\<lambda>c. \<not> is_command c \<and> c \<noteq> Open_page) cs) \<and>
     systemdCommandInFlight t' = systemdCommandInFlight t \<and> openRequestInFlight t' = openRequestInFlight t \<and> sent t' = sent t \<and>
     turnOnEnabled t' = turnOnEnabled t \<and> turnOffEnabled t' = turnOffEnabled t \<and> openEnabled t' = openEnabled t \<and>
     shown t' = shown t \<and> refreshTimer t' = refreshTimer t"

lemma watching_refl [intro]: "watching t t"
  by (simp add: watching_def)

lemma watching_trans [trans]:
  assumes "watching t t'" "watching t' t''"
  shows "watching t t''"
proof -
  obtain cs where "pending t' = pending t @ cs" "list_all (\<lambda>c. \<not> is_command c \<and> c \<noteq> Open_page) cs"
    using assms(1) by (auto simp: watching_def)
  moreover obtain cs' where "pending t'' = pending t' @ cs'" "list_all (\<lambda>c. \<not> is_command c \<and> c \<noteq> Open_page) cs'"
    using assms(2) by (auto simp: watching_def)
  ultimately have "\<exists>cs. pending t'' = pending t @ cs \<and> list_all (\<lambda>c. \<not> is_command c \<and> c \<noteq> Open_page) cs"
    by (intro exI [of _ "cs @ cs'"]) simp
  then show ?thesis using assms unfolding watching_def by simp
qed

lemma watching_invs:
  assumes "watching t t'"
  shows "calls_inv t \<Longrightarrow> calls_inv t'" "ui_inv t \<Longrightarrow> ui_inv t'"
proof -
  obtain cs where cs: "pending t' = pending t @ cs" "list_all (\<lambda>c. \<not> is_command c \<and> c \<noteq> Open_page) cs"
    using assms by (auto simp: watching_def)
  have f: "filter is_command cs = []" "filter (\<lambda>c. c = Open_page) cs = []"
    using cs(2) by (induction cs) auto
  show "calls_inv t \<Longrightarrow> calls_inv t'" "ui_inv t \<Longrightarrow> ui_inv t'"
    using assms cs(1) f no_commands_ok [OF f(1), of "sent t"] by (auto simp: watching_def calls_inv_def ui_inv_def)
qed

lemma scheduleSystemdWatcherRetry_watching [simp, intro]:
  "watching t (scheduleSystemdWatcherRetry t)" "watch_inv (scheduleSystemdWatcherRetry t) = watch_inv t"
  by (auto simp: scheduleSystemdWatcherRetry_def watching_def watch_inv_def)

lemma connectUnitSignals_watching:
  assumes "connectUnitSignals out u t = (b, t')"
  shows "watching t t'" "watch_inv t \<Longrightarrow> watch_inv t'"
  using assms by (auto simp: connectUnitSignals_def Let_def watching_def watch_inv_def split: if_splits)

lemma requestUnitStates_watching: "watching t (requestUnitStates t)"
  by (simp add: watching_def requestUnitStates_def requestUnitState_def)

lemma systemdStateChanged_watching:
  assumes "t' = systemdStateChanged out t"
  shows "watching t t'" "watch_inv t \<Longrightarrow> watch_inv t'"
proof -
  obtain c1 t1 c2 t2 where c: "connectUnitSignals out kControllerUnit t = (c1, t1)" "connectUnitSignals out kWakewordUnit t1 = (c2, t2)"
    by (metis surj_pair)
  let ?t3 = "if \<not> (c2 \<and> c1) then scheduleSystemdWatcherRetry t2 else t2"
  have t': "t' = requestUnitStates ?t3" using assms c by (simp add: systemdStateChanged_def)
  have "watching t t1" "watching t1 t2" using connectUnitSignals_watching c by blast+
  moreover have "watching t2 ?t3" by auto
  ultimately show "watching t t'" unfolding t' using requestUnitStates_watching watching_trans by blast
  show "watch_inv t'" if "watch_inv t"
    using that connectUnitSignals_watching(2) [OF c(1)] connectUnitSignals_watching(2) [OF c(2)] unfolding t'
    by (simp add: requestUnitStates_invs)
qed

lemma if_either: "(if b then x else y) = x \<or> (if b then x else y) = y"
  by simp

lemma setupSystemdWatchers_watching:
  assumes "t' = setupSystemdWatchers out t"
  shows "watching t t'" "watch_inv t \<Longrightarrow> watch_inv t'"
proof -
  let ?t0 = "t\<lparr>pending := pending t @ [Subscribe]\<rparr>"
  let ?a = "if \<not> jobRemovedSignalConnected ?t0 then ?t0\<lparr>jobRemovedSignalConnected := bus_job_removed out\<rparr> else ?t0"
  let ?b = "if \<not> unitNewSignalConnected ?a then ?a\<lparr>unitNewSignalConnected := bus_unit_new out\<rparr> else ?a"
  let ?c = "if \<not> unitRemovedSignalConnected ?b then ?b\<lparr>unitRemovedSignalConnected := bus_unit_removed out\<rparr> else ?b"
  obtain c1 t1 c2 t2 where c: "connectUnitSignals out kControllerUnit ?c = (c1, t1)" "connectUnitSignals out kWakewordUnit t1 = (c2, t2)"
    by (metis surj_pair)
  have s: "watching t ?c" "watch_inv t \<Longrightarrow> watch_inv ?c" by (auto simp: watching_def watch_inv_def)
  have "t' = scheduleSystemdWatcherRetry t2 \<or> t' = t2\<lparr>systemdRetryTimer := False\<rparr>"
    unfolding assms setupSystemdWatchers_def Let_def c prod.case by (rule if_either)
  moreover have "watching t2 (t2\<lparr>systemdRetryTimer := False\<rparr>)" "watch_inv (t2\<lparr>systemdRetryTimer := False\<rparr>) = watch_inv t2"
    by (simp_all add: watching_def watch_inv_def)
  ultimately have e: "watching t2 t'" "watch_inv t2 \<Longrightarrow> watch_inv t'"
    using scheduleSystemdWatcherRetry_watching [of t2] by auto
  show "watching t t'" using s(1) e(1) connectUnitSignals_watching(1) [OF c(1)] connectUnitSignals_watching(1) [OF c(2)] watching_trans by meson
  show "watch_inv t'" if "watch_inv t"
    using that s(2) e(2) connectUnitSignals_watching(2) [OF c(1)] connectUnitSignals_watching(2) [OF c(2)] by meson
qed

lemma addWatch_distinct:
  assumes "w' = addWatch b d f w"
  shows "distinct (watched_dirs w) \<Longrightarrow> distinct (watched_dirs w')" "distinct (watched_files w) \<Longrightarrow> distinct (watched_files w')"
  using assms by (auto simp: addWatch_def Let_def)

lemma setupStateWatchers_watching:
  "watching t (setupStateWatchers out t)" "watch_inv t \<Longrightarrow> watch_inv (setupStateWatchers out t)"
  by (simp_all add: setupStateWatchers_def watching_def watch_inv_def addWatch_distinct [OF refl])

lemma reconnectAudioServerSignals_watching:
  "watching t (reconnectAudioServerSignals out t)" "watch_inv t \<Longrightarrow> watch_inv (reconnectAudioServerSignals out t)"
  by (auto simp: reconnectAudioServerSignals_def watching_def watch_inv_def Let_def split: option.splits)

section \<open>Every event keeps the invariants\<close>

definition tray_inv :: "tray \<Rightarrow> bool" where
  "tray_inv t \<longleftrightarrow> calls_inv t \<and> watch_inv t \<and> ui_inv t"

lemma watching_keeps: "watching t t' \<Longrightarrow> (watch_inv t \<Longrightarrow> watch_inv t') \<Longrightarrow> tray_inv t \<Longrightarrow> tray_inv t'"
  using watching_invs by (simp add: tray_inv_def)

lemma refresh_keeps:
  "refreshState out t = Some t' \<Longrightarrow> calls_inv t \<Longrightarrow> watch_inv t \<Longrightarrow> (systemdCommandInFlight t \<Longrightarrow> ui_inv t) \<Longrightarrow> tray_inv t'"
  using refreshState_keeps by (simp add: tray_inv_def)

lemma setSwitchingState_spec:
  assumes "setSwitchingState text t = Some t'"
  shows "calls_inv t' = calls_inv t" "watch_inv t' = watch_inv t" "systemdCommandInFlight t' = systemdCommandInFlight t"
    "\<not> turnOnEnabled t'" "\<not> turnOffEnabled t'" "\<not> openEnabled t'" "shown t' = None"
proof -
  obtain i where t': "t' = t\<lparr>spinnerFrame := 0, turnOnEnabled := False, turnOffEnabled := False, openEnabled := False, toolTip := text,
       icon := i, switchingTimer := True, shown := None\<rparr>"
    using assms by (auto simp: setSwitchingState_def bind_eq_Some_conv)
  show "calls_inv t' = calls_inv t" "watch_inv t' = watch_inv t" "systemdCommandInFlight t' = systemdCommandInFlight t"
    "\<not> turnOnEnabled t'" "\<not> turnOffEnabled t'" "\<not> openEnabled t'" "shown t' = None"
    unfolding t' by (simp_all add: calls_inv_def watch_inv_def)
qed

lemma clicked_keeps:
  assumes "tray_inv t" "\<not> systemdCommandInFlight t" "click m us"
    and t': "map_option (runSystemdCommandsAsync m us) (setSwitchingState text t) = Some t'"
  shows "tray_inv t'"
proof -
  obtain t1 where t1: "setSwitchingState text t = Some t1" "t' = runSystemdCommandsAsync m us t1" using t' by auto
  show ?thesis using assms(1-3) runSystemdCommandsAsync_keeps [OF _ _ _ assms(3) _ _ _ t1(2)] setSwitchingState_spec [OF t1(1)]
    by (simp add: tray_inv_def)
qed

lemma startServices_keeps:
  assumes "tray_inv t" "turnOnEnabled t" "startServices out t = Some t'"
  shows "tray_inv t'"
proof (cases "microphoneAvailable out")
  case True
  have "\<not> systemdCommandInFlight t" using assms(1,2) by (auto simp: tray_inv_def ui_inv_def)
  then show ?thesis using True assms(3) clicked_keeps [OF assms(1), of "''StartUnit''" "[kControllerUnit, kWakewordUnit]"]
    by (simp add: startServices_def click_def)
next
  case False
  then show ?thesis using assms refresh_keeps by (simp add: startServices_def tray_inv_def)
qed

lemma stopServices_keeps:
  assumes "tray_inv t" "turnOffEnabled t" "stopServices t = Some t'"
  shows "tray_inv t'"
proof -
  have "\<not> systemdCommandInFlight t" using assms(1,2) by (auto simp: tray_inv_def ui_inv_def)
  then show ?thesis using assms(3) clicked_keeps [OF assms(1), of "''StopUnit''" "[kWakewordUnit, kControllerUnit]"]
    by (simp add: stopServices_def click_def)
qed

lemma openVoicePage_keeps: "tray_inv t \<Longrightarrow> tray_inv (openVoicePage t)"
  by (cases "\<not> controllerActive t \<or> openRequestInFlight t")
    (simp_all add: openVoicePage_def tray_inv_def calls_inv_def watch_inv_def ui_inv_def)

lemma advanceSpinner_keeps:
  assumes "tray_inv t" "advanceSpinner t = Some t'"
  shows "tray_inv t'"
proof -
  obtain n i where "t' = t\<lparr>spinnerFrame := n, icon := i\<rparr>"
    using assms(2) by (auto simp: advanceSpinner_def bind_eq_Some_conv split: if_splits)
  then show ?thesis using assms(1) by (simp add: tray_inv_def calls_inv_def watch_inv_def ui_inv_def)
qed

lemma refresh_timeout_keeps: "tray_inv t \<Longrightarrow> refreshState out (t\<lparr>refreshTimer := False\<rparr>) = Some t' \<Longrightarrow> tray_inv t'"
  by (drule refresh_keeps) (simp_all add: tray_inv_def calls_inv_def watch_inv_def ui_inv_def)

text \<open>The answers.\<close>

lemma state_request_keeps:
  assumes "tray_inv t" "i < length (pending t)" "\<not> is_command (pending t ! i)" "pending t ! i \<noteq> Open_page"
    and t': "refreshState out (setCachedUnitActive u b (drop_call i t)) = Some t' \<or>
      t' = (drop_call i t)\<lparr>pending := pending (drop_call i t) @ [Get_active u]\<rparr>"
  shows "tray_inv t'"
proof -
  have d: "calls_inv (drop_call i t)" using assms drop_state_request by (simp add: tray_inv_def)
  from t' show ?thesis
  proof
    assume "refreshState out (setCachedUnitActive u b (drop_call i t)) = Some t'"
    then show ?thesis by (rule refresh_keeps) (use assms(1) d in \<open>simp_all add: tray_inv_def\<close>)
  next
    assume e: "t' = (drop_call i t)\<lparr>pending := pending (drop_call i t) @ [Get_active u]\<rparr>"
    show ?thesis using assms(1) d unfolding e
      by (auto simp: tray_inv_def calls_inv_def watch_inv_def ui_inv_def drop_call_def)
  qed
qed

lemma page_answered_keeps:
  assumes "tray_inv t" "i < length (pending t)" "pending t ! i = Open_page" "page_answered out a (drop_call i t) = Some t'"
  shows "tray_inv t'"
proof (rule refresh_keeps [OF assms(4) [unfolded page_answered_def]])
  have c: "calls_inv t" using assms(1) by (simp add: tray_inv_def)
  have "length (filter (\<lambda>c. c = Open_page) (pending (drop_call i t))) + 1 = of_bool (openRequestInFlight t)"
    using c assms(3) length_filter_drop_call [OF assms(2), of "\<lambda>c. c = Open_page"] by (simp add: calls_inv_def)
  then have "filter (\<lambda>c. c = Open_page) (pending (drop_call i t)) = []" by (cases "openRequestInFlight t") simp_all
  then show "calls_inv ((drop_call i t)\<lparr>warnings := (if a = Failed then Suc (warnings (drop_call i t)) else warnings (drop_call i t)),
      openRequestInFlight := False\<rparr>)"
    using c assms(3) length_filter_drop_call [OF assms(2), of is_command] drop_call_ok(1) [OF c assms(2)] by (simp add: calls_inv_def)
qed (use assms(1) in \<open>auto simp: tray_inv_def watch_inv_def ui_inv_def drop_call_def\<close>)

lemma subscribe_answered_keeps:
  assumes "tray_inv t" "i < length (pending t)" "pending t ! i = Subscribe"
  shows "tray_inv (subscribe_answered a (drop_call i t))"
proof -
  have "list_ex is_state_request (pending (drop_call i t)) = list_ex is_state_request (pending t)"
    using assms(2,3) length_filter_drop_call [OF assms(2), of is_state_request]
    by (simp add: list_ex_iff flip: filter_empty_conv) (metis length_greater_0_conv filter_empty_conv)
  then have "tray_inv (drop_call i t)" using assms drop_state_request [of t i] by (simp add: tray_inv_def ui_inv_def drop_call_def watch_inv_def)
  then show ?thesis by (auto simp: subscribe_answered_def intro: watching_keeps)
qed

lemma answered_keeps:
  assumes "tray_inv t" "i < length (pending t)" "answered out (pending t ! i) a (drop_call i t) = Some t'"
  shows "tray_inv t'"
proof (cases "pending t ! i")
  case (Get_unit u)
  then show ?thesis using assms state_request_keeps [OF assms(1,2), of out u False]
    by (auto simp: answered_def unit_answered_def split: answer.splits if_splits)
next
  case (Get_active u)
  then show ?thesis using assms state_request_keeps [OF assms(1,2)] by (auto simp: answered_def active_answered_def)
next
  case (Command m us k)
  then show ?thesis using assms command_answered_keeps [of t i m us k t' a] by (auto simp: answered_def tray_inv_def)
next
  case Open_page
  then show ?thesis using assms page_answered_keeps by (simp add: answered_def)
next
  case Subscribe
  then show ?thesis using assms subscribe_answered_keeps by (auto simp: answered_def)
qed

lemma handle_keeps:
  assumes "tray_inv t" "possible ev t" "handle out ev t = Some t'"
  shows "tray_inv t'"
proof (cases ev)
  case Retry_timeout
  have "tray_inv (t\<lparr>systemdRetryTimer := False\<rparr>)" using assms(1) by (simp add: tray_inv_def calls_inv_def watch_inv_def ui_inv_def)
  then show ?thesis using Retry_timeout assms(3) watching_keeps setupSystemdWatchers_watching by fastforce
next
  case Systemd_signal
  then show ?thesis using assms watching_keeps systemdStateChanged_watching by fastforce
next
  case Health_changed
  then show ?thesis using assms watching_keeps [OF setupStateWatchers_watching] refresh_keeps by (simp add: healthChanged_def tray_inv_def)
next
  case Context_changed
  then show ?thesis using assms watching_keeps [OF reconnectAudioServerSignals_watching] refresh_keeps by (simp add: contextStateChanged_def tray_inv_def)
next
  case (Answer i a)
  then show ?thesis using assms answered_keeps by simp
next
  case Refresh_timeout
  then show ?thesis using assms(1,3) refresh_timeout_keeps by simp
next
  case Audio_changed
  then show ?thesis using assms(1,3) refresh_keeps by (simp add: tray_inv_def)
next
  case Spinner_timeout
  then show ?thesis using assms(1,3) advanceSpinner_keeps by simp
next
  case Open_voice_page
  then show ?thesis using assms(1,3) openVoicePage_keeps by auto
next
  case Turn_on
  then show ?thesis using assms startServices_keeps by simp
next
  case Turn_off
  then show ?thesis using assms stopServices_keeps by simp
qed

lemma construct_keeps:
  assumes "construct out = Some t"
  shows "tray_inv t"
proof -
  let ?t = "requestUnitStates (setupSystemdWatchers out (reconnectAudioServerSignals out (setupStateWatchers out tray_fields)))"
  have "calls_inv tray_fields" "watch_inv tray_fields" by (simp_all add: tray_fields_def calls_inv_def watch_inv_def orderly_nil)
  then have "calls_inv ?t" "watch_inv ?t"
    using watching_invs(1) setupStateWatchers_watching reconnectAudioServerSignals_watching setupSystemdWatchers_watching [OF refl]
      requestUnitStates_invs by (metis, metis)
  moreover obtain t1 where t1: "setSwitchingState ''Loading replacement service state...'' ?t = Some t1" "t = t1\<lparr>refreshTimer := True\<rparr>"
    using assms by (auto simp: construct_def)
  have "calls_inv t1 = calls_inv t" "watch_inv t1 = watch_inv t" using t1(2) by (simp_all add: calls_inv_def watch_inv_def)
  ultimately show ?thesis using setSwitchingState_spec [OF t1(1)] t1(2) by (simp add: tray_inv_def ui_inv_def)
qed

interpretation controller: inductive_invariant tray_init tray_step tray_inv
proof
  show "tray_init t \<Longrightarrow> tray_inv t" for t using construct_keeps by (auto simp: tray_init_def)
  show "tray_inv t \<Longrightarrow> tray_step t a t' \<Longrightarrow> tray_inv t'" for t a t' using handle_keeps by (auto elim: tray_step.cases)
qed

section \<open>Answers settle the work\<close>

fun is_answer :: "outside \<times> event \<Rightarrow> bool" where
  "is_answer (out, Answer i a) = True" | "is_answer (out, ev) = False"

fun call_work :: "call \<Rightarrow> nat" where
  "call_work (Get_unit u) = 2"
| "call_work (Get_active u) = 1"
| "call_work (Command m us i) = (length us - i) + 4"
| "call_work Open_page = 1"
| "call_work Subscribe = 1"

definition work_left :: "tray \<Rightarrow> nat" where
  "work_left t = sum_list (map call_work (pending t))"

definition answer_step :: "tray \<Rightarrow> outside \<times> event \<Rightarrow> tray \<Rightarrow> bool" where
  "answer_step t a t' \<longleftrightarrow> tray_step t a t' \<and> is_answer a"

lemma work_left_drop_call:
  "i < length (pending t) \<Longrightarrow> work_left (drop_call i t) + call_work (pending t ! i) = work_left t"
  using id_take_nth_drop [of i "pending t", THEN arg_cong [of _ _ "\<lambda>cs. sum_list (map call_work cs)"]]
  by (simp add: drop_call_def work_left_def)

lemma work_left_refresh: "refreshState out t = Some t' \<Longrightarrow> work_left t' = work_left t"
  using refreshState_spec(1) by (simp add: work_left_def same_work_def)

lemma work_left_simps [simp]:
  "work_left (setCachedUnitActive u b t) = work_left t" "work_left (scheduleSystemdWatcherRetry t) = work_left t"
  "work_left (requestUnitStates t) = work_left t + 4"
  "work_left (t\<lparr>warnings := w\<rparr>) = work_left t" "work_left (t\<lparr>systemdCommandInFlight := b\<rparr>) = work_left t"
  "work_left (t\<lparr>openRequestInFlight := b\<rparr>) = work_left t"
  "work_left (t\<lparr>pending := pending t @ [c]\<rparr>) = work_left t + call_work c" "work_left (t\<lparr>sent := cmds\<rparr>) = work_left t"
  by (simp_all add: work_left_def setCachedUnitActive_def scheduleSystemdWatcherRetry_def requestUnitStates_def requestUnitState_def)

lemma work_left_command:
  "i < length us \<Longrightarrow> work_left (command_answered m us i a t) \<le> work_left t + (length us - i) + 3"
  by (auto simp: command_answered_def runSystemdCommandAt_def work_left_def requestUnitStates_def requestUnitState_def)

lemma work_left_answered:
  assumes "tray_inv t" "i < length (pending t)" "answered out (pending t ! i) a (drop_call i t) = Some t'"
  shows "work_left t' < work_left t"
proof -
  let ?d = "drop_call i t"
  have d: "work_left ?d + call_work (pending t ! i) = work_left t" using work_left_drop_call [OF assms(2)] .
  have ok: "command_ok (sent t) (pending t ! i)" using assms drop_call_ok(2) by (simp add: tray_inv_def)
  have "work_left t' < work_left ?d + call_work (pending t ! i)"
  proof (cases "pending t ! i")
    case (Get_unit u)
    then show ?thesis using assms(3) by (auto simp: answered_def unit_answered_def dest!: work_left_refresh split: answer.splits if_splits)
  next
    case (Command m us k)
    then show ?thesis using assms(3) ok work_left_command [of k us m a ?d] by (auto simp: answered_def)
  qed (use assms(3) in \<open>auto simp: answered_def active_answered_def page_answered_def subscribe_answered_def dest!: work_left_refresh\<close>)
  then show ?thesis using d by simp
qed

interpretation answers: bounded_phase tray_init answer_step tray_inv "\<lambda>_. True" work_left "\<lambda>_. True"
proof
  show "tray_init t \<Longrightarrow> tray_inv t" for t by (rule controller.inv_init)
  show "tray_inv t \<Longrightarrow> answer_step t a t' \<Longrightarrow> tray_inv t'" for t a t'
    unfolding answer_step_def by (blast intro: controller.inv_step)
  show "work_left t' + (if True then 1 else 0) \<le> work_left t" if t: "tray_inv t" "answer_step t a t'" for t a t'
  proof -
    obtain out i c where "a = (out, Answer i c)" "tray_step t a t'"
      using t(2) unfolding answer_step_def by (cases a rule: is_answer.cases) auto
    then show ?thesis using t(1) work_left_answered by (fastforce elim: tray_step.cases)
  qed
qed simp

lemma answer_runs: "run tray_step t as t' \<Longrightarrow> list_all is_answer as \<Longrightarrow> run answer_step t as t'"
  by (induction rule: run.induct) (auto simp: answer_step_def intro: run.intros)

section \<open>Concrete runs\<close>

fun feed :: "(outside \<times> event) list \<Rightarrow> tray \<Rightarrow> tray option" where
  "feed [] t = Some t"
| "feed ((out, ev) # as) t = (if possible ev t then Option.bind (handle out ev t) (feed as) else None)"

lemma feed_run: "feed as t = Some t' \<Longrightarrow> run tray_step t as t'"
  by (induction as t rule: feed.induct)
    (auto simp: bind_eq_Some_conv split: if_splits intro: run.intros tray_step.intros)

definition session_start :: "outside" where
  "session_start = \<lparr>pulse = \<lparr>context_there = True, context_ready = True, audio_server = Some 1,
       default_source = Some \<lparr>media_class = ''Audio/Source'', device_class = ''sound'', is_virtual = False\<rparr>\<rparr>,
     capture_file = None, controller_file = None, decode_text = map ucast, bus_job_removed = True, bus_unit_new = True,
     bus_unit_removed = True, bus_path = (\<lambda>_. False), letter = (\<lambda>_. False)\<rparr>"

definition started :: tray where
  "started = the (construct session_start)"

text \<open>The start; both units are reported inactive; then the user clicks on "Turn ON".\<close>

definition first_events :: "(outside \<times> event) list" where
  "first_events = [(session_start, Answer 1 Failed), (session_start, Answer 1 Failed), (session_start, Turn_on)]"

definition clicked :: tray where
  "clicked = the (feed first_events started)"

lemmas tray_eval = construct_def setSwitchingState_def stateIcon_def INT32_MAX_def requestUnitStates_def requestUnitState_def
  setupSystemdWatchers_def connectUnitSignals_def scheduleSystemdWatcherRetry_def reconnectAudioServerSignals_def
  setupStateWatchers_def addWatch_def tray_fields_def Let_def drop_call_def answered_def unit_answered_def active_answered_def
  refreshState_def daemonState_def microphoneAvailable_def readStatusFile_def setCachedUnitActive_def startServices_def
  runSystemdCommandsAsync_def runSystemdCommandAt_def command_answered_def subscribe_answered_def anyControlledUnitActive_def

lemma health_of_no_file [simp]:
  "captureHealthFromStatusText [] = CaptureUnknown" "controllerHealthFromStatusText [] = ControllerUnknown"
  by code_simp+

lemma started_is: "construct session_start = Some started"
  "pending started = [Subscribe, Get_unit kControllerUnit, Get_unit kWakewordUnit]" 
  by (simp_all add: started_def tray_eval session_start_def)

lemma clicked_is: "feed first_events started = Some clicked"
  "pending clicked = [Subscribe, Command ''StartUnit'' [kControllerUnit, kWakewordUnit] 0]"
  by (simp_all add: clicked_def started_def first_events_def tray_eval session_start_def stateFromInputs_def)

lemma started_reachable: "reach tray_init tray_step started"
  using started_is by (intro reach_init) (auto simp: tray_init_def)

lemma clicked_reachable: "reach tray_init tray_step clicked"
  using feed_run [OF clicked_is(1)] by (rule reach_run) (rule started_reachable)

lemma clicked_in_flight: "systemdCommandInFlight clicked"
  using controller.reachable [OF clicked_reachable] clicked_is(2)
  by (cases "systemdCommandInFlight clicked") (simp_all add: tray_inv_def calls_inv_def)

section \<open>Handlers that cannot fail\<close>

lemma stateIcon_defined: "n \<le> 53687091 \<Longrightarrow> \<exists>i. stateIcon c n = Some i"
  by (cases c; cases "0 \<le> n") (simp_all add: stateIcon_def INT32_MAX_def)

lemma refreshState_defined: "spinnerFrame t \<le> 53687091 \<Longrightarrow> \<exists>t'. refreshState out t = Some t'"
  using stateIcon_defined [of "-1"] stateIcon_defined [of "spinnerFrame t"]
  by (auto simp: refreshState_def Let_def bind_eq_Some_conv stateIcon_def INT32_MAX_def split: DaemonState.splits)

lemma same_spinner [simp]:
  "spinnerFrame (setCachedUnitActive u b t) = spinnerFrame t" "spinnerFrame (setupStateWatchers out t) = spinnerFrame t"
  "spinnerFrame (reconnectAudioServerSignals out t) = spinnerFrame t"
  by (simp_all add: setCachedUnitActive_def setupStateWatchers_def reconnectAudioServerSignals_def Let_def split: option.split)

lemma setSwitchingState_defined: "\<exists>t'. setSwitchingState text t = Some t'"
  by (simp add: setSwitchingState_def stateIcon_def INT32_MAX_def)

lemma answered_defined: "spinnerFrame t \<le> 53687091 \<Longrightarrow> \<exists>t'. answered out c a t = Some t'"
  by (cases c; cases a)
    (simp_all add: answered_def unit_answered_def active_answered_def page_answered_def refreshState_defined)

lemma handle_defined: "spinnerFrame t \<le> 53687090 \<Longrightarrow> \<exists>t'. handle out ev t = Some t'"
  using setSwitchingState_defined [of "''Starting replacement services...''" t]
    setSwitchingState_defined [of "''Stopping replacement services...''" t]
  by (cases ev)
    (auto simp: startServices_def stopServices_def answered_defined healthChanged_def contextStateChanged_def refreshState_defined
      advanceSpinner_def stateIcon_def INT32_MAX_def)

section \<open>Properties\<close>



text \<open>Property C34. The menu is safe in every reachable state: starting and stopping are never offered together,
  nothing is offered while a command runs, starting is offered only while \<open>Off\<close> is displayed; and
  a switching display is never left without something that will replace it.\<close>

theorem menu_is_safe:
  assumes "reach tray_init tray_step t"
  shows "\<not> (turnOnEnabled t \<and> turnOffEnabled t) \<and>
    (systemdCommandInFlight t \<longrightarrow> \<not> turnOnEnabled t \<and> \<not> turnOffEnabled t \<and> \<not> openEnabled t) \<and>
    (turnOnEnabled t \<longrightarrow> shown t = Some Off) \<and>
    (shown t = None \<longrightarrow> systemdCommandInFlight t \<or> refreshTimer t \<or> list_ex is_state_request (pending t))"
  using controller.reachable [OF assms] unfolding tray_inv_def ui_inv_def by blast

theorem menu_is_safe_witness: "\<not> turnOnEnabled clicked \<and> \<not> turnOffEnabled clicked \<and> \<not> openEnabled clicked"
  using menu_is_safe [OF clicked_reachable] clicked_in_flight by simp

text \<open>Connections are made once: in every reachable state no unit path, directory or file is watched
  twice, and the two connections are to the audio server that is watched, or there are none.\<close>

lemma watched_once:
  assumes "reach tray_init tray_step t"
  shows "distinct (unitSignalPaths t) \<and>
    audioConnections t = (case watchedAudioServer t of None \<Rightarrow> [] | Some s \<Rightarrow> [s, s]) \<and>
    distinct (watched_dirs (captureWatcher t)) \<and> distinct (watched_files (captureWatcher t)) \<and>
    distinct (watched_dirs (controllerWatcher t)) \<and> distinct (watched_files (controllerWatcher t))"
  using controller.reachable [OF assms] by (simp add: tray_inv_def watch_inv_def)

text \<open>Property C35. Work in progress settles: from a reachable state at most \<open>work_left\<close> answers arrive before
  nothing is outstanding, and then no command and no request is marked as running and the display is
  that of a state, unless the first refresh is still to come.\<close>

theorem answers_settle:
  assumes "reach tray_init tray_step t" "run tray_step t as t'" "list_all is_answer as"
  shows "length as + work_left t' \<le> work_left t \<and>
    (pending t' = [] \<longrightarrow> \<not> systemdCommandInFlight t' \<and> \<not> openRequestInFlight t' \<and> (shown t' \<noteq> None \<or> refreshTimer t'))"
proof -
  have inv: "tray_inv t" by (rule controller.reachable [OF assms(1)])
  have "length as + work_left t' \<le> work_left t"
    using answers.few_steps [OF answer_runs [OF assms(2,3)] inv] by (simp add: add.commute)
  moreover have "\<not> systemdCommandInFlight t' \<and> \<not> openRequestInFlight t' \<and> (shown t' \<noteq> None \<or> refreshTimer t')" if "pending t' = []"
  proof -
    have "calls_inv t'" "ui_inv t'" using controller.along [OF assms(2) inv] by (simp_all add: tray_inv_def)
    then show ?thesis using that by (auto simp: calls_inv_def ui_inv_def)
  qed
  ultimately show ?thesis by blast
qed

theorem answers_settle_witness: "\<exists>t'. run tray_step clicked [(session_start, Answer 0 Done)] t' \<and> 1 + work_left t' \<le> 7"
proof -
  have r: "run tray_step clicked [(session_start, Answer 0 Done)] (drop_call 0 clicked)"
    using clicked_is(2) by (intro feed_run) (simp add: answered_def subscribe_answered_def)
  have "work_left clicked = 7" using clicked_is(2) by (simp add: work_left_def)
  then show ?thesis using answers_settle [OF clicked_reachable r] r by auto
qed

text \<open>What a refresh offers, when no command is in flight, by the state it displays: starting only in
  \<open>Off\<close>, stopping when there is something to stop, the page only when the controller runs or the state is \<open>On\<close>,
  and the spinner turns exactly in \<open>Starting\<close>.\<close>

lemma menu_follows_state:
  assumes "\<not> systemdCommandInFlight t" "refreshState out t = Some t'"
  shows "shown t' = Some (daemonState out t) \<and> turnOnEnabled t' = (daemonState out t = Off) \<and>
    switchingTimer t' = (daemonState out t = Starting) \<and>
    turnOffEnabled t' = (daemonState out t \<in> {On, ConversationActive} \<or>
      daemonState out t \<in> {NoMicrophone, Error} \<and> anyControlledUnitActive t) \<and>
    openEnabled t' = (daemonState out t = On \<or> daemonState out t \<in> {NoMicrophone, Error, Starting} \<and> controllerActive t)"
proof -
  have "microphoneAvailable out" if "daemonState out t = Off"
    using that by (auto simp: daemonState_def stateFromInputs_def split: if_splits)
  then show ?thesis using assms by (cases "daemonState out t") (auto simp: refreshState_def Let_def bind_eq_Some_conv anyControlledUnitActive_def)
qed

text \<open>Until the spinner has turned 53687091 times no event makes the tray fail.\<close>

lemma tray_reacts:
  assumes "spinnerFrame t \<le> 53687090"
  shows "\<exists>t'. handle out ev t = Some t'"
  using handle_defined [OF assms] .

text \<open>After 93 days of \<open>Starting\<close> without a click (a turn takes 150 ms), the next turn of the spinner
  overflows the \<^verbatim>\<open>int\<close> of its angle.\<close>

lemma spinner_overflow:
  "(handle out Spinner_timeout t = None) = (53687091 \<le> spinnerFrame t)"
  by (auto simp: advanceSpinner_def stateIcon_def INT32_MAX_def)

end
