(* ===== verification/Ort_Api_Middle.thy ===== *)
theory Ort_Api_Middle
  imports Ort_Types
begin

text \<open>\<^verbatim>\<open>struct OrtApi\<close> of \<^verbatim>\<open>include/onnxruntime_c_api.h\<close> continued: the functions added by the versions
  up to 1.22 of the interface.\<close>

definition ort_slots_18 :: "slot list" where
  "ort_slots_18 = [
     Slot ''IsSparseTensor'' 0 Ret_status [(In, Ty True ''OrtValue'' 1), (Out, Ty False ''int'' 1)],
     Slot ''CreateSparseTensorAsOrtValue'' 0 Ret_status
       [(Inout, Ty False ''OrtAllocator'' 1), (In, Ty True ''int64_t'' 1), (Val, Ty False ''size_t'' 0),
        (Val, Ty False ''ONNXTensorElementDataType'' 0), (Outptr, Ty False ''OrtValue'' 2)],
     Slot ''FillSparseTensorCoo'' 0 Ret_status
       [(Inout, Ty False ''OrtValue'' 1), (In, Ty True ''OrtMemoryInfo'' 1), (In, Ty True ''int64_t'' 1),
        (Val, Ty False ''size_t'' 0), (In, Ty True ''void'' 1), (In, Ty True ''int64_t'' 1),
        (Val, Ty False ''size_t'' 0)],
     Slot ''FillSparseTensorCsr'' 0 Ret_status
       [(Inout, Ty False ''OrtValue'' 1), (In, Ty True ''OrtMemoryInfo'' 1), (In, Ty True ''int64_t'' 1),
        (Val, Ty False ''size_t'' 0), (In, Ty True ''void'' 1), (In, Ty True ''int64_t'' 1),
        (Val, Ty False ''size_t'' 0), (In, Ty True ''int64_t'' 1), (Val, Ty False ''size_t'' 0)],
     Slot ''FillSparseTensorBlockSparse'' 0 Ret_status
       [(Inout, Ty False ''OrtValue'' 1), (In, Ty True ''OrtMemoryInfo'' 1), (In, Ty True ''int64_t'' 1),
        (Val, Ty False ''size_t'' 0), (In, Ty True ''void'' 1), (In, Ty True ''int64_t'' 1),
        (Val, Ty False ''size_t'' 0), (In, Ty True ''int32_t'' 1)],
     Slot ''CreateSparseTensorWithValuesAsOrtValue'' 0 Ret_status
       [(In, Ty True ''OrtMemoryInfo'' 1), (Inout, Ty False ''void'' 1), (In, Ty True ''int64_t'' 1),
        (Val, Ty False ''size_t'' 0), (In, Ty True ''int64_t'' 1), (Val, Ty False ''size_t'' 0),
        (Val, Ty False ''ONNXTensorElementDataType'' 0), (Outptr, Ty False ''OrtValue'' 2)],
     Slot ''UseCooIndices'' 0 Ret_status
       [(Inout, Ty False ''OrtValue'' 1), (Inout, Ty False ''int64_t'' 1), (Val, Ty False ''size_t'' 0)]]"

definition ort_slots_19 :: "slot list" where
  "ort_slots_19 = [
     Slot ''UseCsrIndices'' 0 Ret_status
       [(Inout, Ty False ''OrtValue'' 1), (Inout, Ty False ''int64_t'' 1), (Val, Ty False ''size_t'' 0),
        (Inout, Ty False ''int64_t'' 1), (Val, Ty False ''size_t'' 0)],
     Slot ''UseBlockSparseIndices'' 0 Ret_status
       [(Inout, Ty False ''OrtValue'' 1), (Val, Ty True ''int64_t'' 1), (Val, Ty False ''size_t'' 0),
        (Inout, Ty False ''int32_t'' 1)],
     Slot ''GetSparseTensorFormat'' 0 Ret_status [(In, Ty True ''OrtValue'' 1), (Out, Ty False ''OrtSparseFormat'' 1)],
     Slot ''GetSparseTensorValuesTypeAndShape'' 0 Ret_status
       [(In, Ty True ''OrtValue'' 1), (Outptr, Ty False ''OrtTensorTypeAndShapeInfo'' 2)],
     Slot ''GetSparseTensorValues'' 0 Ret_status [(In, Ty True ''OrtValue'' 1), (Outptr, Ty True ''void'' 2)],
     Slot ''GetSparseTensorIndicesTypeShape'' 0 Ret_status
       [(In, Ty True ''OrtValue'' 1), (Val, Ty False ''OrtSparseIndicesFormat'' 0),
        (Outptr, Ty False ''OrtTensorTypeAndShapeInfo'' 2)],
     Slot ''GetSparseTensorIndices'' 0 Ret_status
       [(In, Ty True ''OrtValue'' 1), (Val, Ty False ''OrtSparseIndicesFormat'' 0),
        (Out, Ty False ''size_t'' 1), (Outptr, Ty True ''void'' 2)],
     Slot ''HasValue'' 0 Ret_status [(In, Ty True ''OrtValue'' 1), (Out, Ty False ''int'' 1)],
     Slot ''KernelContext_GetGPUComputeStream'' 0 Ret_status
       [(In, Ty True ''OrtKernelContext'' 1), (Outptr, Ty False ''void'' 2)],
     Slot ''GetTensorMemoryInfo'' 0 Ret_status [(In, Ty True ''OrtValue'' 1), (Out, Ty True ''OrtMemoryInfo'' 2)],
     Slot ''GetExecutionProviderApi'' 0 Ret_status
       [(In, Ty True ''char'' 1), (In, Ty False ''uint32_t'' 0), (Outptr, Ty True ''void'' 2)]]"

definition ort_slots_20 :: "slot list" where
  "ort_slots_20 = [
     Slot ''SessionOptionsSetCustomCreateThreadFn'' 0 Ret_status
       [(Inout, Ty False ''OrtSessionOptions'' 1), (In, Ty False ''OrtCustomCreateThreadFn'' 0)],
     Slot ''SessionOptionsSetCustomThreadCreationOptions'' 0 Ret_status
       [(Inout, Ty False ''OrtSessionOptions'' 1), (In, Ty False ''void'' 1)],
     Slot ''SessionOptionsSetCustomJoinThreadFn'' 0 Ret_status
       [(Inout, Ty False ''OrtSessionOptions'' 1), (In, Ty False ''OrtCustomJoinThreadFn'' 0)],
     Slot ''SetGlobalCustomCreateThreadFn'' 0 Ret_status
       [(Inout, Ty False ''OrtThreadingOptions'' 1), (In, Ty False ''OrtCustomCreateThreadFn'' 0)],
     Slot ''SetGlobalCustomThreadCreationOptions'' 0 Ret_status
       [(Inout, Ty False ''OrtThreadingOptions'' 1), (In, Ty False ''void'' 1)],
     Slot ''SetGlobalCustomJoinThreadFn'' 0 Ret_status
       [(Inout, Ty False ''OrtThreadingOptions'' 1), (In, Ty False ''OrtCustomJoinThreadFn'' 0)],
     Slot ''SynchronizeBoundInputs'' 0 Ret_status [(Inout, Ty False ''OrtIoBinding'' 1)],
     Slot ''SynchronizeBoundOutputs'' 0 Ret_status [(Inout, Ty False ''OrtIoBinding'' 1)],
     Slot ''SessionOptionsAppendExecutionProvider_CUDA_V2'' 11 Ret_status
       [(In, Ty False ''OrtSessionOptions'' 1), (In, Ty True ''OrtCUDAProviderOptionsV2'' 1)],
     Slot ''CreateCUDAProviderOptions'' 11 Ret_status [(Outptr, Ty False ''OrtCUDAProviderOptionsV2'' 2)],
     Slot ''UpdateCUDAProviderOptions'' 11 Ret_status
       [(Inout, Ty False ''OrtCUDAProviderOptionsV2'' 1), (In, Ty True ''char'' 2), (In, Ty True ''char'' 2),
        (In, Ty False ''size_t'' 0)]]"

definition ort_slots_21 :: "slot list" where
  "ort_slots_21 = [
     Slot ''GetCUDAProviderOptionsAsString'' 11 Ret_status
       [(In, Ty True ''OrtCUDAProviderOptionsV2'' 1), (Inout, Ty False ''OrtAllocator'' 1),
        (Outptr, Ty False ''char'' 2)],
     Slot ''ReleaseCUDAProviderOptions'' 11 Ret_void [(Frees, Ty False ''OrtCUDAProviderOptionsV2'' 1)],
     Slot ''SessionOptionsAppendExecutionProvider_MIGraphX'' 11 Ret_status
       [(In, Ty False ''OrtSessionOptions'' 1), (In, Ty True ''OrtMIGraphXProviderOptions'' 1)],
     Slot ''AddExternalInitializers'' 12 Ret_status
       [(In, Ty False ''OrtSessionOptions'' 1), (In, Ty True ''char'' 2), (In, Ty True ''OrtValue'' 2),
        (Val, Ty False ''size_t'' 0)],
     Slot ''CreateOpAttr'' 12 Ret_status
       [(In, Ty True ''char'' 1), (In, Ty True ''void'' 1), (In, Ty False ''int'' 0),
        (In, Ty False ''OrtOpAttrType'' 0), (Outptr, Ty False ''OrtOpAttr'' 2)],
     Slot ''ReleaseOpAttr'' 12 Ret_void [(Frees, Ty False ''OrtOpAttr'' 1)],
     Slot ''CreateOp'' 12 Ret_status
       [(In, Ty True ''OrtKernelInfo'' 1), (In, Ty True ''char'' 1), (In, Ty True ''char'' 1),
        (Val, Ty False ''int'' 0), (In, Ty True ''char'' 2), (In, Ty True ''ONNXTensorElementDataType'' 1),
        (Val, Ty False ''int'' 0), (In, Ty True ''OrtOpAttr'' 2), (Val, Ty False ''int'' 0),
        (Val, Ty False ''int'' 0), (Val, Ty False ''int'' 0), (Outptr, Ty False ''OrtOp'' 2)],
     Slot ''InvokeOp'' 12 Ret_status
       [(In, Ty True ''OrtKernelContext'' 1), (In, Ty True ''OrtOp'' 1), (In, Ty True ''OrtValue'' 2),
        (In, Ty False ''int'' 0), (Inout, Ty False ''OrtValue'' 2), (In, Ty False ''int'' 0)],
     Slot ''ReleaseOp'' 12 Ret_void [(Frees, Ty False ''OrtOp'' 1)]]"

definition ort_slots_22 :: "slot list" where
  "ort_slots_22 = [
     Slot ''SessionOptionsAppendExecutionProvider'' 12 Ret_status
       [(In, Ty False ''OrtSessionOptions'' 1), (In, Ty True ''char'' 1), (In, Ty True ''char'' 2),
        (In, Ty True ''char'' 2), (In, Ty False ''size_t'' 0)],
     Slot ''CopyKernelInfo'' 12 Ret_status [(In, Ty True ''OrtKernelInfo'' 1), (Outptr, Ty False ''OrtKernelInfo'' 2)],
     Slot ''ReleaseKernelInfo'' 12 Ret_void [(Frees, Ty False ''OrtKernelInfo'' 1)]]"

definition ort_slots_23 :: "slot list" where
  "ort_slots_23 = [
     Slot ''GetTrainingApi'' 13 (Ret_value (Ty True ''OrtTrainingApi'' 1)) [(Val, Ty False ''uint32_t'' 0)],
     Slot ''SessionOptionsAppendExecutionProvider_CANN'' 13 Ret_status
       [(In, Ty False ''OrtSessionOptions'' 1), (In, Ty True ''OrtCANNProviderOptions'' 1)],
     Slot ''CreateCANNProviderOptions'' 13 Ret_status [(Outptr, Ty False ''OrtCANNProviderOptions'' 2)],
     Slot ''UpdateCANNProviderOptions'' 13 Ret_status
       [(Inout, Ty False ''OrtCANNProviderOptions'' 1), (In, Ty True ''char'' 2), (In, Ty True ''char'' 2),
        (In, Ty False ''size_t'' 0)],
     Slot ''GetCANNProviderOptionsAsString'' 13 Ret_status
       [(In, Ty True ''OrtCANNProviderOptions'' 1), (Inout, Ty False ''OrtAllocator'' 1),
        (Outptr, Ty False ''char'' 2)],
     Slot ''ReleaseCANNProviderOptions'' 13 Ret_void [(Frees, Ty False ''OrtCANNProviderOptions'' 1)],
     Slot ''MemoryInfoGetDeviceType'' 14 Ret_void
       [(In, Ty True ''OrtMemoryInfo'' 1), (Out, Ty False ''OrtMemoryInfoDeviceType'' 1)],
     Slot ''UpdateEnvWithCustomLogLevel'' 14 Ret_status
       [(In, Ty False ''OrtEnv'' 1), (Val, Ty False ''OrtLoggingLevel'' 0)],
     Slot ''SetGlobalIntraOpThreadAffinity'' 14 Ret_status
       [(Inout, Ty False ''OrtThreadingOptions'' 1), (Val, Ty True ''char'' 1)],
     Slot ''RegisterCustomOpsLibrary_V2'' 14 Ret_status
       [(Inout, Ty False ''OrtSessionOptions'' 1), (In, Ty True ''ORTCHAR_T'' 1)]]"

definition ort_slots_24 :: "slot list" where
  "ort_slots_24 = [
     Slot ''RegisterCustomOpsUsingFunction'' 14 Ret_status
       [(Inout, Ty False ''OrtSessionOptions'' 1), (In, Ty True ''char'' 1)],
     Slot ''KernelInfo_GetInputCount'' 14 Ret_status [(In, Ty True ''OrtKernelInfo'' 1), (Out, Ty False ''size_t'' 1)],
     Slot ''KernelInfo_GetOutputCount'' 14 Ret_status
       [(In, Ty True ''OrtKernelInfo'' 1), (Out, Ty False ''size_t'' 1)],
     Slot ''KernelInfo_GetInputName'' 14 Ret_status
       [(In, Ty True ''OrtKernelInfo'' 1), (Val, Ty False ''size_t'' 0), (Out_opt, Ty False ''char'' 1),
        (Inout, Ty False ''size_t'' 1)],
     Slot ''KernelInfo_GetOutputName'' 14 Ret_status
       [(In, Ty True ''OrtKernelInfo'' 1), (Val, Ty False ''size_t'' 0), (Out_opt, Ty False ''char'' 1),
        (Inout, Ty False ''size_t'' 1)],
     Slot ''KernelInfo_GetInputTypeInfo'' 14 Ret_status
       [(In, Ty True ''OrtKernelInfo'' 1), (Val, Ty False ''size_t'' 0), (Outptr, Ty False ''OrtTypeInfo'' 2)],
     Slot ''KernelInfo_GetOutputTypeInfo'' 14 Ret_status
       [(In, Ty True ''OrtKernelInfo'' 1), (Val, Ty False ''size_t'' 0), (Outptr, Ty False ''OrtTypeInfo'' 2)]]"

definition ort_slots_25 :: "slot list" where
  "ort_slots_25 = [
     Slot ''KernelInfoGetAttribute_tensor'' 0 Ret_status
       [(In, Ty True ''OrtKernelInfo'' 1), (In, Ty True ''char'' 1), (Inout, Ty False ''OrtAllocator'' 1),
        (Outptr, Ty False ''OrtValue'' 2)],
     Slot ''HasSessionConfigEntry'' 14 Ret_status
       [(In, Ty True ''OrtSessionOptions'' 1), (In, Ty True ''char'' 1), (Out, Ty False ''int'' 1)],
     Slot ''GetSessionConfigEntry'' 14 Ret_status
       [(In, Ty True ''OrtSessionOptions'' 1), (In, Ty True ''char'' 1), (Out, Ty False ''char'' 1),
        (Inout, Ty False ''size_t'' 1)],
     Slot ''SessionOptionsAppendExecutionProvider_Dnnl'' 15 Ret_status
       [(In, Ty False ''OrtSessionOptions'' 1), (In, Ty True ''OrtDnnlProviderOptions'' 1)],
     Slot ''CreateDnnlProviderOptions'' 15 Ret_status [(Outptr, Ty False ''OrtDnnlProviderOptions'' 2)],
     Slot ''UpdateDnnlProviderOptions'' 15 Ret_status
       [(Inout, Ty False ''OrtDnnlProviderOptions'' 1), (In, Ty True ''char'' 2), (In, Ty True ''char'' 2),
        (In, Ty False ''size_t'' 0)],
     Slot ''GetDnnlProviderOptionsAsString'' 15 Ret_status
       [(In, Ty True ''OrtDnnlProviderOptions'' 1), (Inout, Ty False ''OrtAllocator'' 1),
        (Outptr, Ty False ''char'' 2)],
     Slot ''ReleaseDnnlProviderOptions'' 15 Ret_void [(Frees, Ty False ''OrtDnnlProviderOptions'' 1)]]"

definition ort_slots_26 :: "slot list" where
  "ort_slots_26 = [
     Slot ''KernelInfo_GetNodeName'' 15 Ret_status
       [(In, Ty True ''OrtKernelInfo'' 1), (Out_opt, Ty False ''char'' 1), (Inout, Ty False ''size_t'' 1)],
     Slot ''KernelInfo_GetLogger'' 15 Ret_status
       [(In, Ty True ''OrtKernelInfo'' 1), (Outptr, Ty True ''OrtLogger'' 2)],
     Slot ''KernelContext_GetLogger'' 15 Ret_status
       [(In, Ty True ''OrtKernelContext'' 1), (Outptr, Ty True ''OrtLogger'' 2)],
     Slot ''Logger_LogMessage'' 15 Ret_status
       [(In, Ty True ''OrtLogger'' 1), (Val, Ty False ''OrtLoggingLevel'' 0), (In, Ty True ''char'' 1),
        (In, Ty True ''ORTCHAR_T'' 1), (Val, Ty False ''int'' 0), (In, Ty True ''char'' 1)],
     Slot ''Logger_GetLoggingSeverityLevel'' 15 Ret_status
       [(In, Ty True ''OrtLogger'' 1), (Out, Ty False ''OrtLoggingLevel'' 1)],
     Slot ''KernelInfoGetConstantInput_tensor'' 15 Ret_status
       [(In, Ty True ''OrtKernelInfo'' 1), (Val, Ty False ''size_t'' 0), (Out, Ty False ''int'' 1),
        (Outptr, Ty True ''OrtValue'' 2)],
     Slot ''CastTypeInfoToOptionalTypeInfo'' 15 Ret_status
       [(In, Ty True ''OrtTypeInfo'' 1), (Outptr, Ty True ''OrtOptionalTypeInfo'' 2)]]"

definition ort_slots_27 :: "slot list" where
  "ort_slots_27 = [
     Slot ''GetOptionalContainedTypeInfo'' 15 Ret_status
       [(In, Ty True ''OrtOptionalTypeInfo'' 1), (Outptr, Ty False ''OrtTypeInfo'' 2)],
     Slot ''GetResizedStringTensorElementBuffer'' 0 Ret_status
       [(Inout, Ty False ''OrtValue'' 1), (In, Ty False ''size_t'' 0), (In, Ty False ''size_t'' 0),
        (Inout, Ty False ''char'' 2)],
     Slot ''KernelContext_GetAllocator'' 15 Ret_status
       [(In, Ty True ''OrtKernelContext'' 1), (In, Ty True ''OrtMemoryInfo'' 1),
        (Outptr, Ty False ''OrtAllocator'' 2)],
     Slot ''GetBuildInfoString'' 15 (Ret_value (Ty True ''char'' 1)) [],
     Slot ''CreateROCMProviderOptions'' 16 Ret_status [(Outptr, Ty False ''OrtROCMProviderOptions'' 2)],
     Slot ''UpdateROCMProviderOptions'' 16 Ret_status
       [(Inout, Ty False ''OrtROCMProviderOptions'' 1), (In, Ty True ''char'' 2), (In, Ty True ''char'' 2),
        (In, Ty False ''size_t'' 0)],
     Slot ''GetROCMProviderOptionsAsString'' 16 Ret_status
       [(In, Ty True ''OrtROCMProviderOptions'' 1), (Inout, Ty False ''OrtAllocator'' 1),
        (Outptr, Ty False ''char'' 2)],
     Slot ''ReleaseROCMProviderOptions'' 16 Ret_void [(Frees, Ty False ''OrtROCMProviderOptions'' 1)],
     Slot ''CreateAndRegisterAllocatorV2'' 0 Ret_status
       [(Inout, Ty False ''OrtEnv'' 1), (In, Ty True ''char'' 1), (In, Ty True ''OrtMemoryInfo'' 1),
        (In, Ty True ''OrtArenaCfg'' 1), (In, Ty True ''char'' 2), (In, Ty True ''char'' 2),
        (In, Ty False ''size_t'' 0)]]"

definition ort_slots_28 :: "slot list" where
  "ort_slots_28 = [
     Slot ''RunAsync'' 0 Ret_status
       [(Inout, Ty False ''OrtSession'' 1), (In_opt, Ty True ''OrtRunOptions'' 1), (In, Ty True ''char'' 2),
        (In, Ty True ''OrtValue'' 2), (Val, Ty False ''size_t'' 0), (In, Ty True ''char'' 2),
        (Val, Ty False ''size_t'' 0), (Inout, Ty False ''OrtValue'' 2),
        (In, Ty False ''RunAsyncCallbackFn'' 0), (In_opt, Ty False ''void'' 1)],
     Slot ''UpdateTensorRTProviderOptionsWithValue'' 16 Ret_status
       [(Inout, Ty False ''OrtTensorRTProviderOptionsV2'' 1), (In, Ty True ''char'' 1),
        (In, Ty False ''void'' 1)],
     Slot ''GetTensorRTProviderOptionsByName'' 16 Ret_status
       [(In, Ty True ''OrtTensorRTProviderOptionsV2'' 1), (In, Ty True ''char'' 1),
        (Outptr, Ty False ''void'' 2)],
     Slot ''UpdateCUDAProviderOptionsWithValue'' 16 Ret_status
       [(Inout, Ty False ''OrtCUDAProviderOptionsV2'' 1), (In, Ty True ''char'' 1), (In, Ty False ''void'' 1)],
     Slot ''GetCUDAProviderOptionsByName'' 16 Ret_status
       [(In, Ty True ''OrtCUDAProviderOptionsV2'' 1), (In, Ty True ''char'' 1), (Outptr, Ty False ''void'' 2)],
     Slot ''KernelContext_GetResource'' 16 Ret_status
       [(In, Ty True ''OrtKernelContext'' 1), (In, Ty False ''int'' 0), (In, Ty False ''int'' 0),
        (Outptr, Ty False ''void'' 2)],
     Slot ''SetUserLoggingFunction'' 17 Ret_status
       [(Inout, Ty False ''OrtSessionOptions'' 1), (In, Ty False ''OrtLoggingFunction'' 0),
        (In_opt, Ty False ''void'' 1)],
     Slot ''ShapeInferContext_GetInputCount'' 17 Ret_status
       [(In, Ty True ''OrtShapeInferContext'' 1), (Out, Ty False ''size_t'' 1)],
     Slot ''ShapeInferContext_GetInputTypeShape'' 17 Ret_status
       [(In, Ty True ''OrtShapeInferContext'' 1), (In, Ty False ''size_t'' 0),
        (Outptr, Ty False ''OrtTensorTypeAndShapeInfo'' 2)],
     Slot ''ShapeInferContext_GetAttribute'' 17 Ret_status
       [(In, Ty True ''OrtShapeInferContext'' 1), (In, Ty True ''char'' 1), (Outptr, Ty True ''OrtOpAttr'' 2)]]"

definition ort_slots_29 :: "slot list" where
  "ort_slots_29 = [
     Slot ''ShapeInferContext_SetOutputTypeShape'' 17 Ret_status
       [(In, Ty True ''OrtShapeInferContext'' 1), (In, Ty False ''size_t'' 0),
        (In, Ty True ''OrtTensorTypeAndShapeInfo'' 1)],
     Slot ''SetSymbolicDimensions'' 17 Ret_status
       [(In, Ty False ''OrtTensorTypeAndShapeInfo'' 1), (In, Ty True ''char'' 2), (In, Ty False ''size_t'' 0)],
     Slot ''ReadOpAttr'' 17 Ret_status
       [(In, Ty True ''OrtOpAttr'' 1), (In, Ty False ''OrtOpAttrType'' 0), (Inout, Ty False ''void'' 1),
        (In, Ty False ''size_t'' 0), (Out, Ty False ''size_t'' 1)],
     Slot ''SetDeterministicCompute'' 17 Ret_status
       [(Inout, Ty False ''OrtSessionOptions'' 1), (Val, Ty False ''bool'' 0)],
     Slot ''KernelContext_ParallelFor'' 17 Ret_status
       [(In, Ty True ''OrtKernelContext'' 1), (In, Ty False ''void (void *, size_t)'' 1),
        (In, Ty False ''size_t'' 0), (In, Ty False ''size_t'' 0), (In, Ty False ''void'' 1)],
     Slot ''SessionOptionsAppendExecutionProvider_OpenVINO_V2'' 17 Ret_status
       [(In, Ty False ''OrtSessionOptions'' 1), (In, Ty True ''char'' 2), (In, Ty True ''char'' 2),
        (In, Ty False ''size_t'' 0)],
     Slot ''SessionOptionsAppendExecutionProvider_VitisAI'' 18 Ret_status
       [(In, Ty False ''OrtSessionOptions'' 1), (In, Ty True ''char'' 2), (In, Ty True ''char'' 2),
        (In, Ty False ''size_t'' 0)],
     Slot ''KernelContext_GetScratchBuffer'' 18 Ret_status
       [(In, Ty True ''OrtKernelContext'' 1), (In, Ty True ''OrtMemoryInfo'' 1), (In, Ty False ''size_t'' 0),
        (Outptr, Ty False ''void'' 2)],
     Slot ''KernelInfoGetAllocator'' 18 Ret_status
       [(In, Ty True ''OrtKernelInfo'' 1), (In, Ty False ''OrtMemType'' 0),
        (Outptr, Ty False ''OrtAllocator'' 2)]]"

definition ort_slots_30 :: "slot list" where
  "ort_slots_30 = [
     Slot ''AddExternalInitializersFromFilesInMemory'' 18 Ret_status
       [(In, Ty False ''OrtSessionOptions'' 1), (In, Ty True ''ORTCHAR_T'' 2), (In, Ty False ''char'' 2),
        (In, Ty True ''size_t'' 1), (Val, Ty False ''size_t'' 0)],
     Slot ''CreateLoraAdapter'' 20 Ret_status
       [(Val, Ty True ''ORTCHAR_T'' 1), (In, Ty False ''OrtAllocator'' 1),
        (Outptr, Ty False ''OrtLoraAdapter'' 2)],
     Slot ''CreateLoraAdapterFromArray'' 20 Ret_status
       [(In, Ty True ''void'' 1), (Val, Ty False ''size_t'' 0), (In, Ty False ''OrtAllocator'' 1),
        (Outptr, Ty False ''OrtLoraAdapter'' 2)],
     Slot ''ReleaseLoraAdapter'' 0 Ret_void [(Frees, Ty False ''OrtLoraAdapter'' 1)],
     Slot ''RunOptionsAddActiveLoraAdapter'' 20 Ret_status
       [(Inout, Ty False ''OrtRunOptions'' 1), (In, Ty True ''OrtLoraAdapter'' 1)],
     Slot ''SetEpDynamicOptions'' 20 Ret_status
       [(Inout, Ty False ''OrtSession'' 1), (In, Ty True ''char'' 2), (In, Ty True ''char'' 2),
        (In, Ty False ''size_t'' 0)],
     Slot ''ReleaseValueInfo'' 22 Ret_void [(Frees, Ty False ''OrtValueInfo'' 1)],
     Slot ''ReleaseNode'' 22 Ret_void [(Frees, Ty False ''OrtNode'' 1)],
     Slot ''ReleaseGraph'' 22 Ret_void [(Frees, Ty False ''OrtGraph'' 1)],
     Slot ''ReleaseModel'' 22 Ret_void [(Frees, Ty False ''OrtModel'' 1)],
     Slot ''GetValueInfoName'' 22 Ret_status [(In, Ty True ''OrtValueInfo'' 1), (Out, Ty True ''char'' 2)]]"

end
