(* ===== verification/Ort_Api_Late.thy ===== *)
theory Ort_Api_Late
  imports Ort_Api Ort_Api_Middle
begin

text \<open>\<^verbatim>\<open>struct OrtApi\<close> of \<^verbatim>\<open>include/onnxruntime_c_api.h\<close> to its end, and the whole table.\<close>

definition ort_slots_31 :: "slot list" where
  "ort_slots_31 = [
     Slot ''GetValueInfoTypeInfo'' 22 Ret_status
       [(In, Ty True ''OrtValueInfo'' 1), (Outptr, Ty True ''OrtTypeInfo'' 2)],
     Slot ''GetModelEditorApi'' 22 (Ret_value (Ty True ''OrtModelEditorApi'' 1)) [],
     Slot ''CreateTensorWithDataAndDeleterAsOrtValue'' 22 Ret_status
       [(In, Ty False ''OrtAllocator'' 1), (In, Ty False ''void'' 1), (Val, Ty False ''size_t'' 0),
        (In, Ty True ''int64_t'' 1), (Val, Ty False ''size_t'' 0),
        (Val, Ty False ''ONNXTensorElementDataType'' 0), (Outptr, Ty False ''OrtValue'' 2)],
     Slot ''SessionOptionsSetLoadCancellationFlag'' 22 Ret_status
       [(Inout, Ty False ''OrtSessionOptions'' 1), (In, Ty False ''bool'' 0)],
     Slot ''GetCompileApi'' 22 (Ret_value (Ty True ''OrtCompileApi'' 1)) [],
     Slot ''CreateKeyValuePairs'' 22 Ret_void [(Outptr, Ty False ''OrtKeyValuePairs'' 2)],
     Slot ''AddKeyValuePair'' 22 Ret_void
       [(In, Ty False ''OrtKeyValuePairs'' 1), (In, Ty True ''char'' 1), (In, Ty True ''char'' 1)],
     Slot ''GetKeyValue'' 22 (Ret_value (Ty True ''char'' 1))
       [(In, Ty True ''OrtKeyValuePairs'' 1), (In, Ty True ''char'' 1)],
     Slot ''GetKeyValuePairs'' 22 Ret_void
       [(In, Ty True ''OrtKeyValuePairs'' 1), (Outptr, Ty True ''char'' 3), (Outptr, Ty True ''char'' 3),
        (Out, Ty False ''size_t'' 1)],
     Slot ''RemoveKeyValuePair'' 22 Ret_void [(In, Ty False ''OrtKeyValuePairs'' 1), (In, Ty True ''char'' 1)],
     Slot ''ReleaseKeyValuePairs'' 22 Ret_void [(Frees, Ty False ''OrtKeyValuePairs'' 1)]]"

definition ort_slots_32 :: "slot list" where
  "ort_slots_32 = [
     Slot ''RegisterExecutionProviderLibrary'' 22 Ret_status
       [(In, Ty False ''OrtEnv'' 1), (In, Ty True ''char'' 1), (In, Ty True ''ORTCHAR_T'' 1)],
     Slot ''UnregisterExecutionProviderLibrary'' 22 Ret_status [(In, Ty False ''OrtEnv'' 1), (In, Ty True ''char'' 1)],
     Slot ''GetEpDevices'' 22 Ret_status
       [(In, Ty True ''OrtEnv'' 1), (Outptr, Ty True ''OrtEpDevice'' 3), (Out, Ty False ''size_t'' 1)],
     Slot ''SessionOptionsAppendExecutionProvider_V2'' 22 Ret_status
       [(In, Ty False ''OrtSessionOptions'' 1), (In, Ty False ''OrtEnv'' 1), (In, Ty True ''OrtEpDevice'' 2),
        (In, Ty False ''size_t'' 0), (In, Ty True ''char'' 2), (In, Ty True ''char'' 2),
        (Val, Ty False ''size_t'' 0)],
     Slot ''SessionOptionsSetEpSelectionPolicy'' 22 Ret_status
       [(In, Ty False ''OrtSessionOptions'' 1), (In, Ty False ''OrtExecutionProviderDevicePolicy'' 0)],
     Slot ''SessionOptionsSetEpSelectionPolicyDelegate'' 22 Ret_status
       [(In, Ty False ''OrtSessionOptions'' 1), (In, Ty False ''EpSelectionDelegate'' 0),
        (In_opt, Ty False ''void'' 1)],
     Slot ''HardwareDevice_Type'' 22 (Ret_value (Ty False ''OrtHardwareDeviceType'' 0))
       [(In, Ty True ''OrtHardwareDevice'' 1)],
     Slot ''HardwareDevice_VendorId'' 22 (Ret_value (Ty False ''uint32_t'' 0)) [(In, Ty True ''OrtHardwareDevice'' 1)],
     Slot ''HardwareDevice_Vendor'' 22 (Ret_value (Ty True ''char'' 1)) [(In, Ty True ''OrtHardwareDevice'' 1)],
     Slot ''HardwareDevice_DeviceId'' 22 (Ret_value (Ty False ''uint32_t'' 0)) [(In, Ty True ''OrtHardwareDevice'' 1)],
     Slot ''HardwareDevice_Metadata'' 22 (Ret_value (Ty True ''OrtKeyValuePairs'' 1))
       [(In, Ty True ''OrtHardwareDevice'' 1)]]"

definition ort_slots_33 :: "slot list" where
  "ort_slots_33 = [
     Slot ''EpDevice_EpName'' 22 (Ret_value (Ty True ''char'' 1)) [(In, Ty True ''OrtEpDevice'' 1)],
     Slot ''EpDevice_EpVendor'' 22 (Ret_value (Ty True ''char'' 1)) [(In, Ty True ''OrtEpDevice'' 1)],
     Slot ''EpDevice_EpMetadata'' 22 (Ret_value (Ty True ''OrtKeyValuePairs'' 1)) [(In, Ty True ''OrtEpDevice'' 1)],
     Slot ''EpDevice_EpOptions'' 22 (Ret_value (Ty True ''OrtKeyValuePairs'' 1)) [(In, Ty True ''OrtEpDevice'' 1)],
     Slot ''EpDevice_Device'' 22 (Ret_value (Ty True ''OrtHardwareDevice'' 1)) [(In, Ty True ''OrtEpDevice'' 1)],
     Slot ''GetEpApi'' 22 (Ret_value (Ty True ''OrtEpApi'' 1)) [],
     Slot ''GetTensorSizeInBytes'' 23 Ret_status [(In, Ty True ''OrtValue'' 1), (Out, Ty False ''size_t'' 1)],
     Slot ''AllocatorGetStats'' 23 Ret_status
       [(In, Ty True ''OrtAllocator'' 1), (Outptr, Ty False ''OrtKeyValuePairs'' 2)],
     Slot ''CreateMemoryInfo_V2'' 23 Ret_status
       [(In, Ty True ''char'' 1), (In, Ty False ''OrtMemoryInfoDeviceType'' 0), (In, Ty False ''uint32_t'' 0),
        (In, Ty False ''int32_t'' 0), (In, Ty False ''OrtDeviceMemoryType'' 0), (In, Ty False ''size_t'' 0),
        (Val, Ty False ''OrtAllocatorType'' 0), (Outptr, Ty False ''OrtMemoryInfo'' 2)],
     Slot ''MemoryInfoGetDeviceMemType'' 23 (Ret_value (Ty False ''OrtDeviceMemoryType'' 0))
       [(In, Ty True ''OrtMemoryInfo'' 1)],
     Slot ''MemoryInfoGetVendorId'' 23 (Ret_value (Ty False ''uint32_t'' 0)) [(In, Ty True ''OrtMemoryInfo'' 1)],
     Slot ''ValueInfo_GetValueProducer'' 23 Ret_status
       [(In, Ty True ''OrtValueInfo'' 1), (Outptr, Ty True ''OrtNode'' 2), (Out_opt, Ty False ''size_t'' 1)]]"

definition ort_slots_34 :: "slot list" where
  "ort_slots_34 = [
     Slot ''ValueInfo_GetValueNumConsumers'' 23 Ret_status
       [(In, Ty True ''OrtValueInfo'' 1), (Out, Ty False ''size_t'' 1)],
     Slot ''ValueInfo_GetValueConsumers'' 23 Ret_status
       [(In, Ty True ''OrtValueInfo'' 1), (Out, Ty True ''OrtNode'' 2), (Out, Ty False ''int64_t'' 1),
        (In, Ty False ''size_t'' 0)],
     Slot ''ValueInfo_GetInitializerValue'' 23 Ret_status
       [(In, Ty True ''OrtValueInfo'' 1), (Outptr, Ty True ''OrtValue'' 2)],
     Slot ''ValueInfo_GetExternalInitializerInfo'' 23 Ret_status
       [(In, Ty True ''OrtValueInfo'' 1), (Outptr, Ty False ''OrtExternalInitializerInfo'' 2)],
     Slot ''ValueInfo_IsRequiredGraphInput'' 23 Ret_status
       [(In, Ty True ''OrtValueInfo'' 1), (Out, Ty False ''bool'' 1)],
     Slot ''ValueInfo_IsOptionalGraphInput'' 23 Ret_status
       [(In, Ty True ''OrtValueInfo'' 1), (Out, Ty False ''bool'' 1)],
     Slot ''ValueInfo_IsGraphOutput'' 23 Ret_status [(In, Ty True ''OrtValueInfo'' 1), (Out, Ty False ''bool'' 1)],
     Slot ''ValueInfo_IsConstantInitializer'' 23 Ret_status
       [(In, Ty True ''OrtValueInfo'' 1), (Out, Ty False ''bool'' 1)]]"

definition ort_slots_35 :: "slot list" where
  "ort_slots_35 = [
     Slot ''ValueInfo_IsFromOuterScope'' 23 Ret_status [(In, Ty True ''OrtValueInfo'' 1), (Out, Ty False ''bool'' 1)],
     Slot ''Graph_GetName'' 23 Ret_status [(In, Ty True ''OrtGraph'' 1), (Outptr, Ty True ''char'' 2)],
     Slot ''Graph_GetModelPath'' 23 Ret_status [(In, Ty True ''OrtGraph'' 1), (Outptr, Ty True ''ORTCHAR_T'' 2)],
     Slot ''Graph_GetOnnxIRVersion'' 23 Ret_status [(In, Ty True ''OrtGraph'' 1), (Out, Ty False ''int64_t'' 1)],
     Slot ''Graph_GetNumOperatorSets'' 23 Ret_status [(In, Ty True ''OrtGraph'' 1), (Out, Ty False ''size_t'' 1)],
     Slot ''Graph_GetOperatorSets'' 23 Ret_status
       [(In, Ty True ''OrtGraph'' 1), (Out, Ty True ''char'' 2), (Out, Ty False ''int64_t'' 1),
        (In, Ty False ''size_t'' 0)],
     Slot ''Graph_GetNumInputs'' 23 Ret_status [(In, Ty True ''OrtGraph'' 1), (Out, Ty False ''size_t'' 1)],
     Slot ''Graph_GetInputs'' 23 Ret_status
       [(In, Ty True ''OrtGraph'' 1), (Out, Ty True ''OrtValueInfo'' 2), (In, Ty False ''size_t'' 0)],
     Slot ''Graph_GetNumOutputs'' 23 Ret_status [(In, Ty True ''OrtGraph'' 1), (Out, Ty False ''size_t'' 1)]]"

definition ort_slots_36 :: "slot list" where
  "ort_slots_36 = [
     Slot ''Graph_GetOutputs'' 23 Ret_status
       [(In, Ty True ''OrtGraph'' 1), (Out, Ty True ''OrtValueInfo'' 2), (In, Ty False ''size_t'' 0)],
     Slot ''Graph_GetNumInitializers'' 23 Ret_status [(In, Ty True ''OrtGraph'' 1), (Out, Ty False ''size_t'' 1)],
     Slot ''Graph_GetInitializers'' 23 Ret_status
       [(In, Ty True ''OrtGraph'' 1), (Out, Ty True ''OrtValueInfo'' 2), (In, Ty False ''size_t'' 0)],
     Slot ''Graph_GetNumNodes'' 23 Ret_status [(In, Ty True ''OrtGraph'' 1), (Out, Ty False ''size_t'' 1)],
     Slot ''Graph_GetNodes'' 23 Ret_status
       [(In, Ty True ''OrtGraph'' 1), (Out, Ty True ''OrtNode'' 2), (In, Ty False ''size_t'' 0)],
     Slot ''Graph_GetParentNode'' 23 Ret_status [(In, Ty True ''OrtGraph'' 1), (Outptr, Ty True ''OrtNode'' 2)],
     Slot ''Graph_GetGraphView'' 23 Ret_status
       [(In, Ty True ''OrtGraph'' 1), (In, Ty True ''OrtNode'' 2), (In, Ty False ''size_t'' 0),
        (Outptr, Ty False ''OrtGraph'' 2)],
     Slot ''Node_GetId'' 23 Ret_status [(In, Ty True ''OrtNode'' 1), (Out, Ty False ''size_t'' 1)],
     Slot ''Node_GetName'' 23 Ret_status [(In, Ty True ''OrtNode'' 1), (Outptr, Ty True ''char'' 2)]]"

definition ort_slots_37 :: "slot list" where
  "ort_slots_37 = [
     Slot ''Node_GetOperatorType'' 23 Ret_status [(In, Ty True ''OrtNode'' 1), (Outptr, Ty True ''char'' 2)],
     Slot ''Node_GetDomain'' 23 Ret_status [(In, Ty True ''OrtNode'' 1), (Outptr, Ty True ''char'' 2)],
     Slot ''Node_GetSinceVersion'' 23 Ret_status [(In, Ty True ''OrtNode'' 1), (Out, Ty False ''int'' 1)],
     Slot ''Node_GetNumInputs'' 23 Ret_status [(In, Ty True ''OrtNode'' 1), (Out, Ty False ''size_t'' 1)],
     Slot ''Node_GetInputs'' 23 Ret_status
       [(In, Ty True ''OrtNode'' 1), (Out, Ty True ''OrtValueInfo'' 2), (In, Ty False ''size_t'' 0)],
     Slot ''Node_GetNumOutputs'' 23 Ret_status [(In, Ty True ''OrtNode'' 1), (Out, Ty False ''size_t'' 1)],
     Slot ''Node_GetOutputs'' 23 Ret_status
       [(In, Ty True ''OrtNode'' 1), (Out, Ty True ''OrtValueInfo'' 2), (In, Ty False ''size_t'' 0)],
     Slot ''Node_GetNumImplicitInputs'' 23 Ret_status [(In, Ty True ''OrtNode'' 1), (Out, Ty False ''size_t'' 1)],
     Slot ''Node_GetImplicitInputs'' 23 Ret_status
       [(In, Ty True ''OrtNode'' 1), (Out, Ty True ''OrtValueInfo'' 2), (In, Ty False ''size_t'' 0)],
     Slot ''Node_GetNumAttributes'' 23 Ret_status [(In, Ty True ''OrtNode'' 1), (Out, Ty False ''size_t'' 1)]]"

definition ort_slots_38 :: "slot list" where
  "ort_slots_38 = [
     Slot ''Node_GetAttributes'' 23 Ret_status
       [(In, Ty True ''OrtNode'' 1), (Out, Ty True ''OrtOpAttr'' 2), (In, Ty False ''size_t'' 0)],
     Slot ''Node_GetAttributeByName'' 23 Ret_status
       [(In, Ty True ''OrtNode'' 1), (In, Ty True ''char'' 1), (Outptr, Ty True ''OrtOpAttr'' 2)],
     Slot ''OpAttr_GetTensorAttributeAsOrtValue'' 23 Ret_status
       [(In, Ty True ''OrtOpAttr'' 1), (Outptr, Ty False ''OrtValue'' 2)],
     Slot ''OpAttr_GetType'' 23 Ret_status [(In, Ty True ''OrtOpAttr'' 1), (Out, Ty False ''OrtOpAttrType'' 1)],
     Slot ''OpAttr_GetName'' 23 Ret_status [(In, Ty True ''OrtOpAttr'' 1), (Outptr, Ty True ''char'' 2)],
     Slot ''Node_GetNumSubgraphs'' 23 Ret_status [(In, Ty True ''OrtNode'' 1), (Out, Ty False ''size_t'' 1)],
     Slot ''Node_GetSubgraphs'' 23 Ret_status
       [(In, Ty True ''OrtNode'' 1), (Out, Ty True ''OrtGraph'' 2), (In, Ty False ''size_t'' 0),
        (Out_opt, Ty True ''char'' 2)],
     Slot ''Node_GetGraph'' 23 Ret_status [(In, Ty True ''OrtNode'' 1), (Outptr, Ty True ''OrtGraph'' 2)],
     Slot ''Node_GetEpName'' 23 Ret_status [(In, Ty True ''OrtNode'' 1), (Outptr, Ty True ''char'' 2)]]"

definition ort_slots_39 :: "slot list" where
  "ort_slots_39 = [
     Slot ''ReleaseExternalInitializerInfo'' 23 Ret_void [(Frees, Ty False ''OrtExternalInitializerInfo'' 1)],
     Slot ''ExternalInitializerInfo_GetFilePath'' 23 (Ret_value (Ty True ''ORTCHAR_T'' 1))
       [(In, Ty True ''OrtExternalInitializerInfo'' 1)],
     Slot ''ExternalInitializerInfo_GetFileOffset'' 23 (Ret_value (Ty False ''int64_t'' 0))
       [(In, Ty True ''OrtExternalInitializerInfo'' 1)],
     Slot ''ExternalInitializerInfo_GetByteSize'' 23 (Ret_value (Ty False ''size_t'' 0))
       [(In, Ty True ''OrtExternalInitializerInfo'' 1)],
     Slot ''GetRunConfigEntry'' 23 (Ret_value (Ty True ''char'' 1))
       [(In, Ty True ''OrtRunOptions'' 1), (In, Ty True ''char'' 1)],
     Slot ''EpDevice_MemoryInfo'' 23 (Ret_value (Ty True ''OrtMemoryInfo'' 1))
       [(In, Ty True ''OrtEpDevice'' 1), (In, Ty False ''OrtDeviceMemoryType'' 0)],
     Slot ''CreateSharedAllocator'' 23 Ret_status
       [(In, Ty False ''OrtEnv'' 1), (In, Ty True ''OrtEpDevice'' 1), (In, Ty False ''OrtDeviceMemoryType'' 0),
        (In, Ty False ''OrtAllocatorType'' 0), (In_opt, Ty True ''OrtKeyValuePairs'' 1),
        (Outptr_opt, Ty False ''OrtAllocator'' 2)],
     Slot ''GetSharedAllocator'' 23 Ret_status
       [(In, Ty False ''OrtEnv'' 1), (In, Ty True ''OrtMemoryInfo'' 1), (Outptr, Ty False ''OrtAllocator'' 2)],
     Slot ''ReleaseSharedAllocator'' 23 Ret_status
       [(In, Ty False ''OrtEnv'' 1), (In, Ty True ''OrtEpDevice'' 1), (In, Ty False ''OrtDeviceMemoryType'' 0)]]"

definition ort_slots_40 :: "slot list" where
  "ort_slots_40 = [
     Slot ''GetTensorData'' 23 Ret_status [(In, Ty True ''OrtValue'' 1), (Outptr, Ty True ''void'' 2)],
     Slot ''GetSessionOptionsConfigEntries'' 23 Ret_status
       [(In, Ty True ''OrtSessionOptions'' 1), (Outptr, Ty False ''OrtKeyValuePairs'' 2)],
     Slot ''SessionGetMemoryInfoForInputs'' 23 Ret_status
       [(In, Ty True ''OrtSession'' 1), (Out, Ty True ''OrtMemoryInfo'' 2), (In, Ty False ''size_t'' 0)],
     Slot ''SessionGetMemoryInfoForOutputs'' 23 Ret_status
       [(In, Ty True ''OrtSession'' 1), (Out, Ty True ''OrtMemoryInfo'' 2), (In, Ty False ''size_t'' 0)],
     Slot ''SessionGetEpDeviceForInputs'' 23 Ret_status
       [(In, Ty True ''OrtSession'' 1), (Out, Ty True ''OrtEpDevice'' 2), (In, Ty False ''size_t'' 0)],
     Slot ''CreateSyncStreamForEpDevice'' 23 Ret_status
       [(In, Ty True ''OrtEpDevice'' 1), (In_opt, Ty True ''OrtKeyValuePairs'' 1),
        (Outptr, Ty False ''OrtSyncStream'' 2)],
     Slot ''SyncStream_GetHandle'' 23 (Ret_value (Ty False ''void'' 1)) [(In, Ty False ''OrtSyncStream'' 1)],
     Slot ''ReleaseSyncStream'' 0 Ret_void [(Frees, Ty False ''OrtSyncStream'' 1)]]"

definition ort_slots_41 :: "slot list" where
  "ort_slots_41 = [
     Slot ''CopyTensors'' 23 Ret_status
       [(In, Ty True ''OrtEnv'' 1), (In, Ty True ''OrtValue'' 2), (In, Ty False ''OrtValue'' 2),
        (In_opt, Ty False ''OrtSyncStream'' 1), (In, Ty False ''size_t'' 0)],
     Slot ''Graph_GetModelMetadata'' 23 Ret_status
       [(In, Ty True ''OrtGraph'' 1), (Outptr, Ty False ''OrtModelMetadata'' 2)],
     Slot ''GetModelCompatibilityForEpDevices'' 23 Ret_status
       [(In, Ty True ''OrtEpDevice'' 2), (In, Ty False ''size_t'' 0), (In, Ty True ''char'' 1),
        (Out, Ty False ''OrtCompiledModelCompatibility'' 1)],
     Slot ''CreateExternalInitializerInfo'' 23 Ret_status
       [(In, Ty True ''ORTCHAR_T'' 1), (In, Ty False ''int64_t'' 0), (In, Ty False ''size_t'' 0),
        (Outptr, Ty False ''OrtExternalInitializerInfo'' 2)],
     Slot ''TensorTypeAndShape_HasShape'' 24 (Ret_value (Ty False ''bool'' 0))
       [(In, Ty True ''OrtTensorTypeAndShapeInfo'' 1)],
     Slot ''KernelInfo_GetConfigEntries'' 24 Ret_status
       [(In, Ty True ''OrtKernelInfo'' 1), (Outptr, Ty False ''OrtKeyValuePairs'' 2)],
     Slot ''KernelInfo_GetOperatorDomain'' 24 Ret_status
       [(In, Ty True ''OrtKernelInfo'' 1), (Out_opt, Ty False ''char'' 1), (Inout, Ty False ''size_t'' 1)]]"

definition ort_slots_42 :: "slot list" where
  "ort_slots_42 = [
     Slot ''KernelInfo_GetOperatorType'' 24 Ret_status
       [(In, Ty True ''OrtKernelInfo'' 1), (Out_opt, Ty False ''char'' 1), (Inout, Ty False ''size_t'' 1)],
     Slot ''KernelInfo_GetOperatorSinceVersion'' 24 Ret_status
       [(In, Ty True ''OrtKernelInfo'' 1), (Out, Ty False ''int'' 1)],
     Slot ''GetInteropApi'' 24 (Ret_value (Ty True ''OrtInteropApi'' 1)) [],
     Slot ''SessionGetEpDeviceForOutputs'' 24 Ret_status
       [(In, Ty True ''OrtSession'' 1), (Out, Ty True ''OrtEpDevice'' 2), (In, Ty False ''size_t'' 0)],
     Slot ''GetNumHardwareDevices'' 24 Ret_status [(In, Ty True ''OrtEnv'' 1), (Out, Ty False ''size_t'' 1)],
     Slot ''GetHardwareDevices'' 24 Ret_status
       [(In, Ty True ''OrtEnv'' 1), (Out, Ty True ''OrtHardwareDevice'' 2), (In, Ty False ''size_t'' 0)],
     Slot ''GetHardwareDeviceEpIncompatibilityDetails'' 24 Ret_status
       [(In, Ty True ''OrtEnv'' 1), (In, Ty True ''char'' 1), (In, Ty True ''OrtHardwareDevice'' 1),
        (Outptr, Ty False ''OrtDeviceEpIncompatibilityDetails'' 2)]]"

definition ort_slots_43 :: "slot list" where
  "ort_slots_43 = [
     Slot ''DeviceEpIncompatibilityDetails_GetReasonsBitmask'' 24 Ret_status
       [(In, Ty True ''OrtDeviceEpIncompatibilityDetails'' 1), (Out, Ty False ''uint32_t'' 1)],
     Slot ''DeviceEpIncompatibilityDetails_GetNotes'' 24 Ret_status
       [(In, Ty True ''OrtDeviceEpIncompatibilityDetails'' 1), (Outptr, Ty True ''char'' 2)],
     Slot ''DeviceEpIncompatibilityDetails_GetErrorCode'' 24 Ret_status
       [(In, Ty True ''OrtDeviceEpIncompatibilityDetails'' 1), (Out, Ty False ''int32_t'' 1)],
     Slot ''ReleaseDeviceEpIncompatibilityDetails'' 24 Ret_void
       [(Frees, Ty False ''OrtDeviceEpIncompatibilityDetails'' 1)],
     Slot ''GetCompatibilityInfoFromModel'' 24 Ret_status
       [(In, Ty True ''ORTCHAR_T'' 1), (In, Ty True ''char'' 1), (Inout, Ty False ''OrtAllocator'' 1),
        (Outptr, Ty False ''char'' 2)],
     Slot ''GetCompatibilityInfoFromModelBytes'' 24 Ret_status
       [(In, Ty True ''void'' 1), (In, Ty False ''size_t'' 0), (In, Ty True ''char'' 1),
        (Inout, Ty False ''OrtAllocator'' 1), (Outptr, Ty False ''char'' 2)],
     Slot ''CreateEnvWithOptions'' 24 Ret_status
       [(In, Ty True ''OrtEnvCreationOptions'' 1), (Outptr, Ty False ''OrtEnv'' 2)]]"

definition ort_slots_44 :: "slot list" where
  "ort_slots_44 = [
     Slot ''Session_GetEpGraphAssignmentInfo'' 24 Ret_status
       [(In, Ty True ''OrtSession'' 1), (Outptr, Ty True ''OrtEpAssignedSubgraph'' 3),
        (Out, Ty False ''size_t'' 1)],
     Slot ''EpAssignedSubgraph_GetEpName'' 24 Ret_status
       [(In, Ty True ''OrtEpAssignedSubgraph'' 1), (Outptr, Ty True ''char'' 2)],
     Slot ''EpAssignedSubgraph_GetNodes'' 24 Ret_status
       [(In, Ty True ''OrtEpAssignedSubgraph'' 1), (Outptr, Ty True ''OrtEpAssignedNode'' 3),
        (Out, Ty False ''size_t'' 1)],
     Slot ''EpAssignedNode_GetName'' 24 Ret_status
       [(In, Ty True ''OrtEpAssignedNode'' 1), (Outptr, Ty True ''char'' 2)],
     Slot ''EpAssignedNode_GetDomain'' 24 Ret_status
       [(In, Ty True ''OrtEpAssignedNode'' 1), (Outptr, Ty True ''char'' 2)],
     Slot ''EpAssignedNode_GetOperatorType'' 24 Ret_status
       [(In, Ty True ''OrtEpAssignedNode'' 1), (Outptr, Ty True ''char'' 2)],
     Slot ''RunOptionsSetSyncStream'' 24 Ret_void
       [(Inout, Ty False ''OrtRunOptions'' 1), (In, Ty False ''OrtSyncStream'' 1)],
     Slot ''GetTensorElementTypeAndShapeDataReference'' 24 Ret_status
       [(In, Ty True ''OrtValue'' 1), (Out, Ty False ''ONNXTensorElementDataType'' 1),
        (Outptr, Ty True ''int64_t'' 2), (Out, Ty False ''size_t'' 1)],
     Slot ''RunOptionsEnableProfiling'' 25 Ret_status
       [(Inout, Ty False ''OrtRunOptions'' 1), (In, Ty True ''ORTCHAR_T'' 1)]]"

definition ort_slots_45 :: "slot list" where
  "ort_slots_45 = [
     Slot ''RunOptionsDisableProfiling'' 25 Ret_status [(Inout, Ty False ''OrtRunOptions'' 1)],
     Slot ''KernelInfoGetAttributeArray_string'' 25 Ret_status
       [(In, Ty True ''OrtKernelInfo'' 1), (In, Ty True ''char'' 1), (Inout, Ty False ''OrtAllocator'' 1),
        (Outptr, Ty False ''char'' 3), (Out, Ty False ''size_t'' 1)],
     Slot ''SetPerSessionThreadPoolCallbacks'' 25 Ret_status
       [(Inout, Ty False ''OrtEnv'' 1), (In, Ty True ''OrtThreadPoolCallbacksConfig'' 1)]]"

definition ort_api :: "slot list" where
  "ort_api = concat
    [ort_slots_1, ort_slots_2, ort_slots_3, ort_slots_4, ort_slots_5, ort_slots_6, ort_slots_7,
     ort_slots_8, ort_slots_9, ort_slots_10, ort_slots_11, ort_slots_12, ort_slots_13,
     ort_slots_14, ort_slots_15, ort_slots_16, ort_slots_17, ort_slots_18, ort_slots_19,
     ort_slots_20, ort_slots_21, ort_slots_22, ort_slots_23, ort_slots_24, ort_slots_25,
     ort_slots_26, ort_slots_27, ort_slots_28, ort_slots_29, ort_slots_30, ort_slots_31,
     ort_slots_32, ort_slots_33, ort_slots_34, ort_slots_35, ort_slots_36, ort_slots_37,
     ort_slots_38, ort_slots_39, ort_slots_40, ort_slots_41, ort_slots_42, ort_slots_43,
     ort_slots_44, ort_slots_45]"

end
