(* ===== verification/Ort_Interfaces.thy ===== *)
theory Ort_Interfaces
  imports Ort_Types
begin

text \<open>The other tables of \<^verbatim>\<open>include/onnxruntime_c_api.h\<close>.\<close>

text \<open>\<^verbatim>\<open>struct OrtCustomOp\<close>: the schema and the kernel of a custom operator, filled in by its author.\<close>

definition ort_custom_op :: "slot list" where
  "ort_custom_op = [
     Slot ''version'' 0 (Data (Ty False ''uint32_t'' 0)) [],
     Slot ''CreateKernel'' 0 (Ret_value (Ty False ''void'' 1))
       [(In, Ty True ''OrtCustomOp'' 1), (In, Ty True ''OrtApi'' 1), (In, Ty True ''OrtKernelInfo'' 1)],
     Slot ''GetName'' 0 (Ret_value (Ty True ''char'' 1)) [(In, Ty True ''OrtCustomOp'' 1)],
     Slot ''GetExecutionProviderType'' 0 (Ret_value (Ty True ''char'' 1)) [(In, Ty True ''OrtCustomOp'' 1)],
     Slot ''GetInputType'' 0 (Ret_value (Ty False ''ONNXTensorElementDataType'' 0))
       [(In, Ty True ''OrtCustomOp'' 1), (In, Ty False ''size_t'' 0)],
     Slot ''GetInputTypeCount'' 0 (Ret_value (Ty False ''size_t'' 0)) [(In, Ty True ''OrtCustomOp'' 1)],
     Slot ''GetOutputType'' 0 (Ret_value (Ty False ''ONNXTensorElementDataType'' 0))
       [(In, Ty True ''OrtCustomOp'' 1), (In, Ty False ''size_t'' 0)],
     Slot ''GetOutputTypeCount'' 0 (Ret_value (Ty False ''size_t'' 0)) [(In, Ty True ''OrtCustomOp'' 1)],
     Slot ''KernelCompute'' 0 Ret_void [(In, Ty False ''void'' 1), (In, Ty False ''OrtKernelContext'' 1)],
     Slot ''KernelDestroy'' 0 Ret_void [(In, Ty False ''void'' 1)],
     Slot ''GetInputCharacteristic'' 0 (Ret_value (Ty False ''OrtCustomOpInputOutputCharacteristic'' 0))
       [(In, Ty True ''OrtCustomOp'' 1), (In, Ty False ''size_t'' 0)],
     Slot ''GetOutputCharacteristic'' 0 (Ret_value (Ty False ''OrtCustomOpInputOutputCharacteristic'' 0))
       [(In, Ty True ''OrtCustomOp'' 1), (In, Ty False ''size_t'' 0)],
     Slot ''GetInputMemoryType'' 0 (Ret_value (Ty False ''OrtMemType'' 0))
       [(In, Ty True ''OrtCustomOp'' 1), (In, Ty False ''size_t'' 0)],
     Slot ''GetVariadicInputMinArity'' 0 (Ret_value (Ty False ''int'' 0)) [(In, Ty True ''OrtCustomOp'' 1)],
     Slot ''GetVariadicInputHomogeneity'' 0 (Ret_value (Ty False ''int'' 0)) [(In, Ty True ''OrtCustomOp'' 1)],
     Slot ''GetVariadicOutputMinArity'' 0 (Ret_value (Ty False ''int'' 0)) [(In, Ty True ''OrtCustomOp'' 1)],
     Slot ''GetVariadicOutputHomogeneity'' 0 (Ret_value (Ty False ''int'' 0)) [(In, Ty True ''OrtCustomOp'' 1)],
     Slot ''CreateKernelV2'' 0 Ret_status
       [(In, Ty True ''OrtCustomOp'' 1), (In, Ty True ''OrtApi'' 1), (In, Ty True ''OrtKernelInfo'' 1),
        (Out, Ty False ''void'' 2)],
     Slot ''KernelComputeV2'' 0 Ret_status [(In, Ty False ''void'' 1), (In, Ty False ''OrtKernelContext'' 1)],
     Slot ''InferOutputShapeFn'' 0 Ret_status
       [(In, Ty True ''OrtCustomOp'' 1), (In, Ty False ''OrtShapeInferContext'' 1)],
     Slot ''GetStartVersion'' 0 (Ret_value (Ty False ''int'' 0)) [(In, Ty True ''OrtCustomOp'' 1)],
     Slot ''GetEndVersion'' 0 (Ret_value (Ty False ''int'' 0)) [(In, Ty True ''OrtCustomOp'' 1)],
     Slot ''GetMayInplace'' 0 (Ret_value (Ty False ''size_t'' 0))
       [(Out, Ty False ''int'' 2), (Out, Ty False ''int'' 2)],
     Slot ''ReleaseMayInplace'' 0 Ret_void [(Frees, Ty False ''int'' 1), (Frees, Ty False ''int'' 1)],
     Slot ''GetAliasMap'' 0 (Ret_value (Ty False ''size_t'' 0)) [(Out, Ty False ''int'' 2), (Out, Ty False ''int'' 2)],
     Slot ''ReleaseAliasMap'' 0 Ret_void [(Frees, Ty False ''int'' 1), (Frees, Ty False ''int'' 1)]]"

text \<open>\<^verbatim>\<open>struct OrtModelEditorApi\<close>, as a full build has it (without \<^verbatim>\<open>ORT_MINIMAL_BUILD\<close>): graphs and models built in memory.\<close>

definition ort_model_editor_1 :: "slot list" where
  "ort_model_editor_1 = [
     Slot ''CreateTensorTypeInfo'' 22 Ret_status
       [(In, Ty True ''OrtTensorTypeAndShapeInfo'' 1), (Outptr, Ty False ''OrtTypeInfo'' 2)],
     Slot ''CreateSparseTensorTypeInfo'' 22 Ret_status
       [(In, Ty True ''OrtTensorTypeAndShapeInfo'' 1), (Outptr, Ty False ''OrtTypeInfo'' 2)],
     Slot ''CreateMapTypeInfo'' 22 Ret_status
       [(Val, Ty False ''ONNXTensorElementDataType'' 0), (In, Ty True ''OrtTypeInfo'' 1),
        (Outptr, Ty False ''OrtTypeInfo'' 2)],
     Slot ''CreateSequenceTypeInfo'' 22 Ret_status
       [(In, Ty True ''OrtTypeInfo'' 1), (Outptr, Ty False ''OrtTypeInfo'' 2)],
     Slot ''CreateOptionalTypeInfo'' 22 Ret_status
       [(In, Ty True ''OrtTypeInfo'' 1), (Outptr, Ty False ''OrtTypeInfo'' 2)],
     Slot ''CreateValueInfo'' 22 Ret_status
       [(In, Ty True ''char'' 1), (In, Ty True ''OrtTypeInfo'' 1), (Outptr, Ty False ''OrtValueInfo'' 2)],
     Slot ''CreateNode'' 22 Ret_status
       [(In, Ty True ''char'' 1), (In, Ty True ''char'' 1), (In, Ty True ''char'' 1), (In, Ty True ''char'' 2),
        (Val, Ty False ''size_t'' 0), (In, Ty True ''char'' 2), (Val, Ty False ''size_t'' 0),
        (In_opt, Ty False ''OrtOpAttr'' 2), (In, Ty False ''size_t'' 0), (Outptr, Ty False ''OrtNode'' 2)],
     Slot ''CreateGraph'' 22 Ret_status [(Outptr, Ty False ''OrtGraph'' 2)],
     Slot ''SetGraphInputs'' 22 Ret_status
       [(Inout, Ty False ''OrtGraph'' 1), (In, Ty False ''OrtValueInfo'' 2), (In, Ty False ''size_t'' 0)]]"

definition ort_model_editor_2 :: "slot list" where
  "ort_model_editor_2 = [
     Slot ''SetGraphOutputs'' 22 Ret_status
       [(Inout, Ty False ''OrtGraph'' 1), (In, Ty False ''OrtValueInfo'' 2), (In, Ty False ''size_t'' 0)],
     Slot ''AddInitializerToGraph'' 22 Ret_status
       [(Inout, Ty False ''OrtGraph'' 1), (In, Ty True ''char'' 1), (In, Ty False ''OrtValue'' 1),
        (Val, Ty False ''bool'' 0)],
     Slot ''AddNodeToGraph'' 22 Ret_status [(Inout, Ty False ''OrtGraph'' 1), (In, Ty False ''OrtNode'' 1)],
     Slot ''CreateModel'' 22 Ret_status
       [(In, Ty True ''char'' 2), (In, Ty True ''int'' 1), (Val, Ty False ''size_t'' 0),
        (Outptr, Ty False ''OrtModel'' 2)],
     Slot ''AddGraphToModel'' 22 Ret_status [(Inout, Ty False ''OrtModel'' 1), (In, Ty False ''OrtGraph'' 1)],
     Slot ''CreateSessionFromModel'' 22 Ret_status
       [(In, Ty True ''OrtEnv'' 1), (In, Ty True ''OrtModel'' 1), (In, Ty True ''OrtSessionOptions'' 1),
        (Outptr, Ty False ''OrtSession'' 2)]]"

definition ort_model_editor_3 :: "slot list" where
  "ort_model_editor_3 = [
     Slot ''CreateModelEditorSession'' 22 Ret_status
       [(In, Ty True ''OrtEnv'' 1), (In, Ty True ''ORTCHAR_T'' 1), (In, Ty True ''OrtSessionOptions'' 1),
        (Outptr, Ty False ''OrtSession'' 2)],
     Slot ''CreateModelEditorSessionFromArray'' 22 Ret_status
       [(In, Ty True ''OrtEnv'' 1), (In, Ty True ''void'' 1), (Val, Ty False ''size_t'' 0),
        (In, Ty True ''OrtSessionOptions'' 1), (Outptr, Ty False ''OrtSession'' 2)],
     Slot ''SessionGetOpsetForDomain'' 22 Ret_status
       [(In, Ty True ''OrtSession'' 1), (In, Ty True ''char'' 1), (Out, Ty False ''int'' 1)],
     Slot ''ApplyModelToModelEditorSession'' 22 Ret_status
       [(Inout, Ty False ''OrtSession'' 1), (In, Ty False ''OrtModel'' 1)],
     Slot ''FinalizeModelEditorSession'' 22 Ret_status
       [(Inout, Ty False ''OrtSession'' 1), (In, Ty True ''OrtSessionOptions'' 1),
        (In_opt, Ty False ''OrtPrepackedWeightsContainer'' 1)]]"

definition ort_model_editor :: "slot list" where
  "ort_model_editor = concat
    [ort_model_editor_1, ort_model_editor_2, ort_model_editor_3]"

text \<open>\<^verbatim>\<open>struct OrtCompileApi\<close>: compilation of models ahead of time.\<close>

definition ort_compile_1 :: "slot list" where
  "ort_compile_1 = [
     Slot ''ReleaseModelCompilationOptions'' 0 Ret_void [(Frees, Ty False ''OrtModelCompilationOptions'' 1)],
     Slot ''CreateModelCompilationOptionsFromSessionOptions'' 22 Ret_status
       [(In, Ty True ''OrtEnv'' 1), (In, Ty True ''OrtSessionOptions'' 1),
        (Outptr, Ty False ''OrtModelCompilationOptions'' 2)],
     Slot ''ModelCompilationOptions_SetInputModelPath'' 22 Ret_status
       [(In, Ty False ''OrtModelCompilationOptions'' 1), (In, Ty True ''ORTCHAR_T'' 1)],
     Slot ''ModelCompilationOptions_SetInputModelFromBuffer'' 22 Ret_status
       [(In, Ty False ''OrtModelCompilationOptions'' 1), (In, Ty True ''void'' 1), (Val, Ty False ''size_t'' 0)],
     Slot ''ModelCompilationOptions_SetOutputModelPath'' 22 Ret_status
       [(In, Ty False ''OrtModelCompilationOptions'' 1), (In, Ty True ''ORTCHAR_T'' 1)],
     Slot ''ModelCompilationOptions_SetOutputModelExternalInitializersFile'' 22 Ret_status
       [(In, Ty False ''OrtModelCompilationOptions'' 1), (In, Ty True ''ORTCHAR_T'' 1),
        (Val, Ty False ''size_t'' 0)],
     Slot ''ModelCompilationOptions_SetOutputModelBuffer'' 22 Ret_status
       [(In, Ty False ''OrtModelCompilationOptions'' 1), (Inout, Ty False ''OrtAllocator'' 1),
        (Outptr, Ty False ''void'' 2), (Out, Ty False ''size_t'' 1)],
     Slot ''ModelCompilationOptions_SetEpContextEmbedMode'' 22 Ret_status
       [(In, Ty False ''OrtModelCompilationOptions'' 1), (Val, Ty False ''bool'' 0)]]"

definition ort_compile_2 :: "slot list" where
  "ort_compile_2 = [
     Slot ''CompileModel'' 22 Ret_status [(In, Ty True ''OrtEnv'' 1), (In, Ty True ''OrtModelCompilationOptions'' 1)],
     Slot ''ModelCompilationOptions_SetFlags'' 23 Ret_status
       [(In, Ty False ''OrtModelCompilationOptions'' 1), (Val, Ty False ''uint32_t'' 0)],
     Slot ''ModelCompilationOptions_SetEpContextBinaryInformation'' 23 Ret_status
       [(In, Ty False ''OrtModelCompilationOptions'' 1), (In, Ty True ''ORTCHAR_T'' 1),
        (In, Ty True ''ORTCHAR_T'' 1)],
     Slot ''ModelCompilationOptions_SetGraphOptimizationLevel'' 23 Ret_status
       [(In, Ty False ''OrtModelCompilationOptions'' 1), (In, Ty False ''GraphOptimizationLevel'' 0)],
     Slot ''ModelCompilationOptions_SetOutputModelWriteFunc'' 23 Ret_status
       [(In, Ty False ''OrtModelCompilationOptions'' 1), (In, Ty False ''OrtWriteBufferFunc'' 0),
        (In, Ty False ''void'' 1)],
     Slot ''ModelCompilationOptions_SetOutputModelGetInitializerLocationFunc'' 23 Ret_status
       [(In, Ty False ''OrtModelCompilationOptions'' 1), (In, Ty False ''OrtGetInitializerLocationFunc'' 0),
        (In, Ty False ''void'' 1)],
     Slot ''ModelCompilationOptions_SetInputModel'' 24 Ret_status
       [(In, Ty False ''OrtModelCompilationOptions'' 1), (In, Ty True ''OrtModel'' 1)]]"

definition ort_compile :: "slot list" where
  "ort_compile = concat
    [ort_compile_1, ort_compile_2]"

text \<open>\<^verbatim>\<open>struct OrtInteropApi\<close>: memory and semaphores shared with other graphics interfaces.\<close>

definition ort_interop_1 :: "slot list" where
  "ort_interop_1 = [
     Slot ''CreateExternalResourceImporterForDevice'' 24 Ret_status
       [(In, Ty True ''OrtEpDevice'' 1), (Outptr, Ty False ''OrtExternalResourceImporter'' 2)],
     Slot ''ReleaseExternalResourceImporter'' 24 Ret_void [(Frees, Ty False ''OrtExternalResourceImporter'' 1)],
     Slot ''CanImportMemory'' 24 Ret_status
       [(In, Ty True ''OrtExternalResourceImporter'' 1), (In, Ty False ''OrtExternalMemoryHandleType'' 0),
        (Out, Ty False ''bool'' 1)],
     Slot ''ImportMemory'' 24 Ret_status
       [(In, Ty False ''OrtExternalResourceImporter'' 1), (In, Ty True ''OrtExternalMemoryDescriptor'' 1),
        (Outptr, Ty False ''OrtExternalMemoryHandle'' 2)],
     Slot ''ReleaseExternalMemoryHandle'' 24 Ret_void [(Frees, Ty False ''OrtExternalMemoryHandle'' 1)],
     Slot ''CreateTensorFromMemory'' 24 Ret_status
       [(In, Ty False ''OrtExternalResourceImporter'' 1), (In, Ty True ''OrtExternalMemoryHandle'' 1),
        (In, Ty True ''OrtExternalTensorDescriptor'' 1), (Outptr, Ty False ''OrtValue'' 2)],
     Slot ''CanImportSemaphore'' 24 Ret_status
       [(In, Ty True ''OrtExternalResourceImporter'' 1), (In, Ty False ''OrtExternalSemaphoreType'' 0),
        (Out, Ty False ''bool'' 1)],
     Slot ''ImportSemaphore'' 24 Ret_status
       [(In, Ty False ''OrtExternalResourceImporter'' 1), (In, Ty True ''OrtExternalSemaphoreDescriptor'' 1),
        (Outptr, Ty False ''OrtExternalSemaphoreHandle'' 2)],
     Slot ''ReleaseExternalSemaphoreHandle'' 24 Ret_void [(Frees, Ty False ''OrtExternalSemaphoreHandle'' 1)]]"

definition ort_interop_2 :: "slot list" where
  "ort_interop_2 = [
     Slot ''WaitSemaphore'' 24 Ret_status
       [(In, Ty False ''OrtExternalResourceImporter'' 1), (In, Ty False ''OrtExternalSemaphoreHandle'' 1),
        (In, Ty False ''OrtSyncStream'' 1), (In, Ty False ''uint64_t'' 0)],
     Slot ''SignalSemaphore'' 24 Ret_status
       [(In, Ty False ''OrtExternalResourceImporter'' 1), (In, Ty False ''OrtExternalSemaphoreHandle'' 1),
        (In, Ty False ''OrtSyncStream'' 1), (In, Ty False ''uint64_t'' 0)],
     Slot ''InitGraphicsInteropForEpDevice'' 25 Ret_status
       [(In, Ty True ''OrtEpDevice'' 1), (In, Ty True ''OrtGraphicsInteropConfig'' 1)],
     Slot ''DeinitGraphicsInteropForEpDevice'' 25 Ret_status [(In, Ty True ''OrtEpDevice'' 1)]]"

definition ort_interop :: "slot list" where
  "ort_interop = concat
    [ort_interop_1, ort_interop_2]"

end
