(* ===== verification/Ort_Ep_Api.thy ===== *)
theory Ort_Ep_Api
  imports Ort_Types
begin

text \<open>The tables of \<^verbatim>\<open>include/onnxruntime_ep_c_api.h\<close>: what the runtime offers to execution providers that
  are loaded as plug-ins, and what these implement.\<close>

text \<open>An imported memory region: \<^verbatim>\<open>struct OrtExternalMemoryHandle\<close>.\<close>

definition external_memory_handle :: "slot list" where
  "external_memory_handle = [
     Slot ''version'' 0 (Data (Ty False ''uint32_t'' 0)) [],
     Slot ''ep_device'' 0 (Data (Ty True ''OrtEpDevice'' 1)) [],
     Slot ''descriptor'' 0 (Data (Ty False ''OrtExternalMemoryDescriptor'' 0)) [],
     Slot ''Release'' 0 Ret_void [(In, Ty False ''OrtExternalMemoryHandle'' 1)]]"

text \<open>An imported semaphore: \<^verbatim>\<open>struct OrtExternalSemaphoreHandle\<close>.\<close>

definition external_semaphore_handle :: "slot list" where
  "external_semaphore_handle = [
     Slot ''version'' 0 (Data (Ty False ''uint32_t'' 0)) [],
     Slot ''ep_device'' 0 (Data (Ty True ''OrtEpDevice'' 1)) [],
     Slot ''descriptor'' 0 (Data (Ty False ''OrtExternalSemaphoreDescriptor'' 0)) [],
     Slot ''Release'' 0 Ret_void [(In, Ty False ''OrtExternalSemaphoreHandle'' 1)]]"

text \<open>Copies between devices: \<^verbatim>\<open>struct OrtDataTransferImpl\<close>.\<close>

definition data_transfer :: "slot list" where
  "data_transfer = [
     Slot ''ort_version_supported'' 0 (Data (Ty False ''uint32_t'' 0)) [],
     Slot ''Release'' 23 Ret_void [(In, Ty False ''OrtDataTransferImpl'' 1)],
     Slot ''CanCopy'' 23 (Ret_value (Ty False ''bool'' 0))
       [(In, Ty True ''OrtDataTransferImpl'' 1), (In, Ty True ''OrtMemoryDevice'' 1),
        (In, Ty True ''OrtMemoryDevice'' 1)],
     Slot ''CopyTensors'' 23 Ret_status
       [(In, Ty False ''OrtDataTransferImpl'' 1), (In, Ty True ''OrtValue'' 2), (In, Ty False ''OrtValue'' 2),
        (In, Ty False ''OrtSyncStream'' 2), (In, Ty False ''size_t'' 0)]]"

text \<open>Notifications between streams: \<^verbatim>\<open>struct OrtSyncNotificationImpl\<close>.\<close>

definition sync_notification :: "slot list" where
  "sync_notification = [
     Slot ''ort_version_supported'' 0 (Data (Ty False ''uint32_t'' 0)) [],
     Slot ''Release'' 23 Ret_void [(In, Ty False ''OrtSyncNotificationImpl'' 1)],
     Slot ''Activate'' 23 Ret_status [(In, Ty False ''OrtSyncNotificationImpl'' 1)],
     Slot ''WaitOnDevice'' 23 Ret_status
       [(In, Ty False ''OrtSyncNotificationImpl'' 1), (In, Ty False ''OrtSyncStream'' 1)],
     Slot ''WaitOnHost'' 23 Ret_status [(In, Ty False ''OrtSyncNotificationImpl'' 1)]]"

text \<open>A stream of a device: \<^verbatim>\<open>struct OrtSyncStreamImpl\<close>.\<close>

definition sync_stream :: "slot list" where
  "sync_stream = [
     Slot ''ort_version_supported'' 0 (Data (Ty False ''uint32_t'' 0)) [],
     Slot ''Release'' 23 Ret_void [(In, Ty False ''OrtSyncStreamImpl'' 1)],
     Slot ''GetHandle'' 23 (Ret_value (Ty False ''void'' 1)) [(In, Ty False ''OrtSyncStreamImpl'' 1)],
     Slot ''CreateNotification'' 23 Ret_status
       [(In, Ty False ''OrtSyncStreamImpl'' 1), (Outptr, Ty False ''OrtSyncNotificationImpl'' 2)],
     Slot ''Flush'' 23 Ret_status [(In, Ty False ''OrtSyncStreamImpl'' 1)],
     Slot ''OnSessionRunEnd'' 23 Ret_status [(In, Ty False ''OrtSyncStreamImpl'' 1)]]"

text \<open>The importer of memory and semaphores: \<^verbatim>\<open>struct OrtExternalResourceImporterImpl\<close>.\<close>

definition resource_importer_1 :: "slot list" where
  "resource_importer_1 = [
     Slot ''ort_version_supported'' 0 (Data (Ty False ''uint32_t'' 0)) [],
     Slot ''CanImportMemory'' 24 (Ret_value (Ty False ''bool'' 0))
       [(In, Ty True ''OrtExternalResourceImporterImpl'' 1), (In, Ty False ''OrtExternalMemoryHandleType'' 0)],
     Slot ''ImportMemory'' 24 Ret_status
       [(In, Ty False ''OrtExternalResourceImporterImpl'' 1), (In, Ty True ''OrtExternalMemoryDescriptor'' 1),
        (Outptr, Ty False ''OrtExternalMemoryHandle'' 2)],
     Slot ''ReleaseMemory'' 24 Ret_void
       [(In, Ty False ''OrtExternalResourceImporterImpl'' 1), (In, Ty False ''OrtExternalMemoryHandle'' 1)],
     Slot ''CreateTensorFromMemory'' 24 Ret_status
       [(In, Ty False ''OrtExternalResourceImporterImpl'' 1), (In, Ty True ''OrtExternalMemoryHandle'' 1),
        (In, Ty True ''OrtExternalTensorDescriptor'' 1), (Outptr, Ty False ''OrtValue'' 2)],
     Slot ''CanImportSemaphore'' 24 (Ret_value (Ty False ''bool'' 0))
       [(In, Ty True ''OrtExternalResourceImporterImpl'' 1), (In, Ty False ''OrtExternalSemaphoreType'' 0)],
     Slot ''ImportSemaphore'' 24 Ret_status
       [(In, Ty False ''OrtExternalResourceImporterImpl'' 1),
        (In, Ty True ''OrtExternalSemaphoreDescriptor'' 1), (Outptr, Ty False ''OrtExternalSemaphoreHandle'' 2)],
     Slot ''ReleaseSemaphore'' 24 Ret_void
       [(In, Ty False ''OrtExternalResourceImporterImpl'' 1), (In, Ty False ''OrtExternalSemaphoreHandle'' 1)],
     Slot ''WaitSemaphore'' 24 Ret_status
       [(In, Ty False ''OrtExternalResourceImporterImpl'' 1), (In, Ty False ''OrtExternalSemaphoreHandle'' 1),
        (In, Ty False ''OrtSyncStream'' 1), (In, Ty False ''uint64_t'' 0)]]"

definition resource_importer_2 :: "slot list" where
  "resource_importer_2 = [
     Slot ''SignalSemaphore'' 24 Ret_status
       [(In, Ty False ''OrtExternalResourceImporterImpl'' 1), (In, Ty False ''OrtExternalSemaphoreHandle'' 1),
        (In, Ty False ''OrtSyncStream'' 1), (In, Ty False ''uint64_t'' 0)],
     Slot ''Release'' 24 Ret_void [(In, Ty False ''OrtExternalResourceImporterImpl'' 1)]]"

definition resource_importer :: "slot list" where
  "resource_importer = concat
    [resource_importer_1, resource_importer_2]"

text \<open>The profiler of a provider: \<^verbatim>\<open>struct OrtEpProfilerImpl\<close>.\<close>

definition ep_profiler_1 :: "slot list" where
  "ep_profiler_1 = [
     Slot ''ort_version_supported'' 0 (Data (Ty False ''uint32_t'' 0)) [],
     Slot ''Release'' 25 Ret_void [(In, Ty False ''OrtEpProfilerImpl'' 1)],
     Slot ''StartProfiling'' 25 Ret_status [(In, Ty False ''OrtEpProfilerImpl'' 1), (In, Ty False ''int64_t'' 0)],
     Slot ''StartEvent'' 25 Ret_status [(In, Ty False ''OrtEpProfilerImpl'' 1), (In, Ty False ''uint64_t'' 0)],
     Slot ''StopEvent'' 25 Ret_status
       [(In, Ty False ''OrtEpProfilerImpl'' 1), (In, Ty False ''uint64_t'' 0),
        (In, Ty True ''OrtProfilingEvent'' 1)]]"

definition ep_profiler_2 :: "slot list" where
  "ep_profiler_2 = [
     Slot ''EndProfiling'' 25 Ret_status
       [(In, Ty False ''OrtEpProfilerImpl'' 1), (In, Ty False ''OrtProfilingEventsContainer'' 1)]]"

definition ep_profiler :: "slot list" where
  "ep_profiler = concat
    [ep_profiler_1, ep_profiler_2]"

text \<open>Options of a fused node: \<^verbatim>\<open>struct OrtNodeFusionOptions\<close>.\<close>

definition fusion_options :: "slot list" where
  "fusion_options = [
     Slot ''ort_version_supported'' 23 (Data (Ty False ''uint32_t'' 0)) [],
     Slot ''drop_constant_initializers'' 23 (Data (Ty False ''bool'' 0)) []]"

text \<open>The computation of a compiled node: \<^verbatim>\<open>struct OrtNodeComputeInfo\<close>.\<close>

definition compute_info :: "slot list" where
  "compute_info = [
     Slot ''ort_version_supported'' 23 (Data (Ty False ''uint32_t'' 0)) [],
     Slot ''CreateState'' 23 (Ret_value (Ty False ''OrtStatus'' 1))
       [(In, Ty False ''OrtNodeComputeInfo'' 1), (In, Ty False ''OrtNodeComputeContext'' 1),
        (Outptr, Ty False ''void'' 2)],
     Slot ''Compute'' 23 (Ret_value (Ty False ''OrtStatus'' 1))
       [(In, Ty False ''OrtNodeComputeInfo'' 1), (In, Ty False ''void'' 1),
        (In, Ty False ''OrtKernelContext'' 1)],
     Slot ''ReleaseState'' 23 Ret_void [(In, Ty False ''OrtNodeComputeInfo'' 1), (Frees, Ty False ''void'' 1)]]"

text \<open>A kernel: \<^verbatim>\<open>struct OrtKernelImpl\<close>.\<close>

definition kernel_impl :: "slot list" where
  "kernel_impl = [
     Slot ''ort_version_supported'' 0 (Data (Ty False ''uint32_t'' 0)) [],
     Slot ''flags'' 0 (Data (Ty False ''uint32_t'' 0)) [],
     Slot ''Compute'' 24 Ret_status [(In, Ty False ''OrtKernelImpl'' 1), (In, Ty False ''OrtKernelContext'' 1)],
     Slot ''Release'' 24 Ret_void [(In, Ty False ''OrtKernelImpl'' 1)],
     Slot ''PrePackWeight'' 24 Ret_status
       [(In, Ty False ''OrtKernelImpl'' 1), (In, Ty True ''OrtValue'' 1), (In, Ty False ''int'' 0),
        (Inout, Ty False ''OrtAllocator'' 1), (In_opt, Ty False ''OrtSharedPrePackedWeightCache'' 1),
        (Out, Ty False ''bool'' 1)],
     Slot ''SetSharedPrePackedWeight'' 24 Ret_status
       [(In, Ty False ''OrtKernelImpl'' 1), (In, Ty True ''void'' 2), (In, Ty True ''size_t'' 1),
        (In, Ty False ''size_t'' 0), (In, Ty False ''int'' 0)]]"

text \<open>What a provider supplies for Loop: \<^verbatim>\<open>struct OrtLoopKernelHelper\<close>.\<close>

definition loop_helper :: "slot list" where
  "loop_helper = [
     Slot ''ort_version_supported'' 0 (Data (Ty False ''uint32_t'' 0)) [],
     Slot ''Release'' 24 Ret_void [(In, Ty False ''OrtLoopKernelHelper'' 1)],
     Slot ''ConcatOutput'' 24 Ret_status
       [(In, Ty False ''OrtLoopKernelHelper'' 1), (In_opt, Ty False ''void'' 1), (In, Ty True ''OrtValue'' 2),
        (In, Ty False ''size_t'' 0), (Out, Ty False ''void'' 1), (In, Ty False ''size_t'' 0)]]"

text \<open>What a provider supplies for Scan: \<^verbatim>\<open>struct OrtScanKernelHelper\<close>.\<close>

definition scan_helper :: "slot list" where
  "scan_helper = [
     Slot ''ort_version_supported'' 0 (Data (Ty False ''uint32_t'' 0)) [],
     Slot ''Release'' 24 Ret_void [(In, Ty False ''OrtScanKernelHelper'' 1)],
     Slot ''Transpose'' 24 Ret_status
       [(In, Ty False ''OrtScanKernelHelper'' 1), (In, Ty True ''size_t'' 1), (In, Ty False ''size_t'' 0),
        (In, Ty True ''OrtValue'' 1), (In_opt, Ty False ''OrtSyncStream'' 1), (Inout, Ty False ''OrtValue'' 1)]]"

text \<open>The functions the runtime offers to providers: \<^verbatim>\<open>struct OrtEpApi\<close>.\<close>

definition ort_ep_api_1 :: "slot list" where
  "ort_ep_api_1 = [
     Slot ''CreateEpDevice'' 22 Ret_status
       [(In, Ty False ''OrtEpFactory'' 1), (In, Ty True ''OrtHardwareDevice'' 1),
        (In_opt, Ty True ''OrtKeyValuePairs'' 1), (In_opt, Ty True ''OrtKeyValuePairs'' 1),
        (Out, Ty False ''OrtEpDevice'' 2)],
     Slot ''ReleaseEpDevice'' 0 Ret_void [(Frees, Ty False ''OrtEpDevice'' 1)],
     Slot ''EpGraphSupportInfo_AddNodesToFuse'' 23 Ret_status
       [(In, Ty False ''OrtEpGraphSupportInfo'' 1), (In, Ty True ''OrtNode'' 2), (In, Ty False ''size_t'' 0),
        (In_opt, Ty True ''OrtNodeFusionOptions'' 1)],
     Slot ''EpGraphSupportInfo_AddSingleNode'' 23 Ret_status
       [(In, Ty False ''OrtEpGraphSupportInfo'' 1), (In, Ty True ''OrtNode'' 1)],
     Slot ''NodeComputeContext_NodeName'' 23 (Ret_value (Ty True ''char'' 1))
       [(In, Ty True ''OrtNodeComputeContext'' 1)],
     Slot ''EpDevice_AddAllocatorInfo'' 23 Ret_status
       [(In, Ty False ''OrtEpDevice'' 1), (In, Ty True ''OrtMemoryInfo'' 1)],
     Slot ''MemoryInfo_GetMemoryDevice'' 23 (Ret_value (Ty True ''OrtMemoryDevice'' 1))
       [(In, Ty True ''OrtMemoryInfo'' 1)],
     Slot ''Value_GetMemoryDevice'' 23 (Ret_value (Ty True ''OrtMemoryDevice'' 1)) [(In, Ty True ''OrtValue'' 1)],
     Slot ''MemoryDevice_AreEqual'' 23 (Ret_value (Ty False ''bool'' 0))
       [(In, Ty True ''OrtMemoryDevice'' 1), (In, Ty True ''OrtMemoryDevice'' 1)],
     Slot ''MemoryDevice_GetDeviceType'' 23 (Ret_value (Ty False ''OrtMemoryInfoDeviceType'' 0))
       [(In, Ty True ''OrtMemoryDevice'' 1)],
     Slot ''MemoryDevice_GetMemoryType'' 23 (Ret_value (Ty False ''OrtDeviceMemoryType'' 0))
       [(In, Ty True ''OrtMemoryDevice'' 1)]]"

definition ort_ep_api_2 :: "slot list" where
  "ort_ep_api_2 = [
     Slot ''MemoryDevice_GetVendorId'' 23 (Ret_value (Ty False ''uint32_t'' 0)) [(In, Ty True ''OrtMemoryDevice'' 1)],
     Slot ''MemoryDevice_GetDeviceId'' 23 (Ret_value (Ty False ''uint32_t'' 0)) [(In, Ty True ''OrtMemoryDevice'' 1)],
     Slot ''SyncStream_GetImpl'' 23 (Ret_value (Ty True ''OrtSyncStreamImpl'' 1)) [(In, Ty True ''OrtSyncStream'' 1)],
     Slot ''SyncStream_GetSyncId'' 23 (Ret_value (Ty False ''uint64_t'' 0)) [(In, Ty True ''OrtSyncStream'' 1)],
     Slot ''GetSyncIdForLastWaitOnSyncStream'' 23 (Ret_value (Ty False ''uint64_t'' 0))
       [(In, Ty True ''OrtSyncStream'' 1), (In, Ty True ''OrtSyncStream'' 1)],
     Slot ''CreateHardwareDevice'' 24 Ret_status
       [(In, Ty False ''OrtHardwareDeviceType'' 0), (In, Ty False ''uint32_t'' 0),
        (In, Ty False ''uint32_t'' 0), (In, Ty True ''char'' 1), (In_opt, Ty True ''OrtKeyValuePairs'' 1),
        (Out, Ty False ''OrtHardwareDevice'' 2)],
     Slot ''ReleaseHardwareDevice'' 0 Ret_void [(Frees, Ty False ''OrtHardwareDevice'' 1)],
     Slot ''CreateKernelRegistry'' 24 Ret_status [(Outptr, Ty False ''OrtKernelRegistry'' 2)],
     Slot ''ReleaseKernelRegistry'' 0 Ret_void [(Frees, Ty False ''OrtKernelRegistry'' 1)],
     Slot ''KernelRegistry_AddKernel'' 24 Ret_status
       [(In, Ty False ''OrtKernelRegistry'' 1), (In, Ty True ''OrtKernelDef'' 1),
        (In, Ty False ''OrtKernelCreateFunc'' 0), (In, Ty False ''void'' 1)],
     Slot ''CreateKernelDefBuilder'' 24 Ret_status [(Outptr, Ty False ''OrtKernelDefBuilder'' 2)],
     Slot ''ReleaseKernelDefBuilder'' 0 Ret_void [(Frees, Ty False ''OrtKernelDefBuilder'' 1)],
     Slot ''KernelDefBuilder_SetOperatorType'' 24 Ret_status
       [(In, Ty False ''OrtKernelDefBuilder'' 1), (In, Ty True ''char'' 1)]]"

definition ort_ep_api_3 :: "slot list" where
  "ort_ep_api_3 = [
     Slot ''KernelDefBuilder_SetDomain'' 24 Ret_status
       [(In, Ty False ''OrtKernelDefBuilder'' 1), (In, Ty True ''char'' 1)],
     Slot ''KernelDefBuilder_SetSinceVersion'' 24 Ret_status
       [(In, Ty False ''OrtKernelDefBuilder'' 1), (In, Ty False ''int'' 0), (In, Ty False ''int'' 0)],
     Slot ''KernelDefBuilder_SetExecutionProvider'' 24 Ret_status
       [(In, Ty False ''OrtKernelDefBuilder'' 1), (In, Ty True ''char'' 1)],
     Slot ''KernelDefBuilder_SetInputMemType'' 24 Ret_status
       [(In, Ty False ''OrtKernelDefBuilder'' 1), (In, Ty False ''size_t'' 0), (In, Ty False ''OrtMemType'' 0)],
     Slot ''KernelDefBuilder_SetOutputMemType'' 24 Ret_status
       [(In, Ty False ''OrtKernelDefBuilder'' 1), (In, Ty False ''size_t'' 0), (In, Ty False ''OrtMemType'' 0)],
     Slot ''KernelDefBuilder_AddTypeConstraint'' 24 Ret_status
       [(In, Ty False ''OrtKernelDefBuilder'' 1), (In, Ty True ''char'' 1), (In, Ty True ''OrtDataType'' 2),
        (In, Ty False ''size_t'' 0)],
     Slot ''KernelDefBuilder_AddInputOutputAliases'' 24 Ret_status
       [(In, Ty False ''OrtKernelDefBuilder'' 1), (In, Ty True ''int'' 1), (In, Ty True ''int'' 1),
        (In, Ty False ''size_t'' 0)],
     Slot ''KernelDefBuilder_AddInputOutputMutableAliases'' 24 Ret_status
       [(In, Ty False ''OrtKernelDefBuilder'' 1), (In, Ty True ''int'' 1), (In, Ty True ''int'' 1),
        (In, Ty False ''size_t'' 0)],
     Slot ''KernelDefBuilder_Build'' 24 Ret_status
       [(In, Ty False ''OrtKernelDefBuilder'' 1), (Outptr, Ty False ''OrtKernelDef'' 2)],
     Slot ''ReleaseKernelDef'' 0 Ret_void [(Frees, Ty False ''OrtKernelDef'' 1)],
     Slot ''KernelDef_GetOperatorType'' 24 (Ret_value (Ty True ''char'' 1)) [(In, Ty True ''OrtKernelDef'' 1)]]"

definition ort_ep_api_4 :: "slot list" where
  "ort_ep_api_4 = [
     Slot ''KernelDef_GetDomain'' 24 (Ret_value (Ty True ''char'' 1)) [(In, Ty True ''OrtKernelDef'' 1)],
     Slot ''KernelDef_GetSinceVersion'' 24 Ret_status
       [(In, Ty True ''OrtKernelDef'' 1), (Out, Ty False ''int'' 1), (Out, Ty False ''int'' 1)],
     Slot ''KernelDef_GetExecutionProvider'' 24 (Ret_value (Ty True ''char'' 1)) [(In, Ty True ''OrtKernelDef'' 1)],
     Slot ''KernelDef_GetInputMemType'' 24 Ret_status
       [(In, Ty True ''OrtKernelDef'' 1), (In, Ty False ''size_t'' 0), (Out, Ty False ''OrtMemType'' 1)],
     Slot ''KernelDef_GetOutputMemType'' 24 Ret_status
       [(In, Ty True ''OrtKernelDef'' 1), (In, Ty False ''size_t'' 0), (Out, Ty False ''OrtMemType'' 1)],
     Slot ''GetTensorDataType'' 24 Ret_status
       [(In, Ty False ''ONNXTensorElementDataType'' 0), (Outptr, Ty True ''OrtDataType'' 2)],
     Slot ''EpGraphSupportInfo_LookUpKernel'' 24 Ret_status
       [(In, Ty False ''OrtEpGraphSupportInfo'' 1), (In, Ty True ''OrtNode'' 1),
        (Outptr, Ty True ''OrtKernelDef'' 2)],
     Slot ''SharedPrePackedWeightCache_StoreWeightData'' 24 Ret_status
       [(In, Ty False ''OrtSharedPrePackedWeightCache'' 1), (In, Ty False ''void'' 2),
        (In, Ty False ''size_t'' 1), (In, Ty False ''size_t'' 0)],
     Slot ''KernelInfo_GetEp'' 24 Ret_status [(In, Ty True ''OrtKernelInfo'' 1), (Outptr, Ty True ''OrtEp'' 2)],
     Slot ''DeviceEpIncompatibilityDetails_SetDetails'' 24 Ret_status
       [(Inout, Ty False ''OrtDeviceEpIncompatibilityDetails'' 1), (In, Ty False ''uint32_t'' 0),
        (In, Ty False ''int32_t'' 0), (In_opt, Ty True ''char'' 1)]]"

definition ort_ep_api_5 :: "slot list" where
  "ort_ep_api_5 = [
     Slot ''CreateIfKernel'' 24 Ret_status [(In, Ty True ''OrtKernelInfo'' 1), (Outptr, Ty False ''OrtKernelImpl'' 2)],
     Slot ''CreateLoopKernel'' 24 Ret_status
       [(In, Ty True ''OrtKernelInfo'' 1), (In, Ty False ''OrtLoopKernelHelper'' 1),
        (Outptr, Ty False ''OrtKernelImpl'' 2)],
     Slot ''CreateScanKernel'' 24 Ret_status
       [(In, Ty True ''OrtKernelInfo'' 1), (In, Ty False ''OrtScanKernelHelper'' 1),
        (Outptr, Ty False ''OrtKernelImpl'' 2)],
     Slot ''ReleaseKernelImpl'' 0 Ret_void [(Frees, Ty False ''OrtKernelImpl'' 1)],
     Slot ''GetEnvConfigEntries'' 24 Ret_status [(Outptr, Ty False ''OrtKeyValuePairs'' 2)],
     Slot ''GetOpSchema'' 25 Ret_status
       [(In, Ty True ''char'' 1), (In, Ty False ''int'' 0), (In, Ty True ''char'' 1),
        (Outptr, Ty False ''OrtOpSchema'' 2)],
     Slot ''ReleaseOpSchema'' 0 Ret_void [(Frees, Ty False ''OrtOpSchema'' 1)]]"

definition ort_ep_api_6 :: "slot list" where
  "ort_ep_api_6 = [
     Slot ''OpSchema_GetSinceVersion'' 25 Ret_status [(In, Ty True ''OrtOpSchema'' 1), (Out, Ty False ''int'' 1)],
     Slot ''OpSchema_GetNumInputs'' 25 Ret_status [(In, Ty True ''OrtOpSchema'' 1), (Out, Ty False ''size_t'' 1)],
     Slot ''OpSchema_GetInputName'' 25 Ret_status
       [(In, Ty True ''OrtOpSchema'' 1), (In, Ty False ''size_t'' 0), (Outptr, Ty True ''char'' 2)],
     Slot ''OpSchema_GetInputTypeConstraint'' 25 Ret_status
       [(In, Ty True ''OrtOpSchema'' 1), (In, Ty False ''size_t'' 0),
        (Outptr, Ty True ''OrtOpSchemaTypeConstraint'' 2)],
     Slot ''OpSchema_GetNumOutputs'' 25 Ret_status [(In, Ty True ''OrtOpSchema'' 1), (Out, Ty False ''size_t'' 1)],
     Slot ''OpSchema_GetOutputName'' 25 Ret_status
       [(In, Ty True ''OrtOpSchema'' 1), (In, Ty False ''size_t'' 0), (Outptr, Ty True ''char'' 2)],
     Slot ''OpSchema_GetOutputTypeConstraint'' 25 Ret_status
       [(In, Ty True ''OrtOpSchema'' 1), (In, Ty False ''size_t'' 0),
        (Outptr, Ty True ''OrtOpSchemaTypeConstraint'' 2)],
     Slot ''OpSchema_GetTypeConstraintCount'' 25 Ret_status
       [(In, Ty True ''OrtOpSchema'' 1), (Out, Ty False ''size_t'' 1)],
     Slot ''OpSchema_GetTypeConstraint'' 25 Ret_status
       [(In, Ty True ''OrtOpSchema'' 1), (In, Ty False ''size_t'' 0),
        (Outptr, Ty True ''OrtOpSchemaTypeConstraint'' 2)]]"

definition ort_ep_api_7 :: "slot list" where
  "ort_ep_api_7 = [
     Slot ''OpSchemaTypeConstraint_GetTypeParamName'' 25 Ret_status
       [(In, Ty True ''OrtOpSchemaTypeConstraint'' 1), (Outptr, Ty True ''char'' 2)],
     Slot ''OpSchemaTypeConstraint_GetAllowedTypes'' 25 Ret_status
       [(In, Ty True ''OrtOpSchemaTypeConstraint'' 1), (Outptr, Ty True ''char'' 3),
        (Out, Ty False ''size_t'' 1)],
     Slot ''OpSchemaTypeConstraint_GetInputIndices'' 25 Ret_status
       [(In, Ty True ''OrtOpSchemaTypeConstraint'' 1), (Outptr, Ty True ''size_t'' 2),
        (Out, Ty False ''size_t'' 1)],
     Slot ''OpSchemaTypeConstraint_GetOutputIndices'' 25 Ret_status
       [(In, Ty True ''OrtOpSchemaTypeConstraint'' 1), (Outptr, Ty True ''size_t'' 2),
        (Out, Ty False ''size_t'' 1)],
     Slot ''CreateProfilingEvent'' 25 Ret_status
       [(In, Ty False ''OrtProfilingEventCategory'' 0), (In, Ty False ''int32_t'' 0),
        (In, Ty False ''int32_t'' 0), (In, Ty True ''char'' 1), (In, Ty False ''int64_t'' 0),
        (In, Ty False ''int64_t'' 0), (In, Ty True ''char'' 2), (In, Ty True ''char'' 2),
        (In, Ty False ''size_t'' 0), (Outptr, Ty False ''OrtProfilingEvent'' 2)],
     Slot ''ReleaseProfilingEvent'' 25 Ret_void [(Frees, Ty False ''OrtProfilingEvent'' 1)],
     Slot ''ProfilingEvent_GetCategory'' 25 Ret_status
       [(In, Ty True ''OrtProfilingEvent'' 1), (Out, Ty False ''OrtProfilingEventCategory'' 1)],
     Slot ''ProfilingEvent_GetName'' 25 Ret_status
       [(In, Ty True ''OrtProfilingEvent'' 1), (Outptr, Ty True ''char'' 2)],
     Slot ''ProfilingEvent_GetTimestampUs'' 25 Ret_status
       [(In, Ty True ''OrtProfilingEvent'' 1), (Out, Ty False ''int64_t'' 1)]]"

definition ort_ep_api_8 :: "slot list" where
  "ort_ep_api_8 = [
     Slot ''ProfilingEvent_GetDurationUs'' 25 Ret_status
       [(In, Ty True ''OrtProfilingEvent'' 1), (Out, Ty False ''int64_t'' 1)],
     Slot ''ProfilingEvent_GetArgValue'' 25 Ret_status
       [(In, Ty True ''OrtProfilingEvent'' 1), (In, Ty True ''char'' 1), (Outptr, Ty True ''char'' 2)],
     Slot ''ProfilingEventsContainer_AddEvents'' 25 Ret_status
       [(In, Ty False ''OrtProfilingEventsContainer'' 1), (In, Ty True ''OrtProfilingEvent'' 2),
        (In, Ty False ''size_t'' 0)]]"

definition ort_ep_api :: "slot list" where
  "ort_ep_api = concat
    [ort_ep_api_1, ort_ep_api_2, ort_ep_api_3, ort_ep_api_4, ort_ep_api_5, ort_ep_api_6,
     ort_ep_api_7, ort_ep_api_8]"

text \<open>An execution provider: \<^verbatim>\<open>struct OrtEp\<close>.\<close>

definition ort_ep_1 :: "slot list" where
  "ort_ep_1 = [
     Slot ''ort_version_supported'' 22 (Data (Ty False ''uint32_t'' 0)) [],
     Slot ''GetName'' 22 (Ret_value (Ty True ''char'' 1)) [(In, Ty True ''OrtEp'' 1)],
     Slot ''GetCapability'' 23 Ret_status
       [(In, Ty False ''OrtEp'' 1), (In, Ty True ''OrtGraph'' 1), (Inout, Ty False ''OrtEpGraphSupportInfo'' 1)],
     Slot ''Compile'' 23 Ret_status
       [(In, Ty False ''OrtEp'' 1), (In, Ty True ''OrtGraph'' 2), (In, Ty True ''OrtNode'' 2),
        (In, Ty False ''size_t'' 0), (Out, Ty False ''OrtNodeComputeInfo'' 2), (Out, Ty False ''OrtNode'' 2)],
     Slot ''ReleaseNodeComputeInfos'' 23 Ret_void
       [(In, Ty False ''OrtEp'' 1), (Val, Ty False ''OrtNodeComputeInfo'' 2), (In, Ty False ''size_t'' 0)],
     Slot ''GetPreferredDataLayout'' 23 Ret_status [(In, Ty False ''OrtEp'' 1), (Out, Ty False ''OrtEpDataLayout'' 1)],
     Slot ''ShouldConvertDataLayoutForOp'' 23 Ret_status
       [(In, Ty False ''OrtEp'' 1), (In, Ty True ''char'' 1), (In, Ty True ''char'' 1),
        (In, Ty False ''OrtEpDataLayout'' 0), (Outptr, Ty False ''int'' 1)]]"

definition ort_ep_2 :: "slot list" where
  "ort_ep_2 = [
     Slot ''SetDynamicOptions'' 23 Ret_status
       [(In, Ty False ''OrtEp'' 1), (In, Ty True ''char'' 2), (In, Ty True ''char'' 2),
        (In, Ty False ''size_t'' 0)],
     Slot ''OnRunStart'' 23 Ret_status [(In, Ty False ''OrtEp'' 1), (In, Ty True ''OrtRunOptions'' 1)],
     Slot ''OnRunEnd'' 23 Ret_status
       [(In, Ty False ''OrtEp'' 1), (In, Ty True ''OrtRunOptions'' 1), (In, Ty False ''bool'' 0)],
     Slot ''CreateAllocator'' 23 Ret_status
       [(In, Ty False ''OrtEp'' 1), (In, Ty True ''OrtMemoryInfo'' 1), (Outptr, Ty False ''OrtAllocator'' 2)],
     Slot ''CreateSyncStreamForDevice'' 23 Ret_status
       [(In, Ty False ''OrtEp'' 1), (In, Ty True ''OrtMemoryDevice'' 1),
        (Outptr, Ty False ''OrtSyncStreamImpl'' 2)],
     Slot ''GetCompiledModelCompatibilityInfo'' 23 (Ret_value (Ty True ''char'' 1))
       [(In, Ty False ''OrtEp'' 1), (In, Ty True ''OrtGraph'' 1)],
     Slot ''GetKernelRegistry'' 24 Ret_status [(In, Ty False ''OrtEp'' 1), (Outptr, Ty True ''OrtKernelRegistry'' 2)],
     Slot ''IsConcurrentRunSupported'' 24 Ret_status [(In, Ty False ''OrtEp'' 1), (Outptr, Ty False ''bool'' 1)]]"

definition ort_ep_3 :: "slot list" where
  "ort_ep_3 = [
     Slot ''Sync'' 25 Ret_status [(In, Ty False ''OrtEp'' 1)],
     Slot ''CreateProfiler'' 25 Ret_status [(In, Ty False ''OrtEp'' 1), (Outptr, Ty False ''OrtEpProfilerImpl'' 2)],
     Slot ''IsGraphCaptureEnabled'' 26 (Ret_value (Ty False ''bool'' 0)) [(In, Ty True ''OrtEp'' 1)],
     Slot ''IsGraphCaptured'' 26 (Ret_value (Ty False ''bool'' 0))
       [(In, Ty True ''OrtEp'' 1), (In, Ty False ''int'' 0)],
     Slot ''ReplayGraph'' 26 Ret_status [(In, Ty False ''OrtEp'' 1), (In, Ty False ''int'' 0)],
     Slot ''GetGraphCaptureNodeAssignmentPolicy'' 26 (Ret_value (Ty False ''OrtGraphCaptureNodeAssignmentPolicy'' 0))
       [(In, Ty True ''OrtEp'' 1)]]"

definition ort_ep_4 :: "slot list" where
  "ort_ep_4 = [
     Slot ''GetAvailableResource'' 26 Ret_status [(In, Ty True ''OrtEp'' 1), (Out, Ty False ''OrtResourceCount'' 1)]]"

definition ort_ep :: "slot list" where
  "ort_ep = concat
    [ort_ep_1, ort_ep_2, ort_ep_3, ort_ep_4]"

text \<open>The factory of execution providers: \<^verbatim>\<open>struct OrtEpFactory\<close>.\<close>

definition ep_factory_1 :: "slot list" where
  "ep_factory_1 = [
     Slot ''ort_version_supported'' 22 (Data (Ty False ''uint32_t'' 0)) [],
     Slot ''GetName'' 22 (Ret_value (Ty True ''char'' 1)) [(Val, Ty True ''OrtEpFactory'' 1)],
     Slot ''GetVendor'' 22 (Ret_value (Ty True ''char'' 1)) [(Val, Ty True ''OrtEpFactory'' 1)],
     Slot ''GetSupportedDevices'' 22 Ret_status
       [(In, Ty False ''OrtEpFactory'' 1), (In, Ty True ''OrtHardwareDevice'' 2), (In, Ty False ''size_t'' 0),
        (Inout, Ty False ''OrtEpDevice'' 2), (In, Ty False ''size_t'' 0), (Out, Ty False ''size_t'' 1)],
     Slot ''CreateEp'' 22 Ret_status
       [(In, Ty False ''OrtEpFactory'' 1), (In, Ty True ''OrtHardwareDevice'' 2),
        (In, Ty True ''OrtKeyValuePairs'' 2), (In, Ty False ''size_t'' 0),
        (In, Ty True ''OrtSessionOptions'' 1), (In, Ty True ''OrtLogger'' 1), (Outptr, Ty False ''OrtEp'' 2)],
     Slot ''ReleaseEp'' 22 Ret_void [(Val, Ty False ''OrtEpFactory'' 1), (Val, Ty False ''OrtEp'' 1)],
     Slot ''GetVendorId'' 23 (Ret_value (Ty False ''uint32_t'' 0)) [(Val, Ty True ''OrtEpFactory'' 1)],
     Slot ''GetVersion'' 23 (Ret_value (Ty True ''char'' 1)) [(In, Ty True ''OrtEpFactory'' 1)],
     Slot ''ValidateCompiledModelCompatibilityInfo'' 23 Ret_status
       [(In, Ty False ''OrtEpFactory'' 1), (In, Ty True ''OrtHardwareDevice'' 2), (In, Ty False ''size_t'' 0),
        (In, Ty True ''char'' 1), (Out, Ty False ''OrtCompiledModelCompatibility'' 1)]]"

definition ep_factory_2 :: "slot list" where
  "ep_factory_2 = [
     Slot ''CreateAllocator'' 23 Ret_status
       [(In, Ty False ''OrtEpFactory'' 1), (In, Ty True ''OrtMemoryInfo'' 1),
        (In_opt, Ty True ''OrtKeyValuePairs'' 1), (Outptr, Ty False ''OrtAllocator'' 2)],
     Slot ''ReleaseAllocator'' 23 Ret_void [(In, Ty False ''OrtEpFactory'' 1), (In, Ty False ''OrtAllocator'' 1)],
     Slot ''CreateDataTransfer'' 23 Ret_status
       [(In, Ty False ''OrtEpFactory'' 1), (Outptr, Ty False ''OrtDataTransferImpl'' 2)],
     Slot ''IsStreamAware'' 23 (Ret_value (Ty False ''bool'' 0)) [(In, Ty True ''OrtEpFactory'' 1)],
     Slot ''CreateSyncStreamForDevice'' 23 Ret_status
       [(In, Ty False ''OrtEpFactory'' 1), (In, Ty True ''OrtMemoryDevice'' 1),
        (In_opt, Ty True ''OrtKeyValuePairs'' 1), (Outptr, Ty False ''OrtSyncStreamImpl'' 2)],
     Slot ''GetHardwareDeviceIncompatibilityDetails'' 24 Ret_status
       [(In, Ty False ''OrtEpFactory'' 1), (In, Ty True ''OrtHardwareDevice'' 1),
        (Inout, Ty False ''OrtDeviceEpIncompatibilityDetails'' 1)],
     Slot ''CreateExternalResourceImporterForDevice'' 24 Ret_status
       [(In, Ty False ''OrtEpFactory'' 1), (In, Ty True ''OrtEpDevice'' 1),
        (Outptr, Ty False ''OrtExternalResourceImporterImpl'' 2)],
     Slot ''GetNumCustomOpDomains'' 24 Ret_status [(In, Ty False ''OrtEpFactory'' 1), (Out, Ty False ''size_t'' 1)]]"

definition ep_factory_3 :: "slot list" where
  "ep_factory_3 = [
     Slot ''GetCustomOpDomains'' 24 Ret_status
       [(In, Ty False ''OrtEpFactory'' 1), (Out, Ty False ''OrtCustomOpDomain'' 2), (In, Ty False ''size_t'' 0)],
     Slot ''InitGraphicsInterop'' 25 Ret_status
       [(In, Ty False ''OrtEpFactory'' 1), (In, Ty True ''OrtEpDevice'' 1),
        (In, Ty True ''OrtGraphicsInteropConfig'' 1)],
     Slot ''DeinitGraphicsInterop'' 25 Ret_status [(In, Ty False ''OrtEpFactory'' 1), (In, Ty True ''OrtEpDevice'' 1)]]"

definition ep_factory :: "slot list" where
  "ep_factory = concat
    [ep_factory_1, ep_factory_2, ep_factory_3]"

end
