(* ===== verification/Ort_Versions.thy ===== *)
theory Ort_Versions
  imports Ort_Api_Late Ort_Interfaces Ort_Ep_Api
begin

text \<open>
  What holds of all the tables of the ONNX Runtime interface together: they grow only at their
  ends, so that a program built for one version finds its functions in every later runtime
  (\<^verbatim>\<open>GetApi(ORT_API_VERSION)\<close> may be asked of a newer library); every handle given out can be given
  back; and the annotations of the parameters fit their types, with three exceptions.
\<close>

definition runtime_tables :: "slot list list" where
  "runtime_tables = [ort_api, ort_model_editor, ort_compile, ort_interop, ort_ep_api]"

definition plugin_tables :: "slot list list" where
  "plugin_tables = [ort_allocator, ort_custom_op, external_memory_handle, external_semaphore_handle,
     data_transfer, sync_notification, sync_stream, resource_importer, ep_profiler, fusion_options,
     compute_info, kernel_impl, loop_helper, scan_helper, ort_ep, ep_factory]"

definition ort_tables :: "slot list list" where
  "ort_tables = runtime_tables @ plugin_tables"

lemmas ort_sections = ort_slots_1_def ort_slots_2_def ort_slots_3_def ort_slots_4_def ort_slots_5_def ort_slots_6_def
  ort_slots_7_def ort_slots_8_def ort_slots_9_def ort_slots_10_def ort_slots_11_def
  ort_slots_12_def ort_slots_13_def ort_slots_14_def ort_slots_15_def ort_slots_16_def
  ort_slots_17_def ort_slots_18_def ort_slots_19_def ort_slots_20_def ort_slots_21_def
  ort_slots_22_def ort_slots_23_def ort_slots_24_def ort_slots_25_def ort_slots_26_def
  ort_slots_27_def ort_slots_28_def ort_slots_29_def ort_slots_30_def ort_slots_31_def
  ort_slots_32_def ort_slots_33_def ort_slots_34_def ort_slots_35_def ort_slots_36_def
  ort_slots_37_def ort_slots_38_def ort_slots_39_def ort_slots_40_def ort_slots_41_def
  ort_slots_42_def ort_slots_43_def ort_slots_44_def ort_slots_45_def ort_allocator_def
  ort_api_base_def ort_custom_op_def ort_model_editor_1_def ort_model_editor_2_def
  ort_model_editor_3_def ort_compile_1_def ort_compile_2_def ort_interop_1_def
  ort_interop_2_def external_memory_handle_def external_semaphore_handle_def data_transfer_def
  sync_notification_def sync_stream_def resource_importer_1_def resource_importer_2_def
  ep_profiler_1_def ep_profiler_2_def fusion_options_def compute_info_def kernel_impl_def
  loop_helper_def scan_helper_def ort_ep_api_1_def ort_ep_api_2_def ort_ep_api_3_def
  ort_ep_api_4_def ort_ep_api_5_def ort_ep_api_6_def ort_ep_api_7_def ort_ep_api_8_def
  ort_ep_1_def ort_ep_2_def ort_ep_3_def ort_ep_4_def ep_factory_1_def ep_factory_2_def
  ep_factory_3_def

lemmas ort_table_defs = ort_api_def ort_model_editor_def ort_compile_def ort_interop_def resource_importer_def
  ep_profiler_def ort_ep_api_def ort_ep_def ep_factory_def runtime_tables_def plugin_tables_def ort_tables_def

section \<open>Versions\<close>

text \<open>The part of a table that a library of version \<^verbatim>\<open>1.v\<close> has: all before the first newer member.\<close>

definition table_at :: "nat \<Rightarrow> slot list \<Rightarrow> slot list" where
  "table_at v = takeWhile (\<lambda>s. slot_since s \<le> v)"

lemma stated_in_table_at:
  assumes "sorted (filter ((<) 0) (map slot_since t))" "i < length t" "0 < slot_since (t ! i)" "slot_since (t ! i) \<le> v"
  shows "i < length (table_at v t)"
  using assms
proof (induction t arbitrary: i)
  case (Cons s t)
  show ?case
  proof (cases "slot_since s \<le> v")
    case True
    have "sorted (filter ((<) 0) (map slot_since t))" using Cons.prems(1) by (auto split: if_splits)
    then show ?thesis using True Cons by (cases i) (auto simp: table_at_def)
  next
    case False
    have "\<forall>x \<in> set t. 0 < slot_since x \<longrightarrow> slot_since s \<le> slot_since x" using Cons.prems(1) False by auto
    then have "slot_since s \<le> slot_since ((s # t) ! i)" using Cons.prems(2,3) by (cases i) auto
    then show ?thesis using False Cons.prems(4) by simp
  qed
qed simp

lemma versions_ascend: "list_all (\<lambda>t. sorted (filter ((<) 0) (map slot_since t))) ort_tables"
  by (simp add: ort_table_defs ort_sections)

lemma versions_bounded: "list_all (list_all (\<lambda>s. slot_since s \<le> 26)) ort_tables"
  by (simp add: ort_table_defs ort_sections)



section \<open>Handles\<close>

text \<open>The types of handles given out by a function, and of those taken back.\<close>

fun handed :: "direction \<times> ctype \<Rightarrow> bool" where
  "handed (d, p) \<longleftrightarrow> d = Outptr \<and> \<not> ty_const p \<and> ty_stars p = 2 \<and> take 3 (ty_base p) = ''Ort''"

fun freed :: "direction \<times> ctype \<Rightarrow> bool" where
  "freed (d, p) \<longleftrightarrow> d = Frees"

fun taken :: "direction \<times> ctype \<Rightarrow> bool" where
  "taken (d, p) \<longleftrightarrow> \<not> ty_const p \<and> ty_stars p = 1"

definition releasing :: "slot \<Rightarrow> bool" where
  "releasing s \<longleftrightarrow> take 7 (slot_name s) = ''Release''"

definition types_of :: "(direction \<times> ctype \<Rightarrow> bool) \<Rightarrow> slot list \<Rightarrow> string list" where
  "types_of P xs = map (ty_base \<circ> snd) (filter P (concat (map slot_params xs)))"

lemma types_of_simps:
  "types_of P [] = []"
  "types_of P (Slot n v r ps # xs) = map (\<lambda>q. ty_base (snd q)) (filter P ps) @ types_of P xs"
  by (simp_all add: types_of_def comp_def)

lemma types_of_append: "types_of P (xs @ ys) = types_of P xs @ types_of P ys"
  by (simp add: types_of_def)

text \<open>Statements on all tables are first split into statements on their sections.\<close>

lemmas by_sections = ort_table_defs concat.simps list.map append_Nil append_Nil2 append_Cons append_assoc list_all_append filter_append map_append
  list.pred_inject types_of_append types_of_simps(1)

lemma runtime_freed:
  "types_of freed (concat runtime_tables) =
    [''OrtEnv'', ''OrtStatus'', ''OrtMemoryInfo'', ''OrtSession'', ''OrtValue'', ''OrtRunOptions'',
     ''OrtTypeInfo'', ''OrtTensorTypeAndShapeInfo'', ''OrtSessionOptions'', ''OrtCustomOpDomain'',
     ''OrtMapTypeInfo'', ''OrtSequenceTypeInfo'', ''OrtModelMetadata'', ''OrtThreadingOptions'',
     ''OrtAllocator'', ''OrtIoBinding'', ''OrtArenaCfg'', ''OrtPrepackedWeightsContainer'',
     ''OrtTensorRTProviderOptionsV2'', ''OrtCUDAProviderOptionsV2'', ''OrtOpAttr'', ''OrtOp'',
     ''OrtKernelInfo'', ''OrtCANNProviderOptions'', ''OrtDnnlProviderOptions'',
     ''OrtROCMProviderOptions'', ''OrtLoraAdapter'', ''OrtValueInfo'', ''OrtNode'', ''OrtGraph'',
     ''OrtModel'', ''OrtKeyValuePairs'', ''OrtExternalInitializerInfo'', ''OrtSyncStream'',
     ''OrtDeviceEpIncompatibilityDetails'', ''OrtModelCompilationOptions'',
     ''OrtExternalResourceImporter'', ''OrtExternalMemoryHandle'', ''OrtExternalSemaphoreHandle'',
     ''OrtEpDevice'', ''OrtHardwareDevice'', ''OrtKernelRegistry'', ''OrtKernelDefBuilder'',
     ''OrtKernelDef'', ''OrtKernelImpl'', ''OrtOpSchema'', ''OrtProfilingEvent'']"
  by (simp only: by_sections) (simp add: ort_sections types_of_simps)

lemma plugin_taken:
  "types_of taken (filter releasing (concat plugin_tables)) =
    [''int'', ''int'', ''int'', ''int'', ''OrtExternalMemoryHandle'', ''OrtExternalSemaphoreHandle'',
     ''OrtDataTransferImpl'', ''OrtSyncNotificationImpl'', ''OrtSyncStreamImpl'',
     ''OrtExternalResourceImporterImpl'', ''OrtExternalMemoryHandle'',
     ''OrtExternalResourceImporterImpl'', ''OrtExternalSemaphoreHandle'',
     ''OrtExternalResourceImporterImpl'', ''OrtEpProfilerImpl'', ''OrtNodeComputeInfo'', ''void'',
     ''OrtKernelImpl'', ''OrtLoopKernelHelper'', ''OrtScanKernelHelper'', ''OrtEp'',
     ''OrtEpFactory'', ''OrtEp'', ''OrtEpFactory'', ''OrtAllocator'']"
  by (simp only: by_sections) (simp add: ort_sections types_of_simps releasing_def)

lemma runtime_handles:
  "list_all (\<lambda>b. b \<in> set (types_of freed (concat runtime_tables))) (types_of handed (concat runtime_tables))"
  unfolding runtime_freed by (simp only: by_sections) (simp add: ort_sections types_of_simps)

lemma plugin_handles:
  "list_all (\<lambda>b. b \<in> set (types_of freed (concat runtime_tables)) \<union> set (types_of taken (filter releasing (concat plugin_tables))))
     (types_of handed (concat plugin_tables))"
  unfolding runtime_freed plugin_taken by (simp only: by_sections) (simp add: ort_sections types_of_simps)


section \<open>Annotations\<close>

fun well_annotated :: "direction \<times> ctype \<Rightarrow> bool" where
  "well_annotated (d, p) \<longleftrightarrow> (case d of Outptr \<Rightarrow> 2 \<le> ty_stars p | Outptr_opt \<Rightarrow> 2 \<le> ty_stars p
     | Out \<Rightarrow> 1 \<le> ty_stars p | Out_opt \<Rightarrow> 1 \<le> ty_stars p | Inout \<Rightarrow> 1 \<le> ty_stars p
     | Frees \<Rightarrow> ty_stars p = 1 \<and> \<not> ty_const p | _ \<Rightarrow> True)"

text \<open>The three functions whose output is marked as a pointer to a pointer and is a plain value.\<close>

lemma misannotated:
  "map slot_name (filter (\<lambda>s. \<not> list_all well_annotated (slot_params s)) (concat ort_tables)) =
   [''SessionGetProfilingStartTimeNs'', ''ShouldConvertDataLayoutForOp'', ''IsConcurrentRunSupported'']"
  by (simp only: by_sections) (simp add: ort_sections)

end
