(* ===== verification/Startup.thy ===== *)
theory Startup
  imports Archive Status Options
begin

text \<open>
  The self test (\<^verbatim>\<open>self_test_output\<close>) and the first part of \<^verbatim>\<open>main\<close>, from the command line to the point
  where the process either ends or goes on to PipeWire; what follows is theory \<^theory_text>\<open>Lifecycle\<close>.  The self
  test composes the ring, the resampler, the archive and \<^verbatim>\<open>write_all\<close>.
\<close>

section \<open>self_test_output\<close>

definition deterministic_frames :: "fp list" where
  "deterministic_frames = map (fp_lit binary32)
     [0, 0, 1 / 2, - (1 / 2), 1, 1, - (1 / 2), 1 / 2, 1 / 4, 3 / 4, - 1, - 1, 1 / 10, 1 / 5, - (1 / 10), - (1 / 5)]"

definition self_test_text :: "fp \<Rightarrow> string" where
  "self_test_text sample = ''{\"event\":\"self_test\",\"type\":\"self_test\",\"status\":\"ok\",\"score\":'' @
     fmt_f 9 (fabs (fp_conv binary64 sample)) @ ''}'' @ [CHR 0x0A]"

definition archive_sample :: "nat \<Rightarrow> fp" where
  "archive_sample i = fdiv binary32 (fp_of_int binary32 (int (i mod 200) - 100)) (fp_lit binary32 1000)"

text \<open>\<open>latest\<close> is an array without an initialiser: its contents are an argument, of 16 cells.  \<open>mem\<close> and
  \<open>mem'\<close> are the answers of the two calls of \<^verbatim>\<open>calloc\<close>.\<close>

definition self_test_output ::
    "nat \<Rightarrow> (int \<times> int) option \<Rightarrow> bool \<Rightarrow> bool \<Rightarrow> fp list \<Rightarrow> listener_options ptr \<Rightarrow> u32 \<times> world \<Rightarrow> (int \<times> u32 \<times> world) option" where
  "self_test_output pid now mem mem' latest options = (\<lambda>(seqno, w).
     (case ring_init mem (Some \<lparr>samples = NULL, capacity = 0, write_index = 0, total_written = 0\<rparr>) (ucast MODEL_RATE * ucast MODEL_SECONDS) of
       (rc, ring) \<Rightarrow> if rc < 0 then Some (- 1, seqno, w)
     else do {
       (ring, accumulator) \<leftarrow> mix_and_resample_downmix (Some deterministic_frames)
         (of_nat (length deterministic_frames * 4) div (4 * 2)) 2 (MODEL_RATE div 2) ring (Some 0);
       (n, latest) \<leftarrow> ring_snapshot_latest ring (Some latest) 8;
       if n < 8 then Some (- 1, seqno, w)
       else do {
         l \<leftarrow> latest;
         l0 \<leftarrow> load l 0;
         sum \<leftarrow> foldM (\<lambda>sum i. do { x \<leftarrow> load l i; Some (fadd binary32 sum x) }) l0 [1..<8];
         let sample = fdiv binary32 sum (fp_lit binary32 8);
         let (payload, len) = snprintf 256 (self_test_text sample);
         if len < 0 \<or> 256 \<le> len then Some (- 1, seqno, w)
         else do {
           (r, seqno, w) \<leftarrow> (case options of
               Some opts \<Rightarrow> if activation_archive_dir opts \<noteq> NULL then
                   (if \<not> mem' then Some (- 1, seqno, w)
                    else archive_activation pid now (activation_archive_dir opts) (Some (map archive_sample [0..<unat MODEL_SAMPLES]))
                      (ucast MODEL_SAMPLES) (FNum 1) True (seqno, w))
                 else Some (0, seqno, w)
             | None \<Rightarrow> Some (0, seqno, w));
           if r \<noteq> 0 then Some (- 1, seqno, w)
           else do {
             (r, w) \<leftarrow> write_all 1 (bytes_of payload) w;
             Some (if r < 0 then - 1 else 0, seqno, w) } } } }))"

text \<open>The frames are resampled to twice their rate, so the last eight samples are the last four frames,
  each twice.\<close>

definition self_test_window :: "fp list" where
  "self_test_window = map (\<lambda>j. mix_spec (frame_slice deterministic_frames 2 (frame_of 8000 0 j))) [8..<16]"

definition self_test_line :: string where
  "self_test_line = ''{\"event\":\"self_test\",\"type\":\"self_test\",\"status\":\"ok\",\"score\":0.125000000}'' @ [CHR 0x0A]"

lemma deterministic_frames_are:
  "deterministic_frames = [FZero False, FZero False, FNum (1 / 2), FNum (- (1 / 2)), FNum 1, FNum 1, FNum (- (1 / 2)), FNum (1 / 2), FNum (1 / 4), FNum (3 / 4), FNum (- 1), FNum (- 1), FNum (13421773 / 134217728), FNum (13421773 / 67108864), FNum (- (13421773 / 134217728)), FNum (- (13421773 / 67108864))]"
  unfolding deterministic_frames_def by code_simp

text \<open>The window and its sum, one operation after the other.\<close>

definition self_test_values :: "fp list" where
  "self_test_values = [FNum (1 / 2), FNum (1 / 2), FNum (- 1), FNum (- 1), FNum (5033165 / 33554432), FNum (5033165 / 33554432), FNum (- (5033165 / 33554432)), FNum (- (5033165 / 33554432))]"

lemma self_test_sums:
  "fadd binary32 (FNum (1 / 2)) (FNum (1 / 2)) = FNum 1"
  "fadd binary32 (FNum 1) (FNum (- 1)) = FZero False"
  "fadd binary32 (FZero False) (FNum (- 1)) = FNum (- 1)"
  "fadd binary32 (FNum (- 1)) (FNum (5033165 / 33554432)) = FNum (- (7130317 / 8388608))"
  "fadd binary32 (FNum (- (7130317 / 8388608))) (FNum (5033165 / 33554432)) = FNum (- (2936013 / 4194304))"
  "fadd binary32 (FNum (- (2936013 / 4194304))) (FNum (- (5033165 / 33554432))) = FNum (- (7130317 / 8388608))"
  "fadd binary32 (FNum (- (7130317 / 8388608))) (FNum (- (5033165 / 33554432))) = FNum (- 1)"
  "fdiv binary32 (FNum (- 1)) (fp_lit binary32 8) = FNum (- (1 / 8))"
  by code_simp+

lemma self_test_line_is: "self_test_text (FNum (- (1 / 8))) = self_test_line"
proof -
  have "on_grid binary64 (- (1 / 8))" by (rule on_gridI [of _ "- 1" "- 3"]) simp_all
  then have "fabs (fp_conv binary64 (FNum (- (1 / 8)))) = FNum (1 / 8)"
    using powi2_mono [of 0 1024] by (simp add: fp_conv_def fabs_def fround_exact)
  moreover have "rne (1 / 8 * 10 ^ 9) = 125000000" using rne_of_int [of 125000000] by simp
  moreover have "dec 125000000 = ''125000000''" "dec 0 = ''0''" by code_simp+
  ultimately have "fmt_f 9 (fabs (fp_conv binary64 (FNum (- (1 / 8))))) = ''0.125000000''"
    by (simp add: fmt_f_def fmt_rat_def pad_left_def)
  then show ?thesis by (simp add: self_test_text_def self_test_line_def)
qed

lemma self_test_mixes:
  "mix_spec [FNum (1 / 4), FNum (3 / 4)] = FNum (1 / 2)" "mix_spec [FNum (- 1), FNum (- 1)] = FNum (- 1)"
  "mix_spec [FNum (13421773 / 134217728), FNum (13421773 / 67108864)] = FNum (5033165 / 33554432)"
  "mix_spec [FNum (- (13421773 / 134217728)), FNum (- (13421773 / 67108864))] = FNum (- (5033165 / 33554432))"
  by code_simp+

lemma self_test_window_is: "self_test_window = self_test_values"
  unfolding self_test_window_def self_test_values_def deterministic_frames_are
  by (simp add: upt_rec frame_of_def frame_slice_def self_test_mixes)

text \<open>What is left of the function once the window is known.\<close>

definition self_test_report ::
    "nat \<Rightarrow> (int \<times> int) option \<Rightarrow> bool \<Rightarrow> listener_options ptr \<Rightarrow> u32 \<times> world \<Rightarrow> (int \<times> u32 \<times> world) option" where
  "self_test_report pid now mem' options = (\<lambda>(seqno, w). do {
     (r, seqno, w) \<leftarrow> (case options of
         Some opts \<Rightarrow> if activation_archive_dir opts \<noteq> NULL then
             (if \<not> mem' then Some (- 1, seqno, w)
              else archive_activation pid now (activation_archive_dir opts) (Some (map archive_sample [0..<unat MODEL_SAMPLES]))
                (ucast MODEL_SAMPLES) (FNum 1) True (seqno, w))
           else Some (0, seqno, w)
       | None \<Rightarrow> Some (0, seqno, w));
     if r \<noteq> 0 then Some (- 1, seqno, w)
     else do {
       (r, w) \<leftarrow> write_all 1 (bytes_of self_test_line) w;
       Some (if r < 0 then - 1 else 0, seqno, w) } })"

lemma self_test_snapshot:
  assumes "length latest = 16"
  shows "\<exists>r r'. ring_init True (Some \<lparr>samples = NULL, capacity = 0, write_index = 0, total_written = 0\<rparr>)
       (ucast MODEL_RATE * ucast MODEL_SECONDS) = (0, Some r) \<and>
     mix_and_resample_downmix (Some deterministic_frames) (of_nat (length deterministic_frames * 4) div (4 * 2)) 2
       (MODEL_RATE div 2) (Some r) (Some 0) = Some (Some r', Some 0) \<and>
     ring_snapshot_latest (Some r') (Some latest) 8 = Some (8, Some (self_test_values @ drop 8 latest))"
proof -
  have l: "length deterministic_frames = 16" by (simp add: deterministic_frames_def)
  have c: "ucast MODEL_RATE * ucast MODEL_SECONDS = (48000 :: u64)" "MODEL_RATE div 2 = 8000"
    by (simp_all add: MODEL_RATE_def MODEL_SECONDS_def)
  obtain r where r: "ring_init True (Some \<lparr>samples = NULL, capacity = 0, write_index = 0, total_written = 0\<rparr>) 48000 = (0, Some r)"
      "ring_holds r []" "capacity r = 48000"
    using ring_init_holds [of 48000 True] by (auto simp: calloc_ok_def)
  obtain acc' r' out where f:
      "foldM (resample_frame ring_push deterministic_frames 2 8000) (0, r) [0..<8] = Some (acc', r')"
      "unat acc' = 0" "ring_holds r' out" "capacity r' = 48000" "length out = 16"
      "\<forall>j < 16. out ! j = mix_spec (frame_slice deterministic_frames 2 (frame_of 8000 0 j))"
    using frames_ring [OF r(2), of 0 8000 8 2 deterministic_frames] r(3) l by auto
  have drop8: "drop 8 out = map ((!) out) [8..<16]" using f(5) by (simp add: list_eq_iff_nth_eq del: upt.simps upt_rec_numeral)
  have "drop 8 out = self_test_values" unfolding self_test_window_is [symmetric] self_test_window_def
    unfolding drop8 by (rule map_cong) (use f(6) in auto)
  then have "ring_snapshot_latest (Some r') (Some latest) 8 = Some (8, Some (self_test_values @ drop 8 latest))"
    using ring_snapshot_holds [OF f(3), of 8 latest] f(4,5) assms by simp
  moreover have "acc' = 0" using f(2) by (simp add: unat_eq_0)
  ultimately show ?thesis using r(1) f(1) unfolding c by (auto simp: mix_and_resample_downmix_def l)
qed

lemma self_test_sum:
  "(do { l0 \<leftarrow> load (self_test_values @ xs) 0;
     foldM (\<lambda>sum i. do { x \<leftarrow> load (self_test_values @ xs) i; Some (fadd binary32 sum x) }) l0 [1..<8] }) = Some (FNum (- 1))"
  by (simp add: self_test_values_def load_def upt_rec self_test_sums del: fadd.simps)

lemma self_test_line_fits: "snprintf 256 self_test_line = (self_test_line, int (length self_test_line))" "length self_test_line < 256"
  by (simp_all add: snprintf_def INT_MAX_def self_test_line_def)

lemma self_test_runs:
  assumes "length latest = 16"
  shows "self_test_output pid now True mem' latest options (seqno, w) = self_test_report pid now mem' options (seqno, w)"
proof -
  obtain r r' where s: "ring_init True (Some \<lparr>samples = NULL, capacity = 0, write_index = 0, total_written = 0\<rparr>)
       (ucast MODEL_RATE * ucast MODEL_SECONDS) = (0, Some r)"
     "mix_and_resample_downmix (Some deterministic_frames) (of_nat (length deterministic_frames * 4) div (4 * 2)) 2
       (MODEL_RATE div 2) (Some r) (Some 0) = Some (Some r', Some 0)"
     "ring_snapshot_latest (Some r') (Some latest) 8 = Some (8, Some (self_test_values @ drop 8 latest))"
    using self_test_snapshot [OF assms] by blast
  have len: "\<not> int (length self_test_line) < 0" "\<not> 256 \<le> int (length self_test_line)" using self_test_line_fits(2) by simp_all
  have sum: "Option.bind (load (self_test_values @ drop 8 latest) 0) (\<lambda>l0.
     Option.bind (foldM (\<lambda>sum i. do { x \<leftarrow> load (self_test_values @ drop 8 latest) i; Some (fadd binary32 sum x) }) l0 [1..<8]) k) = k (FNum (- 1))" for k
    using self_test_sum [of "drop 8 latest", THEN arg_cong [of _ _ "\<lambda>x. Option.bind x k"]] by (simp only: Option.bind_assoc Option.bind.simps)
  show ?thesis unfolding self_test_output_def self_test_report_def prod.case s
    by (simp only: prod.case Option.bind.simps s Let_def sum self_test_sums self_test_line_is self_test_line_fits(1) len) simp
qed

text \<open>The last step: the line, all of it or a proper prefix.\<close>

lemma self_test_prints:
  assumes "fair w" "open_on 1 To_Stdout w"
  shows "\<exists>r w'. (do { (r, w) \<leftarrow> write_all 1 (bytes_of self_test_line) w; Some (if r < 0 then - 1 else 0, seqno, w) }) = Some (r, seqno, w') \<and>
     (r = 0 \<and> wrote To_Stdout (bytes_of self_test_line) w w' \<or>
      r = (- 1 :: int) \<and> (\<exists>n < length self_test_line. wrote To_Stdout (take n (bytes_of self_test_line)) w w'))"
proof -
  obtain r w' where w': "write_all 1 (bytes_of self_test_line) w = Some (r, w')" using write_all_total [OF assms(2,1)] by blast
  have "length (bytes_of self_test_line) = length self_test_line" by (simp add: bytes_of_def)
  then show ?thesis using write_all_spec [OF w' assms(2)] w' by auto
qed

lemma wrote_stdout: "wrote To_Stdout bs w w' \<Longrightarrow> stdout_bytes w' = stdout_bytes w @ bs \<and> files w' = files w \<and> durable w' = durable w"
  by (auto simp: wrote_def untouched_def fun_eq_iff)

text \<open>The self test without an archive writes one fixed line, whatever the uninitialised array held:
  the score 0.125000000.  It returns 0 when the line is out, otherwise -1 after a proper prefix.\<close>

lemma self_test_deterministic:
  assumes "length latest = 16" "fair w" "open_on 1 To_Stdout w"
    and "\<forall>opts. options = Some opts \<longrightarrow> activation_archive_dir opts = NULL"
  shows "\<exists>r w'. self_test_output pid now True mem' latest options (seqno, w) = Some (r, seqno, w') \<and>
    (r = 0 \<and> wrote To_Stdout (bytes_of self_test_line) w w' \<or>
     r = - 1 \<and> (\<exists>n < length self_test_line. wrote To_Stdout (take n (bytes_of self_test_line)) w w'))"
proof -
  have "self_test_report pid now mem' options (seqno, w) =
      (do { (r, w) \<leftarrow> write_all 1 (bytes_of self_test_line) w; Some (if r < 0 then - 1 else 0, seqno, w) })"
    using assms(4) by (cases options) (auto simp: self_test_report_def)
  then show ?thesis using self_test_prints [OF assms(2,3)] self_test_runs [OF assms(1)] by simp
qed

lemma self_test_archive_outcome:
  assumes l: "length latest = 16" and w: "world_ok w" "fair w" "open_on 1 To_Stdout w" and pid: "pid < 2 ^ 31"
    and dir: "activation_archive_dir opts = Some directory" "directory \<noteq> []"
      "length (stem_text directory ts nsec pid seqno True) < 2 ^ 31"
    and now: "archive_stamp sec = Some ts"
  shows "\<exists>r w'. self_test_output pid (Some (sec, nsec)) True True latest (Some opts) (seqno, w) = Some (r, seqno + 1, w') \<and>
    (let stem = stem_text directory ts nsec pid seqno True;
         recording = wav_bytes (pcm_of (map archive_sample [0..<48000])) in
      r = 0 \<and> stdout_bytes w' = stdout_bytes w @ bytes_of self_test_line \<and>
        files w' (node_of (stem @ ''.wav'')) = Some recording \<and>
        files w' (node_of (stem @ ''.json'')) = Some (bytes_of (metadata_text (FNum 1) 48000 True)) \<or>
      r = - 1 \<and> (\<exists>n < length self_test_line. stdout_bytes w' = stdout_bytes w @ take n (bytes_of self_test_line)))"
proof -
  define xs where "xs = map archive_sample [0..<48000]"
  define json where "json = node_of (stem_text directory ts nsec pid seqno True @ ''.json'')"
  define wav where "wav = node_of (stem_text directory ts nsec pid seqno True @ ''.wav'')"
  note names = xs_def [symmetric] json_def [symmetric] wav_def [symmetric]
  have c: "unat MODEL_SAMPLES = 48000" "ucast MODEL_SAMPLES = (48000 :: u64)"
    by (simp_all add: MODEL_SAMPLES_def MODEL_RATE_def MODEL_SECONDS_def)
  have "length xs = 48000" unfolding xs_def by (simp del: upt_rec_numeral)
  then have len: "unat (48000 :: u64) \<le> length xs" "take (unat (48000 :: u64)) xs = xs" by simp_all
  obtain r w1 where a: "archive_activation pid (Some (sec, nsec)) (Some directory) (Some xs) 48000 (FNum 1) True (seqno, w)
        = Some (r, seqno + 1, w1)" "r = 0 \<or> r = - 1" 
      "replaces json (bytes_of (metadata_text (FNum 1) 48000 True)) (r = 0) w w1"
      "r = 0 \<longrightarrow> files w1 wav = Some (wav_bytes (pcm_of xs))"
    using archive_activation_spec [OF w(1,2) len(1) pid dir(2,3) now, of "FNum 1"] unfolding len(2) Let_def names by blast
  have out1: "stdout_bytes w1 = stdout_bytes w" and fds1: "same_fds w w1" using a(3) by (auto simp: replaces_def)
  have rep: "self_test_report pid (Some (sec, nsec)) True (Some opts) (seqno, w) = (if r \<noteq> 0 then Some (- 1, seqno + 1, w1)
      else do { (r, w) \<leftarrow> write_all 1 (bytes_of self_test_line) w1; Some (if r < 0 then - 1 else 0, seqno + 1, w) })"
    using a(1) by (simp add: self_test_report_def dir(1) c names)
  let ?done = "\<lambda>r w'. r = 0 \<and> stdout_bytes w' = stdout_bytes w @ bytes_of self_test_line \<and> files w' wav = Some (wav_bytes (pcm_of xs)) \<and>
        files w' json = Some (bytes_of (metadata_text (FNum 1) 48000 True)) \<or>
      r = - 1 \<and> (\<exists>n < length self_test_line. stdout_bytes w' = stdout_bytes w @ take n (bytes_of self_test_line))"
  have "\<exists>r w'. self_test_report pid (Some (sec, nsec)) True (Some opts) (seqno, w) = Some (r, seqno + 1, w') \<and> ?done r w'"
  proof (cases "r = 0")
    case False
    have "0 < length self_test_line" by (simp add: self_test_line_def)
    then show ?thesis using False rep out1
      by (intro exI [of _ "- 1"] exI [of _ w1]) (auto intro: exI [of _ 0])
  next
    case True
    have "fair w1" "open_on 1 To_Stdout w1" using fds1 w(2,3) out1
      by (simp_all add: same_fds_def fair_def open_on_def)
    from self_test_prints [OF this, of "seqno + 1"] obtain r' w' where
        p: "self_test_report pid (Some (sec, nsec)) True (Some opts) (seqno, w) = Some (r', seqno + 1, w')"
        "r' = 0 \<and> wrote To_Stdout (bytes_of self_test_line) w1 w' \<or>
         r' = - 1 \<and> (\<exists>n < length self_test_line. wrote To_Stdout (take n (bytes_of self_test_line)) w1 w')"
      unfolding rep using True by auto
    have "files w1 json = Some (bytes_of (metadata_text (FNum 1) 48000 True))"
      using a(3) True by (simp add: replaces_def)
    then have "?done r' w'" using p(2) a(4) True out1 wrote_stdout [of _ w1 w'] by auto
    then show ?thesis using p(1) by blast
  qed
  then show ?thesis unfolding self_test_runs [OF l] Let_def xs_def json_def wav_def .
qed



section \<open>main, up to PipeWire\<close>

text \<open>The process ends here with an exit status, or goes on with the options and its copy of the status path.
  The text of \<^verbatim>\<open>--help\<close> goes through the buffer of the standard output and is written at the end of the process;
  it is part of the result.\<close>

datatype prologue = Exit int string | Go_on string listener_options

definition main_prologue ::
    "process_env \<Rightarrow> nat \<Rightarrow> (int \<times> int) option \<Rightarrow> bool \<Rightarrow> bool \<Rightarrow> fp list \<Rightarrow> string list \<Rightarrow> world \<Rightarrow> (prologue \<times> world) option" where
  "main_prologue env pid now mem mem' latest args w = do {
     (parse_rc, printed, opts) \<leftarrow> parse_options env args;
     if parse_rc \<noteq> 0 then Some (Exit (if parse_rc > 0 then 0 else 2) printed, w)
     else if self_test opts then do {
       (r, _, w) \<leftarrow> self_test_output pid now mem mem' latest (Some opts) (0, w);
       Some (Exit (if r = 0 then 0 else 1) printed, w) }
     else (let (path, n) = snprintf 4096 (the (capture_health_path opts)) in
       if n < 0 then Some (Exit 1 printed, w) else Some (Go_on path opts, w)) }"

lemma parse_result:
  obtains rc printed opts where "parse_options env args = Some (rc, printed, opts)" "rc \<in> {0, 1, - 1}"
    "rc = 0 \<Longrightarrow> options_ok opts \<and> (\<not> self_test opts \<longrightarrow> validate_existing_file env (model_path opts) \<and>
      (\<exists>p. capture_health_path opts = Some p \<and> p \<noteq> []))" "rc \<noteq> 1 \<Longrightarrow> printed = []" "rc = 1 \<Longrightarrow> printed = help_text"
proof -
  obtain r opts where r: "parse_args env args default_options = Some (r, opts)" "r = Invalid \<or> options_ok opts"
    using parse_args_total [OF options_ok_default] by blast
  obtain r' opts' where f: "finish_options env opts = (r', opts')" by force
  show thesis
  proof (cases "r = Parsed")
    case True
    have "parse_options env args = Some (if r' = Parsed then 0 else - 1, [], opts')"
      using True r f by (simp add: parse_options_def)
    then show thesis
      using that True r(2) finish_options_ok [of env opts opts'] f by (cases "r' = Parsed") auto
  next
    case False
    then show thesis using that r by (cases r) (auto simp: parse_options_def)
  qed
qed

lemma self_test_steady:
  assumes "length latest = 16" and w: "world_ok w" "fair w" "open_on 1 To_Stdout w" and pid: "pid < 2 ^ 31"
    and dir: "\<forall>d. activation_archive_dir opts = Some d \<longrightarrow> length d < 2 ^ 20"
    and now: "\<forall>sec nsec. now = Some (sec, nsec) \<longrightarrow> 0 \<le> nsec \<and> nsec < 1000000000"
  shows "\<exists>r seqno' w'. self_test_output pid now mem mem' latest (Some opts) (seqno, w) = Some (r, seqno', w') \<and> same_fds w w'"
proof (cases mem)
  case False
  then show ?thesis by (simp add: self_test_output_def ring_init_def calloc_ok_def MODEL_RATE_def MODEL_SECONDS_def)
next
  case True
  then have mem: "mem = True" by simp
  define xs where "xs = map archive_sample [0..<unat MODEL_SAMPLES]"
  have c: "unat MODEL_SAMPLES = 48000" "unat (ucast MODEL_SAMPLES :: u64) = 48000"
    by (simp_all add: MODEL_SAMPLES_def MODEL_RATE_def MODEL_SECONDS_def)
  have len: "unat (ucast MODEL_SAMPLES :: u64) \<le> length xs" unfolding xs_def length_map length_upt c by simp
  obtain r seqno' w1 where a: "archive_activation pid now (activation_archive_dir opts) (Some xs) (ucast MODEL_SAMPLES) (FNum 1) True (seqno, w)
      = Some (r, seqno', w1)" "same_fds w w1"
    using archive_activation_steady [OF w(1,2) len pid dir now] by blast
  obtain r2 seqno2 w2 where first: "(if activation_archive_dir opts \<noteq> NULL then
       (if \<not> mem' then Some (- 1, seqno, w)
        else archive_activation pid now (activation_archive_dir opts) (Some xs) (ucast MODEL_SAMPLES) (FNum 1) True (seqno, w))
       else Some (0, seqno, w)) = Some (r2, seqno2, w2)" "same_fds w w2"
    using a by (cases "activation_archive_dir opts = NULL"; cases mem') auto
  have "fair w2" "open_on 1 To_Stdout w2"
    using first(2) w(2,3) by (auto simp: same_fds_def fair_def open_on_def)
  then obtain r3 w3 where p: "(do { (r, w) \<leftarrow> write_all 1 (bytes_of self_test_line) w2; Some (if r < 0 then - 1 else 0, seqno2, w) }) = Some (r3, seqno2, w3)"
      "r3 = 0 \<and> wrote To_Stdout (bytes_of self_test_line) w2 w3 \<or>
       r3 = (- 1 :: int) \<and> (\<exists>n < length self_test_line. wrote To_Stdout (take n (bytes_of self_test_line)) w2 w3)"
    using self_test_prints [of w2 seqno2] by blast
  have "same_fds w2 w3" using p(2) by (auto simp: wrote_def)
  then have "same_fds w w3" using first(2) by (auto simp: same_fds_def)
  then show ?thesis unfolding mem self_test_runs [OF assms(1)] self_test_report_def prod.case option.case xs_def [symmetric] first(1)
    using p(1) first(2) by (cases "r2 = 0") auto
qed



text \<open>A status path of 4096 characters or more given on the command line is cut without a message, where the
  default path would be refused; the listener then reports on another file.\<close>

lemma long_status_path_cut:
  assumes "parse_options env args = Some (0, printed, opts)" "\<not> self_test opts" "capture_health_path opts = Some p"
    "4096 \<le> length p" "length p \<le> INT_MAX"
  shows "main_prologue env pid now mem mem' latest args w = Some (Go_on (take 4095 p) opts, w)"
  using assms by (simp add: main_prologue_def snprintf_def)

end
