(* ===== verification/Deployment.thy ===== *)
theory Deployment
  imports Startup Tray_State
begin

text \<open>
  The two programs together, as they are installed: the command line of the systemd unit
  (\<^verbatim>\<open>systemd/okay-hermes-realtime-wakeword.service\<close>) on the listener's side, the paths of
  \<^verbatim>\<open>realtime-tray/main.cpp\<close> on the tray's.  The listener writes where the tray reads, and the tray shows what
  the listener means.  \<open>h\<close> is the home directory: \<^verbatim>\<open>%h\<close> of the unit and \<^verbatim>\<open>QDir::home()\<close>.
\<close>

section \<open>Paths of the tray\<close>

text \<open>\<^verbatim>\<open>QDir(dir).filePath(name)\<close>: an absolute name stands for itself, others are appended with one slash.\<close>

definition filePath :: "string \<Rightarrow> string \<Rightarrow> string" where
  "filePath dir name = (if name = [] then dir else if hd name = CHR ''/'' then name
     else if dir = [] \<or> last dir = CHR ''/'' then dir @ name else dir @ ''/'' @ name)"

definition kStateRootRelativePath :: string where
  "kStateRootRelativePath = ''.local/state/okay-hermes-realtime''"

definition stateRootPath :: "string \<Rightarrow> string" where
  "stateRootPath h = filePath h kStateRootRelativePath"

definition captureHealthPath :: "string \<Rightarrow> string" where
  "captureHealthPath h = filePath (stateRootPath h) ''capture-health''"

definition controllerHealthPath :: "string \<Rightarrow> string" where
  "controllerHealthPath h = filePath (stateRootPath h) ''controller-health''"

definition plain_home :: "string \<Rightarrow> bool" where
  "plain_home h \<longleftrightarrow> h \<noteq> [] \<and> last h \<noteq> CHR ''/''"

lemma health_paths:
  assumes "plain_home h"
  shows "captureHealthPath h = h @ ''/.local/state/okay-hermes-realtime/capture-health''"
    "controllerHealthPath h = h @ ''/.local/state/okay-hermes-realtime/controller-health''"
  using assms by (simp_all add: plain_home_def captureHealthPath_def controllerHealthPath_def stateRootPath_def
      kStateRootRelativePath_def filePath_def)

section \<open>The command line of the unit\<close>

definition unit_model :: "string \<Rightarrow> string" where
  "unit_model h = h @ ''/.local/share/okay-hermes-realtime/models/okay-hermes-realtime-wakeword.onnx''"

definition unit_handler :: "string \<Rightarrow> string" where
  "unit_handler h = h @ ''/.local/share/okay-hermes-realtime/venv/bin/okay-hermes-realtime-activation''"

definition unit_arguments :: "string \<Rightarrow> string list" where
  "unit_arguments h = [''--model'', unit_model h, ''--handler'', unit_handler h, ''--threshold'', ''0.6973556280136108'',
     ''--consecutive-windows'', ''2'', ''--inference-interval-ms'', ''250'',
     ''--capture-health'', h @ ''/.local/state/okay-hermes-realtime/capture-health'',
     ''--activation-archive-dir'', h @ ''/Desktop/Hermes Wakeword Activations'']"

definition unit_options :: "string \<Rightarrow> listener_options" where
  "unit_options h = default_options\<lparr>model_path := Some (unit_model h),
     handler_argv := Some [Some (unit_handler h), None], handler_argc := 1, threshold := DEFAULT_THRESHOLD,
     consecutive_windows := 2, inference_interval_ms := 250, capture_health_path := Some (captureHealthPath h),
     activation_archive_dir := Some (h @ ''/Desktop/Hermes Wakeword Activations'')\<rparr>"

lemma unit_values:
  "parse_float ''0.6973556280136108'' = Some DEFAULT_THRESHOLD" "parse_unsigned ''2'' = Some 2" "parse_unsigned ''250'' = Some 250"
  by code_simp+

lemma unit_handler_ne: "unit_handler h \<noteq> ''--''"
proof
  assume "unit_handler h = ''--''"
  then have "length (unit_handler h) = 2" by simp
  then show False by (simp add: unit_handler_def)
qed

lemma unit_command_line:
  assumes "plain_home h" "mem_ok env" "validate_existing_file env (Some (unit_model h))"
  shows "parse_options env (unit_arguments h) = Some (0, [], unit_options h)"
proof -
  have "parse_args env (unit_arguments h) default_options = Some (Parsed, unit_options h)"
    using assms(2) unit_handler_ne
    by (simp add: unit_arguments_def option_step_def unit_values unit_options_def health_paths [OF assms(1)]
        store_def numeral_2_eq_2)
  moreover have "finish_options env (unit_options h) = (Parsed, unit_options h)"
    using assms(3) by (simp add: finish_options_def unit_options_def unit_model_def default_options_def health_paths [OF assms(1)])
  ultimately show ?thesis by (simp add: parse_options_def)
qed

lemma unit_prologue:
  assumes "plain_home h" "mem_ok env" "validate_existing_file env (Some (unit_model h))" "length (captureHealthPath h) < 4096"
  shows "main_prologue env pid now mem mem' latest (unit_arguments h) w = Some (Go_on (captureHealthPath h) (unit_options h), w)"
  using assms by (simp add: main_prologue_def unit_command_line snprintf_def)
    (simp add: unit_options_def default_options_def INT_MAX_def)

section \<open>From the listener to the tray\<close>

lemma health_of_line:
  assumes "decodes_ascii decode" "set statuses \<subseteq> set listener_statuses" "content \<in> insert None (Some ` status_line ` set statuses)"
  shows "captureHealthFromStatusText (readStatusFile decode content) \<in> insert CaptureUnknown (reported_health ` set statuses)"
proof (cases content)
  case None
  have "captureHealthFromStatusText [] = CaptureUnknown" by code_simp
  then show ?thesis using None by (simp add: readStatusFile_def)
next
  case (Some line)
  then obtain s where "s \<in> set statuses" "line = status_line s" using assms(3) by auto
  then show ?thesis using Some tray_reads_listener_status [OF assms(1), of s] assms(2) by auto
qed


definition unit_env :: process_env where
  "unit_env = \<lparr>mem_ok = True, readable = (\<lambda>_. True), is_regular = (\<lambda>_. Some True), home = None\<rparr>"


text \<open>Without \<^verbatim>\<open>--capture-health\<close> the listener falls back to another file of the same directory, which the tray
  does not watch.\<close>

lemma default_status_elsewhere:
  assumes "plain_home h" "home env = Some h" "capture_health_path opts = None" "\<not> self_test opts"
    "finish_options env opts = (Parsed, opts')" "length h < 4000"
  shows "\<exists>path. capture_health_path opts' = Some path \<and> path = h @ ''/.local/state/okay-hermes-realtime/capture.status'' \<and>
    node_of path \<noteq> node_of (captureHealthPath h)"
proof -
  have "capture_health_path opts' = Some (h @ ''/.local/state/okay-hermes-realtime/capture.status'')"
    using assms by (auto simp: finish_options_def Let_def snprintf_def CAPTURE_STATUS_DIR_def CAPTURE_STATUS_NAME_def plain_home_def INT_MAX_def
        split: if_splits)
  moreover have "node_of ((h @ ''/.local/state/okay-hermes-realtime'') @ CHR ''/'' # ''capture.status'') \<noteq>
      node_of ((h @ ''/.local/state/okay-hermes-realtime'') @ CHR ''/'' # ''capture-health'')"
    unfolding node_of_components components_join by (simp add: components_plain)
  ultimately show ?thesis by (simp add: health_paths [OF assms(1)])
qed

end
