(* ===== verification/Spec2Isabelle.thy ===== *)
theory Spec2Isabelle
  imports Ring_Concurrent Worker Lifecycle Tray_Controller Ort_Versions Deployment
begin

text \<open>
  A model of the native part of Okay Hermes Realtime, with the properties that make it correct.

  \<^bold>\<open>The program.\<close>  Two C and C++ programs of \<^verbatim>\<open>src/native\<close> are modelled.

  \<^item> The wakeword listener, \<^verbatim>\<open>okay-hermes-realtime-wake-listener.c\<close>.  A PipeWire callback mixes the
    microphone down to mono, resamples it to 16 kHz and writes it into a ring of samples.  A worker
    thread copies the last three seconds out of the ring, scores them with an ONNX model and, after enough
    consecutive scores at or above the threshold, archives the window (a WAV file and a JSON file) and reports
    an activation: one JSON line on standard output, or on the standard input of a handler process.
    It also keeps a status file that says whether samples still arrive.  \<^verbatim>\<open>main\<close> parses the command line,
    runs the self test or sets up PipeWire and the worker, and takes everything down on a signal or
    a failed stream.
  \<^item> The tray, \<^verbatim>\<open>realtime-tray/main.cpp\<close> and \<^verbatim>\<open>realtime-tray/tray_state.h\<close>.  It reads the status file of
    the listener and that of the controller, watches two systemd units over D-Bus, shows one of six states,
    and starts and stops the units from its menu.

  The listener is compiled against the ONNX Runtime headers under \<^verbatim>\<open>src/native/include\<close>, whose declarations are
  modelled too.  The two programs meet in the status file: the theory \<^verbatim>\<open>Deployment\<close> proves that the tray, as
  installed, reads what the listener writes.

  \<^bold>\<open>Conventions\<close> (theory \<^verbatim>\<open>Prelude\<close>).  Machine integers are words of their width.  A result of type
  \<^theory_text>\<open>option\<close> is \<^theory_text>\<open>None\<close> exactly where the C code has undefined behaviour (an access out of range, a division by
  zero, a use of a released object) or a loop that does not end; the errors the code handles are
  its own return values.  So a property that says that a result is \<^theory_text>\<open>Some\<close> says that the code is safe and returns.  A
  pointer that may be NULL is \<^theory_text>\<open>'a ptr\<close>, an option of what it points to.
  \<^verbatim>\<open>float\<close> and \<^verbatim>\<open>double\<close> are modelled bit-exactly up to the payload of NaNs, with rational values
  and rounding to nearest even (\<^verbatim>\<open>Floats\<close>); the conversions of the C library between numbers and text are in
  \<^verbatim>\<open>CText\<close>.
\<close>

text \<open>
  \<^bold>\<open>The listener: theories and functions.\<close>

  \<^item> \<^verbatim>\<open>Ring\<close>: \<^verbatim>\<open>struct sample_ring\<close>, \<^verbatim>\<open>ring_init\<close>, \<^verbatim>\<open>ring_destroy\<close>, \<^verbatim>\<open>ring_write\<close>, \<^verbatim>\<open>ring_snapshot_latest\<close>.  The
    ring refines the stream of all samples written.  Its contract is the locale \<^verbatim>\<open>sample_store\<close>, interpreted on
    \<^verbatim>\<open>ring_write\<close> and \<^verbatim>\<open>ring_snapshot_latest\<close>.  \<^verbatim>\<open>Ring_Concurrent\<close> runs writer and reader access by access in any
    interleaving (the two counters are sequentially consistent atomics in the code, the samples plain memory).  Its invariant gives the window a snapshot holds, as long as the writer does not
    overtake the reader by more than the slack of the ring.
  \<^item> \<^verbatim>\<open>Resample\<close>: \<^verbatim>\<open>mix_and_resample_downmix\<close>, \<^verbatim>\<open>on_process\<close>, \<^verbatim>\<open>on_stream_param_changed\<close>.  Which frame each output
    sample comes from, the bounds of the mix, the equality of the callback with the stand-alone
    routine, and the safety of runs of callbacks.
  \<^item> \<^verbatim>\<open>Posix\<close>: the system calls, over a world of files, directories, descriptors, standard output and a pipe.
    Each call asks a script of verdicts, so every pattern of failures and short writes is covered; \<^verbatim>\<open>hist\<close> keeps
    what other processes could see between calls, \<^verbatim>\<open>durable\<close> what \<^verbatim>\<open>fsync\<close> has secured.
    \<^verbatim>\<open>Files\<close>: \<^verbatim>\<open>write_all\<close>, \<^verbatim>\<open>ensure_parent_dir\<close>, and the locale \<^verbatim>\<open>file_publisher\<close> of writers that replace a file
    as a whole, interpreted on the recordings (\<^verbatim>\<open>Wav\<close>) and on the status file (\<^verbatim>\<open>Status\<close>).
  \<^item> \<^verbatim>\<open>Wav\<close>: \<^verbatim>\<open>put_u16_le\<close>, \<^verbatim>\<open>put_u32_le\<close>, \<^verbatim>\<open>write_activation_wav\<close>.  \<^verbatim>\<open>Archive\<close>: \<^verbatim>\<open>archive_activation\<close>.  \<^verbatim>\<open>Status\<close>:
    \<^verbatim>\<open>write_capture_status\<close>, \<^verbatim>\<open>clear_capture_status\<close>.  Each is all or nothing for other processes, and leaves no descriptor
    open; a recording parses back to its samples.
  \<^item> \<^verbatim>\<open>Activation\<close>: \<^verbatim>\<open>monotonic_seconds\<close>, \<^verbatim>\<open>build_activation_payload\<close>, \<^verbatim>\<open>write_activation\<close>, \<^verbatim>\<open>run_handler\<close>.  The line fits its
    buffer, reads back to its numbers, and is delivered whole or the failure is reported.
  \<^item> \<^verbatim>\<open>Options\<close>: \<^verbatim>\<open>parse_float\<close>, \<^verbatim>\<open>parse_unsigned\<close>, \<^verbatim>\<open>parse_options\<close> and what they use.  \<^verbatim>\<open>Startup\<close>:
    \<^verbatim>\<open>self_test_output\<close> and \<^verbatim>\<open>main\<close> up to \<^verbatim>\<open>pw_init\<close>.
  \<^item> \<^verbatim>\<open>Wake_Model\<close>: \<^verbatim>\<open>ort_status_check\<close>, \<^verbatim>\<open>wake_model_init\<close>, \<^verbatim>\<open>wake_model_destroy\<close>, \<^verbatim>\<open>run_model\<close>, over a runtime that may fail at any
    call (the parameter \<^verbatim>\<open>ort_lib\<close>).  A multiset of live objects is the ledger: what is created is released
    once, on every path but one.
  \<^item> \<^verbatim>\<open>Worker\<close>: \<^verbatim>\<open>listener_worker\<close>, turn by turn, composed of all of the above, with
    \<^verbatim>\<open>sleep_worker_until_next_deadline\<close>.  The activations it reports are those of a specification over the sequence of
    scores; the health reports alternate; the pause is between 1 ms and 500 ms.
  \<^item> \<^verbatim>\<open>Lifecycle\<close>: \<^verbatim>\<open>main\<close> from the installation of the handlers on, \<^verbatim>\<open>signal_request_stop\<close>, \<^verbatim>\<open>on_state_changed\<close> and the threads as one
    transition system of atomic steps.  Safety of the shutdown, the exit status, and termination: after a stop
    request at most 114 more steps of the program happen in any run, by the measure \<^verbatim>\<open>steps_left\<close>.  The locales
    \<^verbatim>\<open>inductive_invariant\<close> and \<^verbatim>\<open>bounded_phase\<close> of \<^verbatim>\<open>Transition\<close> hold the two arguments, which the tray shares.
\<close>

text \<open>
  \<^bold>\<open>The tray.\<close>

  \<^item> \<^verbatim>\<open>Tray_State\<close>: \<^verbatim>\<open>tray_state.h\<close> (\<^verbatim>\<open>captureHealthFromStatusText\<close>, \<^verbatim>\<open>controllerHealthFromStatusText\<close>,
    \<^verbatim>\<open>stateFromInputs\<close>, \<^verbatim>\<open>systemdUnitObjectPath\<close>) and \<^verbatim>\<open>readStatusFile\<close>: a condition of its own for each state, and the
    reading of the listener's status lines.
  \<^item> \<^verbatim>\<open>Tray_Controller\<close>: the class \<^verbatim>\<open>TrayController\<close> of \<^verbatim>\<open>main.cpp\<close> as a machine of events, one per
    connected signal, with the outstanding asynchronous calls as its pending work, answered in any order.  Its
    invariant \<^verbatim>\<open>tray_inv\<close> keeps the commands in sequence and the menu consistent; the measure \<^verbatim>\<open>work_left\<close> bounds the
    answers until all work is settled.

  \<^bold>\<open>Both together.\<close>  \<^verbatim>\<open>Deployment\<close> has the paths of the tray (\<^verbatim>\<open>stateRootPath\<close>, \<^verbatim>\<open>captureHealthPath\<close>) and the command
  line of \<^verbatim>\<open>systemd/okay-hermes-realtime-wakeword.service\<close>, and composes \<^verbatim>\<open>Startup\<close>, \<^verbatim>\<open>Status\<close> and \<^verbatim>\<open>Tray_State\<close>:
  the listener started with it writes the file the tray watches, and what the tray reads at any moment is a health that
  was reported.  The default path of the listener is another one.

  \<^bold>\<open>The ONNX Runtime interface.\<close>  \<^verbatim>\<open>Ort_Types\<close> has the enumerations of \<^verbatim>\<open>onnxruntime_c_api.h\<close> and
  \<^verbatim>\<open>onnxruntime_ep_c_api.h\<close>; \<^verbatim>\<open>Ort_Api\<close>, \<^verbatim>\<open>Ort_Api_Middle\<close> and \<^verbatim>\<open>Ort_Api_Late\<close> the 419 slots of \<^verbatim>\<open>struct OrtApi\<close> in sections,
  \<^verbatim>\<open>Ort_Interfaces\<close> and \<^verbatim>\<open>Ort_Ep_Api\<close> the other tables of function pointers.  The calls the listener makes are checked
  against the declarations (\<^verbatim>\<open>Ort_Api\<close>); \<^verbatim>\<open>Ort_Versions\<close> shows that the tables only grow at their ends and
  that every handle given out can be given back.

  \<^bold>\<open>Bounds and assumptions.\<close>
  \<^item> A theorem that a writer returns assumes \<^verbatim>\<open>fair\<close>: after any call there is a later one that is neither
    interrupted nor a write of no byte.  The code retries without a limit, so it needs no less.
  \<^item> The texts given to \<^verbatim>\<open>snprintf\<close> are shorter than \<^verbatim>\<open>2 ^ 31\<close>, where its \<^verbatim>\<open>int\<close> result would be
    undefined; arguments of the command line are far below that on any system.
  \<^item> The rate of the stream is at most \<^verbatim>\<open>2 ^ 32 - 16000\<close> in the statement on the number of samples: above it
    \<^verbatim>\<open>acc + MODEL_RATE\<close> wraps around.
  \<^item> The spinner of the tray is defined for 53687090 turns of 150 ms in one state; one more overflows \<^verbatim>\<open>int\<close>.
  \<^item> No fuel is used.  Loops that may not end are \<^theory_text>\<open>partial_function (option)\<close>, and the theorems on them prove
    a result.

  \<^bold>\<open>Not modelled.\<close>
  \<^item> The messages on standard error; the constants passed to \<^verbatim>\<open>pw_properties_new\<close> and
    \<^verbatim>\<open>pw_stream_connect\<close>; PipeWire, D-Bus, PulseAudio and Qt themselves, whose answers are inputs.
  \<^item> Weak memory: the interleavings of \<^verbatim>\<open>Ring_Concurrent\<close> and \<^verbatim>\<open>Lifecycle\<close> are of single accesses to one memory.
  \<^item> The drawing of the tray icon beyond its colour and the angle of its spinner; the dots of its
    switching tooltips are three characters here and one in the source.
  \<^item> The UTF-8 decoder of Qt and \<^verbatim>\<open>QChar::isLetterOrNumber\<close> beyond ASCII, which are parameters.
  \<^item> Of the ONNX Runtime headers the structures of provider options and descriptors, the callback types and the macros; the
    bodies of the functions are not in the repository.
  \<^item> The Python gateway, controller and service, the JavaScript and the other systemd units: they share only
    files and processes with these two.
\<close>

end
